(* ===== verification/Go_Prelude.thy ===== *)
theory Go_Prelude
  imports Complex_Main "HOL-Library.Char_ord" "HOL-Library.Code_Target_Nat"
begin

text \<open>
  The part of the Go language and of its standard library the SDK relies on
  everywhere: byte strings, the functions of package \<open>strings\<close> that the source
  calls, UTF-8 decoding, HTTP header maps with canonical keys, and the generic
  lemmas the component theories share.

  A Go \<open>string\<close> or \<open>[]byte\<close> is a list of bytes; here it is an Isabelle
  \<open>string\<close>, a list of 8-bit characters.  A nil pointer is \<open>None\<close>.  A Go map is an
  association list: its order is the order in which one \<open>range\<close> loop visits the
  keys, so a theorem about every list is a theorem about every iteration order.
\<close>

named_theorems go_simps "unfoldings of the standard-library functions"
named_theorems inv_intros "invariant preservation, one rule per operation"

type_synonym bytes = string
type_synonym duration = int \<comment> \<open>time.Duration in nanoseconds\<close>
type_synonym instant = int \<comment> \<open>time.Time in nanoseconds since an origin\<close>

abbreviation byte_val :: "char \<Rightarrow> nat" where
  "byte_val c \<equiv> of_char c"

section \<open>Package strings\<close>

definition has_prefix :: "'a list \<Rightarrow> 'a list \<Rightarrow> bool" where
  "has_prefix s p \<longleftrightarrow> take (length p) s = p"

definition has_suffix :: "'a list \<Rightarrow> 'a list \<Rightarrow> bool" where
  "has_suffix s p \<longleftrightarrow> length p \<le> length s \<and> drop (length s - length p) s = p"

definition trim_left :: "char \<Rightarrow> string \<Rightarrow> string" where
  "trim_left c s = dropWhile (\<lambda>x. x = c) s"

definition trim_right_in :: "char list \<Rightarrow> string \<Rightarrow> string" where
  "trim_right_in cs s = rev (dropWhile (\<lambda>x. x \<in> set cs) (rev s))"

abbreviation trim_right :: "char \<Rightarrow> string \<Rightarrow> string" where
  "trim_right c s \<equiv> trim_right_in [c] s"

definition trim_suffix :: "string \<Rightarrow> string \<Rightarrow> string" where
  "trim_suffix s p = (if has_suffix s p then take (length s - length p) s else s)"

fun split_on :: "char \<Rightarrow> string \<Rightarrow> string list" where
  "split_on c [] = [[]]"
| "split_on c (x # xs) =
     (if x = c then [] # split_on c xs
      else (case split_on c xs of [] \<Rightarrow> [[x]] | w # ws \<Rightarrow> (x # w) # ws))"

fun join :: "string \<Rightarrow> string list \<Rightarrow> string" where
  "join sep [] = []"
| "join sep [w] = w"
| "join sep (w # ws) = w @ sep @ join sep ws"

text \<open>\<open>strings.Cut\<close>: the text before and after the first separator byte.\<close>

fun cut_at :: "char \<Rightarrow> string \<Rightarrow> (string \<times> string) option" where
  "cut_at c [] = None"
| "cut_at c (x # xs) =
     (if x = c then Some ([], xs) else map_option (\<lambda>(a, b). (x # a, b)) (cut_at c xs))"

fun is_infix_of :: "'a list \<Rightarrow> 'a list \<Rightarrow> bool" where
  "is_infix_of p [] = (p = [])"
| "is_infix_of p (x # xs) = (has_prefix (x # xs) p \<or> is_infix_of p xs)"

text \<open>\<open>bytes.Index\<close>: the offset of the first occurrence.\<close>

fun index_of :: "'a list \<Rightarrow> 'a list \<Rightarrow> nat option" where
  "index_of p [] = (if p = [] then Some 0 else None)"
| "index_of p (x # xs) = (if has_prefix (x # xs) p then Some 0 else map_option Suc (index_of p xs))"

definition is_digit :: "char \<Rightarrow> bool" where
  "is_digit c \<longleftrightarrow> 48 \<le> byte_val c \<and> byte_val c \<le> 57"

definition is_lower :: "char \<Rightarrow> bool" where
  "is_lower c \<longleftrightarrow> 97 \<le> byte_val c \<and> byte_val c \<le> 122"

definition is_upper :: "char \<Rightarrow> bool" where
  "is_upper c \<longleftrightarrow> 65 \<le> byte_val c \<and> byte_val c \<le> 90"

definition lower_byte :: "char \<Rightarrow> char" where
  "lower_byte c = (if is_upper c then char_of (byte_val c + 32) else c)"

definition upper_byte :: "char \<Rightarrow> char" where
  "upper_byte c = (if is_lower c then char_of (byte_val c - 32) else c)"

text \<open>
  \<open>strings.ToLower\<close>.  The source compares its results with ASCII text only (or
  with another lower-cased text).  Besides the ASCII capitals exactly two code
  points have an ASCII lower case in Go's tables, U+0130 (to i) and U+212A (to k);
  every other non-ASCII rune has a non-ASCII lower case and is kept here as it is.
\<close>

fun to_lower :: "string \<Rightarrow> string" where
  "to_lower [] = []"
| "to_lower (a # s) =
     (if byte_val a = 196 \<and> s \<noteq> [] \<and> byte_val (hd s) = 176
        then CHR ''i'' # to_lower (tl s)
      else if byte_val a = 226 \<and> 2 \<le> length s \<and> byte_val (s ! 0) = 132 \<and> byte_val (s ! 1) = 170
        then CHR ''k'' # to_lower (drop 2 s)
      else lower_byte a # to_lower s)"

definition to_upper :: "string \<Rightarrow> string" where
  "to_upper s = map upper_byte s"

text \<open>
  \<open>strings.EqualFold\<close> against an ASCII text.  Under simple case folding the two
  non-ASCII code points equal to an ASCII letter are U+017F (with s) and U+212A
  (with k); U+0130 folds with no other rune.
\<close>

fun fold_ascii :: "string \<Rightarrow> string" where
  "fold_ascii [] = []"
| "fold_ascii (a # s) =
     (if byte_val a = 197 \<and> s \<noteq> [] \<and> byte_val (hd s) = 191
        then CHR ''s'' # fold_ascii (tl s)
      else if byte_val a = 226 \<and> 2 \<le> length s \<and> byte_val (s ! 0) = 132 \<and> byte_val (s ! 1) = 170
        then CHR ''k'' # fold_ascii (drop 2 s)
      else lower_byte a # fold_ascii s)"

definition equal_fold :: "string \<Rightarrow> string \<Rightarrow> bool" where
  "equal_fold s t \<longleftrightarrow> fold_ascii s = fold_ascii t"

text \<open>\<open>strconv.Itoa\<close> and \<open>strconv.FormatInt(_, 10)\<close>.\<close>

fun nat_digits :: "nat \<Rightarrow> string" where
  "nat_digits n = (if n < 10 then [char_of (48 + n)] else nat_digits (n div 10) @ [char_of (48 + n mod 10)])"

declare nat_digits.simps [simp del]

definition itoa :: "int \<Rightarrow> string" where
  "itoa i = (if i < 0 then ''-'' @ nat_digits (nat (- i)) else nat_digits (nat i))"

section \<open>UTF-8 (package unicode/utf8)\<close>

text \<open>
  \<open>decode_rune s\<close> is \<open>utf8.DecodeRune\<close>: the first rune and its width, and for an
  invalid or truncated encoding \<open>utf8.RuneError\<close> (U+FFFD) with width 1.
\<close>

definition rune_error :: nat where
  "rune_error = 65533"

definition cont_byte :: "nat \<Rightarrow> nat \<Rightarrow> string \<Rightarrow> nat \<Rightarrow> bool" where
  "cont_byte lo hi s i \<longleftrightarrow> i < length s \<and> lo \<le> byte_val (s ! i) \<and> byte_val (s ! i) \<le> hi"

definition cont_bits :: "string \<Rightarrow> nat \<Rightarrow> nat" where
  "cont_bits s i = byte_val (s ! i) - 128"

text \<open>The rune whose first byte is \<open>b0\<close> (128 or more) and whose other bytes begin \<open>s\<close>.\<close>

definition decode_multibyte :: "nat \<Rightarrow> string \<Rightarrow> nat \<times> nat" where
  "decode_multibyte b0 s =
     (if 194 \<le> b0 \<and> b0 \<le> 223 \<and> cont_byte 128 191 s 0
        then ((b0 - 192) * 64 + cont_bits s 0, 2)
      else if 224 \<le> b0 \<and> b0 \<le> 239 \<and>
              cont_byte (if b0 = 224 then 160 else 128) (if b0 = 237 then 159 else 191) s 0 \<and>
              cont_byte 128 191 s 1
        then ((b0 - 224) * 4096 + cont_bits s 0 * 64 + cont_bits s 1, 3)
      else if 240 \<le> b0 \<and> b0 \<le> 244 \<and>
              cont_byte (if b0 = 240 then 144 else 128) (if b0 = 244 then 143 else 191) s 0 \<and>
              cont_byte 128 191 s 1 \<and> cont_byte 128 191 s 2
        then ((b0 - 240) * 262144 + cont_bits s 0 * 4096 + cont_bits s 1 * 64 + cont_bits s 2, 4)
      else (rune_error, 1))"

fun decode_rune :: "string \<Rightarrow> nat \<times> nat" where
  "decode_rune [] = (rune_error, 0)"
| "decode_rune (c # s) =
     (if byte_val c < 128 then (byte_val c, 1) else decode_multibyte (byte_val c) s)"

definition rune_start :: "char \<Rightarrow> bool" where
  "rune_start c \<longleftrightarrow> \<not> (128 \<le> byte_val c \<and> byte_val c \<le> 191)"

text \<open>
  \<open>utf8.DecodeLastRune\<close>: the shortest suffix of 2 to 4 bytes that starts with a
  rune-start byte must be one whole rune, otherwise the last byte is invalid.
\<close>

fun last_rune_start :: "nat list \<Rightarrow> string \<Rightarrow> nat option" where
  "last_rune_start [] s = None"
| "last_rune_start (k # ks) s =
     (if k \<le> length s \<and> rune_start (s ! (length s - k)) then Some k else last_rune_start ks s)"

definition decode_last_rune :: "string \<Rightarrow> nat \<times> nat" where
  "decode_last_rune s =
     (if s = [] then (rune_error, 0)
      else if byte_val (last s) < 128 then (byte_val (last s), 1)
      else case last_rune_start [2, 3, 4] s of
          None \<Rightarrow> (rune_error, 1)
        | Some k \<Rightarrow> (if snd (decode_rune (drop (length s - k) s)) = k
                     then decode_rune (drop (length s - k) s) else (rune_error, 1)))"

lemma decode_rune_width: "snd (decode_rune s) \<le> 4"
  by (cases s) (auto simp: decode_multibyte_def)

lemma cont_byte_len: "cont_byte lo hi s i \<Longrightarrow> Suc i \<le> length s"
  by (simp add: cont_byte_def)

lemma decode_multibyte_len: "snd (decode_multibyte b s) \<le> Suc (length s)"
proof -
  note l = cont_byte_len [of _ _ s]
  show ?thesis
    unfolding decode_multibyte_def by (simp, intro conjI impI; (elim conjE)?; drule l; simp)
qed

lemma decode_rune_width_le_length: "snd (decode_rune s) \<le> length s"
  by (cases s) (auto simp: decode_multibyte_len)

lemma decode_rune_width_pos: "s \<noteq> [] \<Longrightarrow> 0 < snd (decode_rune s)"
  by (cases s) (auto simp: decode_multibyte_def)

lemma last_rune_start_pos: "last_rune_start [2, 3, 4] s = Some k \<Longrightarrow> 2 \<le> k \<and> k \<le> 4 \<and> k \<le> length s"
  by (auto split: if_splits)

lemma decode_last_rune_width_pos: "s \<noteq> [] \<Longrightarrow> 0 < snd (decode_last_rune s)"
  by (auto simp: decode_last_rune_def split: option.splits dest: last_rune_start_pos)

text \<open>\<open>unicode.IsSpace\<close>.\<close>

definition is_space_rune :: "nat \<Rightarrow> bool" where
  "is_space_rune r \<longleftrightarrow> (9 \<le> r \<and> r \<le> 13) \<or> r = 32 \<or> r = 133 \<or> r = 160 \<or> r = 5760 \<or>
     (8192 \<le> r \<and> r \<le> 8202) \<or> r = 8232 \<or> r = 8233 \<or> r = 8239 \<or> r = 8287 \<or> r = 12288"

function trim_left_space :: "string \<Rightarrow> string" where
  "trim_left_space [] = []"
| "trim_left_space (c # s) =
     (if is_space_rune (fst (decode_rune (c # s)))
      then trim_left_space (drop (snd (decode_rune (c # s))) (c # s)) else c # s)"
  by pat_completeness auto
termination
  by (relation "measure length")
    (auto intro!: diff_less decode_rune_width_pos simp del: decode_rune.simps simp flip: length_Cons)

declare trim_left_space.simps(2) [simp del]

function trim_right_space :: "string \<Rightarrow> string" where
  "trim_right_space s =
     (if s = [] then []
      else if is_space_rune (fst (decode_last_rune s))
      then trim_right_space (take (length s - snd (decode_last_rune s)) s) else s)"
  by pat_completeness auto
termination
  by (relation "measure length") (auto intro: diff_less decode_last_rune_width_pos)

declare trim_right_space.simps [simp del]

definition trim_space :: "string \<Rightarrow> string" where
  "trim_space s = trim_right_space (trim_left_space s)"

text \<open>\<open>utf8.Valid\<close>.\<close>

function utf8_valid :: "string \<Rightarrow> bool" where
  "utf8_valid s =
     (if s = [] then True
      else if decode_rune s = (rune_error, 1) then False
      else utf8_valid (drop (snd (decode_rune s)) s))"
  by pat_completeness auto
termination
  by (relation "measure length") (auto intro: diff_less decode_rune_width_pos)

declare utf8_valid.simps [simp del]

section \<open>Lemmas on the string functions\<close>

lemma has_prefix_append [simp]: "has_prefix (p @ s) p"
  by (simp add: has_prefix_def)

lemma has_prefix_self [simp]: "has_prefix s s" and has_suffix_self [simp]: "has_suffix s s"
  by (simp_all add: has_prefix_def has_suffix_def)

lemma has_suffix_append [simp]: "has_suffix (s @ p) p"
  by (simp add: has_suffix_def)

lemma trim_right_in_idem [simp]: "trim_right_in cs (trim_right_in cs s) = trim_right_in cs s"
  by (simp add: trim_right_in_def dropWhile_idem)

lemma trim_right_in_last: "trim_right_in cs s \<noteq> [] \<Longrightarrow> last (trim_right_in cs s) \<notin> set cs"
  unfolding trim_right_in_def using hd_dropWhile [of "\<lambda>x. x \<in> set cs" "rev s"]
  by (simp add: last_rev)

lemma trim_left_hd: "trim_left c s \<noteq> [] \<Longrightarrow> hd (trim_left c s) \<noteq> c"
  using hd_dropWhile [of "\<lambda>x. x = c" s] by (simp add: trim_left_def)

lemma split_on_nonempty [simp]: "split_on c s \<noteq> []"
  by (cases s) (auto split: list.splits)

lemma split_on_no_sep: "w \<in> set (split_on c s) \<Longrightarrow> c \<notin> set w"
proof (induction s arbitrary: w)
  case Nil
  then show ?case by simp
next
  case (Cons x xs)
  then show ?case by (cases "split_on c xs") (auto split: if_splits)
qed

lemma join_split_on: "join [c] (split_on c s) = s"
proof (induction s)
  case Nil
  then show ?case by simp
next
  case (Cons x xs)
  then show ?case
    by (cases "split_on c xs"; cases "tl (split_on c xs)") auto
qed

lemma trim_left_space_length: "length (trim_left_space s) \<le> length s"
proof (induction s rule: trim_left_space.induct)
  case (2 c s)
  then show ?case
    by (subst trim_left_space.simps) (auto intro: le_trans simp del: decode_rune.simps)
qed simp

lemma trim_right_space_length: "length (trim_right_space s) \<le> length s"
proof (induction s rule: trim_right_space.induct)
  case (1 s)
  then show ?case
    by (subst trim_right_space.simps) (auto intro: le_trans)
qed

lemma trim_space_length: "length (trim_space s) \<le> length s"
  unfolding trim_space_def by (rule le_trans [OF trim_right_space_length trim_left_space_length])

section \<open>Rune boundaries of a valid text\<close>

lemma else_value: "x = (if P then y else z) \<Longrightarrow> x \<noteq> z \<Longrightarrow> P"
  by (cases P) auto

lemma decode_multibyte_cong:
  assumes ok: "decode_multibyte b t \<noteq> (rune_error, 1)"
    and agree: "\<And>j. Suc j < snd (decode_multibyte b t) \<Longrightarrow> j < length t' \<and> t' ! j = t ! j"
  shows "decode_multibyte b t' = decode_multibyte b t"
proof -
  have c: "cont_byte lo hi t' j = cont_byte lo hi t j" "cont_bits t' j = cont_bits t j"
    if "Suc j < snd (decode_multibyte b t)" for lo hi j
    using agree [OF that] that decode_multibyte_len [of b t] by (auto simp: cont_byte_def cont_bits_def)
  consider (two) "194 \<le> b" "b \<le> 223" | (three) "224 \<le> b" "b \<le> 239" | (four) "240 \<le> b" "b \<le> 244"
    | (bad) "b < 194 \<or> 244 < b" by linarith
  then show ?thesis
  proof cases
    case two
    with ok have d: "cont_byte 128 191 t 0" by (simp add: decode_multibyte_def split: if_splits)
    with two have "snd (decode_multibyte b t) = 2" by (simp add: decode_multibyte_def)
    with two d c [of 0] show ?thesis by (simp add: decode_multibyte_def)
  next
    case three
    let ?lo = "if b = 224 then 160 else 128" and ?hi = "if b = 237 then 159 else 191"
    have "decode_multibyte b t = (if cont_byte ?lo ?hi t 0 \<and> cont_byte 128 191 t 1
        then ((b - 224) * 4096 + cont_bits t 0 * 64 + cont_bits t 1, 3) else (rune_error, 1))"
      using three by (simp add: decode_multibyte_def)
    from this ok have d: "cont_byte ?lo ?hi t 0 \<and> cont_byte 128 191 t 1"
      by (rule else_value)
    have "snd (decode_multibyte b t) = 3" using three d by (simp add: decode_multibyte_def)
    with c [of 0] c [of 1] d three show ?thesis by (simp add: decode_multibyte_def)
  next
    case four
    let ?lo = "if b = 240 then 144 else 128" and ?hi = "if b = 244 then 143 else 191"
    have "decode_multibyte b t = (if cont_byte ?lo ?hi t 0 \<and> cont_byte 128 191 t 1 \<and> cont_byte 128 191 t 2
        then ((b - 240) * 262144 + cont_bits t 0 * 4096 + cont_bits t 1 * 64 + cont_bits t 2, 4)
        else (rune_error, 1))"
      using four by (simp add: decode_multibyte_def)
    from this ok have d: "cont_byte ?lo ?hi t 0 \<and> cont_byte 128 191 t 1 \<and> cont_byte 128 191 t 2"
      by (rule else_value)
    have "snd (decode_multibyte b t) = 4" using four d by (simp add: decode_multibyte_def)
    with c [of 0] c [of 1] c [of 2] d four show ?thesis by (simp add: decode_multibyte_def)
  next
    case bad
    with ok have False by (auto simp: decode_multibyte_def)
    then show ?thesis ..
  qed
qed

lemma decode_rune_take:
  assumes "decode_rune s \<noteq> (rune_error, 1)" "snd (decode_rune s) \<le> n"
  shows "decode_rune (take n s) = decode_rune s"
proof (cases s)
  case (Cons c t)
  show ?thesis
  proof (cases "byte_val c < 128")
    case True
    with assms Cons show ?thesis by (cases n) auto
  next
    case False
    with assms Cons have m: "decode_multibyte (byte_val c) t \<noteq> (rune_error, 1)"
      "snd (decode_multibyte (byte_val c) t) \<le> n" by auto
    obtain k where n: "n = Suc k" using m(2) decode_rune_width_pos [of s] Cons False by (cases n) auto
    have "decode_multibyte (byte_val c) (take k t) = decode_multibyte (byte_val c) t"
      using m n decode_multibyte_len [of "byte_val c" t] by (intro decode_multibyte_cong) auto
    with False Cons n show ?thesis by simp
  qed
qed simp

lemma decode_rune_append:
  assumes "s \<noteq> []" "decode_rune s \<noteq> (rune_error, 1)"
  shows "decode_rune (s @ t) = decode_rune s"
proof (cases s)
  case (Cons c u)
  have "decode_multibyte (byte_val c) (u @ t) = decode_multibyte (byte_val c) u"
    if "\<not> byte_val c < 128"
    using that assms Cons decode_multibyte_len [of "byte_val c" u]
    by (intro decode_multibyte_cong) (auto simp: nth_append)
  with Cons show ?thesis by simp
qed (use assms in simp)

lemma decode_rune_cont:
  "decode_rune s \<noteq> (rune_error, 1) \<Longrightarrow> 0 < i \<Longrightarrow> i < snd (decode_rune s) \<Longrightarrow> \<not> rune_start (s ! i)"
proof (cases s)
  case (Cons c t)
  assume a: "decode_rune s \<noteq> (rune_error, 1)" "0 < i" "i < snd (decode_rune s)"
  then obtain j where i: "i = Suc j" by (cases i) auto
  have "\<not> byte_val c < 128" using a Cons by auto
  then have "j < snd (decode_multibyte (byte_val c) t) - 1" using a Cons i by auto
  then have "cont_byte 128 191 t j"
    unfolding decode_multibyte_def
    by (cases "j = 0"; cases "j = 1"; cases "j = 2")
      (auto simp: cont_byte_def split: if_splits)
  then show ?thesis using Cons i by (simp add: cont_byte_def rune_start_def)
qed simp

lemma decode_rune_starts: "s \<noteq> [] \<Longrightarrow> decode_rune s \<noteq> (rune_error, 1) \<Longrightarrow> rune_start (s ! 0)"
  by (cases s) (auto simp: decode_multibyte_def rune_start_def split: if_splits)

lemma utf8_valid_step:
  "s \<noteq> [] \<Longrightarrow> utf8_valid s \<longleftrightarrow> decode_rune s \<noteq> (rune_error, 1) \<and> utf8_valid (drop (snd (decode_rune s)) s)"
  by (subst utf8_valid.simps) simp

lemma utf8_valid_append: "utf8_valid s \<Longrightarrow> utf8_valid t \<Longrightarrow> utf8_valid (s @ t)"
proof (induction s rule: utf8_valid.induct)
  case (1 s)
  show ?case
  proof (cases "s = []")
    case False
    have d: "decode_rune s \<noteq> (rune_error, 1)" "utf8_valid (drop (snd (decode_rune s)) s)"
      using "1.prems"(1) False utf8_valid_step by auto
    have "decode_rune (s @ t) = decode_rune s" by (rule decode_rune_append [OF False d(1)])
    moreover have "utf8_valid (drop (snd (decode_rune s)) s @ t)"
      using "1.IH" [OF False d(1) d(2) "1.prems"(2)] .
    ultimately show ?thesis
      using False d(1) decode_rune_width_le_length [of s]
      by (subst utf8_valid_step) (auto)
  qed (simp add: "1.prems")
qed

text \<open>Every byte of a valid text belongs to one rune, and the text splits before that rune.\<close>

lemma rune_cover:
  "utf8_valid s \<Longrightarrow> i < length s \<Longrightarrow>
     \<exists>b \<le> i. utf8_valid (take b s) \<and> utf8_valid (drop b s) \<and> rune_start (s ! b) \<and>
       i < b + snd (decode_rune (drop b s)) \<and> (\<forall>j. b < j \<and> j \<le> i \<longrightarrow> \<not> rune_start (s ! j))"
proof (induction s arbitrary: i rule: utf8_valid.induct)
  case (1 s)
  let ?w = "snd (decode_rune s)"
  have ne: "s \<noteq> []" using "1.prems"(2) by auto
  then have d: "decode_rune s \<noteq> (rune_error, 1)" and v: "utf8_valid (drop ?w s)"
    using "1.prems"(1) utf8_valid_step by auto
  show ?case
  proof (cases "i < ?w")
    case True
    then show ?thesis
      using "1.prems"(1) decode_rune_starts [OF ne d] decode_rune_cont [OF d]
      by (intro exI [of _ 0]) (auto simp: utf8_valid.simps [of "[]"])
  next
    case False
    obtain b where b: "b \<le> i - ?w" "utf8_valid (take b (drop ?w s))" "utf8_valid (drop b (drop ?w s))"
      "rune_start (drop ?w s ! b)" "i - ?w < b + snd (decode_rune (drop b (drop ?w s)))"
      "\<forall>j. b < j \<and> j \<le> i - ?w \<longrightarrow> \<not> rune_start (drop ?w s ! j)"
    proof -
      have "i - ?w < length (drop ?w s)" using "1.prems"(2) False by auto
      from "1.IH" [OF ne d v this] that show thesis by blast
    qed
    have first: "utf8_valid (take ?w s)"
      using ne d decode_rune_width_pos [OF ne] decode_rune_take [OF d, of ?w]
      by (subst utf8_valid_step) (auto simp: utf8_valid.simps [of "[]"])
    have "utf8_valid (take (?w + b) s)"
      using utf8_valid_append [OF first b(2)] by (simp add: take_add)
    moreover have "\<forall>j. ?w + b < j \<and> j \<le> i \<longrightarrow> \<not> rune_start (s ! j)"
    proof (intro allI impI)
      fix j assume j: "?w + b < j \<and> j \<le> i"
      then have "b < j - ?w \<and> j - ?w \<le> i - ?w" by auto
      with b(6) have "\<not> rune_start (drop ?w s ! (j - ?w))" by blast
      with j "1.prems"(2) show "\<not> rune_start (s ! j)" by simp
    qed
    ultimately show ?thesis
      using b False "1.prems"(2) decode_rune_width_le_length [of s]
      by (intro exI [of _ "?w + b"]) (auto simp: add.commute)
  qed
qed

lemma utf8_split:
  assumes "utf8_valid s" "i < length s" "rune_start (s ! i)"
  shows "utf8_valid (take i s)"
proof -
  obtain b where "b \<le> i" "utf8_valid (take b s)" "\<forall>j. b < j \<and> j \<le> i \<longrightarrow> \<not> rune_start (s ! j)"
    using rune_cover [OF assms(1,2)] by blast
  with assms(3) show ?thesis by (cases "b = i") auto
qed

section \<open>HTTP headers (package net/http)\<close>

text \<open>
  \<open>http.Header\<close> is a map from canonical keys to lists of values.  Every access of
  the source goes through \<open>Get\<close>, \<open>Set\<close>, \<open>Del\<close> and \<open>Values\<close>, which canonicalise the
  key: a key made of token bytes only gets its first letter and every letter after
  a hyphen in upper case and the others in lower case; any other key is kept.
\<close>

type_synonym headers = "string \<Rightarrow> string list"

definition valid_header_byte :: "char \<Rightarrow> bool" where
  "valid_header_byte c \<longleftrightarrow> is_digit c \<or> is_lower c \<or> is_upper c \<or> c \<in> set ''!#$%&*+-.^_`|~'' \<or> byte_val c = 39"

fun canonical_from :: "bool \<Rightarrow> string \<Rightarrow> string" where
  "canonical_from up [] = []"
| "canonical_from up (c # s) =
     (if up then upper_byte c else lower_byte c) # canonical_from (c = CHR ''-'') s"

definition canonical_key :: "string \<Rightarrow> string" where
  "canonical_key k = (if list_all valid_header_byte k then canonical_from True k else k)"

definition no_headers :: headers where
  "no_headers = (\<lambda>_. [])"

definition header_values :: "headers \<Rightarrow> string \<Rightarrow> string list" where
  "header_values h k = h (canonical_key k)"

definition header_get :: "headers \<Rightarrow> string \<Rightarrow> string" where
  "header_get h k = (case header_values h k of [] \<Rightarrow> [] | v # _ \<Rightarrow> v)"

definition header_set :: "string \<Rightarrow> string \<Rightarrow> headers \<Rightarrow> headers" where
  "header_set k v h = h(canonical_key k := [v])"

definition header_del :: "string \<Rightarrow> headers \<Rightarrow> headers" where
  "header_del k h = h(canonical_key k := [])"

lemma header_values_set [simp]:
  "header_values (header_set k v h) k' =
     (if canonical_key k' = canonical_key k then [v] else header_values h k')"
  by (simp add: header_values_def header_set_def)

lemma header_values_del [simp]:
  "header_values (header_del k h) k' =
     (if canonical_key k' = canonical_key k then [] else header_values h k')"
  by (simp add: header_values_def header_del_def)

lemma header_get_set [simp]:
  "header_get (header_set k v h) k' = (if canonical_key k' = canonical_key k then v else header_get h k')"
  by (simp add: header_get_def)

lemma header_get_del [simp]:
  "header_get (header_del k h) k' = (if canonical_key k' = canonical_key k then [] else header_get h k')"
  by (simp add: header_get_def)

lemma header_values_none [simp]: "header_values no_headers k = []" "header_get no_headers k = []"
  by (simp_all add: header_values_def header_get_def no_headers_def)

section \<open>State machines that keep an invariant\<close>

text \<open>
  Several components are one object with methods, each a step of its state.  The
  contract they share: the invariant is kept by every single step.  What clients
  use is its consequence for runs.
\<close>

locale kept_invariant =
  fixes step :: "'e \<Rightarrow> 's \<Rightarrow> 's"
    and inv :: "'s \<Rightarrow> bool"
  assumes step_keeps: "inv s \<Longrightarrow> inv (step e s)"
begin

lemma run_keeps: "inv s \<Longrightarrow> inv (fold step es s)"
  by (induction es arbitrary: s) (auto intro: step_keeps)

lemma run_prefix_keeps: "inv s \<Longrightarrow> inv (fold step (take n es) s)"
  by (rule run_keeps)

end

text \<open>A step may also have absorbing states: once reached they are never left.\<close>

locale absorbing = kept_invariant step inv
  for step :: "'e \<Rightarrow> 's \<Rightarrow> 's" and inv :: "'s \<Rightarrow> bool" +
  fixes final :: "'s \<Rightarrow> bool"
  assumes final_stays: "inv s \<Longrightarrow> final s \<Longrightarrow> final (step e s)"
begin

lemma run_final: "inv s \<Longrightarrow> final s \<Longrightarrow> final (fold step es s)"
  by (induction es arbitrary: s) (auto intro: step_keeps final_stays)

end

text \<open>
  Where several parties act in any order, a step is a relation.  The contract is the same, and
  so is its use: the invariant holds in every state that can be reached.
\<close>

locale preserved =
  fixes step :: "'s \<Rightarrow> 's \<Rightarrow> bool"
    and inv :: "'s \<Rightarrow> bool"
  assumes step_preserves: "step s s' \<Longrightarrow> inv s \<Longrightarrow> inv s'"
begin

lemma reach_preserves: "rtranclp step s s' \<Longrightarrow> inv s \<Longrightarrow> inv s'"
  by (induction rule: rtranclp_induct) (auto intro: step_preserves)

end

end
