(* ===== verification/Go_Float.thy ===== *)
theory Go_Float
  imports Go_Prelude
begin

text \<open>
  Go's \<open>float64\<close> and \<open>strconv.ParseFloat\<close>.  A finite value is the rational number
  it denotes (the sign of zero is not kept: no branch of the source observes it).
  Every arithmetic result is rounded to the nearest binary64 number, ties to even,
  and overflows to an infinity, as IEEE 754 prescribes.
\<close>

datatype float64 = NaN | Inf bool \<comment> \<open>True: negative\<close> | Fin rat

definition two_pow :: "int \<Rightarrow> rat" where
  "two_pow k = (if 0 \<le> k then 2 ^ nat k else 1 / 2 ^ nat (- k))"

definition round_half_even :: "rat \<Rightarrow> int" where
  "round_half_even r =
     (let f = \<lfloor>r\<rfloor>; d = r - of_int f in
      if d < 1 / 2 then f else if d > 1 / 2 then f + 1 else if even f then f else f + 1)"

fun bit_count :: "nat \<Rightarrow> int" where
  "bit_count n = (if n = 0 then 0 else 1 + bit_count (n div 2))"

declare bit_count.simps [simp del]

text \<open>The exponent \<open>e\<close> with \<open>2^e \<le> x < 2^(e+1)\<close>, for positive \<open>x\<close>.\<close>

definition binary_exponent :: "rat \<Rightarrow> int" where
  "binary_exponent x =
     (let (p, q) = quotient_of x; e = bit_count (nat p) - bit_count (nat q)
      in if x < two_pow e then e - 1 else e)"

definition round64 :: "rat \<Rightarrow> float64" where
  "round64 x =
     (if x = 0 then Fin 0
      else let k = max (binary_exponent \<bar>x\<bar> - 52) (- 1074);
               y = of_int (round_half_even (\<bar>x\<bar> / two_pow k)) * two_pow k
           in if two_pow 1024 \<le> y then Inf (x < 0) else Fin (sgn x * y))"

definition is_nan :: "float64 \<Rightarrow> bool" where
  "is_nan x \<longleftrightarrow> x = NaN"

definition is_inf :: "float64 \<Rightarrow> bool" where
  "is_inf x \<longleftrightarrow> (case x of Inf _ \<Rightarrow> True | _ \<Rightarrow> False)"

text \<open>The IEEE order: every comparison with NaN is false.\<close>

fun flt :: "float64 \<Rightarrow> float64 \<Rightarrow> bool" where
  "flt (Fin x) (Fin y) = (x < y)"
| "flt (Inf s) (Fin y) = s"
| "flt (Fin x) (Inf s) = (\<not> s)"
| "flt (Inf s) (Inf t) = (s \<and> \<not> t)"
| "flt _ _ = False"

definition fle :: "float64 \<Rightarrow> float64 \<Rightarrow> bool" where
  "fle x y \<longleftrightarrow> flt x y \<or> (x = y \<and> x \<noteq> NaN)"

text \<open>\<open>math.Min\<close> and \<open>math.Max\<close>: an infinity of the winning sign first, then NaN.\<close>

definition math_min :: "float64 \<Rightarrow> float64 \<Rightarrow> float64" where
  "math_min x y =
     (if x = Inf True \<or> y = Inf True then Inf True
      else if x = NaN \<or> y = NaN then NaN
      else if flt x y then x else y)"

definition math_max :: "float64 \<Rightarrow> float64 \<Rightarrow> float64" where
  "math_max x y =
     (if x = Inf False \<or> y = Inf False then Inf False
      else if x = NaN \<or> y = NaN then NaN
      else if flt y x then x else y)"

fun fneg :: "float64 \<Rightarrow> float64" where
  "fneg NaN = NaN"
| "fneg (Inf s) = Inf (\<not> s)"
| "fneg (Fin x) = Fin (- x)"

fun fmul :: "float64 \<Rightarrow> float64 \<Rightarrow> float64" where
  "fmul (Fin x) (Fin y) = round64 (x * y)"
| "fmul (Inf s) (Fin y) = (if y = 0 then NaN else Inf (s \<noteq> (y < 0)))"
| "fmul (Fin x) (Inf s) = (if x = 0 then NaN else Inf (s \<noteq> (x < 0)))"
| "fmul (Inf s) (Inf t) = Inf (s \<noteq> t)"
| "fmul _ _ = NaN"

fun fadd :: "float64 \<Rightarrow> float64 \<Rightarrow> float64" where
  "fadd (Fin x) (Fin y) = round64 (x + y)"
| "fadd (Inf s) (Fin y) = Inf s"
| "fadd (Fin x) (Inf s) = Inf s"
| "fadd (Inf s) (Inf t) = (if s = t then Inf s else NaN)"
| "fadd _ _ = NaN"

definition fsub :: "float64 \<Rightarrow> float64 \<Rightarrow> float64" where
  "fsub x y = fadd x (fneg y)"

text \<open>Division by a finite non-zero constant, the only division of the source.\<close>

fun fdiv_const :: "float64 \<Rightarrow> rat \<Rightarrow> float64" where
  "fdiv_const (Fin x) c = round64 (x / c)"
| "fdiv_const (Inf s) c = Inf (s \<noteq> (c < 0))"
| "fdiv_const NaN c = NaN"

definition trunc_rat :: "rat \<Rightarrow> int" where
  "trunc_rat x = (if x < 0 then - \<lfloor>- x\<rfloor> else \<lfloor>x\<rfloor>)"

text \<open>
  The conversion \<open>int64(x)\<close> truncates towards zero; for a value outside the range
  of \<open>int64\<close> the language leaves the result to the implementation: \<open>None\<close>.
\<close>

definition f64_to_i64 :: "float64 \<Rightarrow> int option" where
  "f64_to_i64 x = (case x of
       Fin r \<Rightarrow> (if - (2 ^ 63) \<le> trunc_rat r \<and> trunc_rat r < 2 ^ 63 then Some (trunc_rat r) else None)
     | _ \<Rightarrow> None)"

definition i64_to_f64 :: "int \<Rightarrow> float64" where
  "i64_to_f64 i = round64 (of_int i)"

section \<open>strconv.ParseFloat\<close>

definition digit_val :: "char \<Rightarrow> nat" where
  "digit_val c = byte_val c - 48"

definition is_hex_letter :: "char \<Rightarrow> bool" where
  "is_hex_letter c \<longleftrightarrow> 97 \<le> byte_val (lower_byte c) \<and> byte_val (lower_byte c) \<le> 102"

definition hex_val :: "char \<Rightarrow> nat" where
  "hex_val c = (if is_digit c then digit_val c else byte_val (lower_byte c) - 87)"

text \<open>
  The mantissa scanner of \<open>readFloat\<close>: digits of the base, at most one point, and
  underscores.  It yields the mantissa as an integer, the number of digits after
  the point, whether a digit and whether an underscore was seen, and the rest.
\<close>

fun scan_mantissa ::
  "bool \<Rightarrow> bool \<Rightarrow> nat \<Rightarrow> nat \<Rightarrow> bool \<Rightarrow> bool \<Rightarrow> string \<Rightarrow> nat \<times> nat \<times> bool \<times> bool \<times> string" where
  "scan_mantissa hex dot m fd digs und [] = (m, fd, digs, und, [])"
| "scan_mantissa hex dot m fd digs und (c # s) =
     (if c = CHR ''_'' then scan_mantissa hex dot m fd digs True s
      else if c = CHR ''.'' then
        (if dot then (m, fd, digs, und, c # s) else scan_mantissa hex True m fd digs und s)
      else if is_digit c \<or> (hex \<and> is_hex_letter c) then
        scan_mantissa hex dot (m * (if hex then 16 else 10) + hex_val c)
          (if dot then Suc fd else fd) True und s
      else (m, fd, digs, und, c # s))"

text \<open>Exponent digits: the value stops growing once it reaches 10000, as in Go.\<close>

fun scan_exponent :: "nat \<Rightarrow> bool \<Rightarrow> string \<Rightarrow> nat \<times> bool \<times> string" where
  "scan_exponent e und [] = (e, und, [])"
| "scan_exponent e und (c # s) =
     (if c = CHR ''_'' then scan_exponent e True s
      else if is_digit c then scan_exponent (if e < 10000 then e * 10 + digit_val c else e) und s
      else (e, und, c # s))"

text \<open>\<open>underscoreOK\<close>: the state is what was seen last (0 a digit, 1 an underscore, 2 other).\<close>

fun underscore_scan :: "bool \<Rightarrow> nat \<Rightarrow> string \<Rightarrow> bool" where
  "underscore_scan hex st [] = (st \<noteq> 1)"
| "underscore_scan hex st (c # s) =
     (if is_digit c \<or> (hex \<and> is_hex_letter c) then underscore_scan hex 0 s
      else if c = CHR ''_'' then (if st = 0 then underscore_scan hex 1 s else False)
      else if st = 1 then False
      else underscore_scan hex 2 s)"

definition strip_sign :: "string \<Rightarrow> bool \<times> string" where
  "strip_sign s = (case s of
       [] \<Rightarrow> (False, [])
     | c # t \<Rightarrow> (if c = CHR ''-'' then (True, t) else if c = CHR ''+'' then (False, t) else (False, s)))"

definition base_prefix :: "char set \<Rightarrow> string \<Rightarrow> bool" where
  "base_prefix cs s \<longleftrightarrow> 2 \<le> length s \<and> hd s = CHR ''0'' \<and> lower_byte (s ! 1) \<in> cs"

definition underscore_ok :: "string \<Rightarrow> bool" where
  "underscore_ok s =
     (let t = snd (strip_sign s) in
      if base_prefix {CHR ''b'', CHR ''o'', CHR ''x''} t
      then underscore_scan (lower_byte (t ! 1) = CHR ''x'') 0 (drop 2 t)
      else underscore_scan False 2 t)"

text \<open>
  \<open>readFloat\<close> on the whole input: the exact rational value, or \<open>None\<close> for a syntax
  error.  A hexadecimal mantissa needs a p-exponent.
\<close>

definition read_float :: "string \<Rightarrow> rat option" where
  "read_float s =
     (let (neg, t) = strip_sign s;
          hex = (base_prefix {CHR ''x''} t \<and> 2 < length t);
          (m, fd, digs, und, rest) = scan_mantissa hex False 0 0 False False (if hex then drop 2 t else t);
          sign = (if neg then - 1 else 1 :: rat);
          value = (\<lambda>e. sign * of_nat m *
                     (if hex then two_pow (e - 4 * int fd)
                      else if 0 \<le> e - int fd then 10 ^ nat (e - int fd) else 1 / 10 ^ nat (int fd - e)))
      in if \<not> digs then None
         else case rest of
             [] \<Rightarrow> (if hex \<or> (und \<and> \<not> underscore_ok s) then None else Some (value 0))
           | c # u \<Rightarrow>
               (if lower_byte c \<noteq> (if hex then CHR ''p'' else CHR ''e'') then None
                else let (eneg, v) = strip_sign u in
                  if v = [] \<or> \<not> is_digit (hd v) then None
                  else let (e, eund, w) = scan_exponent 0 False v in
                    if w \<noteq> [] \<or> ((und \<or> eund) \<and> \<not> underscore_ok s) then None
                    else Some (value (if eneg then - int e else int e))))"

text \<open>
  \<open>strconv.ParseFloat(s, 64)\<close>: \<open>None\<close> when \<open>err\<close> is not nil, which covers syntax
  errors and values out of range.
\<close>

definition parse_float :: "string \<Rightarrow> float64 option" where
  "parse_float s =
     (let (neg, t) = strip_sign s; low = map lower_byte t in
      if low = ''inf'' \<or> low = ''infinity'' then Some (Inf neg)
      else if map lower_byte s = ''nan'' then Some NaN
      else case read_float s of
          None \<Rightarrow> None
        | Some x \<Rightarrow> (case round64 x of Fin y \<Rightarrow> Some (Fin y) | _ \<Rightarrow> None))"

section \<open>Facts about comparison and rounding\<close>

lemma flt_irrefl [simp]: "\<not> flt x x"
  by (cases x) auto

lemma round_half_even_of_int [simp]: "round_half_even (of_int i) = i"
  by (simp add: round_half_even_def Let_def)

lemma round_half_even_mono: "x \<le> y \<Longrightarrow> round_half_even x \<le> round_half_even y"
proof -
  assume xy: "x \<le> y"
  have fl: "\<lfloor>x\<rfloor> \<le> \<lfloor>y\<rfloor>" using xy by (rule floor_mono)
  show ?thesis
  proof (cases "\<lfloor>x\<rfloor> = \<lfloor>y\<rfloor>")
    case True
    then show ?thesis using xy by (auto simp: round_half_even_def Let_def)
  next
    case False
    with fl have "\<lfloor>x\<rfloor> + 1 \<le> \<lfloor>y\<rfloor>" by simp
    then show ?thesis by (auto simp: round_half_even_def Let_def)
  qed
qed

lemma two_pow_pos [simp]: "0 < two_pow k"
  by (simp add: two_pow_def)

lemma round_half_even_nonneg: "0 \<le> x \<Longrightarrow> 0 \<le> round_half_even x"
  using round_half_even_mono [of 0 x] round_half_even_of_int [of 0] by simp

text \<open>Rounding keeps the sign, so a product of non-negative values is never negative.\<close>

lemma round64_nonneg: "0 \<le> x \<Longrightarrow> round64 x = Fin y \<Longrightarrow> 0 \<le> y"
proof -
  assume x: "0 \<le> x" and r: "round64 x = Fin y"
  have "0 \<le> of_int (round_half_even (\<bar>x\<bar> / two_pow k)) * two_pow k" for k
    using round_half_even_nonneg [of "\<bar>x\<bar> / two_pow k"]
    by (simp add: less_imp_le)
  then show ?thesis using x r by (auto simp: round64_def Let_def sgn_if split: if_splits)
qed

lemma trunc_rat_mono: "x \<le> y \<Longrightarrow> trunc_rat x \<le> trunc_rat y"
proof -
  assume xy: "x \<le> y"
  show ?thesis
  proof (cases "x < 0")
    case True
    then have "0 \<le> \<lfloor>- x\<rfloor>" by simp
    moreover have "\<lfloor>- y\<rfloor> \<le> \<lfloor>- x\<rfloor>" using xy by (intro floor_mono) simp
    moreover have "\<not> y < 0 \<Longrightarrow> 0 \<le> \<lfloor>y\<rfloor>" by simp
    ultimately show ?thesis
      using True by (cases "y < 0") (simp_all only: trunc_rat_def if_True if_False, linarith+)
  next
    case False
    then show ?thesis using xy floor_mono [OF xy] by (simp add: trunc_rat_def)
  qed
qed

lemma trunc_rat_nonneg: "0 \<le> x \<Longrightarrow> 0 \<le> trunc_rat x"
  by (simp add: trunc_rat_def)

text \<open>Integers below 2^53 are exact, so parsing a small integer yields that integer.\<close>

lemma bit_count_le: "n < 2 ^ m \<Longrightarrow> bit_count n \<le> int m"
proof (induction m arbitrary: n)
  case 0
  then show ?case by (simp add: bit_count.simps)
next
  case (Suc m)
  then have "n div 2 < 2 ^ m" by simp
  then have "bit_count (n div 2) \<le> int m" by (rule Suc.IH)
  then show ?case by (subst bit_count.simps) simp
qed

lemma binary_exponent_of_int:
  assumes "0 \<le> i" "i < 2 ^ 53"
  shows "binary_exponent (of_int i) \<le> 52"
proof -
  have "nat i < 2 ^ 53" using assms by (simp add: nat_less_iff)
  then have "bit_count (nat i) \<le> 53" using bit_count_le [of "nat i" 53] by simp
  then show ?thesis
    by (simp add: binary_exponent_def Let_def quotient_of_int bit_count.simps [of "Suc 0"] bit_count.simps [of 0])
qed

lemma round64_of_int:
  assumes "\<bar>i\<bar> < 2 ^ 53"
  shows "round64 (of_int i) = Fin (of_int i)"
proof (cases "i = 0")
  case True
  then show ?thesis by (simp add: round64_def)
next
  case False
  define k where "k = max (binary_exponent \<bar>of_int i\<bar> - 52) (- 1074)"
  have "k \<le> 0" using binary_exponent_of_int [of "\<bar>i\<bar>"] assms by (simp add: k_def)
  then obtain n where k: "k = - int n" by (metis nonpos_int_cases)
  have tp: "two_pow k = 1 / 2 ^ n" by (simp add: two_pow_def k)
  have "\<bar>of_int i\<bar> / two_pow k = of_int (\<bar>i\<bar> * 2 ^ n)" by (simp add: tp)
  then have y: "of_int (round_half_even (\<bar>of_int i\<bar> / two_pow k)) * two_pow k = (of_int \<bar>i\<bar> :: rat)"
    by (simp only: round_half_even_of_int) (simp add: tp)
  have "(of_int \<bar>i\<bar> :: rat) < 2 ^ 53" using assms by (metis of_int_less_iff of_int_numeral of_int_power)
  also have "(2 :: rat) ^ 53 < two_pow 1024" by (simp add: two_pow_def)
  finally have "\<not> two_pow 1024 \<le> (of_int \<bar>i\<bar> :: rat)" by simp
  then show ?thesis
    using False y by (simp add: round64_def Let_def flip: k_def) (simp add: sgn_if)
qed

section \<open>Rounding below a small integer\<close>

lemma two_pow_add: "two_pow (a + b) = two_pow a * two_pow b"
proof -
  have p: "two_pow k = 2 powi k" for k :: int
    by (simp add: two_pow_def power_int_def field_simps)
  show ?thesis by (simp add: p power_int_add)
qed

lemma two_pow_mono: "a \<le> b \<Longrightarrow> two_pow a \<le> two_pow b"
proof -
  have p: "two_pow k = 2 powi k" for k :: int
    by (simp add: two_pow_def power_int_def field_simps)
  show "a \<le> b \<Longrightarrow> two_pow a \<le> two_pow b" by (simp add: p power_int_increasing)
qed

lemma two_pow_nat: "two_pow (int n) = 2 ^ n"
  by (simp add: two_pow_def)

lemma bit_count_bounds: "0 < n \<Longrightarrow> two_pow (bit_count n - 1) \<le> of_nat n \<and> of_nat n < two_pow (bit_count n) \<and> 1 \<le> bit_count n"
proof (induction n rule: bit_count.induct)
  case (1 n)
  show ?case
  proof (cases "n = 1")
    case True
    then show ?thesis by (simp add: bit_count.simps [of "Suc 0"] bit_count.simps [of 0] two_pow_def)
  next
    case False
    let ?m = "n div 2"
    have m: "0 < ?m" using False "1.prems" by simp
    have ih: "two_pow (bit_count ?m - 1) \<le> of_nat ?m" "of_nat ?m < two_pow (bit_count ?m)" "1 \<le> bit_count ?m"
      using "1.IH" m "1.prems" by auto
    have b: "bit_count n = bit_count ?m + 1" using "1.prems" by (subst bit_count.simps) simp
    have t: "two_pow (bit_count ?m) = 2 * two_pow (bit_count ?m - 1)"
      "two_pow (bit_count ?m + 1) = 2 * two_pow (bit_count ?m)"
      using two_pow_add [of 1 "bit_count ?m - 1"] two_pow_add [of "bit_count ?m" 1]
      by (simp_all add: two_pow_def [of 1])
    have "2 * (of_nat ?m :: rat) \<le> of_nat n" by (metis div_times_less_eq_dividend mult.commute of_nat_le_iff of_nat_mult of_nat_numeral)
    moreover have "(of_nat n :: rat) < of_nat (2 * (?m + 1))" by (subst of_nat_less_iff) simp
    moreover have "(of_nat ?m :: rat) + 1 \<le> two_pow (bit_count ?m)"
    proof -
      have "two_pow (bit_count ?m) = of_nat (2 ^ nat (bit_count ?m))" using ih(3) by (simp add: two_pow_def)
      with ih(2) show ?thesis by (metis Suc_leI of_nat_Suc of_nat_le_iff of_nat_less_iff add.commute)
    qed
    ultimately show ?thesis using ih b t by auto
  qed
qed

lemma binary_exponent_le: "0 < x \<Longrightarrow> two_pow (binary_exponent x) \<le> x"
proof -
  assume x: "0 < x"
  obtain p q where pq: "quotient_of x = (p, q)" by (cases "quotient_of x")
  have q: "0 < q" using quotient_of_denom_pos [OF pq] .
  have xe: "x = of_int p / of_int q" using quotient_of_div [OF pq] .
  have p: "0 < p" using x q xe by (simp add: zero_less_divide_iff)
  have P: "two_pow (bit_count (nat p) - 1) \<le> of_int p" using bit_count_bounds [of "nat p"] p by simp
  have Q: "of_int q < two_pow (bit_count (nat q))" using bit_count_bounds [of "nat q"] q by simp
  let ?e = "bit_count (nat p) - bit_count (nat q)"
  have "two_pow (?e - 1) * of_int q \<le> two_pow (?e - 1) * two_pow (bit_count (nat q))"
    using Q by (intro mult_left_mono) (simp_all add: less_imp_le)
  also have "\<dots> = two_pow (bit_count (nat p) - 1)" by (simp flip: two_pow_add)
  also note P
  finally have "two_pow (?e - 1) \<le> x" using q by (simp add: xe pos_le_divide_eq)
  then show ?thesis by (simp add: binary_exponent_def pq Let_def)
qed

lemma round64_small:
  assumes "0 \<le> x" "x \<le> of_int n" "n < 2 ^ 53"
  shows "\<exists>y. round64 x = Fin y \<and> 0 \<le> y \<and> y \<le> of_int n"
proof (cases "x = 0")
  case True
  then show ?thesis using assms by (simp add: round64_def)
next
  case False
  with assms have x: "0 < x" by simp
  define k where "k = max (binary_exponent \<bar>x\<bar> - 52) (- 1074)"
  have n53: "of_int n < two_pow 53" using assms(3) by (simp add: two_pow_def)
  have "two_pow (binary_exponent x) < two_pow 53"
    using binary_exponent_le [OF x] assms(2) n53 by linarith
  then have "binary_exponent x < 53" using two_pow_mono [of 53 "binary_exponent x"] by linarith
  then have "k \<le> 0" using x by (simp add: k_def)
  have kx: "max (binary_exponent x - 52) (- 1074) = k" using x by (simp add: k_def)
  from \<open>k \<le> 0\<close> obtain m where k: "k = - int m" by (metis nonpos_int_cases)
  have tp: "two_pow k = 1 / 2 ^ m" by (simp add: two_pow_def k)
  let ?r = "round_half_even (\<bar>x\<bar> / two_pow k)"
  have "\<bar>x\<bar> / two_pow k \<le> of_int (n * 2 ^ m)" using assms x by (simp add: tp)
  from round_half_even_mono [OF this] have "?r \<le> n * 2 ^ m" by (simp only: round_half_even_of_int)
  then have "of_int ?r * two_pow k \<le> of_int (n * 2 ^ m) * two_pow k"
    by (intro mult_right_mono) (simp_all only: of_int_le_iff less_imp_le [OF two_pow_pos])
  also have "\<dots> = of_int n" by (simp add: tp)
  finally have le: "of_int ?r * two_pow k \<le> of_int n" .
  have "two_pow 53 \<le> two_pow 1024" by (rule two_pow_mono) simp
  with le n53 have "\<not> two_pow 1024 \<le> of_int ?r * two_pow k" by linarith
  moreover have "0 \<le> of_int ?r * two_pow k"
    using round_half_even_nonneg [of "\<bar>x\<bar> / two_pow k"] by (simp add: less_imp_le)
  ultimately show ?thesis
    using x le kx by (simp add: round64_def Let_def)
qed

lemma f64_to_i64_small:
  assumes "0 \<le> x" "x \<le> of_int n" "n < 2 ^ 53"
  shows "\<exists>i. f64_to_i64 (round64 x) = Some i \<and> 0 \<le> i \<and> i \<le> n"
proof -
  obtain y where y: "round64 x = Fin y" "0 \<le> y" "y \<le> of_int n" using round64_small [OF assms] by blast
  have "0 \<le> trunc_rat y" using y by (simp add: trunc_rat_nonneg)
  moreover have "trunc_rat y \<le> n"
    using trunc_rat_mono [OF y(3)] assms by (simp add: trunc_rat_def [of "of_int n"])
  ultimately show ?thesis using y assms(3) by (simp add: f64_to_i64_def)
qed

end
