(* ===== verification/Go_Value.thy ===== *)
theory Go_Value
  imports Go_Float "HOL-Library.AList" "HOL-Library.List_Lexorder"
begin

text \<open>
  The dynamic values of the SDK: what a Go \<open>any\<close> holds when it was decoded from JSON
  or supplied by a caller.  Objects (\<open>map[string]any\<close>) are association lists.  The
  provider preferences of \<open>provider.go\<close> appear inside request bodies, so they are
  part of the same datatype.
\<close>

datatype int_kind =
  KInt | KInt8 | KInt16 | KInt32 | KInt64 | KUint | KUint8 | KUint16 | KUint32 | KUint64

datatype gvalue =
    GNil
  | GBool bool
  | GInt int_kind int
  | GFloat float64
  | GFloat32 float64
  | GNumber string \<comment> \<open>json.Number\<close>
  | GString string
  | GSlice "gvalue list" \<comment> \<open>[]any\<close>
  | GMap "(string \<times> gvalue) list" \<comment> \<open>map[string]any\<close>
  | GStrings "string list" \<comment> \<open>[]string\<close>
  | GMaps "(string \<times> gvalue) list list" \<comment> \<open>[]map[string]any\<close>
  | GStringMap "(string \<times> string) list" \<comment> \<open>map[string]string\<close>
  | GProvider bool provider_preferences \<comment> \<open>True: a pointer to the struct\<close>
  | GOpaque string \<comment> \<open>a value of any other type, by its rendering\<close>
and provider_preferences = ProviderPreferences
    (pp_order: "string list option") (pp_only: "string list option") (pp_ignore: "string list option")
    (pp_sort: string) (pp_allow_fallbacks: "bool option") (pp_require_parameters: "bool option")
    (pp_data_collection: string) (pp_min_privacy: string) (pp_jurisdiction: string)
    (pp_usage: string) (pp_quantizations: "string list option") (pp_max_price: "(string \<times> gvalue) list option")

type_synonym object = "(string \<times> gvalue) list"

text \<open>\<open>m[key]\<close> is nil for a missing key; \<open>value, ok := m[key]\<close> tells them apart.\<close>

definition obj_get :: "object \<Rightarrow> string \<Rightarrow> gvalue" where
  "obj_get m k = (case map_of m k of None \<Rightarrow> GNil | Some v \<Rightarrow> v)"

abbreviation obj_has :: "object \<Rightarrow> string \<Rightarrow> bool" where
  "obj_has m k \<equiv> map_of m k \<noteq> None"

abbreviation obj_put :: "string \<Rightarrow> gvalue \<Rightarrow> object \<Rightarrow> object" where
  "obj_put k v m \<equiv> AList.update k v m"

abbreviation obj_del :: "string \<Rightarrow> object \<Rightarrow> object" where
  "obj_del k m \<equiv> AList.delete k m"

definition as_map :: "gvalue \<Rightarrow> object option" where
  "as_map v = (case v of GMap m \<Rightarrow> Some m | _ \<Rightarrow> None)"

definition as_string :: "gvalue \<Rightarrow> string option" where
  "as_string v = (case v of GString s \<Rightarrow> Some s | _ \<Rightarrow> None)"

definition as_bool :: "gvalue \<Rightarrow> bool option" where
  "as_bool v = (case v of GBool b \<Rightarrow> Some b | _ \<Rightarrow> None)"

text \<open>\<open>value, _ := m[key].(string)\<close>: the zero value when the assertion fails.\<close>

definition string_or_empty :: "gvalue \<Rightarrow> string" where
  "string_or_empty v = (case v of GString s \<Rightarrow> s | _ \<Rightarrow> [])"

definition map_or_empty :: "gvalue \<Rightarrow> object" where
  "map_or_empty v = (case v of GMap m \<Rightarrow> m | _ \<Rightarrow> [])"

text \<open>\<open>cloneMap\<close> and a loop that stores every entry of one map in another.\<close>

definition obj_merge :: "object \<Rightarrow> object \<Rightarrow> object" where
  "obj_merge into from = fold (\<lambda>(k, v) m. obj_put k v m) from into"

definition clone_map :: "object \<Rightarrow> object" where
  "clone_map m = obj_merge [] m"

section \<open>reflect.DeepEqual\<close>

text \<open>
  Two objects are equal when they have the same keys and deeply equal values, in any
  order; keys are distinct.  Every other value is compared by kind and content, and a
  NaN is not equal to itself.
\<close>

fun deep_equal :: "gvalue \<Rightarrow> gvalue \<Rightarrow> bool" where
  "deep_equal (GMap m) (GMap n) =
     (length m = length n \<and>
      list_all (\<lambda>(k, v). case map_of n k of None \<Rightarrow> False | Some w \<Rightarrow> deep_equal v w) m)"
| "deep_equal (GSlice xs) (GSlice ys) = list_all2 deep_equal xs ys"
| "deep_equal (GFloat x) (GFloat y) = (x = y \<and> x \<noteq> NaN)"
| "deep_equal x y = (x = y)"

section \<open>truthy and fmt.Sprint\<close>

text \<open>\<open>truthy\<close> of \<open>errors.go\<close>: the Python truth value of a scalar; containers are true.\<close>

definition truthy :: "gvalue \<Rightarrow> bool" where
  "truthy v = (case v of
       GNil \<Rightarrow> False
     | GBool b \<Rightarrow> b
     | GString s \<Rightarrow> s \<noteq> []
     | GInt _ i \<Rightarrow> i \<noteq> 0
     | GFloat x \<Rightarrow> x \<noteq> Fin 0
     | GFloat32 x \<Rightarrow> x \<noteq> Fin 0
     | _ \<Rightarrow> True)"

text \<open>
  \<open>fmt.Sprint\<close> of one operand.  The source prints error messages, almost always
  strings; the rendering of floats and containers is left as the argument \<open>fmt_other\<close>.
\<close>

definition sprint :: "(gvalue \<Rightarrow> string) \<Rightarrow> gvalue \<Rightarrow> string" where
  "sprint fmt_other v = (case v of
       GNil \<Rightarrow> ''<nil>''
     | GBool b \<Rightarrow> (if b then ''true'' else ''false'')
     | GInt _ i \<Rightarrow> itoa i
     | GNumber s \<Rightarrow> s
     | GString s \<Rightarrow> s
     | _ \<Rightarrow> fmt_other v)"

section \<open>Lemmas\<close>

lemma obj_get_put [simp]: "obj_get (obj_put k v m) k' = (if k' = k then v else obj_get m k')"
  by (simp add: obj_get_def update_conv')

lemma map_of_obj_merge:
  "map_of (obj_merge m n) k = (case map_of (rev n) k of None \<Rightarrow> map_of m k | Some v \<Rightarrow> Some v)"
  unfolding obj_merge_def
proof (induction n arbitrary: m)
  case Nil
  then show ?case by simp
next
  case (Cons p n)
  then show ?case
    by (cases p) (auto simp: update_conv' map_add_def split: option.splits)
qed

lemma distinct_obj_merge:
  "distinct (map fst m) \<Longrightarrow> distinct (map fst (obj_merge m n))"
  unfolding obj_merge_def
  by (induction n arbitrary: m) (auto simp: distinct_update)

lemma map_of_rev_distinct: "distinct (map fst n) \<Longrightarrow> map_of (rev n) = map_of n"
  by (metis map_of_eqI [of "rev n" n] distinct_rev map_of_eq_Some_iff rev_map set_rev ext
      option.exhaust)

lemma map_of_clone [simp]: "distinct (map fst m) \<Longrightarrow> map_of (clone_map m) = map_of m"
  by (rule ext) (auto simp: clone_map_def map_of_obj_merge map_of_rev_distinct split: option.splits)

lemma obj_get_merge:
  "distinct (map fst n) \<Longrightarrow>
     obj_get (obj_merge m n) k = (if obj_has n k then obj_get n k else obj_get m k)"
  by (auto simp: obj_get_def map_of_obj_merge map_of_rev_distinct split: option.splits)

lemma distinct_clone [simp]: "distinct (map fst (clone_map m))"
  unfolding clone_map_def by (rule distinct_obj_merge) simp

end
