(* ===== verification/Go_Json.thy ===== *)
theory Go_Json
  imports Go_Value
begin

text \<open>
  Package \<open>encoding/json\<close> as the SDK uses it: the lexer, the grammar as the token
  state machine of \<open>json.Decoder.Token\<close> with an explicit stack of open containers,
  and on top of it \<open>json.Unmarshal\<close> into an \<open>any\<close>.  Every function is total without
  fuel: the lexer consumes bytes, the machine consumes tokens.
\<close>

datatype jtoken = TObjOpen | TObjClose | TArrOpen | TArrClose | TColon | TComma
  | TString string | TNumber string | TTrue | TFalse | TNull

section \<open>Strings\<close>

definition encode_rune :: "nat \<Rightarrow> string" where
  "encode_rune r =
     (if r < 128 then [char_of r]
      else if r < 2048 then [char_of (192 + r div 64), char_of (128 + r mod 64)]
      else if (55296 \<le> r \<and> r \<le> 57343) \<or> 1114111 < r then [char_of (239::nat), char_of (191::nat), char_of (189::nat)]
      else if r < 65536 then
        [char_of (224 + r div 4096), char_of (128 + r div 64 mod 64), char_of (128 + r mod 64)]
      else [char_of (240 + r div 262144), char_of (128 + r div 4096 mod 64),
            char_of (128 + r div 64 mod 64), char_of (128 + r mod 64)])"

definition is_hex :: "char \<Rightarrow> bool" where
  "is_hex c \<longleftrightarrow> is_digit c \<or> is_hex_letter c"

text \<open>Four hexadecimal digits after a backslash-u.\<close>

definition hex4 :: "string \<Rightarrow> nat option" where
  "hex4 s = (if 4 \<le> length s \<and> list_all is_hex (take 4 s)
             then Some (foldl (\<lambda>n c. n * 16 + hex_val c) 0 (take 4 s)) else None)"

text \<open>
  \<open>unquote\<close>: the escape after a backslash, giving the bytes it stands for and the
  rest of the input.  A surrogate pair is one rune; a lone surrogate is U+FFFD.
\<close>

definition simple_escape :: "char \<Rightarrow> char option" where
  "simple_escape c =
     (if c = CHR 0x22 \<or> c = CHR 0x5C \<or> c = CHR ''/'' then Some c
      else if c = CHR ''b'' then Some (CHR 0x08) else if c = CHR ''f'' then Some (CHR 0x0C)
      else if c = CHR ''n'' then Some (CHR 0x0A) else if c = CHR ''r'' then Some (CHR 0x0D)
      else if c = CHR ''t'' then Some (CHR 0x09) else None)"

definition unescape_u :: "string \<Rightarrow> (string \<times> string) option" where
  "unescape_u s = (case hex4 s of None \<Rightarrow> None
     | Some r \<Rightarrow>
        (let rest = drop 4 s in
         if 55296 \<le> r \<and> r \<le> 57343 then
           (case (if take 2 rest = [CHR 0x5C, CHR ''u''] then hex4 (drop 2 rest) else None) of
              Some r2 \<Rightarrow>
                (if r \<le> 56319 \<and> 56320 \<le> r2 \<and> r2 \<le> 57343
                 then Some (encode_rune ((r - 55296) * 1024 + (r2 - 56320) + 65536), drop 6 rest)
                 else Some (encode_rune rune_error, rest))
            | None \<Rightarrow> Some (encode_rune rune_error, rest))
         else Some (encode_rune r, rest)))"

definition unescape :: "string \<Rightarrow> (string \<times> string) option" where
  "unescape s = (case s of [] \<Rightarrow> None
     | c # t \<Rightarrow> (case simple_escape c of
          Some e \<Rightarrow> Some ([e], t)
        | None \<Rightarrow> (if c = CHR ''u'' then unescape_u t else None)))"

lemma unescape_length: "unescape s = Some (b, t) \<Longrightarrow> length t < length s"
  by (auto simp: unescape_def unescape_u_def Let_def split: list.splits option.splits if_splits)

text \<open>
  The body of a string up to the closing quote.  Control bytes are errors; an invalid
  UTF-8 byte becomes U+FFFD.
\<close>

function scan_string :: "string \<Rightarrow> (string \<times> string) option" where
  "scan_string [] = None"
| "scan_string (c # s) =
     (if c = CHR 0x22 then Some ([], s)
      else if c = CHR 0x5C then
        (case unescape s of None \<Rightarrow> None
         | Some (b, t) \<Rightarrow> map_option (\<lambda>(u, r). (b @ u, r)) (scan_string t))
      else if byte_val c < 32 then None
      else let w = snd (decode_rune (c # s)); b = (if decode_rune (c # s) = (rune_error, 1)
                 then encode_rune rune_error else take w (c # s))
           in map_option (\<lambda>(u, r). (b @ u, r)) (scan_string (drop w (c # s))))"
  by pat_completeness auto
termination
  by (relation "measure length")
    (auto intro!: diff_less decode_rune_width_pos dest: unescape_length
      simp del: decode_rune.simps simp flip: length_Cons)

declare scan_string.simps(2) [simp del]

lemma scan_string_length: "scan_string s = Some (u, r) \<Longrightarrow> length r < length s"
proof (induction s arbitrary: u r rule: scan_string.induct)
  case 1
  then show ?case by simp
next
  case (2 c s)
  let ?rest = "drop (snd (decode_rune (c # s))) (c # s)"
  have "0 < snd (decode_rune (c # s))" by (rule decode_rune_width_pos) simp
  then have w: "length ?rest \<le> length s" by simp
  consider (quote) "c = CHR 0x22" | (escape) "c \<noteq> CHR 0x22" "c = CHR 0x5C"
    | (control) "c \<noteq> CHR 0x22" "c \<noteq> CHR 0x5C" "byte_val c < 32"
    | (rune) "c \<noteq> CHR 0x22" "c \<noteq> CHR 0x5C" "\<not> byte_val c < 32" by blast
  then show ?case
  proof cases
    case quote
    with "2.prems" show ?thesis by (simp add: scan_string.simps(2))
  next
    case escape
    with "2.prems" obtain b t v where t: "unescape s = Some (b, t)" "scan_string t = Some (v, r)"
      by (auto simp: scan_string.simps(2) split: option.splits)
    from "2.IH"(1) [OF escape t(1) refl t(2)] unescape_length [OF t(1)] show ?thesis by simp
  next
    case control
    with "2.prems" show ?thesis by (simp add: scan_string.simps(2))
  next
    case rune
    with "2.prems" obtain v where v: "scan_string ?rest = Some (v, r)"
      by (auto simp: scan_string.simps(2) [of c s] Let_def simp del: decode_rune.simps)
    from "2.IH"(2) [OF rune refl refl v] w show ?thesis by simp
  qed
qed

section \<open>Numbers\<close>

definition scan_digits :: "string \<Rightarrow> string \<times> string" where
  "scan_digits s = (takeWhile is_digit s, dropWhile is_digit s)"

text \<open>The longest number of the JSON grammar at the front of the input.\<close>

definition scan_int :: "string \<Rightarrow> (string \<times> string) option" where
  "scan_int s = (case s of [] \<Rightarrow> None
     | c # t \<Rightarrow> (if c = CHR ''0'' then Some ([c], t)
                else if is_digit c then Some (scan_digits s) else None))"

definition scan_frac :: "string \<Rightarrow> (string \<times> string) option" where
  "scan_frac s = (case s of
       c # t \<Rightarrow> (if c = CHR ''.'' then
                   (let (d, r) = scan_digits t in if d = [] then None else Some (c # d, r))
                 else Some ([], s))
     | [] \<Rightarrow> Some ([], []))"

definition scan_exp :: "string \<Rightarrow> (string \<times> string) option" where
  "scan_exp s = (case s of
       c # t \<Rightarrow> (if c = CHR ''e'' \<or> c = CHR ''E'' then
                   (let sg = (case t of x # _ \<Rightarrow> (if x = CHR ''+'' \<or> x = CHR ''-'' then [x] else []) | [] \<Rightarrow> []);
                        (d, r) = scan_digits (drop (length sg) t)
                    in if d = [] then None else Some (c # sg @ d, r))
                 else Some ([], s))
     | [] \<Rightarrow> Some ([], []))"

definition scan_number :: "string \<Rightarrow> (string \<times> string) option" where
  "scan_number s =
     (let sg = (case s of c # _ \<Rightarrow> (if c = CHR ''-'' then [c] else []) | [] \<Rightarrow> []) in
      case scan_int (drop (length sg) s) of None \<Rightarrow> None
      | Some (i, r1) \<Rightarrow> (case scan_frac r1 of None \<Rightarrow> None
        | Some (f, r2) \<Rightarrow> (case scan_exp r2 of None \<Rightarrow> None
          | Some (e, r3) \<Rightarrow> Some (sg @ i @ f @ e, r3))))"

lemma length_dropWhile_le_list: "length (dropWhile P xs) \<le> length xs"
  by (rule length_dropWhile_le)

lemma scan_int_length: "scan_int s = Some (i, r) \<Longrightarrow> length r < length s"
  by (auto simp: scan_int_def scan_digits_def split: list.splits if_splits
      intro: le_less_trans [OF length_dropWhile_le])

lemma scan_frac_length: "scan_frac s = Some (f, r) \<Longrightarrow> length r \<le> length s"
  by (auto simp: scan_frac_def scan_digits_def Let_def split: list.splits if_splits
      intro: le_trans [OF length_dropWhile_le])

lemma scan_exp_length: "scan_exp s = Some (f, r) \<Longrightarrow> length r \<le> length s"
  by (auto simp: scan_exp_def scan_digits_def Let_def split: list.splits if_splits
      intro: le_trans [OF length_dropWhile_le])

lemma scan_number_length: "scan_number s = Some (n, r) \<Longrightarrow> length r < length s"
  by (auto simp: scan_number_def Let_def split: option.splits list.splits if_splits
      dest!: scan_int_length scan_frac_length scan_exp_length)

section \<open>The lexer\<close>

definition is_json_space :: "char \<Rightarrow> bool" where
  "is_json_space c \<longleftrightarrow> c = CHR '' '' \<or> c = CHR 0x09 \<or> c = CHR 0x0A \<or> c = CHR 0x0D"

definition punctuation :: "char \<Rightarrow> jtoken option" where
  "punctuation c =
     (if c = CHR 0x7B then Some TObjOpen else if c = CHR 0x7D then Some TObjClose
      else if c = CHR 0x5B then Some TArrOpen else if c = CHR 0x5D then Some TArrClose
      else if c = CHR '':'' then Some TColon else if c = CHR '','' then Some TComma else None)"

definition keyword_token :: "string \<Rightarrow> (jtoken \<times> nat) option" where
  "keyword_token s =
     (if has_prefix s ''true'' then Some (TTrue, 4)
      else if has_prefix s ''false'' then Some (TFalse, 5)
      else if has_prefix s ''null'' then Some (TNull, 4) else None)"

lemma keyword_token_pos: "keyword_token s = Some (t, n) \<Longrightarrow> 0 < n"
  by (auto simp: keyword_token_def split: if_splits)

function lex :: "string \<Rightarrow> jtoken list option" where
  "lex [] = Some []"
| "lex (c # s) =
     (if is_json_space c then lex s
      else case punctuation c of
        Some t \<Rightarrow> map_option ((#) t) (lex s)
      | None \<Rightarrow>
         (if c = CHR 0x22 then
            (case scan_string s of None \<Rightarrow> None
             | Some (u, r) \<Rightarrow> map_option ((#) (TString u)) (lex r))
          else if c = CHR ''-'' \<or> is_digit c then
            (case scan_number (c # s) of None \<Rightarrow> None
             | Some (n, r) \<Rightarrow> map_option ((#) (TNumber n)) (lex r))
          else (case keyword_token (c # s) of None \<Rightarrow> None
                | Some (t, n) \<Rightarrow> map_option ((#) t) (lex (drop n (c # s))))))"
  by pat_completeness auto
termination
  by (relation "measure length")
    (auto dest: scan_string_length scan_number_length keyword_token_pos)

declare lex.simps(2) [simp del]

section \<open>The grammar: a machine over tokens\<close>

text \<open>
  The state says which tokens may come next; the stack holds the containers being
  built, innermost first.  An object frame with a pending key waits for its value.
\<close>

datatype jstate = SValue | SArrStart | SArrComma | SObjStart | SObjKey | SObjColon | SObjComma
  | SDone gvalue | SError

datatype jframe = FArr "gvalue list" | FObj object | FObjKey object string

text \<open>
  \<open>rules\<close> are the two points where the SDK's two decoders differ: whether a key may be
  repeated, how a number is converted (\<open>None\<close>: an error), and the nesting bound.
\<close>

record json_rules =
  reject_duplicates :: bool
  number_value :: "string \<Rightarrow> gvalue option"
  max_depth :: "nat option"

definition complete :: "gvalue \<Rightarrow> jframe list \<Rightarrow> jstate \<times> jframe list" where
  "complete v stk = (case stk of
       [] \<Rightarrow> (SDone v, [])
     | FArr es # r \<Rightarrow> (SArrComma, FArr (es @ [v]) # r)
     | FObjKey m k # r \<Rightarrow> (SObjComma, FObj (obj_put k v m) # r)
     | FObj m # r \<Rightarrow> (SError, stk))"

definition too_deep :: "json_rules \<Rightarrow> jframe list \<Rightarrow> bool" where
  "too_deep R stk = (case max_depth R of None \<Rightarrow> False | Some d \<Rightarrow> d \<le> length stk)"

definition begin_value :: "json_rules \<Rightarrow> jtoken \<Rightarrow> jframe list \<Rightarrow> jstate \<times> jframe list" where
  "begin_value R t stk = (case t of
       TObjOpen \<Rightarrow> (if too_deep R stk then (SError, stk) else (SObjStart, FObj [] # stk))
     | TArrOpen \<Rightarrow> (if too_deep R stk then (SError, stk) else (SArrStart, FArr [] # stk))
     | TString s \<Rightarrow> complete (GString s) stk
     | TNumber n \<Rightarrow> (case number_value R n of None \<Rightarrow> (SError, stk) | Some v \<Rightarrow> complete v stk)
     | TTrue \<Rightarrow> complete (GBool True) stk
     | TFalse \<Rightarrow> complete (GBool False) stk
     | TNull \<Rightarrow> complete GNil stk
     | _ \<Rightarrow> (SError, stk))"

definition member_key :: "json_rules \<Rightarrow> jtoken \<Rightarrow> jframe list \<Rightarrow> jstate \<times> jframe list" where
  "member_key R t stk = (case (t, stk) of
       (TString k, FObj m # r) \<Rightarrow>
         (if reject_duplicates R \<and> obj_has m k then (SError, stk) else (SObjColon, FObjKey m k # r))
     | _ \<Rightarrow> (SError, stk))"

definition close_container :: "jframe list \<Rightarrow> jstate \<times> jframe list" where
  "close_container stk = (case stk of
       FArr es # r \<Rightarrow> complete (GSlice es) r
     | FObj m # r \<Rightarrow> complete (GMap m) r
     | _ \<Rightarrow> (SError, stk))"

definition feed :: "json_rules \<Rightarrow> jtoken \<Rightarrow> jstate \<times> jframe list \<Rightarrow> jstate \<times> jframe list" where
  "feed R t st = (case fst st of
       SValue \<Rightarrow> begin_value R t (snd st)
     | SArrStart \<Rightarrow> (if t = TArrClose then close_container (snd st) else begin_value R t (snd st))
     | SArrComma \<Rightarrow>
         (if t = TComma then (SValue, snd st)
          else if t = TArrClose then close_container (snd st) else (SError, snd st))
     | SObjStart \<Rightarrow> (if t = TObjClose then close_container (snd st) else member_key R t (snd st))
     | SObjKey \<Rightarrow> member_key R t (snd st)
     | SObjColon \<Rightarrow> (if t = TColon then (SValue, snd st) else (SError, snd st))
     | SObjComma \<Rightarrow>
         (if t = TComma then (SObjKey, snd st)
          else if t = TObjClose then close_container (snd st) else (SError, snd st))
     | SDone v \<Rightarrow> (SError, snd st) \<comment> \<open>a second top-level value\<close>
     | SError \<Rightarrow> st)"

definition parse_tokens :: "json_rules \<Rightarrow> jtoken list \<Rightarrow> gvalue option" where
  "parse_tokens R ts = (case fst (fold (feed R) ts (SValue, [])) of SDone v \<Rightarrow> Some v | _ \<Rightarrow> None)"

definition parse_json :: "json_rules \<Rightarrow> string \<Rightarrow> gvalue option" where
  "parse_json R s = (case lex s of None \<Rightarrow> None | Some ts \<Rightarrow> parse_tokens R ts)"

text \<open>\<open>json.Unmarshal(data, &any)\<close>: numbers are float64, the last duplicate key wins.\<close>

definition unmarshal_rules :: json_rules where
  "unmarshal_rules = \<lparr>reject_duplicates = False,
     number_value = (\<lambda>n. map_option GFloat (parse_float n)), max_depth = Some 10000\<rparr>"

definition json_unmarshal :: "string \<Rightarrow> gvalue option" where
  "json_unmarshal s = parse_json unmarshal_rules s"

section \<open>Well-formedness of decoded values\<close>

text \<open>No object of a decoded value has two members with one name.\<close>

fun distinct_keys :: "gvalue \<Rightarrow> bool" where
  "distinct_keys (GMap m) = (distinct (map fst m) \<and> list_all (\<lambda>(k, v). distinct_keys v) m)"
| "distinct_keys (GSlice xs) = list_all distinct_keys xs"
| "distinct_keys _ = True"

fun frame_ok :: "jframe \<Rightarrow> bool" where
  "frame_ok (FArr es) = list_all distinct_keys es"
| "frame_ok (FObj m) = distinct_keys (GMap m)"
| "frame_ok (FObjKey m k) = distinct_keys (GMap m)"

definition machine_ok :: "jstate \<times> jframe list \<Rightarrow> bool" where
  "machine_ok st \<longleftrightarrow> list_all frame_ok (snd st) \<and> (\<forall>v. fst st = SDone v \<longrightarrow> distinct_keys v)"

definition scalar_rules :: "json_rules \<Rightarrow> bool" where
  "scalar_rules R \<longleftrightarrow> (\<forall>n v. number_value R n = Some v \<longrightarrow> distinct_keys v)"

lemma distinct_keys_put:
  assumes "distinct_keys (GMap m)" "distinct_keys v"
  shows "distinct_keys (GMap (obj_put k v m))"
proof -
  have "distinct (map fst (obj_put k v m))" using assms(1) by (simp add: distinct_update)
  moreover have "list_all (\<lambda>(k, v). distinct_keys v) (obj_put k v m)"
    using assms by (induction m) auto
  ultimately show ?thesis by simp
qed

lemma machine_ok_simps [simp]:
  "machine_ok (SDone v, stk) \<longleftrightarrow> list_all frame_ok stk \<and> distinct_keys v"
  "machine_ok (SError, stk) \<longleftrightarrow> list_all frame_ok stk"
  "machine_ok (SValue, stk) \<longleftrightarrow> list_all frame_ok stk"
  "machine_ok (SArrStart, stk) \<longleftrightarrow> list_all frame_ok stk"
  "machine_ok (SArrComma, stk) \<longleftrightarrow> list_all frame_ok stk"
  "machine_ok (SObjStart, stk) \<longleftrightarrow> list_all frame_ok stk"
  "machine_ok (SObjKey, stk) \<longleftrightarrow> list_all frame_ok stk"
  "machine_ok (SObjColon, stk) \<longleftrightarrow> list_all frame_ok stk"
  "machine_ok (SObjComma, stk) \<longleftrightarrow> list_all frame_ok stk"
  by (auto simp: machine_ok_def)

lemma complete_ok:
  "distinct_keys v \<Longrightarrow> list_all frame_ok stk \<Longrightarrow> machine_ok (complete v stk)"
  by (cases stk rule: list.exhaust; cases "hd stk")
    (auto simp: complete_def distinct_keys_put simp del: distinct_keys.simps(1))

lemma close_ok: "list_all frame_ok stk \<Longrightarrow> machine_ok (close_container stk)"
  by (cases stk rule: list.exhaust; cases "hd stk")
    (auto simp: close_container_def complete_ok simp del: distinct_keys.simps(1))

lemma begin_value_ok:
  "scalar_rules R \<Longrightarrow> list_all frame_ok stk \<Longrightarrow> machine_ok (begin_value R t stk)"
  by (cases t) (auto simp: begin_value_def scalar_rules_def complete_ok
      split: option.splits)

lemma member_key_ok: "list_all frame_ok stk \<Longrightarrow> machine_ok (member_key R t stk)"
  by (cases t; cases stk rule: list.exhaust; cases "hd stk")
    (auto simp: member_key_def)

lemma feed_ok:
  assumes "scalar_rules R" "machine_ok st"
  shows "machine_ok (feed R t st)"
proof -
  have stk: "list_all frame_ok (snd st)" using assms(2) by (simp add: machine_ok_def)
  show ?thesis
    using stk assms(1)
    by (cases "fst st") (auto simp: feed_def begin_value_ok close_ok member_key_ok assms(2))
qed

lemma parse_tokens_distinct:
  assumes "scalar_rules R" "parse_tokens R ts = Some v"
  shows "distinct_keys v"
proof -
  have "machine_ok (fold (feed R) us st)" if "machine_ok st" for us st
    using that by (induction us arbitrary: st) (auto simp: feed_ok assms(1))
  from this [of "(SValue, [])" ts] assms(2) show ?thesis
    by (auto simp: parse_tokens_def machine_ok_def split: jstate.splits)
qed

lemma parse_json_distinct:
  "scalar_rules R \<Longrightarrow> parse_json R s = Some v \<Longrightarrow> distinct_keys v"
  by (auto simp: parse_json_def parse_tokens_distinct split: option.splits)

lemma unmarshal_scalar_rules: "scalar_rules unmarshal_rules"
  by (auto simp: scalar_rules_def unmarshal_rules_def)

lemma json_unmarshal_distinct: "json_unmarshal s = Some v \<Longrightarrow> distinct_keys v"
  unfolding json_unmarshal_def by (rule parse_json_distinct [OF unmarshal_scalar_rules])

text \<open>An object of a strict decode never had a name twice: every key was fresh when it was read.\<close>

lemma member_key_strict:
  "reject_duplicates R \<Longrightarrow> member_key R (TString k) (FObj m # r) \<noteq> (SError, FObj m # r)
   \<Longrightarrow> \<not> obj_has m k"
  by (simp add: member_key_def split: if_splits)

end
