(* ===== verification/Retry_Policy.thy ===== *)
theory Retry_Policy
  imports Go_Float
begin

text \<open>
  \<open>retry_policy.go\<close>, the policy kernel: pure decisions on a status code and a
  header set.  \<open>should_retry_verdict\<close> is nil when the gateway said nothing.
  The interface the transport engine relies on is the locale \<open>retry_policy\<close>:
  whatever may move to another domain may be retried, and only the gateway statuses
  502, 503 and 504 may move.
\<close>

definition should_retry_verdict :: "headers \<Rightarrow> bool option" where
  "should_retry_verdict hs =
     (let raw = to_lower (trim_space (header_get hs ''X-Should-Retry'')) in
      if raw = ''true'' then Some True
      else if raw = ''false'' then Some False
      else None)"

definition max_retry_after_seconds :: rat where
  "max_retry_after_seconds = 60"

definition bounded_retry_after :: "float64 \<Rightarrow> float64 option" where
  "bounded_retry_after seconds =
     (if is_nan seconds \<or> is_inf seconds \<or> flt seconds (Fin 0) then None
      else Some (math_min seconds (Fin max_retry_after_seconds)))"

text \<open>The fallback of \<open>retryAfterSeconds\<close>: the \<open>Retry-After\<close> header in whole seconds.\<close>

definition retry_after_plain :: "headers \<Rightarrow> float64 option" where
  "retry_after_plain hs =
     (let raw = header_get hs ''Retry-After'' in
      if raw = [] then None
      else case parse_float (trim_space raw) of
          None \<Rightarrow> None
        | Some parsed \<Rightarrow> bounded_retry_after parsed)"

definition retry_after_seconds :: "headers \<Rightarrow> float64 option" where
  "retry_after_seconds hs =
     (let raw_ms = trim_space (header_get hs ''Retry-After-Ms'') in
      if raw_ms = [] then retry_after_plain hs
      else case parse_float raw_ms of
          None \<Rightarrow> retry_after_plain hs
        | Some millis \<Rightarrow>
            (case bounded_retry_after (fdiv_const millis 1000) of
               Some bounded \<Rightarrow> Some bounded
             | None \<Rightarrow> retry_after_plain hs))"

definition retryable :: "int \<Rightarrow> headers \<Rightarrow> bool" where
  "retryable status hs =
     (case should_retry_verdict hs of
        Some verdict \<Rightarrow> verdict
      | None \<Rightarrow> status = 429 \<or> 500 \<le> status)"

definition regional_failoverable :: "int \<Rightarrow> headers \<Rightarrow> bool" where
  "regional_failoverable status hs =
     (if should_retry_verdict hs = Some False then False
      else status = 502 \<or> status = 503 \<or> status = 504)"

section \<open>The policy as an interface\<close>

locale retry_policy =
  fixes may_retry :: "int \<Rightarrow> headers \<Rightarrow> bool"
    and may_move :: "int \<Rightarrow> headers \<Rightarrow> bool"
  assumes move_implies_retry: "may_move s h \<Longrightarrow> may_retry s h"
    and move_only_gateway: "may_move s h \<Longrightarrow> s \<in> {502, 503, 504}"
begin

text \<open>
  A hop is what one attempt that is tried again does to the candidate index: it stays, or
  it advances by one.  After a response both need the response's permission; after a
  transport failure (\<open>None\<close>) the caller has decided that a replay is safe.
\<close>

fun justified_hop :: "nat \<times> (int \<times> headers) option \<times> nat \<Rightarrow> bool" where
  "justified_hop (i, None, j) = (j = i \<or> j = Suc i)"
| "justified_hop (i, Some (s, h), j) = (may_retry s h \<and> (j = i \<or> (j = Suc i \<and> may_move s h)))"

fun chained :: "nat \<Rightarrow> (nat \<times> (int \<times> headers) option \<times> nat) list \<Rightarrow> nat \<Rightarrow> bool" where
  "chained i [] k = (k = i)"
| "chained i ((a, r, b) # xs) k = (a = i \<and> justified_hop (a, r, b) \<and> chained b xs k)"

lemma server_error_stays: "justified_hop (i, Some (500, h), j) \<Longrightarrow> j = i"
  using move_only_gateway [of 500 h] by auto

lemma hop_status: "justified_hop (i, Some (s, h), j) \<Longrightarrow> j \<noteq> i \<Longrightarrow> s \<in> {502, 503, 504}"
  using move_only_gateway [of s h] by auto

lemma chained_append: "chained i xs k \<Longrightarrow> justified_hop (k, r, j) \<Longrightarrow> chained i (xs @ [(k, r, j)]) j"
  by (induction i xs k rule: chained.induct) auto

text \<open>The final index counts the moves, and every move by a response is a gateway status.\<close>

lemma chained_moves:
  "chained i xs k \<Longrightarrow>
     k = i + length (filter (\<lambda>(a, r, b). b \<noteq> a) xs) \<and>
     (\<forall>a s h b. (a, Some (s, h), b) \<in> set xs \<and> b \<noteq> a \<longrightarrow> s \<in> {502, 503, 504})"
proof (induction i xs k rule: chained.induct)
  case (2 i a r b xs k)
  then show ?case
    by (cases r) (auto dest: move_only_gateway)
qed simp

lemma chained_retries: "chained i xs k \<Longrightarrow> (a, Some (s, h), b) \<in> set xs \<Longrightarrow> may_retry s h"
  by (induction i xs k rule: chained.induct) auto

end

interpretation sdk_policy: retry_policy retryable regional_failoverable
  by unfold_locales
    (auto simp: retryable_def regional_failoverable_def split: option.splits if_splits)

section \<open>Properties\<close>

lemma retryable_verdict [simp]: "should_retry_verdict hs = Some v \<Longrightarrow> retryable s hs = v"
  by (simp add: retryable_def)

lemma verdict_of_header:
  "should_retry_verdict hs = Some True \<longleftrightarrow> to_lower (trim_space (header_get hs ''X-Should-Retry'')) = ''true''"
  "should_retry_verdict hs = Some False \<longleftrightarrow> to_lower (trim_space (header_get hs ''X-Should-Retry'')) = ''false''"
  by (auto simp: should_retry_verdict_def Let_def)

lemma bounded_retry_after_cases:
  "bounded_retry_after x = Some y \<longleftrightarrow> (\<exists>r. x = Fin r \<and> 0 \<le> r \<and> y = Fin (min r 60))"
  by (cases x)
    (auto simp: bounded_retry_after_def is_nan_def is_inf_def math_min_def max_retry_after_seconds_def)

lemma retry_after_seconds_source:
  "retry_after_seconds hs = Some y \<Longrightarrow> \<exists>x. bounded_retry_after x = Some y"
  by (auto simp: retry_after_seconds_def retry_after_plain_def Let_def split: if_splits option.splits)

text \<open>
  Whatever the gateway's headers say, a status that may move the call to another
  domain may also be retried, it is one of 502, 503 and 504 (so a 500 never moves),
  and an explicit x-should-retry verdict overrides the status in both directions:
  false forbids the retry and the move, true forces the retry.
\<close>

theorem failover_within_retry:
  "(regional_failoverable s hs \<longrightarrow> retryable s hs \<and> s \<in> {502, 503, 504}) \<and>
   (should_retry_verdict hs = Some False \<longrightarrow> \<not> retryable s hs \<and> \<not> regional_failoverable s hs) \<and>
   (should_retry_verdict hs = Some True \<longrightarrow> retryable s hs) \<and>
   (should_retry_verdict hs = None \<longrightarrow> (retryable s hs \<longleftrightarrow> s = 429 \<or> 500 \<le> s))"
  using sdk_policy.move_implies_retry [of s hs] sdk_policy.move_only_gateway [of s hs]
  by (auto simp: retryable_def regional_failoverable_def)

definition gateway_503 :: headers where
  "gateway_503 = header_set ''x-should-retry'' '' TRUE '' (header_set ''retry-after'' ''7'' no_headers)"

lemma gateway_503_verdict: "should_retry_verdict gateway_503 = Some True"
  by code_simp

theorem failover_within_retry_witness:
  "regional_failoverable 503 gateway_503 \<and> retryable 503 gateway_503 \<and>
   should_retry_verdict gateway_503 = Some True"
  using failover_within_retry [of 503 gateway_503] gateway_503_verdict
  by (simp add: regional_failoverable_def)

text \<open>
  A Retry-After hint is untrusted input.  Whatever the headers contain (NaN,
  infinities, negative or huge numbers, hexadecimal floats), the hint the SDK uses
  is a finite number of seconds between 0 and 60.
\<close>

theorem retry_after_bounded:
  assumes "retry_after_seconds hs = Some y"
  shows "\<exists>r. y = Fin r \<and> 0 \<le> r \<and> r \<le> 60"
  using retry_after_seconds_source [OF assms] by (auto simp: bounded_retry_after_cases)

lemma gateway_503_hint: "retry_after_seconds gateway_503 = Some (Fin 7)"
proof -
  have "header_get gateway_503 ''Retry-After-Ms'' = []" "header_get gateway_503 ''Retry-After'' = ''7''"
    by code_simp+
  moreover have "trim_space [] = []" "trim_space ''7'' = ''7''" by code_simp+
  moreover have "parse_float ''7'' = Some (Fin 7)"
  proof -
    have "read_float ''7'' = Some 7"
      by (simp add: read_float_def strip_sign_def base_prefix_def lower_byte_def is_upper_def
          is_digit_def hex_val_def digit_val_def Let_def)
    then show ?thesis
      using round64_of_int [of 7]
      by (simp add: parse_float_def strip_sign_def lower_byte_def is_upper_def Let_def)
  qed
  ultimately show ?thesis
    by (simp add: retry_after_seconds_def retry_after_plain_def Let_def bounded_retry_after_cases)
qed

theorem retry_after_bounded_witness:
  "retry_after_seconds gateway_503 = Some (Fin 7) \<and> (\<exists>r. Fin 7 = Fin r \<and> 0 \<le> r \<and> r \<le> 60)"
  using retry_after_bounded [OF gateway_503_hint] gateway_503_hint by simp

end
