(* ===== verification/Go_Error.thy ===== *)
theory Go_Error
  imports Go_Json Retry_Policy
begin

text \<open>
  \<open>errors.go\<close>: the typed errors of the SDK, the classification of a response by its
  status, the bounded flattening of transport errors and the decoding of a response.
  A Go \<open>error\<close> is a value of \<open>go_error\<close>: the standard library's sentinels and
  wrappers that the source tells apart, the SDK's own typed errors, and \<open>Named\<close> for
  every other concrete type, known by its package path and type name.
  The rendering of an error (\<open>fmt.Sprintf("%s", err)\<close>) may run a caller's code: it is the
  argument \<open>render\<close>, with \<open>None\<close> for a panic.
\<close>

section \<open>Error values\<close>

datatype sentinel = Io_EOF | Io_UnexpectedEOF | Ctx_Canceled | Ctx_DeadlineExceeded
  | Os_DeadlineExceeded | Http_SchemeMismatch | Open_Timeout | Stream_Idle_Timeout

datatype errno = ECONNREFUSED | ECONNRESET | EAGAIN | ETIMEDOUT | Errno_Other nat

record tr_error =
  status_code :: int
  message :: string
  payload :: gvalue
  layer :: string
  source :: string
  provider :: string
  request_id :: string

datatype error_kind = Plain_Error | BadRequest_Error | Authentication_Error | PermissionDenied_Error
  | NotFound_Error | EndpointNotSupported_Error | RateLimit_Error "float64 option" | Internal_Error

datatype pointer_type = Ptr_UrlError | Ptr_OpError | Ptr_DNSError | Ptr_DNSConfigError | Ptr_PathError
  | Ptr_LinkError | Ptr_SyscallError | Ptr_CertificateVerificationError | Ptr_Other

datatype go_error =
    Sentinel sentinel
  | Errno errno
  | UrlError string string "go_error option" \<comment> \<open>operation, URL, wrapped error\<close>
  | OpError string "go_error option" \<comment> \<open>operation, wrapped error\<close>
  | DNSError bool "go_error option" \<comment> \<open>whether it is a timeout, wrapped error\<close>
  | DNSConfigError "go_error option"
  | PathError "go_error option"
  | LinkError "go_error option"
  | SyscallError "go_error option"
  | CertificateVerificationError "go_error option"
  | RecordHeaderError | AlertError nat | UnknownAuthorityError | HostnameError | CertificateInvalidError
  | NilPointer pointer_type \<comment> \<open>a typed nil pointer in a non-nil error\<close>
  | Named string string string "sentinel list" unwrapper
      \<comment> \<open>package path, type name, stored text, sentinels its \<open>Is\<close> method accepts, \<open>Unwrap\<close>\<close>
  | SdkError error_kind tr_error
and unwrapper = NoUnwrap | UnwrapOne "go_error option" | UnwrapMany "go_error option list"

text \<open>
  \<open>errors.Is\<close> against a sentinel: the whole tree below the error, depth first.  \<open>Unwrap\<close> of
  a typed nil pointer dereferences it: \<open>None\<close> is that panic.
\<close>

fun errors_is :: "sentinel \<Rightarrow> go_error \<Rightarrow> bool option"
  and errors_is_child :: "sentinel \<Rightarrow> go_error option \<Rightarrow> bool option"
  and errors_is_any :: "sentinel \<Rightarrow> go_error option list \<Rightarrow> bool option" where
  "errors_is t (Sentinel s) = Some (s = t)"
| "errors_is t (UrlError _ _ e) = errors_is_child t e"
| "errors_is t (OpError _ e) = errors_is_child t e"
| "errors_is t (DNSError _ e) = errors_is_child t e"
| "errors_is t (DNSConfigError e) = errors_is_child t e"
| "errors_is t (PathError e) = errors_is_child t e"
| "errors_is t (LinkError e) = errors_is_child t e"
| "errors_is t (SyscallError e) = errors_is_child t e"
| "errors_is t (CertificateVerificationError e) = errors_is_child t e"
| "errors_is t (NilPointer _) = None"
| "errors_is t (Named _ _ _ hooks u) =
     (if t \<in> set hooks then Some True
      else case u of NoUnwrap \<Rightarrow> Some False
           | UnwrapOne e \<Rightarrow> errors_is_child t e
           | UnwrapMany es \<Rightarrow> errors_is_any t es)"
| "errors_is t _ = Some False"
| "errors_is_child t None = Some False"
| "errors_is_child t (Some e) = errors_is t e"
| "errors_is_any t [] = Some False"
| "errors_is_any t (e # es) =
     (case errors_is_child t e of None \<Rightarrow> None | Some True \<Rightarrow> Some True | Some False \<Rightarrow> errors_is_any t es)"

section \<open>Classification\<close>

definition error_string :: "gvalue \<Rightarrow> string \<Rightarrow> string" where
  "error_string p key =
     (case as_map p of None \<Rightarrow> []
      | Some outer \<Rightarrow>
         (let detail = (case as_map (obj_get outer ''error'') of Some nested \<Rightarrow> nested | None \<Rightarrow> outer)
          in string_or_empty (obj_get detail key)))"

definition classify_kind :: "int \<Rightarrow> headers \<Rightarrow> error_kind" where
  "classify_kind status hs =
     (if status = 401 then Authentication_Error
      else if status = 403 then PermissionDenied_Error
      else if status = 404 then NotFound_Error
      else if status = 429 then RateLimit_Error (retry_after_seconds hs)
      else if status = 501 then EndpointNotSupported_Error
      else if 400 \<le> status \<and> status < 500 then BadRequest_Error
      else if 500 \<le> status then Internal_Error
      else Plain_Error)"

definition classify_error :: "int \<Rightarrow> string \<Rightarrow> gvalue \<Rightarrow> headers \<Rightarrow> go_error" where
  "classify_error status msg p hs =
     SdkError (classify_kind status hs)
       \<lparr>status_code = status,
        message = (if msg = [] then ''TrustedRouter error'' else msg),
        payload = p,
        layer = error_string p ''layer'',
        source = error_string p ''source'',
        provider = error_string p ''provider'',
        request_id = error_string p ''request_id''\<rparr>"

text \<open>\<open>errors.As\<close> into the base type \<open>*Error\<close>: every typed error unwraps to it.\<close>

definition base_error :: "go_error \<Rightarrow> tr_error option" where
  "base_error e = (case e of SdkError _ b \<Rightarrow> Some b | _ \<Rightarrow> None)"

section \<open>Bounded text\<close>

text \<open>
  \<open>truncateString\<close>: the loop looks at the last three byte positions before the limit for
  the start of the rune that straddles it; \<open>k\<close> is how many it has left.
\<close>

fun straddling_cut :: "string \<Rightarrow> nat \<Rightarrow> nat \<Rightarrow> nat \<Rightarrow> nat" where
  "straddling_cut s limit start 0 = limit"
| "straddling_cut s limit start (Suc k) =
     (if \<not> rune_start (s ! start)
      then (if start = 0 then limit else straddling_cut s limit (start - 1) k)
      else if limit < start + snd (decode_rune (drop start s)) then start
      else limit)"

definition truncate_string :: "string \<Rightarrow> nat \<Rightarrow> string" where
  "truncate_string s limit =
     (if length s \<le> limit then s
      else if limit = 0 then []
      else take (straddling_cut s limit (limit - 1) 3) s)"

definition transport_error_message_max_bytes :: nat where
  "transport_error_message_max_bytes = 2048"

definition transport_error_message_prefix :: string where
  "transport_error_message_prefix = ''TrustedRouter endpoint unavailable: ''"

definition safe_error_message :: "(go_error \<Rightarrow> string option) \<Rightarrow> go_error option \<Rightarrow> string" where
  "safe_error_message render err =
     (case err of None \<Rightarrow> ''unknown transport error''
      | Some e \<Rightarrow> (case render e of
            None \<Rightarrow> ''unprintable transport error''
          | Some text \<Rightarrow> truncate_string text transport_error_message_max_bytes))"

definition transport_retry_error :: "(go_error \<Rightarrow> string option) \<Rightarrow> go_error option \<Rightarrow> go_error" where
  "transport_retry_error render err =
     SdkError Internal_Error
       \<lparr>status_code = 503,
        message = truncate_string (transport_error_message_prefix @ safe_error_message render err)
                    transport_error_message_max_bytes,
        payload = GNil, layer = [], source = [], provider = [], request_id = []\<rparr>"

section \<open>Decoding a response\<close>

definition parse_json_payload :: "bytes \<Rightarrow> gvalue option" where
  "parse_json_payload body = (if body = [] then None else json_unmarshal body)"

text \<open>\<open>if v, ok := m[key]; ok && truthy(v) { return fmt.Sprint(v) }\<close>\<close>

definition truthy_text :: "(gvalue \<Rightarrow> string) \<Rightarrow> object \<Rightarrow> string \<Rightarrow> string option" where
  "truthy_text fmt_other m key =
     (case map_of m key of None \<Rightarrow> None
      | Some v \<Rightarrow> (if truthy v then Some (sprint fmt_other v) else None))"

definition error_message :: "(gvalue \<Rightarrow> string) \<Rightarrow> gvalue \<Rightarrow> string" where
  "error_message fmt_other p =
     (case as_map p of None \<Rightarrow> ''TrustedRouter error''
      | Some obj \<Rightarrow>
         (case (if obj_has obj ''error'' then as_map (obj_get obj ''error'') else None) of
            Some detail \<Rightarrow>
              (case truthy_text fmt_other detail ''message'' of
                 Some m \<Rightarrow> m
               | None \<Rightarrow> (case truthy_text fmt_other detail ''type'' of
                     Some t \<Rightarrow> t
                   | None \<Rightarrow> ''TrustedRouter error''))
          | None \<Rightarrow>
              (case truthy_text fmt_other obj ''message'' of
                 Some m \<Rightarrow> m
               | None \<Rightarrow> ''TrustedRouter error'')))"

text \<open>
  \<open>decodeResponse\<close>.  Its environment: what \<open>ctx.Err()\<close> says if the body cannot be read,
  the result of \<open>io.ReadAll\<close>, and the decoder of the caller's \<open>out\<close> (\<open>None\<close>: a nil \<open>out\<close>).
\<close>

datatype 'a decode_result = Decoded 'a | No_Output | Decode_Failed go_error | Decode_Panicked

definition response_failure :: "(gvalue \<Rightarrow> string) \<Rightarrow> int \<Rightarrow> headers \<Rightarrow> bytes \<Rightarrow> go_error" where
  "response_failure fmt_other status hs body =
     (case parse_json_payload body of
        None \<Rightarrow> classify_error status (truncate_string body 240) GNil hs
      | Some p \<Rightarrow> classify_error status (error_message fmt_other p) p hs)"

definition read_failure :: "(go_error \<Rightarrow> string option) \<Rightarrow> go_error option \<Rightarrow> go_error \<Rightarrow> 'a decode_result" where
  "read_failure render ctx_err err =
     (case ctx_err of Some ce \<Rightarrow> Decode_Failed ce
      | None \<Rightarrow>
         (case errors_is Ctx_Canceled err of
            None \<Rightarrow> Decode_Panicked
          | Some True \<Rightarrow> Decode_Failed (transport_retry_error render (Some err))
          | Some False \<Rightarrow>
             (case errors_is Ctx_DeadlineExceeded err of
                None \<Rightarrow> Decode_Panicked
              | Some True \<Rightarrow> Decode_Failed (transport_retry_error render (Some err))
              | Some False \<Rightarrow> Decode_Failed err)))"

definition decode_response ::
    "(go_error \<Rightarrow> string option) \<Rightarrow> (gvalue \<Rightarrow> string) \<Rightarrow> go_error option \<Rightarrow> bytes + go_error \<Rightarrow> int \<Rightarrow> headers
     \<Rightarrow> (bytes \<Rightarrow> go_error + 'a) option \<Rightarrow> 'a decode_result" where
  "decode_response render fmt_other ctx_err read_all status hs out =
     (case read_all of
        Inr err \<Rightarrow> read_failure render ctx_err err
      | Inl body \<Rightarrow>
         (if status < 200 \<or> 300 \<le> status then Decode_Failed (response_failure fmt_other status hs body)
          else case out of None \<Rightarrow> No_Output
             | Some unmarshal \<Rightarrow>
                (if body = [] then Decode_Failed (Sentinel Io_UnexpectedEOF)
                 else case unmarshal body of Inl e \<Rightarrow> Decode_Failed e | Inr v \<Rightarrow> Decoded v)))"

section \<open>Properties\<close>

lemma straddling_cut_le: "start < limit \<Longrightarrow> straddling_cut s limit start k \<le> limit"
  by (induction k arbitrary: start) auto

lemma straddling_cut_ge: "start < limit \<Longrightarrow> Suc start \<le> straddling_cut s limit start k + k"
proof (induction k arbitrary: start)
  case (Suc k)
  then have "start \<le> straddling_cut s limit (start - 1) k + k" if "0 < start"
    using Suc.IH [of "start - 1"] that by simp
  with Suc.prems show ?case by auto
qed simp

text \<open>\<open>b\<close> is the start of the last rune that begins before the limit.\<close>

lemma straddling_cut_value:
  assumes "rune_start (s ! b)" "\<forall>j. b < j \<and> j < limit \<longrightarrow> \<not> rune_start (s ! j)"
  shows "b \<le> start \<Longrightarrow> start < limit \<Longrightarrow> straddling_cut s limit start k =
     (if k \<le> start - b then limit else if limit < b + snd (decode_rune (drop b s)) then b else limit)"
proof (induction k arbitrary: start)
  case (Suc k)
  then show ?case
    using assms Suc.IH [of "start - 1"] by (cases "start = b") auto
qed simp

lemma truncate_keeps_utf8:
  assumes v: "utf8_valid s"
  shows "utf8_valid (truncate_string s limit)"
proof (cases "length s \<le> limit \<or> limit = 0")
  case True
  with v show ?thesis by (auto simp: truncate_string_def utf8_valid.simps [of "[]"])
next
  case False
  then have l: "limit - 1 < length s" "limit < length s" "0 < limit" by auto
  obtain b where b: "b \<le> limit - 1" "utf8_valid (take b s)" "utf8_valid (drop b s)" "rune_start (s ! b)"
    "limit - 1 < b + snd (decode_rune (drop b s))" "\<forall>j. b < j \<and> j \<le> limit - 1 \<longrightarrow> \<not> rune_start (s ! j)"
    using rune_cover [OF v l(1)] by blast
  let ?w = "snd (decode_rune (drop b s))" and ?cut = "straddling_cut s limit (limit - 1) 3"
  have "?w \<le> 4" by (rule decode_rune_width)
  moreover have "?cut = (if 3 \<le> limit - 1 - b then limit else if limit < b + ?w then b else limit)"
    using b l by (intro straddling_cut_value) auto
  ultimately have "?cut = b \<or> ?cut = limit \<and> limit = b + ?w"
    using b(1,5) l by (cases "3 \<le> limit - 1 - b"; cases "limit < b + ?w") simp_all
  then consider "?cut = b" | "?cut = limit" "limit = b + ?w" by blast
  then have "utf8_valid (take ?cut s)"
  proof cases
    case 2
    have "drop b s \<noteq> []" using b(1) l by auto
    with b(3) have "utf8_valid (drop limit s)" using utf8_valid_step [of "drop b s"] 2 by (simp add: add.commute)
    then have "rune_start (drop limit s ! 0)"
      using l utf8_valid_step [of "drop limit s"] decode_rune_starts [of "drop limit s"] by auto
    with l show ?thesis using utf8_split [OF v l(2)] 2 by simp
  qed (simp add: b)
  with False show ?thesis by (simp add: truncate_string_def)
qed

lemma truncate_string_length: "length (truncate_string s limit) \<le> limit"
  using straddling_cut_le [of "limit - 1" limit s 3] by (auto simp: truncate_string_def)

lemma truncate_string_prefix: "has_prefix s (truncate_string s limit)"
  by (auto simp: truncate_string_def has_prefix_def take_all_iff min_def)

lemma truncate_string_loss:
  "limit < length s \<Longrightarrow> limit \<le> length (truncate_string s limit) + 3"
  using straddling_cut_ge [of "limit - 1" limit s 3] straddling_cut_le [of "limit - 1" limit s 3]
  by (auto simp: truncate_string_def)

text \<open>
  Bounding a text never exceeds the limit, keeps a prefix, loses at most three bytes
  more than the limit asks for, leaves a short text alone, and never splits a rune: the
  bounded text of a valid UTF-8 text is valid UTF-8.
\<close>

theorem truncate_string_correct:
  "length (truncate_string s limit) \<le> limit \<and>
   has_prefix s (truncate_string s limit) \<and>
   (length s \<le> limit \<longrightarrow> truncate_string s limit = s) \<and>
   (limit < length s \<longrightarrow> limit \<le> length (truncate_string s limit) + 3) \<and>
   (utf8_valid s \<longrightarrow> utf8_valid (truncate_string s limit))"
  by (intro conjI impI truncate_string_length truncate_string_prefix truncate_string_loss
      truncate_keeps_utf8) (simp_all add: truncate_string_def)

text \<open>A two-byte rune across the limit of four bytes is dropped whole.\<close>

definition straddling_text :: string where
  "straddling_text = ''abc'' @ [char_of (195::nat), char_of (169::nat)] @ ''d''"

theorem truncate_string_correct_witness:
  "utf8_valid straddling_text \<and> 4 < length straddling_text \<and>
   utf8_valid (truncate_string straddling_text 4) \<and> truncate_string straddling_text 4 = ''abc''"
proof -
  have "utf8_valid straddling_text \<and> 4 < length straddling_text"
    "truncate_string straddling_text 4 = ''abc''" by code_simp+
  with truncate_string_correct [of straddling_text 4] show ?thesis by simp
qed

text \<open>The flattened transport error, prefix included, is one typed 503 of at most 2048 bytes.\<close>

lemma transport_retry_error_bounded:
  "\<exists>b. transport_retry_error render err = SdkError Internal_Error b \<and> status_code b = 503 \<and>
     length (message b) \<le> 2048"
  by (auto simp: transport_retry_error_def transport_error_message_max_bytes_def truncate_string_length)

lemma classify_error_base:
  "base_error (classify_error status msg p hs) = Some b \<Longrightarrow>
     status_code b = status \<and> payload b = p \<and> message b \<noteq> []"
  by (auto simp: classify_error_def base_error_def split: if_splits)

lemma classify_kind_hint:
  "classify_kind status hs = RateLimit_Error (Some y) \<Longrightarrow> \<exists>r. y = Fin r \<and> 0 \<le> r \<and> r \<le> 60"
  using retry_after_seconds_source [of hs y]
  by (auto simp: classify_kind_def bounded_retry_after_cases split: if_splits)

text \<open>
  A response whose body was read is an error exactly when its status is outside
  200..299, whatever the body holds: the error is the typed one of that status, it
  carries the status, a non-empty message and, when the body is JSON, the whole payload,
  and a rate-limit hint in it is at most 60 seconds.  A success with a wanted result is
  the decoder's verdict on the body, and an empty body is never a success.
\<close>

theorem decode_response_correct:
  "(let result = decode_response render fmt_other ctx_err (Inl body) status hs out in
    if status < 200 \<or> 300 \<le> status
    then \<exists>b. result = Decode_Failed (SdkError (classify_kind status hs) b) \<and>
           status_code b = status \<and> message b \<noteq> [] \<and>
           payload b = (case parse_json_payload body of None \<Rightarrow> GNil | Some p \<Rightarrow> p) \<and>
           (\<forall>y. classify_kind status hs = RateLimit_Error (Some y) \<longrightarrow> (\<exists>r. y = Fin r \<and> 0 \<le> r \<and> r \<le> 60))
    else result = (case out of None \<Rightarrow> No_Output
           | Some unmarshal \<Rightarrow>
              (if body = [] then Decode_Failed (Sentinel Io_UnexpectedEOF)
               else case unmarshal body of Inl e \<Rightarrow> Decode_Failed e | Inr v \<Rightarrow> Decoded v)))"
proof (cases "status < 200 \<or> 300 \<le> status")
  case True
  have "\<exists>b. response_failure fmt_other status hs body = SdkError (classify_kind status hs) b \<and>
      status_code b = status \<and> message b \<noteq> [] \<and>
      payload b = (case parse_json_payload body of None \<Rightarrow> GNil | Some p \<Rightarrow> p)"
    by (auto simp: response_failure_def classify_error_def split: option.split)
  with True show ?thesis
    using classify_kind_hint [of status hs] by (auto simp: decode_response_def)
next
  case False
  then show ?thesis by (simp add: decode_response_def)
qed

definition busy_headers :: headers where
  "busy_headers = header_set ''Retry-After'' ''86400'' no_headers"

theorem decode_response_correct_witness:
  "\<exists>b. decode_response (\<lambda>_. None) (\<lambda>_. []) None (Inl ''{}'') 429 busy_headers
          (Some (\<lambda>_. Inr ())) =
        Decode_Failed (SdkError (classify_kind 429 busy_headers) b) \<and> status_code b = 429"
  using decode_response_correct [of "\<lambda>_. None" "\<lambda>_. []" None "''{}''" 429 busy_headers "Some (\<lambda>_. Inr ())"]
  by auto

end
