(* ===== verification/Go_Url.thy ===== *)
theory Go_Url
  imports Go_Float
begin

text \<open>
  Package \<open>net/url\<close> of Go 1.23 as the SDK uses it: \<open>Parse\<close>, \<open>Hostname\<close>, \<open>Port\<close>,
  percent-encoding and query strings.  An error of the package is \<open>None\<close>: the source only
  distinguishes success from failure.
\<close>

datatype escape_mode = Esc_Path | Esc_Host | Esc_Zone | Esc_UserPassword | Esc_Query | Esc_Fragment

definition is_alnum :: "char \<Rightarrow> bool" where
  "is_alnum c \<longleftrightarrow> is_lower c \<or> is_upper c \<or> is_digit c"

definition is_hex_byte :: "char \<Rightarrow> bool" where
  "is_hex_byte c \<longleftrightarrow> is_digit c \<or> is_hex_letter c"

definition apostrophe :: char where
  "apostrophe = char_of (39::nat)"

definition should_escape :: "escape_mode \<Rightarrow> char \<Rightarrow> bool" where
  "should_escape mode c =
     (if is_alnum c then False
      else if mode \<in> {Esc_Host, Esc_Zone} \<and> c \<in> set (apostrophe # ''!$&()*+,;=:[]<>'' @ [CHR 0x22]) then False
      else if c \<in> set ''-_.~'' then False
      else if c \<in> set ''$&+,/:;=?@'' then
        (case mode of
           Esc_Path \<Rightarrow> c = CHR ''?''
         | Esc_UserPassword \<Rightarrow> c \<in> set ''@/?:''
         | Esc_Query \<Rightarrow> True
         | Esc_Fragment \<Rightarrow> False
         | _ \<Rightarrow> True)
      else if mode = Esc_Fragment \<and> c \<in> set ''!()*'' then False
      else True)"

text \<open>\<open>unescape\<close>: in a host only the zone separator and non-ASCII bytes may be encoded.\<close>

definition escape_allowed :: "escape_mode \<Rightarrow> char \<Rightarrow> char \<Rightarrow> bool" where
  "escape_allowed mode a b =
     (let v = hex_val a * 16 + hex_val b; zone_mark = (a = CHR ''2'' \<and> b = CHR ''5'') in
      case mode of
        Esc_Host \<Rightarrow> 8 \<le> hex_val a \<or> zone_mark
      | Esc_Zone \<Rightarrow> zone_mark \<or> v = 32 \<or> \<not> should_escape Esc_Host (char_of v)
      | _ \<Rightarrow> True)"

fun url_unescape :: "escape_mode \<Rightarrow> string \<Rightarrow> string option" where
  "url_unescape mode [] = Some []"
| "url_unescape mode (c # s) =
     (if c = CHR ''%'' then
        (case s of
           a # b # r \<Rightarrow>
             (if is_hex_byte a \<and> is_hex_byte b \<and> escape_allowed mode a b
              then map_option ((#) (char_of (hex_val a * 16 + hex_val b))) (url_unescape mode r)
              else None)
         | _ \<Rightarrow> None)
      else if c = CHR ''+'' \<and> mode = Esc_Query then map_option ((#) (CHR '' '')) (url_unescape mode s)
      else if mode \<in> {Esc_Host, Esc_Zone} \<and> byte_val c < 128 \<and> should_escape mode c then None
      else map_option ((#) c) (url_unescape mode s))"

definition upper_hex :: "nat \<Rightarrow> char" where
  "upper_hex n = (if n < 10 then char_of (48 + n) else char_of (55 + n))"

definition escape_byte :: "escape_mode \<Rightarrow> char \<Rightarrow> string" where
  "escape_byte mode c =
     (if should_escape mode c then
        (if c = CHR '' '' \<and> mode = Esc_Query then ''+''
         else [CHR ''%'', upper_hex (byte_val c div 16), upper_hex (byte_val c mod 16)])
      else [c])"

definition url_escape :: "escape_mode \<Rightarrow> string \<Rightarrow> string" where
  "url_escape mode s = concat (map (escape_byte mode) s)"

section \<open>Parsing\<close>

record url =
  url_scheme :: string
  url_opaque :: string
  url_user :: "(string \<times> string option) option"
  url_host :: string
  url_path :: string
  url_raw_path :: string
  url_force_query :: bool
  url_raw_query :: string
  url_fragment :: string
  url_raw_fragment :: string
  url_omit_host :: bool

definition empty_url :: url where
  "empty_url = \<lparr>url_scheme = [], url_opaque = [], url_user = None, url_host = [], url_path = [],
     url_raw_path = [], url_force_query = False, url_raw_query = [], url_fragment = [],
     url_raw_fragment = [], url_omit_host = False\<rparr>"

text \<open>\<open>strings.Cut\<close> with the whole text before a separator that does not occur.\<close>

definition cut_or_all :: "char \<Rightarrow> string \<Rightarrow> string \<times> string" where
  "cut_or_all c s = (case cut_at c s of None \<Rightarrow> (s, []) | Some p \<Rightarrow> p)"

text \<open>\<open>strings.LastIndexByte\<close>.\<close>

definition last_index :: "char \<Rightarrow> string \<Rightarrow> nat option" where
  "last_index c s = map_option (\<lambda>i. length s - Suc i) (index_of [c] (rev s))"

text \<open>\<open>getScheme\<close>: \<open>None\<close> for a leading colon, an empty scheme when there is none.\<close>

fun scheme_scan :: "string \<Rightarrow> string \<Rightarrow> string \<Rightarrow> (string \<times> string) option" where
  "scheme_scan whole seen [] = Some ([], whole)"
| "scheme_scan whole seen (c # s) =
     (if is_lower c \<or> is_upper c then scheme_scan whole (seen @ [c]) s
      else if is_digit c \<or> c \<in> set ''+-.'' then
        (if seen = [] then Some ([], whole) else scheme_scan whole (seen @ [c]) s)
      else if c = CHR '':'' then (if seen = [] then None else Some (seen, s))
      else Some ([], whole))"

definition get_scheme :: "string \<Rightarrow> (string \<times> string) option" where
  "get_scheme s = scheme_scan s [] s"

definition valid_optional_port :: "string \<Rightarrow> bool" where
  "valid_optional_port p = (case p of [] \<Rightarrow> True | c # ds \<Rightarrow> c = CHR '':'' \<and> list_all is_digit ds)"

definition valid_userinfo :: "string \<Rightarrow> bool" where
  "valid_userinfo s = list_all (\<lambda>c. is_alnum c \<or> c \<in> set (apostrophe # ''-._:~!$&()*+,;=%@'')) s"

definition parse_ip_literal :: "string \<Rightarrow> string option" where
  "parse_ip_literal host =
     (case last_index (CHR '']'') host of
        None \<Rightarrow> None
      | Some i \<Rightarrow>
         (if \<not> valid_optional_port (drop (Suc i) host) then None
          else case index_of ''%25'' (take i host) of
              None \<Rightarrow> url_unescape Esc_Host host
            | Some zone \<Rightarrow>
               (case (url_unescape Esc_Host (take zone host),
                      url_unescape Esc_Zone (drop zone (take i host)),
                      url_unescape Esc_Host (drop i host)) of
                  (Some h1, Some h2, Some h3) \<Rightarrow> Some (h1 @ h2 @ h3)
                | _ \<Rightarrow> None)))"

definition parse_host :: "string \<Rightarrow> string option" where
  "parse_host host =
     (if has_prefix host ''['' then parse_ip_literal host
      else case last_index (CHR '':'') host of
          None \<Rightarrow> url_unescape Esc_Host host
        | Some i \<Rightarrow> (if valid_optional_port (drop i host) then url_unescape Esc_Host host else None))"

definition parse_userinfo :: "string \<Rightarrow> (string \<times> string option) option" where
  "parse_userinfo s =
     (if \<not> valid_userinfo s then None
      else case cut_at (CHR '':'') s of
          None \<Rightarrow> map_option (\<lambda>u. (u, None)) (url_unescape Esc_UserPassword s)
        | Some (u, p) \<Rightarrow>
            (case (url_unescape Esc_UserPassword u, url_unescape Esc_UserPassword p) of
               (Some u', Some p') \<Rightarrow> Some (u', Some p')
             | _ \<Rightarrow> None))"

definition parse_authority :: "string \<Rightarrow> ((string \<times> string option) option \<times> string) option" where
  "parse_authority a =
     (case last_index (CHR ''@'') a of
        None \<Rightarrow> map_option (\<lambda>h. (None, h)) (parse_host a)
      | Some i \<Rightarrow>
         (case parse_host (drop (Suc i) a) of
            None \<Rightarrow> None
          | Some h \<Rightarrow> map_option (\<lambda>u. (Some u, h)) (parse_userinfo (take i a))))"

definition split_query :: "string \<Rightarrow> bool \<times> string \<times> string" where
  "split_query s =
     (if has_suffix s ''?'' \<and> count_list s (CHR ''?'') = 1 then (True, butlast s, [])
      else let (a, b) = cut_or_all (CHR ''?'') s in (False, a, b))"

definition set_path :: "string \<Rightarrow> url \<Rightarrow> url option" where
  "set_path p u = map_option
     (\<lambda>path. u\<lparr>url_path := path, url_raw_path := (if url_escape Esc_Path path = p then [] else p)\<rparr>)
     (url_unescape Esc_Path p)"

definition set_fragment :: "string \<Rightarrow> url \<Rightarrow> url option" where
  "set_fragment f u = map_option
     (\<lambda>frag. u\<lparr>url_fragment := frag, url_raw_fragment := (if url_escape Esc_Fragment frag = f then [] else f)\<rparr>)
     (url_unescape Esc_Fragment f)"

definition parse_rest :: "url \<Rightarrow> string \<Rightarrow> url option" where
  "parse_rest u rest =
     (if \<not> has_prefix rest ''/'' \<and> url_scheme u \<noteq> [] then Some (u\<lparr>url_opaque := rest\<rparr>)
      else if \<not> has_prefix rest ''/'' \<and> CHR '':'' \<in> set (fst (cut_or_all (CHR ''/'') rest)) then None
      else if (url_scheme u \<noteq> [] \<or> \<not> has_prefix rest ''///'') \<and> has_prefix rest ''//'' then
        (let auth = takeWhile (\<lambda>c. c \<noteq> CHR ''/'') (drop 2 rest);
             path = dropWhile (\<lambda>c. c \<noteq> CHR ''/'') (drop 2 rest)
         in case parse_authority auth of
              None \<Rightarrow> None
            | Some (user, host) \<Rightarrow> set_path path (u\<lparr>url_user := user, url_host := host\<rparr>))
      else set_path rest (u\<lparr>url_omit_host := url_scheme u \<noteq> [] \<and> has_prefix rest ''/''\<rparr>))"

definition has_ctl_byte :: "string \<Rightarrow> bool" where
  "has_ctl_byte s = list_ex (\<lambda>c. byte_val c < 32 \<or> byte_val c = 127) s"

definition parse_no_fragment :: "string \<Rightarrow> url option" where
  "parse_no_fragment s =
     (if has_ctl_byte s then None
      else if s = ''*'' then Some (empty_url\<lparr>url_path := ''*''\<rparr>)
      else case get_scheme s of
          None \<Rightarrow> None
        | Some (sch, rest) \<Rightarrow>
            (let (force, before, query) = split_query rest
             in parse_rest (empty_url\<lparr>url_scheme := to_lower sch, url_force_query := force,
                  url_raw_query := query\<rparr>) before))"

definition url_parse :: "string \<Rightarrow> url option" where
  "url_parse s =
     (let (u, frag) = cut_or_all (CHR ''#'') s in
      case parse_no_fragment u of
        None \<Rightarrow> None
      | Some r \<Rightarrow> (if frag = [] then Some r else set_fragment frag r))"

text \<open>\<open>URL.Hostname\<close> and \<open>URL.Port\<close>.\<close>

definition split_host_port :: "string \<Rightarrow> string \<times> string" where
  "split_host_port hp =
     (let (h, p) = (case last_index (CHR '':'') hp of
                      Some i \<Rightarrow> (if valid_optional_port (drop i hp) then (take i hp, drop (Suc i) hp) else (hp, []))
                    | None \<Rightarrow> (hp, []))
      in (if has_prefix h ''['' \<and> has_suffix h '']'' then butlast (tl h) else h, p))"

definition url_hostname :: "url \<Rightarrow> string" where
  "url_hostname u = fst (split_host_port (url_host u))"

definition url_port :: "url \<Rightarrow> string" where
  "url_port u = snd (split_host_port (url_host u))"

section \<open>Query strings\<close>

text \<open>
  \<open>url.Values\<close>: an association list of keys with their values.  \<open>ParseQuery\<close> keeps the pairs
  it can decode and drops the others (\<open>Query\<close> ignores its error); a semicolon is such an error.
\<close>

type_synonym url_values = "(string \<times> string list) list"

definition values_get :: "url_values \<Rightarrow> string \<Rightarrow> string" where
  "values_get vs k = (case map_of vs k of Some (v # _) \<Rightarrow> v | _ \<Rightarrow> [])"

fun values_add :: "string \<Rightarrow> string \<Rightarrow> url_values \<Rightarrow> url_values" where
  "values_add k v [] = [(k, [v])]"
| "values_add k v ((k', ws) # r) = (if k' = k then (k', ws @ [v]) # r else (k', ws) # values_add k v r)"

fun values_set :: "string \<Rightarrow> string \<Rightarrow> url_values \<Rightarrow> url_values" where
  "values_set k v [] = [(k, [v])]"
| "values_set k v ((k', ws) # r) = (if k' = k then (k', [v]) # r else (k', ws) # values_set k v r)"

definition parse_pair :: "string \<Rightarrow> (string \<times> string) option" where
  "parse_pair p =
     (if CHR '';'' \<in> set p \<or> p = [] then None
      else let (k, v) = cut_or_all (CHR ''='') p in
        case (url_unescape Esc_Query k, url_unescape Esc_Query v) of
          (Some k', Some v') \<Rightarrow> Some (k', v')
        | _ \<Rightarrow> None)"

definition parse_query :: "string \<Rightarrow> url_values" where
  "parse_query q = fold (\<lambda>p vs. case parse_pair p of None \<Rightarrow> vs | Some (k, v) \<Rightarrow> values_add k v vs)
     (split_on (CHR ''&'') q) []"

text \<open>\<open>Values.Encode\<close>: keys in ascending byte order.\<close>

fun byte_less :: "string \<Rightarrow> string \<Rightarrow> bool" where
  "byte_less [] [] = False"
| "byte_less [] (_ # _) = True"
| "byte_less (_ # _) [] = False"
| "byte_less (a # s) (b # t) = (byte_val a < byte_val b \<or> (a = b \<and> byte_less s t))"

fun insert_key :: "string \<times> 'a \<Rightarrow> (string \<times> 'a) list \<Rightarrow> (string \<times> 'a) list" where
  "insert_key p [] = [p]"
| "insert_key p (q # r) = (if byte_less (fst q) (fst p) then q # insert_key p r else p # q # r)"

definition sort_keys :: "(string \<times> 'a) list \<Rightarrow> (string \<times> 'a) list" where
  "sort_keys m = foldr insert_key m []"

definition encode_values :: "url_values \<Rightarrow> string" where
  "encode_values vs = join ''&''
     (concat (map (\<lambda>(k, ws). map (\<lambda>w. url_escape Esc_Query k @ ''='' @ url_escape Esc_Query w) ws) (sort_keys vs)))"

section \<open>Percent-encoding round trip\<close>

lemma upper_hex_val: "n < 16 \<Longrightarrow> hex_val (upper_hex n) = n \<and> is_hex_byte (upper_hex n)"
proof -
  have "\<forall>k \<in> set [0..<16]. hex_val (upper_hex k) = k \<and> is_hex_byte (upper_hex k)" by code_simp
  then show "n < 16 \<Longrightarrow> ?thesis" by simp
qed

definition plain_mode :: "escape_mode \<Rightarrow> bool" where
  "plain_mode mode \<longleftrightarrow> mode \<notin> {Esc_Host, Esc_Zone}"

lemma percent_escaped: "plain_mode mode \<Longrightarrow> should_escape mode (CHR ''%'')"
  by (cases mode) (simp_all add: plain_mode_def should_escape_def is_alnum_def is_lower_def is_upper_def is_digit_def)

lemma plus_escaped: "should_escape Esc_Query (CHR ''+'')"
  by (simp add: should_escape_def is_alnum_def is_lower_def is_upper_def is_digit_def)

lemma unescape_escape_byte:
  assumes "plain_mode mode"
  shows "url_unescape mode (escape_byte mode c @ s) = map_option ((#) c) (url_unescape mode s)"
proof (cases "should_escape mode c")
  case True
  have b: "byte_val c div 16 < 16" "byte_val c mod 16 < 16"
    using nat_of_char_less_256 [of c] by linarith+
  have "escape_allowed mode x y" for x y
    using assms by (cases mode) (auto simp: escape_allowed_def plain_mode_def)
  with True b show ?thesis
    using upper_hex_val [OF b(1)] upper_hex_val [OF b(2)]
    by (auto simp: escape_byte_def)
next
  case False
  with percent_escaped [of mode] plus_escaped assms show ?thesis
    by (auto simp: escape_byte_def plain_mode_def)
qed

lemma unescape_escape: "plain_mode mode \<Longrightarrow> url_unescape mode (url_escape mode s) = Some s"
  by (induction s) (simp_all add: url_escape_def unescape_escape_byte)

end
