(* ===== verification/Telemetry_Vocab.thy ===== *)
theory Telemetry_Vocab
  imports Go_Error Go_Url
begin

text \<open>
  The closed vocabulary of \<open>telemetry.go\<close>: host names, endpoints, outcomes, error classes
  and buckets; the opt-out resolution; and the classification of a transport error by a
  bounded walk of its chain that never calls a caller's code.
\<close>

section \<open>Constants\<close>

definition telemetry_max_header_bytes :: nat where
  "telemetry_max_header_bytes = 160"

definition telemetry_max_duration_ms :: int where
  "telemetry_max_duration_ms = 3600000"

definition telemetry_max_age_ms :: int where
  "telemetry_max_age_ms = 86400000"

definition telemetry_max_event_attempts :: nat where
  "telemetry_max_event_attempts = 16"

definition telemetry_max_count :: int where
  "telemetry_max_count = 10000000"

definition telemetry_hosts :: "string list" where
  "telemetry_hosts = [''apex'', ''ally'', ''uptime'', ''us_central1'', ''us_east4'', ''europe_west4'',
     ''control'', ''custom'']"

definition telemetry_endpoints :: "string list" where
  "telemetry_endpoints = [''chat_completions'', ''messages'', ''responses'', ''embeddings'', ''images'',
     ''videos'', ''models'', ''fusion'', ''control_other'', ''inference_other'']"

definition telemetry_outcomes :: "string list" where
  "telemetry_outcomes = [''ok'', ''http_error'', ''transport_error'', ''timeout'', ''stream_broken'', ''aborted'']"

definition telemetry_error_classes :: "string list" where
  "telemetry_error_classes = [''dns'', ''tls'', ''connect_refused'', ''connect_timeout'', ''connect_error'',
     ''read_timeout'', ''write_timeout'', ''pool_timeout'', ''protocol_error'', ''reset'', ''io_error'',
     ''proxy_error'', ''stream_stalled'', ''unknown'']"

definition telemetry_final_outcomes :: "string list" where
  "telemetry_final_outcomes = telemetry_outcomes @ [''exhausted'']"

definition telemetry_timeout_phases :: "string list" where
  "telemetry_timeout_phases = [''none'', ''connect'', ''first_byte'', ''idle'', ''total'']"

definition telemetry_latency_buckets :: "string list" where
  "telemetry_latency_buckets = [''lt100'', ''lt200'', ''lt400'', ''lt800'', ''lt1600'', ''lt3200'', ''lt6400'',
     ''lt12800'', ''lt25600'', ''lt51200'', ''lt102400'', ''ge102400'']"

definition telemetry_latency_upper_bounds :: "int list" where
  "telemetry_latency_upper_bounds = [100, 200, 400, 800, 1600, 3200, 6400, 12800, 25600, 51200, 102400]"

definition telemetry_http_status_classes :: "string list" where
  "telemetry_http_status_classes = [''none'', ''2xx'', ''4xx'', ''429'', ''5xx'']"

definition telemetry_error_sources :: "string list" where
  "telemetry_error_sources = [''router'', ''provider'', ''unknown'']"

definition telemetry_sample_reasons :: "string list" where
  "telemetry_sample_reasons = [''failure'', ''retried'', ''slow'', ''random'']"

definition telemetry_host_custom :: string where
  "telemetry_host_custom = ''custom''"

definition telemetry_hostnames :: "(string \<times> string) list" where
  "telemetry_hostnames =
     [(''api.trustedrouter.com'', ''apex''), (''api.allyrouter.com'', ''ally''),
      (''api.uptimerouter.com'', ''uptime''), (''api-us-central1.quillrouter.com'', ''us_central1''),
      (''api-us-east4.quillrouter.com'', ''us_east4''), (''api-europe-west4.quillrouter.com'', ''europe_west4'')]"

section \<open>Grammars\<close>

definition header_value_ok :: "string \<Rightarrow> bool" where
  "header_value_ok s \<longleftrightarrow> 1 \<le> length s \<and> length s \<le> 24 \<and>
     list_all (\<lambda>c. is_lower c \<or> is_digit c \<or> c = CHR ''_'') s"

definition runtime_token_ok :: "string \<Rightarrow> bool" where
  "runtime_token_ok s = (case cut_at (CHR ''/'') s of
       None \<Rightarrow> False
     | Some (a, b) \<Rightarrow> 1 \<le> length a \<and> length a \<le> 10 \<and> list_all is_lower a \<and>
         1 \<le> length b \<and> length b \<le> 24 \<and> list_all (\<lambda>c. is_alnum c \<or> c \<in> set ''.+-'') b)"

definition model_ok :: "string \<Rightarrow> bool" where
  "model_ok s \<longleftrightarrow> 1 \<le> length s \<and> length s \<le> 128 \<and> list_all (\<lambda>c. is_alnum c \<or> c \<in> set ''._:/~@-'') s"

definition request_id_ok :: "string \<Rightarrow> bool" where
  "request_id_ok s \<longleftrightarrow> length s = 37 \<and> has_prefix s ''rlog_'' \<and>
     list_all (\<lambda>c. is_digit c \<or> (97 \<le> byte_val c \<and> byte_val c \<le> 102)) (drop 5 s)"

definition semver_number :: "string \<Rightarrow> bool" where
  "semver_number s \<longleftrightarrow> s \<noteq> [] \<and> list_all is_digit s \<and> (s = ''0'' \<or> hd s \<noteq> CHR ''0'')"

definition semver_ids :: "string \<Rightarrow> bool" where
  "semver_ids s = list_all (\<lambda>w. w \<noteq> [] \<and> list_all (\<lambda>c. is_alnum c \<or> c = CHR ''-'') w) (split_on (CHR ''.'') s)"

definition semver_ok :: "string \<Rightarrow> bool" where
  "semver_ok s =
     (let (core, build) = (case cut_at (CHR ''+'') s of None \<Rightarrow> (s, True) | Some (a, b) \<Rightarrow> (a, semver_ids b));
          (nums, pre) = (case cut_at (CHR ''-'') core of None \<Rightarrow> (core, True) | Some (a, b) \<Rightarrow> (a, semver_ids b))
      in build \<and> pre \<and> length (split_on (CHR ''.'') nums) = 3 \<and>
         list_all semver_number (split_on (CHR ''.'') nums))"

section \<open>Hosts and the opt-out\<close>

definition telemetry_scheme_host :: "string \<Rightarrow> (string \<times> string) option" where
  "telemetry_scheme_host raw = (case url_parse raw of None \<Rightarrow> None
     | Some u \<Rightarrow> (if url_scheme u = [] \<or> url_hostname u = [] then None
                 else Some (to_lower (url_scheme u), to_lower (url_hostname u))))"

definition is_telemetry_control_host :: "string \<Rightarrow> bool" where
  "is_telemetry_control_host raw = (case telemetry_scheme_host raw of None \<Rightarrow> False
     | Some (sch, host) \<Rightarrow>
         sch = ''https'' \<and> (host = ''trustedrouter.com'' \<or> has_suffix host ''.trustedrouter.com''))"

definition host_enum :: "string \<Rightarrow> string" where
  "host_enum base = (case telemetry_scheme_host base of None \<Rightarrow> telemetry_host_custom
     | Some (sch, host) \<Rightarrow>
        (if sch \<noteq> ''https'' then telemetry_host_custom
         else case map_of telemetry_hostnames host of
             Some name \<Rightarrow> name
           | None \<Rightarrow> (if is_telemetry_control_host base then ''control'' else telemetry_host_custom)))"

definition resolve_telemetry_enabled ::
    "bool option \<Rightarrow> string \<Rightarrow> string \<Rightarrow> (string \<Rightarrow> string) \<Rightarrow> bool" where
  "resolve_telemetry_enabled explicit base_url control_url getenv =
     (case explicit of Some b \<Rightarrow> b
      | None \<Rightarrow>
         (let v = to_lower (trim_space (getenv ''TRUSTEDROUTER_TELEMETRY'')) in
          if v \<in> {''0'', ''false'', ''off'', ''no''} then False
          else if v \<in> {''1'', ''true'', ''on'', ''yes''} then True
          else if trim_space (getenv ''DO_NOT_TRACK'') = ''1'' then False
          else host_enum base_url \<noteq> telemetry_host_custom \<and> is_telemetry_control_host control_url))"

section \<open>The error chain\<close>

text \<open>
  \<open>telemetryConcreteErrorType\<close>: package path and type name by reflection; a typed nil
  pointer has none.
\<close>

definition kind_type_name :: "error_kind \<Rightarrow> string" where
  "kind_type_name k = (case k of
       Plain_Error \<Rightarrow> ''Error'' | BadRequest_Error \<Rightarrow> ''BadRequestError''
     | Authentication_Error \<Rightarrow> ''AuthenticationError'' | PermissionDenied_Error \<Rightarrow> ''PermissionDeniedError''
     | NotFound_Error \<Rightarrow> ''NotFoundError'' | EndpointNotSupported_Error \<Rightarrow> ''EndpointNotSupportedError''
     | RateLimit_Error _ \<Rightarrow> ''RateLimitError'' | Internal_Error \<Rightarrow> ''InternalError'')"

definition concrete_error_type :: "go_error \<Rightarrow> string \<times> string" where
  "concrete_error_type e = (case e of
       Sentinel Ctx_DeadlineExceeded \<Rightarrow> (''context'', ''deadlineExceededError'')
     | Sentinel Os_DeadlineExceeded \<Rightarrow> (''internal/poll'', ''DeadlineExceededError'')
     | Sentinel _ \<Rightarrow> (''errors'', ''errorString'')
     | Errno _ \<Rightarrow> (''syscall'', ''Errno'')
     | UrlError _ _ _ \<Rightarrow> (''net/url'', ''Error'')
     | OpError _ _ \<Rightarrow> (''net'', ''OpError'')
     | DNSError _ _ \<Rightarrow> (''net'', ''DNSError'')
     | DNSConfigError _ \<Rightarrow> (''net'', ''DNSConfigError'')
     | PathError _ \<Rightarrow> (''io/fs'', ''PathError'')
     | LinkError _ \<Rightarrow> (''os'', ''LinkError'')
     | SyscallError _ \<Rightarrow> (''os'', ''SyscallError'')
     | CertificateVerificationError _ \<Rightarrow> (''crypto/tls'', ''CertificateVerificationError'')
     | RecordHeaderError \<Rightarrow> (''crypto/tls'', ''RecordHeaderError'')
     | AlertError _ \<Rightarrow> (''crypto/tls'', ''AlertError'')
     | UnknownAuthorityError \<Rightarrow> (''crypto/x509'', ''UnknownAuthorityError'')
     | HostnameError \<Rightarrow> (''crypto/x509'', ''HostnameError'')
     | CertificateInvalidError \<Rightarrow> (''crypto/x509'', ''CertificateInvalidError'')
     | NilPointer _ \<Rightarrow> ([], [])
     | Named pkg typ _ _ _ \<Rightarrow> (pkg, typ)
     | SdkError k _ \<Rightarrow> (''github.com/Lore-Hex/trusted-router-go'', kind_type_name k))"

definition single_unwrappers :: "(string \<times> string) list" where
  "single_unwrappers = [(''fmt'', ''wrapError''), (''net/http'', ''transportReadFromServerError''),
     (''net/http'', ''nothingWrittenError''), (''crypto/tls'', ''permanentError'')]"

definition many_unwrappers :: "(string \<times> string) list" where
  "many_unwrappers = [(''fmt'', ''wrapErrors''), (''errors'', ''joinError'')]"

definition standard_error_children :: "go_error \<Rightarrow> go_error option list" where
  "standard_error_children e = (case e of
       UrlError _ _ c \<Rightarrow> [c] | OpError _ c \<Rightarrow> [c] | DNSError _ c \<Rightarrow> [c] | DNSConfigError c \<Rightarrow> [c]
     | PathError c \<Rightarrow> [c] | LinkError c \<Rightarrow> [c] | SyscallError c \<Rightarrow> [c]
     | CertificateVerificationError c \<Rightarrow> [c]
     | Named pkg typ _ _ u \<Rightarrow>
         (if (pkg, typ) \<in> set single_unwrappers then (case u of UnwrapOne c \<Rightarrow> [c] | _ \<Rightarrow> [])
          else if (pkg, typ) \<in> set many_unwrappers then (case u of UnwrapMany cs \<Rightarrow> cs | _ \<Rightarrow> [])
          else [])
     | _ \<Rightarrow> [])"

definition telemetry_max_error_chain_links :: nat where
  "telemetry_max_error_chain_links = 6"

function error_chain_from :: "go_error option list \<Rightarrow> go_error list \<Rightarrow> go_error list" where
  "error_chain_from queue chain =
     (if queue = [] \<or> telemetry_max_error_chain_links \<le> length chain then chain
      else case hd queue of
          None \<Rightarrow> error_chain_from (tl queue) chain
        | Some link \<Rightarrow>
            error_chain_from
              (tl queue @ take (telemetry_max_error_chain_links - Suc (length chain)) (standard_error_children link))
              (chain @ [link]))"
  by pat_completeness auto
termination
  by (relation "measures [\<lambda>(q, c). telemetry_max_error_chain_links - length c, \<lambda>(q, c). length q]") auto

declare error_chain_from.simps [simp del]

definition telemetry_error_chain :: "go_error option \<Rightarrow> go_error list" where
  "telemetry_error_chain err = error_chain_from [err] []"

text \<open>A predicate on one link may panic (\<open>None\<close>); \<open>chainHas\<close> stops at the first hit.\<close>

fun chain_has :: "go_error list \<Rightarrow> (go_error \<Rightarrow> bool option) \<Rightarrow> bool option" where
  "chain_has [] p = Some False"
| "chain_has (l # ls) p = (case p l of None \<Rightarrow> None | Some True \<Rightarrow> Some True | Some False \<Rightarrow> chain_has ls p)"

text \<open>Short-circuit disjunction and branching on a condition that may panic.\<close>

definition or_panic :: "bool option \<Rightarrow> bool option \<Rightarrow> bool option" where
  "or_panic a b = (case a of None \<Rightarrow> None | Some True \<Rightarrow> Some True | Some False \<Rightarrow> b)"

definition branch :: "bool option \<Rightarrow> 'a option \<Rightarrow> 'a option \<Rightarrow> 'a option" where
  "branch c x y = (case c of None \<Rightarrow> None | Some True \<Rightarrow> x | Some False \<Rightarrow> y)"

definition link_is :: "sentinel \<Rightarrow> go_error \<Rightarrow> bool" where
  "link_is s e \<longleftrightarrow> e = Sentinel s"

definition is_timeout_link :: "go_error \<Rightarrow> bool" where
  "is_timeout_link e =
     (if link_is Ctx_DeadlineExceeded e \<or> link_is Os_DeadlineExceeded e then True
      else case e of
          DNSError timeout _ \<Rightarrow> timeout
        | NilPointer Ptr_DNSError \<Rightarrow> False
        | Errno n \<Rightarrow> n = EAGAIN \<or> n = ETIMEDOUT
        | _ \<Rightarrow> concrete_error_type e \<in>
            {(''net'', ''timeoutError''), (''net/http'', ''timeoutError''),
             (''net/http'', ''tlsHandshakeTimeoutError''), (''crypto/tls'', ''timeoutError''),
             (''internal/poll'', ''DeadlineExceededError'')})"

text \<open>A typed nil \<open>*net.OpError\<close> passes the type assertion and its field access panics.\<close>

definition op_link :: "string \<Rightarrow> go_error \<Rightarrow> bool option" where
  "op_link op e = (case e of OpError op' _ \<Rightarrow> Some (op' = op) | NilPointer Ptr_OpError \<Rightarrow> None | _ \<Rightarrow> Some False)"

definition is_tls_handshake_timeout_link :: "go_error \<Rightarrow> bool" where
  "is_tls_handshake_timeout_link e \<longleftrightarrow> concrete_error_type e = (''net/http'', ''tlsHandshakeTimeoutError'')"

definition is_dns_link :: "go_error \<Rightarrow> bool" where
  "is_dns_link e = (case e of DNSError _ _ \<Rightarrow> True | NilPointer Ptr_DNSError \<Rightarrow> True | _ \<Rightarrow> False)"

definition is_io_link :: "go_error \<Rightarrow> bool option" where
  "is_io_link e =
     (if link_is Io_UnexpectedEOF e \<or> link_is Io_EOF e then Some True
      else or_panic (op_link ''read'' e) (op_link ''write'' e))"

definition is_tls_link :: "go_error \<Rightarrow> bool" where
  "is_tls_link e = (link_is Http_SchemeMismatch e \<or>
     (case e of CertificateVerificationError _ \<Rightarrow> True | NilPointer Ptr_CertificateVerificationError \<Rightarrow> True
      | RecordHeaderError \<Rightarrow> True | AlertError _ \<Rightarrow> True | UnknownAuthorityError \<Rightarrow> True
      | HostnameError \<Rightarrow> True | CertificateInvalidError \<Rightarrow> True | _ \<Rightarrow> False))"

definition sentinel_text :: "sentinel \<Rightarrow> string" where
  "sentinel_text s = (case s of
       Io_EOF \<Rightarrow> ''EOF'' | Io_UnexpectedEOF \<Rightarrow> ''unexpected EOF'' | Ctx_Canceled \<Rightarrow> ''context canceled''
     | Ctx_DeadlineExceeded \<Rightarrow> ''context deadline exceeded'' | Os_DeadlineExceeded \<Rightarrow> ''i/o timeout''
     | Http_SchemeMismatch \<Rightarrow> ''http: server gave HTTP response to HTTPS client''
     | Open_Timeout \<Rightarrow> ''trustedrouter stream open timeout''
     | Stream_Idle_Timeout \<Rightarrow> ''trustedrouter stream idle timeout'')"

definition safe_standard_error_text :: "go_error \<Rightarrow> string option" where
  "safe_standard_error_text e =
     (if concrete_error_type e \<in> {(''errors'', ''errorString''), (''fmt'', ''wrapError''), (''fmt'', ''wrapErrors'')}
      then (case e of Sentinel s \<Rightarrow> Some (sentinel_text s) | Named _ _ text _ _ \<Rightarrow> Some text | _ \<Rightarrow> None)
      else None)"

definition is_protocol_link :: "go_error \<Rightarrow> bool" where
  "is_protocol_link e =
     (let (pkg, typ) = concrete_error_type e in
      if pkg = ''net/http'' \<and> (typ = ''ProtocolError'' \<or> has_prefix typ ''http2'') then True
      else case safe_standard_error_text e of None \<Rightarrow> False
        | Some m \<Rightarrow>
            is_infix_of ''http2'' m \<or> is_infix_of ''HTTP/2'' m \<or> is_infix_of ''malformed HTTP'' m \<or>
            is_infix_of ''PROTOCOL_ERROR'' m \<or> has_prefix m ''stream error: stream ID '' \<or>
            has_prefix m ''connection error: '')"

abbreviation chain_any :: "go_error list \<Rightarrow> (go_error \<Rightarrow> bool) \<Rightarrow> bool option" where
  "chain_any chain p \<equiv> chain_has chain (\<lambda>l. Some (p l))"

definition timeout_class :: "go_error list \<Rightarrow> string option" where
  "timeout_class chain =
     branch (or_panic (chain_has chain (op_link ''dial''))
              (or_panic (chain_has chain (op_link ''proxyconnect''))
                (chain_any chain is_tls_handshake_timeout_link)))
       (Some ''connect_timeout'')
       (branch (chain_has chain (op_link ''write'')) (Some ''write_timeout'') (Some ''read_timeout''))"

definition classify_transport_error :: "go_error option \<Rightarrow> string option" where
  "classify_transport_error err =
     (if err = None then Some ''unknown''
      else let chain = telemetry_error_chain err in
        branch (or_panic (chain_any chain (link_is Ctx_DeadlineExceeded)) (chain_any chain is_timeout_link))
          (timeout_class chain)
       (branch (chain_has chain (op_link ''proxyconnect'')) (Some ''proxy_error'')
       (branch (chain_any chain is_dns_link) (Some ''dns'')
       (branch (chain_any chain is_tls_link) (Some ''tls'')
       (branch (chain_any chain (\<lambda>l. l = Errno ECONNREFUSED)) (Some ''connect_refused'')
       (branch (chain_any chain (\<lambda>l. l = Errno ECONNRESET)) (Some ''reset'')
       (branch (chain_has chain (op_link ''dial'')) (Some ''connect_error'')
       (branch (chain_has chain is_io_link) (Some ''io_error'')
       (branch (chain_any chain is_protocol_link) (Some ''protocol_error'') (Some ''unknown''))))))))))"

section \<open>Durations, endpoints and buckets\<close>

text \<open>\<open>Duration.Milliseconds\<close> truncates toward zero.\<close>

definition milliseconds :: "duration \<Rightarrow> int" where
  "milliseconds d = (if d < 0 then - ((- d) div 1000000) else d div 1000000)"

definition clamp_int :: "int \<Rightarrow> int \<Rightarrow> int \<Rightarrow> int" where
  "clamp_int v lo hi = (if v < lo then lo else if hi < v then hi else v)"

definition clamp_duration_ms :: "duration \<Rightarrow> int" where
  "clamp_duration_ms d =
     (let ms = milliseconds d in
      if ms < 0 then 0 else if telemetry_max_duration_ms < ms then telemetry_max_duration_ms else ms)"

definition endpoint_families :: "(string \<times> string) list" where
  "endpoint_families = [(''/images'', ''images''), (''/videos'', ''videos''), (''/models'', ''models''),
     (''/fusion'', ''fusion'')]"

definition endpoint_enum :: "string \<Rightarrow> string" where
  "endpoint_enum path =
     (let cut = takeWhile (\<lambda>c. c \<noteq> CHR ''?'' \<and> c \<noteq> CHR ''#'') path;
          trimmed = trim_right (CHR ''/'') cut;
          clean = (if trimmed = [] then ''/'' else trimmed)
      in if clean = ''/chat/completions'' then ''chat_completions''
         else if clean = ''/messages'' then ''messages''
         else if clean = ''/responses'' then ''responses''
         else if clean = ''/embeddings'' then ''embeddings''
         else case find (\<lambda>(p, e). clean = p \<or> has_prefix clean (p @ ''/'')) endpoint_families of
             Some (p, e) \<Rightarrow> e
           | None \<Rightarrow> ''inference_other'')"

fun bucket_from :: "int \<Rightarrow> int list \<Rightarrow> string list \<Rightarrow> string" where
  "bucket_from ms (upper # us) (b # bs) = (if ms < upper then b else bucket_from ms us bs)"
| "bucket_from ms _ _ = last telemetry_latency_buckets"

definition latency_bucket :: "int \<Rightarrow> string" where
  "latency_bucket ms = bucket_from (max ms 0) telemetry_latency_upper_bounds telemetry_latency_buckets"

definition status_class :: "int \<Rightarrow> string" where
  "status_class status =
     (if 200 \<le> status \<and> status \<le> 299 then ''2xx''
      else if status = 429 then ''429''
      else if 400 \<le> status \<and> status \<le> 499 then ''4xx''
      else if 500 \<le> status \<and> status \<le> 599 then ''5xx''
      else ''none'')"

text \<open>The pair of value and presence flag is one option.\<close>

definition timeout_floor_met :: "string \<Rightarrow> int option \<Rightarrow> bool" where
  "timeout_floor_met phase configured = (case configured of None \<Rightarrow> False
     | Some ms \<Rightarrow>
        (if phase = ''connect'' then 10000 \<le> ms
         else if phase = ''first_byte'' then 60000 \<le> ms
         else if phase = ''idle'' then 30000 \<le> ms
         else False))"

section \<open>Request facts\<close>

record request_facts =
  rf_endpoint :: string
  rf_method :: string
  rf_model :: string
  rf_provider_pinned :: bool

definition telemetry_provider_pinned :: "gvalue \<Rightarrow> bool" where
  "telemetry_provider_pinned p = (case p of
       GProvider _ prefs \<Rightarrow> pp_allow_fallbacks prefs = Some False
     | GMap m \<Rightarrow> obj_get m ''allow_fallbacks'' = GBool False
     | _ \<Rightarrow> False)"

definition telemetry_request_facts_for :: "string \<Rightarrow> string \<Rightarrow> gvalue \<Rightarrow> request_facts" where
  "telemetry_request_facts_for http_method path body =
     (let facts = \<lparr>rf_endpoint = endpoint_enum path, rf_method = to_upper http_method, rf_model = [],
                   rf_provider_pinned = False\<rparr> in
      case body of
        GMap members \<Rightarrow>
          facts\<lparr>rf_model := (case obj_get members ''model'' of
                  GString m \<Rightarrow> (if model_ok m then m else []) | _ \<Rightarrow> []),
                rf_provider_pinned := telemetry_provider_pinned (obj_get members ''provider'')\<rparr>
      | _ \<Rightarrow> facts)"

section \<open>Platform identity\<close>

definition telemetry_os_enum :: "string \<Rightarrow> string" where
  "telemetry_os_enum goos =
     (if goos = ''darwin'' then ''macos''
      else if goos \<in> {''linux'', ''windows'', ''ios'', ''android'', ''freebsd''} then goos
      else ''other'')"

definition telemetry_arch_enum :: "string \<Rightarrow> string" where
  "telemetry_arch_enum arch =
     (if arch = ''amd64'' then ''x64'' else if arch = ''386'' then ''x32'' else if arch = ''arm'' then ''arm''
      else if arch = ''arm64'' then ''arm64'' else if arch = ''wasm'' then ''wasm'' else ''other'')"

record wire_sdk =
  sdk_name :: string
  sdk_version :: string
  sdk_lang :: string
  sdk_runtime :: string
  sdk_os :: string
  sdk_arch :: string

text \<open>The build's version and the Go runtime's version, system and architecture are arguments.\<close>

definition telemetry_sdk_identity :: "string \<Rightarrow> string \<Rightarrow> string \<Rightarrow> string \<Rightarrow> wire_sdk" where
  "telemetry_sdk_identity version runtime_version goos goarch =
     (let token = ''go/'' @ (if has_prefix runtime_version ''go'' then drop 2 runtime_version else runtime_version) in
      \<lparr>sdk_name = ''tr-go'',
       sdk_version = (if 32 < length version \<or> \<not> semver_ok version then ''0.0.0'' else version),
       sdk_lang = ''go'',
       sdk_runtime = (if runtime_token_ok token then token else ''go/0.0.0''),
       sdk_os = telemetry_os_enum goos,
       sdk_arch = telemetry_arch_enum goarch\<rparr>)"

section \<open>Lemmas\<close>

lemma error_chain_from_length:
  "length chain \<le> telemetry_max_error_chain_links \<Longrightarrow>
     length (error_chain_from q chain) \<le> telemetry_max_error_chain_links"
proof (induction q chain rule: error_chain_from.induct)
  case (1 q chain)
  then show ?case by (subst error_chain_from.simps) (auto split: option.split)
qed

lemma telemetry_error_chain_length: "length (telemetry_error_chain err) \<le> 6"
  using error_chain_from_length [of "[]" "[err]"]
  by (simp add: telemetry_error_chain_def telemetry_max_error_chain_links_def)

lemma chain_any_value: "chain_any ls p = Some (\<exists>l \<in> set ls. p l)"
  by (induction ls) (auto split: bool.split)

lemma branch_value [simp]:
  "branch (Some True) x y = x" "branch (Some False) x y = y" "branch None x y = None"
  by (simp_all add: branch_def)

lemma or_panic_value [simp]:
  "or_panic (Some True) b = Some True" "or_panic (Some False) b = b" "or_panic None b = None"
  by (simp_all add: or_panic_def)

lemma or_panic_values [simp]: "or_panic (Some a) (Some b) = Some (a \<or> b)"
  by (cases a) simp_all

lemma branch_closed:
  "(\<And>c. x = Some c \<Longrightarrow> c \<in> S) \<Longrightarrow> (\<And>c. y = Some c \<Longrightarrow> c \<in> S) \<Longrightarrow> branch b x y = Some c \<Longrightarrow> c \<in> S"
  by (auto simp: branch_def split: option.splits bool.splits)

text \<open>The only panic of the walk is a typed nil \<open>*net.OpError\<close> in the chain.\<close>

definition no_nil_op :: "go_error list \<Rightarrow> bool" where
  "no_nil_op chain = (NilPointer Ptr_OpError \<notin> set chain)"

definition op_in :: "string \<Rightarrow> go_error list \<Rightarrow> bool" where
  "op_in op chain = list_ex (\<lambda>l. case l of OpError op' _ \<Rightarrow> op' = op | _ \<Rightarrow> False) chain"

lemma op_link_value:
  "l \<noteq> NilPointer Ptr_OpError \<Longrightarrow> op_link op l = Some (case l of OpError op' _ \<Rightarrow> op' = op | _ \<Rightarrow> False)"
  by (cases l) (auto simp: op_link_def split: pointer_type.split)

lemma chain_has_op: "no_nil_op chain \<Longrightarrow> chain_has chain (op_link op) = Some (op_in op chain)"
  by (induction chain) (auto simp: no_nil_op_def op_in_def op_link_value split: bool.split)

lemma chain_has_total:
  "(\<And>l. l \<in> set chain \<Longrightarrow> p l \<noteq> None) \<Longrightarrow> chain_has chain p \<noteq> None"
  by (induction chain) (auto split: option.splits bool.splits)

lemma is_io_link_total: "l \<noteq> NilPointer Ptr_OpError \<Longrightarrow> is_io_link l \<noteq> None"
  by (auto simp: is_io_link_def op_link_value)

lemma timeout_class_closed:
  "timeout_class chain = Some c \<Longrightarrow> c \<in> {''connect_timeout'', ''write_timeout'', ''read_timeout''}"
  unfolding timeout_class_def by (erule branch_closed [rotated 2]; (erule branch_closed [rotated 2])?; simp)

lemma latency_bucket_closed: "latency_bucket ms \<in> set telemetry_latency_buckets"
  by (simp add: latency_bucket_def telemetry_latency_upper_bounds_def telemetry_latency_buckets_def)

lemma endpoint_enum_closed: "endpoint_enum path \<in> set telemetry_endpoints"
proof -
  have "e \<in> set telemetry_endpoints" if "find P endpoint_families = Some (p, e)" for P p e
    using that by (auto simp: find_Some_iff endpoint_families_def telemetry_endpoints_def nth_Cons'
        split: if_splits)
  then show ?thesis
    by (auto simp: endpoint_enum_def Let_def telemetry_endpoints_def split: option.split)
qed

lemma clamp_duration_bounds: "0 \<le> clamp_duration_ms d \<and> clamp_duration_ms d \<le> telemetry_max_duration_ms"
  by (simp add: clamp_duration_ms_def Let_def telemetry_max_duration_ms_def)

lemma host_enum_closed: "host_enum base \<in> set telemetry_hosts"
proof -
  have "name \<in> set telemetry_hosts" if "map_of telemetry_hostnames h = Some name" for h name
    using map_of_SomeD [OF that] by (auto simp: telemetry_hostnames_def telemetry_hosts_def)
  then show ?thesis
    by (auto simp: host_enum_def telemetry_host_custom_def telemetry_hosts_def split: option.split)
qed

section \<open>Properties\<close>

lemma trustedrouter_host_named:
  assumes "host_enum base \<noteq> telemetry_host_custom"
  shows "\<exists>host. telemetry_scheme_host base = Some (''https'', host) \<and>
    (host \<in> fst ` set telemetry_hostnames \<or> host = ''trustedrouter.com'' \<or> has_suffix host ''.trustedrouter.com'')"
proof (cases "telemetry_scheme_host base")
  case (Some p)
  then obtain sch host where p: "telemetry_scheme_host base = Some (sch, host)" by (cases p) auto
  with assms have sch: "sch = ''https''" by (auto simp: host_enum_def split: if_splits)
  show ?thesis
  proof (cases "map_of telemetry_hostnames host")
    case None
    with assms p sch have "is_telemetry_control_host base" by (auto simp: host_enum_def split: if_splits)
    with p sch show ?thesis by (auto simp: is_telemetry_control_host_def)
  next
    case (Some name)
    with map_of_SomeD [OF Some] p sch show ?thesis by force
  qed
qed (use assms in \<open>simp add: host_enum_def\<close>)

text \<open>
  Telemetry that nobody asked for is on only between TrustedRouter's own hosts: with
  no explicit option and no environment variable, it is enabled only if the inference
  base is https on a host of the telemetry allow-list or of the trustedrouter.com domain
  and the control base is https on that domain; DO_NOT_TRACK=1 always disables it then,
  and an explicit option always wins.
\<close>

theorem telemetry_default_only_own_hosts:
  "(resolve_telemetry_enabled None base control getenv \<and> trim_space (getenv ''TRUSTEDROUTER_TELEMETRY'') = [] \<longrightarrow>
      trim_space (getenv ''DO_NOT_TRACK'') \<noteq> ''1'' \<and>
      is_telemetry_control_host control \<and>
      (\<exists>host. telemetry_scheme_host base = Some (''https'', host) \<and>
         (host \<in> fst ` set telemetry_hostnames \<or> host = ''trustedrouter.com'' \<or>
          has_suffix host ''.trustedrouter.com''))) \<and>
   resolve_telemetry_enabled (Some b) base control getenv = b"
  using trustedrouter_host_named [of base]
  by (auto simp: resolve_telemetry_enabled_def Let_def split: if_splits)

definition bare_environment :: "string \<Rightarrow> string" where
  "bare_environment k = []"

theorem telemetry_default_only_own_hosts_witness:
  "resolve_telemetry_enabled None ''https://api.trustedrouter.com/v1'' ''https://trustedrouter.com/v1'' bare_environment \<and>
   is_telemetry_control_host ''https://trustedrouter.com/v1''"
proof -
  have "resolve_telemetry_enabled None ''https://api.trustedrouter.com/v1'' ''https://trustedrouter.com/v1'' bare_environment"
    "trim_space (bare_environment ''TRUSTEDROUTER_TELEMETRY'') = []" by code_simp+
  with telemetry_default_only_own_hosts [of "''https://api.trustedrouter.com/v1''"
      "''https://trustedrouter.com/v1''" bare_environment]
  show ?thesis by blast
qed

lemma classify_closed: "classify_transport_error err = Some c \<Longrightarrow> c \<in> set telemetry_error_classes"
proof (cases err)
  case None
  assume "classify_transport_error err = Some c"
  with None show ?thesis by (auto simp: classify_transport_error_def telemetry_error_classes_def)
next
  case (Some e)
  have t: "timeout_class ch = Some c \<Longrightarrow> c \<in> set telemetry_error_classes" for ch c
    using timeout_class_closed by (fastforce simp: telemetry_error_classes_def)
  assume "classify_transport_error err = Some c"
  then show ?thesis
    unfolding classify_transport_error_def Let_def
    using Some
    by (auto simp: branch_def telemetry_error_classes_def dest!: timeout_class_closed
        split: option.splits bool.splits)
qed

lemma classify_proxy:
  assumes "no_nil_op (telemetry_error_chain err)" "op_in ''proxyconnect'' (telemetry_error_chain err)"
  shows "classify_transport_error err = Some ''proxy_error'' \<or> classify_transport_error err = Some ''connect_timeout''"
proof -
  have "err \<noteq> None"
  proof
    assume "err = None"
    then have "telemetry_error_chain err = []"
      by (simp add: telemetry_error_chain_def error_chain_from.simps)
    with assms(2) show False by (simp add: op_in_def)
  qed
  with assms show ?thesis
    by (auto simp: classify_transport_error_def Let_def chain_has_op chain_any_value timeout_class_def branch_def
        split: bool.splits)
qed

lemma classify_total:
  assumes "no_nil_op (telemetry_error_chain err)"
  shows "classify_transport_error err \<noteq> None"
proof -
  have "chain_has (telemetry_error_chain err) is_io_link \<noteq> None"
    using assms by (intro chain_has_total is_io_link_total) (auto simp: no_nil_op_def)
  with assms show ?thesis
    by (auto simp: classify_transport_error_def Let_def chain_has_op chain_any_value timeout_class_def branch_def
        split: option.splits bool.splits)
qed

text \<open>
  C13. Classifying a transport error looks at no more than six links, answers a class of
  the closed vocabulary, always answers unless the chain holds a typed nil
  \<open>*net.OpError\<close>, and blames a failed proxy CONNECT on the proxy (or on connecting),
  never on DNS, TLS or a refusal of the service behind it.
\<close>

theorem classify_transport_error_closed:
  "length (telemetry_error_chain err) \<le> 6 \<and>
   (\<forall>c. classify_transport_error err = Some c \<longrightarrow> c \<in> set telemetry_error_classes) \<and>
   (no_nil_op (telemetry_error_chain err) \<longrightarrow> classify_transport_error err \<noteq> None) \<and>
   (no_nil_op (telemetry_error_chain err) \<and> op_in ''proxyconnect'' (telemetry_error_chain err) \<longrightarrow>
      classify_transport_error err \<in> {Some ''proxy_error'', Some ''connect_timeout''})"
  using telemetry_error_chain_length classify_closed classify_total classify_proxy by blast

text \<open>A proxy that refuses the connection, as \<open>net/http\<close> reports it.\<close>

definition refused_proxy :: go_error where
  "refused_proxy = UrlError ''Post'' ''https://api.trustedrouter.com/v1'' (Some (OpError ''proxyconnect''
     (Some (OpError ''dial'' (Some (SyscallError (Some (Errno ECONNREFUSED))))))))"

theorem classify_transport_error_closed_witness:
  "op_in ''proxyconnect'' (telemetry_error_chain (Some refused_proxy)) \<and>
   classify_transport_error (Some refused_proxy) \<in> {Some ''proxy_error'', Some ''connect_timeout''}"
proof -
  have "no_nil_op (telemetry_error_chain (Some refused_proxy))"
    "op_in ''proxyconnect'' (telemetry_error_chain (Some refused_proxy))" by code_simp+
  with classify_transport_error_closed [of "Some refused_proxy"] show ?thesis by blast
qed

end
