(* ===== verification/Telemetry_Recorder.thy ===== *)
theory Telemetry_Recorder
  imports Telemetry_Vocab
begin

text \<open>
  The per-call recorder of \<open>telemetry.go\<close>: its state, every callback of the transport
  engine and of the body wrapper, the \<open>x-tr-client\<close> header and the event and counters a
  finished call hands to the sink.  A value with its \<open>has\<close> flag is one option; \<open>time.Now()\<close>
  is the argument \<open>now\<close>; a callback that would panic leaves the state as it is (the
  source recovers the panic before any mutation).
\<close>

record attempt_record =
  at_index :: nat
  at_host :: string
  at_outcome :: string
  at_status :: int
  at_error_class :: string
  at_error_source :: string
  at_should_retry :: string
  at_retry_after :: "int option"
  at_elapsed :: int
  at_ttfb :: "int option"
  at_request_id :: string
  at_moved :: bool
  at_phase :: string

record request_event =
  ev_endpoint :: string
  ev_method :: string
  ev_streaming :: bool
  ev_provider_pinned :: bool
  ev_model :: string
  ev_attempts :: "attempt_record list"
  ev_final_outcome :: string
  ev_final_status :: int
  ev_total_ms :: int
  ev_ttft :: "int option"
  ev_failover_used :: bool
  ev_timeout_phase :: string
  ev_configured :: "int option"

record counter_key =
  ck_level :: string
  ck_endpoint :: string
  ck_streaming :: bool
  ck_host :: string
  ck_outcome :: string
  ck_error_class :: string
  ck_status_class :: string
  ck_timeout_phase :: string
  ck_timeout_floor_met :: bool
  ck_provider_pinned :: bool

record counter_increment =
  ci_key :: counter_key
  ci_requests :: int
  ci_attempts :: int
  ci_failover_used :: int
  ci_first_attempt_success :: int
  ci_total_ms_hist :: "(string \<times> int) list"
  ci_first_event_ms_hist :: "(string \<times> int) list"

record overflow_entry =
  oe_key :: counter_key
  oe_attempts :: int
  oe_moved :: int

record recorder =
  rc_sink :: bool \<comment> \<open>a sink is attached\<close>
  rc_endpoint :: string
  rc_method :: string
  rc_streaming :: bool
  rc_provider_pinned :: bool
  rc_model :: string
  rc_configured :: "int option"
  rc_recordable :: bool
  rc_attempts :: "attempt_record list"
  rc_overflow :: "overflow_entry list"
  rc_folded :: "nat option" \<comment> \<open>\<open>foldedIndex\<close>, -1 is \<open>None\<close>\<close>
  rc_recorded :: nat
  rc_first_error_class :: string
  rc_last :: "attempt_record option"
  rc_next_index :: nat
  rc_failover_used :: bool
  rc_first_started :: instant
  rc_attempt_start :: instant
  rc_current_host :: string
  rc_current_index :: nat
  rc_begun :: bool
  rc_ttft :: "int option"
  rc_exhausted :: bool
  rc_finished :: bool

definition new_request_recorder :: "bool \<Rightarrow> request_facts \<Rightarrow> bool \<Rightarrow> duration option \<Rightarrow> recorder" where
  "new_request_recorder sink facts streaming timeout =
     \<lparr>rc_sink = sink, rc_endpoint = rf_endpoint facts, rc_method = to_upper (rf_method facts),
      rc_streaming = streaming, rc_provider_pinned = rf_provider_pinned facts,
      rc_model = (if model_ok (rf_model facts) then rf_model facts else []),
      rc_configured = (case timeout of
          Some d \<Rightarrow> (if 0 < d then Some (clamp_int (milliseconds d) 1 telemetry_max_duration_ms) else None)
        | None \<Rightarrow> None),
      rc_recordable = (rf_endpoint facts \<in> set telemetry_endpoints \<and>
          (to_upper (rf_method facts) = ''GET'' \<or> to_upper (rf_method facts) = ''POST'')),
      rc_attempts = [], rc_overflow = [], rc_folded = None, rc_recorded = 0, rc_first_error_class = [],
      rc_last = None, rc_next_index = 0, rc_failover_used = False, rc_first_started = 0,
      rc_attempt_start = 0, rc_current_host = [], rc_current_index = 0, rc_begun = False, rc_ttft = None,
      rc_exhausted = False, rc_finished = False\<rparr>"

section \<open>Counter keys and the overflow fold\<close>

definition configured_timeout_for :: "recorder \<Rightarrow> string \<Rightarrow> int option" where
  "configured_timeout_for r phase =
     (if phase \<in> {''connect'', ''first_byte'', ''idle''} then rc_configured r else None)"

definition attempt_counter_key :: "recorder \<Rightarrow> attempt_record \<Rightarrow> counter_key" where
  "attempt_counter_key r a =
     (let phase = (if at_phase a = [] then ''none'' else at_phase a) in
      \<lparr>ck_level = ''attempt'', ck_endpoint = rc_endpoint r, ck_streaming = rc_streaming r,
       ck_host = at_host a, ck_outcome = at_outcome a, ck_error_class = at_error_class a,
       ck_status_class = status_class (at_status a), ck_timeout_phase = phase,
       ck_timeout_floor_met = timeout_floor_met phase (configured_timeout_for r phase),
       ck_provider_pinned = rc_provider_pinned r\<rparr>)"

text \<open>The first entry with the key counts the attempt; a new entry is appended.\<close>

fun add_overflow :: "counter_key \<Rightarrow> bool \<Rightarrow> overflow_entry list \<Rightarrow> overflow_entry list" where
  "add_overflow k mv [] = [\<lparr>oe_key = k, oe_attempts = 1, oe_moved = (if mv then 1 else 0)\<rparr>]"
| "add_overflow k mv (e # es) =
     (if oe_key e = k
      then e\<lparr>oe_attempts := oe_attempts e + 1, oe_moved := oe_moved e + (if mv then 1 else 0)\<rparr> # es
      else e # add_overflow k mv es)"

definition fold_overflow :: "recorder \<Rightarrow> recorder" where
  "fold_overflow r = (case rc_last r of None \<Rightarrow> r
     | Some a \<Rightarrow>
         (if rc_folded r = Some (at_index a) \<or> at_index a \<in> at_index ` set (rc_attempts r) then r
          else r\<lparr>rc_folded := Some (at_index a),
                 rc_overflow := add_overflow (attempt_counter_key r a) (at_moved a) (rc_overflow r)\<rparr>))"

section \<open>Callbacks\<close>

definition begin_attempt :: "instant \<Rightarrow> string \<Rightarrow> recorder \<Rightarrow> recorder" where
  "begin_attempt now base r0 =
     (let r1 = fold_overflow (r0\<lparr>rc_current_index := rc_next_index r0,
                 rc_next_index := Suc (rc_next_index r0), rc_current_host := telemetry_host_custom\<rparr>);
          r2 = (if rc_begun r1 then r1 else r1\<lparr>rc_first_started := now, rc_begun := True\<rparr>)
      in r2\<lparr>rc_attempt_start := now, rc_current_host := host_enum base\<rparr>)"

definition current_record :: "recorder \<Rightarrow> attempt_record option" where
  "current_record r = (case rc_last r of None \<Rightarrow> None
     | Some a \<Rightarrow> (if at_index a = rc_current_index r then Some a else None))"

definition replace_attempt :: "attempt_record \<Rightarrow> attempt_record list \<Rightarrow> attempt_record list" where
  "replace_attempt a as = map (\<lambda>b. if at_index b = at_index a then a else b) as"

definition normal_record :: "attempt_record \<Rightarrow> attempt_record" where
  "normal_record a = a\<lparr>at_phase := (if at_phase a = [] then ''none'' else at_phase a),
     at_should_retry := (if at_should_retry a = [] then ''absent'' else at_should_retry a)\<rparr>"

text \<open>Whether the last record is of the same attempt.\<close>

definition replaces_last :: "attempt_record \<Rightarrow> recorder \<Rightarrow> bool" where
  "replaces_last a r = (case rc_last r of None \<Rightarrow> False | Some b \<Rightarrow> at_index b = at_index a)"

definition store_attempt :: "attempt_record \<Rightarrow> recorder \<Rightarrow> recorder" where
  "store_attempt a0 r =
     (let a = normal_record a0;
          replaced = replaces_last a r;
          stored = (at_index a \<in> at_index ` set (rc_attempts r))
      in r\<lparr>rc_attempts :=
             (if stored then replace_attempt a (rc_attempts r)
              else if \<not> replaced \<and> length (rc_attempts r) < telemetry_max_event_attempts
              then rc_attempts r @ [a] else rc_attempts r),
           rc_recorded := (if replaced then rc_recorded r else Suc (rc_recorded r)),
           rc_first_error_class :=
             (if rc_first_error_class r = [] \<and> at_error_class a \<noteq> [] then at_error_class a
              else rc_first_error_class r),
           rc_last := Some a\<rparr>)"

definition telemetry_should_retry :: "headers \<Rightarrow> string" where
  "telemetry_should_retry hs =
     (let v = to_lower (trim_space (header_get hs ''X-Should-Retry'')) in
      if v = ''true'' then ''true'' else if v = ''false'' then ''false'' else ''absent'')"

definition telemetry_request_id :: "headers \<Rightarrow> string" where
  "telemetry_request_id hs =
     (let v = trim_space (header_get hs ''X-Request-Id'') in if request_id_ok v then v else [])"

text \<open>The hint is between 0 and 60 seconds, so the conversion to int64 is exact.\<close>

definition retry_after_ms :: "headers \<Rightarrow> int option" where
  "retry_after_ms hs = (case retry_after_seconds hs of None \<Rightarrow> None
     | Some seconds \<Rightarrow> map_option (\<lambda>i. clamp_int i 0 telemetry_max_duration_ms)
         (f64_to_i64 (fmul seconds (Fin 1000))))"

definition on_response :: "instant \<Rightarrow> int \<Rightarrow> headers \<Rightarrow> recorder \<Rightarrow> recorder" where
  "on_response now status hs r =
     (if \<not> rc_begun r then r
      else let elapsed = clamp_duration_ms (now - rc_attempt_start r) in
        store_attempt
          \<lparr>at_index = rc_current_index r, at_host = rc_current_host r,
           at_outcome = (if status < 400 then ''ok'' else ''http_error''), at_status = status,
           at_error_class = [], at_error_source = [], at_should_retry = telemetry_should_retry hs,
           at_retry_after = retry_after_ms hs, at_elapsed = elapsed, at_ttfb = Some elapsed,
           at_request_id = telemetry_request_id hs, at_moved = False, at_phase = ''none''\<rparr> r)"

text \<open>Error class, phase and whether it is a timeout; \<open>None\<close> is a panic.\<close>

definition transport_facts :: "go_error \<Rightarrow> bool \<Rightarrow> (string \<times> string \<times> bool) option" where
  "transport_facts err open_timed_out =
     (if open_timed_out then
        branch (chain_has (telemetry_error_chain (Some err)) (op_link ''dial''))
          (Some (''connect_timeout'', ''connect'', True)) (Some (''read_timeout'', ''first_byte'', True))
      else if link_is Stream_Idle_Timeout err then Some (''read_timeout'', ''first_byte'', True)
      else map_option (\<lambda>c.
          if c = ''connect_timeout'' then (c, ''connect'', True)
          else if c = ''read_timeout'' \<or> c = ''write_timeout'' then (c, ''first_byte'', True)
          else (c, ''none'', False)) (classify_transport_error (Some err)))"

definition failure_outcome :: "string \<times> string \<times> bool \<Rightarrow> bool \<Rightarrow> string \<times> string \<times> string" where
  "failure_outcome facts body_started =
     (let (cls, phase, timed_out) = facts in
      if timed_out then
        (if body_started then (''timeout'', (if cls = ''read_timeout'' then ''stream_stalled'' else cls), ''idle'')
         else (''timeout'', cls, phase))
      else if body_started then (''stream_broken'', cls, phase)
      else (''transport_error'', cls, phase))"

definition on_transport_error ::
    "instant \<Rightarrow> go_error \<Rightarrow> bool \<Rightarrow> bool \<Rightarrow> bool \<Rightarrow> recorder \<Rightarrow> recorder" where
  "on_transport_error now err open_timed_out response_opened body_started r =
     (if \<not> rc_begun r then r
      else case transport_facts err open_timed_out of None \<Rightarrow> r
      | Some facts \<Rightarrow>
        (let (outcome, cls, phase) = failure_outcome facts body_started;
             fresh = \<lparr>at_index = rc_current_index r, at_host = rc_current_host r, at_outcome = outcome,
               at_status = 0, at_error_class = cls, at_error_source = [], at_should_retry = [],
               at_retry_after = None, at_elapsed = clamp_duration_ms (now - rc_attempt_start r),
               at_ttfb = None, at_request_id = [], at_moved = False, at_phase = phase\<rparr>
         in store_attempt
              (case current_record r of None \<Rightarrow> fresh
               | Some p \<Rightarrow> fresh\<lparr>at_status := (if response_opened then at_status p else 0),
                   at_ttfb := (if response_opened then at_ttfb p else None),
                   at_error_source := at_error_source p, at_should_retry := at_should_retry p,
                   at_retry_after := at_retry_after p, at_request_id := at_request_id p\<rparr>) r))"

definition mark_moved :: "attempt_record \<Rightarrow> attempt_record" where
  "mark_moved a = a\<lparr>at_moved := True\<rparr>"

definition on_moved :: "recorder \<Rightarrow> recorder" where
  "on_moved r =
     (let r1 = r\<lparr>rc_failover_used := True\<rparr> in
      case current_record r of None \<Rightarrow> r1
      | Some p \<Rightarrow> r1\<lparr>rc_last := Some (mark_moved p),
            rc_attempts := map (\<lambda>b. if at_index b = at_index p then mark_moved b else b) (rc_attempts r)\<rparr>)"

definition on_first_event :: "instant \<Rightarrow> recorder \<Rightarrow> recorder" where
  "on_first_event now r =
     (if \<not> rc_begun r \<or> rc_ttft r \<noteq> None then r
      else r\<lparr>rc_ttft := Some (clamp_duration_ms (now - rc_first_started r))\<rparr>)"

definition on_aborted :: "instant \<Rightarrow> recorder \<Rightarrow> recorder" where
  "on_aborted now r =
     (if \<not> rc_begun r then r
      else let fresh = \<lparr>at_index = rc_current_index r, at_host = rc_current_host r, at_outcome = ''aborted'',
               at_status = 0, at_error_class = [], at_error_source = [], at_should_retry = [],
               at_retry_after = None, at_elapsed = clamp_duration_ms (now - rc_attempt_start r),
               at_ttfb = None, at_request_id = [], at_moved = False, at_phase = ''none''\<rparr>
        in store_attempt
             (case current_record r of None \<Rightarrow> fresh
              | Some p \<Rightarrow> fresh\<lparr>at_status := at_status p, at_error_class := at_error_class p,
                  at_error_source := at_error_source p, at_should_retry := at_should_retry p,
                  at_retry_after := at_retry_after p, at_ttfb := at_ttfb p,
                  at_request_id := at_request_id p, at_moved := at_moved p, at_phase := at_phase p\<rparr>) r)"

definition mark_exhausted :: "bool \<Rightarrow> recorder \<Rightarrow> recorder" where
  "mark_exhausted b r = r\<lparr>rc_exhausted := b\<rparr>"

section \<open>Finishing a call\<close>

definition final_event :: "instant \<Rightarrow> recorder \<Rightarrow> attempt_record \<Rightarrow> request_event" where
  "final_event now r final =
     (let phase = (if at_phase final = [] then ''none'' else at_phase final) in
      \<lparr>ev_endpoint = rc_endpoint r, ev_method = rc_method r, ev_streaming = rc_streaming r,
       ev_provider_pinned = rc_provider_pinned r, ev_model = rc_model r, ev_attempts = rc_attempts r,
       ev_final_outcome = (if rc_exhausted r \<and> 1 < rc_recorded r \<and> at_outcome final \<noteq> ''ok''
                           then ''exhausted'' else at_outcome final),
       ev_final_status = at_status final,
       ev_total_ms = clamp_duration_ms (now - rc_first_started r),
       ev_ttft = rc_ttft r, ev_failover_used = rc_failover_used r, ev_timeout_phase = phase,
       ev_configured = configured_timeout_for r phase\<rparr>)"

definition request_counter :: "instant \<Rightarrow> recorder \<Rightarrow> attempt_record \<Rightarrow> counter_increment" where
  "request_counter now r final =
     (let phase = (if at_phase final = [] then ''none'' else at_phase final);
          first = (case rc_attempts r of [] \<Rightarrow> final | a # _ \<Rightarrow> a) in
      \<lparr>ci_key = \<lparr>ck_level = ''request'', ck_endpoint = rc_endpoint r, ck_streaming = rc_streaming r,
         ck_host = at_host final, ck_outcome = at_outcome final, ck_error_class = rc_first_error_class r,
         ck_status_class = status_class (at_status final), ck_timeout_phase = phase,
         ck_timeout_floor_met = timeout_floor_met phase (configured_timeout_for r phase),
         ck_provider_pinned = rc_provider_pinned r\<rparr>,
       ci_requests = 1, ci_attempts = int (rc_recorded r),
       ci_failover_used = (if rc_failover_used r then 1 else 0),
       ci_first_attempt_success = (if at_outcome first = ''ok'' then 1 else 0),
       ci_total_ms_hist = [(latency_bucket (clamp_duration_ms (now - rc_first_started r)), 1)],
       ci_first_event_ms_hist = (case rc_ttft r of
            Some ms \<Rightarrow> [(latency_bucket ms, 1)]
          | None \<Rightarrow> (case at_ttfb final of Some ms \<Rightarrow> [(latency_bucket ms, 1)] | None \<Rightarrow> []))\<rparr>)"

definition attempt_counter :: "recorder \<Rightarrow> attempt_record \<Rightarrow> counter_increment" where
  "attempt_counter r a =
     \<lparr>ci_key = attempt_counter_key r a, ci_requests = 1, ci_attempts = 1,
      ci_failover_used = (if at_moved a then 1 else 0), ci_first_attempt_success = 0,
      ci_total_ms_hist = [], ci_first_event_ms_hist = []\<rparr>"

definition overflow_counter :: "overflow_entry \<Rightarrow> counter_increment" where
  "overflow_counter e =
     \<lparr>ci_key = oe_key e, ci_requests = oe_attempts e, ci_attempts = oe_attempts e,
      ci_failover_used = oe_moved e, ci_first_attempt_success = 0,
      ci_total_ms_hist = [], ci_first_event_ms_hist = []\<rparr>"

definition final_counters :: "instant \<Rightarrow> recorder \<Rightarrow> attempt_record \<Rightarrow> counter_increment list" where
  "final_counters now r final =
     request_counter now r final # map (attempt_counter r) (rc_attempts r) @ map overflow_counter (rc_overflow r)"

type_synonym delivery = "request_event \<times> counter_increment list"

text \<open>\<open>finish\<close>: the new state and what the sink receives, if anything.\<close>

definition finish :: "instant \<Rightarrow> recorder \<Rightarrow> recorder \<times> delivery option" where
  "finish now r0 =
     (if rc_finished r0 then (r0, None)
      else let r1 = r0\<lparr>rc_finished := True\<rparr> in
        if \<not> rc_recordable r1 \<or> \<not> rc_sink r1 \<or> \<not> rc_begun r1 then (r1, None)
        else case rc_last r1 of None \<Rightarrow> (r1, None)
        | Some final \<Rightarrow>
            (let r2 = fold_overflow r1 in (r2, Some (final_event now r2 final, final_counters now r2 final))))"

section \<open>The x-tr-client header\<close>

definition previous_facts :: "recorder \<Rightarrow> attempt_record \<Rightarrow> (string \<times> string) list" where
  "previous_facts r p =
     (let reported = at_outcome p \<in> {''http_error'', ''transport_error'', ''timeout'', ''stream_broken''} in
      [(''po'', if reported then at_outcome p else ''none''),
       (''pc'', if reported \<and> at_error_class p \<noteq> [] then at_error_class p else ''none''),
       (''ph'', at_host p),
       (''pm'', itoa (at_elapsed p)),
       (''sm'', itoa (clamp_duration_ms (rc_attempt_start r - rc_first_started r)))])"

text \<open>The parts of the header in order, or \<open>None\<close> when the attempt must not be described.\<close>

definition header_parts :: "recorder \<Rightarrow> (string \<times> string) list option" where
  "header_parts r =
     (let head = [(''v'', ''1''), (''a'', itoa (int (rc_current_index r)))];
          streaming = [(''s'', if rc_streaming r then ''1'' else ''0'')];
          failed_over = [(''fo'', if rc_failover_used r then ''1'' else ''0'')]
      in if rc_current_index r = 0 then Some (head @ streaming)
         else case rc_last r of None \<Rightarrow> None
         | Some p \<Rightarrow> (if Suc (at_index p) \<noteq> rc_current_index r then None
                     else Some (head @ previous_facts r p @ streaming @ failed_over)))"

definition render_part :: "string \<times> string \<Rightarrow> string" where
  "render_part p = fst p @ ''='' @ snd p"

definition header_value :: "recorder \<Rightarrow> string" where
  "header_value r =
     (if \<not> rc_begun r \<or> rc_current_host r = telemetry_host_custom \<or> 99 < rc_current_index r then []
      else case header_parts r of None \<Rightarrow> []
      | Some parts \<Rightarrow>
          (let header = join '';'' (map render_part parts) in
           if telemetry_max_header_bytes < length header \<or> \<not> list_all (\<lambda>p. header_value_ok (snd p)) parts
           then [] else header))"

end
