(* ===== verification/Reporter_Wire.thy ===== *)
theory Reporter_Wire
  imports Telemetry_Recorder
begin

text \<open>
  The wire shapes of \<open>telemetry_reporter.go\<close> and the functions that bound one attempt, one
  event and one counter row for the wire: every string falls back to a closed value, every
  integer is clamped or nulled.
\<close>

record wire_attempt =
  wa_index :: int
  wa_host :: string
  wa_outcome :: string
  wa_status :: "int option"
  wa_error_class :: "string option"
  wa_error_source :: "string option"
  wa_retry_after :: "int option"
  wa_elapsed :: int
  wa_ttfb :: "int option"
  wa_request_id :: "string option"
  wa_moved :: bool
  wa_should_retry :: "bool option"

record wire_event =
  we_age_ms :: int
  we_plane :: string
  we_endpoint :: string
  we_method :: string
  we_streaming :: bool
  we_provider_pinned :: bool
  we_model :: "string option"
  we_attempts :: "wire_attempt list"
  we_final_outcome :: string
  we_final_status :: "int option"
  we_total_ms :: int
  we_ttft :: "int option"
  we_failover_used :: bool
  we_timeout_phase :: string
  we_configured :: "int option"
  we_sample_rate :: float64
  we_sample_reason :: string

definition optional_string :: "string \<Rightarrow> string option" where
  "optional_string s = (if s = [] then None else Some s)"

definition bounded_optional :: "int option \<Rightarrow> int \<Rightarrow> int \<Rightarrow> int option" where
  "bounded_optional v lo hi = (case v of None \<Rightarrow> None | Some i \<Rightarrow> (if i < lo \<or> hi < i then None else Some i))"

definition bounded_count :: "int \<Rightarrow> int" where
  "bounded_count v = clamp_int v 0 telemetry_max_count"

definition closed_or :: "string list \<Rightarrow> string \<Rightarrow> string \<Rightarrow> string" where
  "closed_or vocabulary fallback s = (if s \<in> set vocabulary then s else fallback)"

definition wire_attempt_from :: "attempt_record \<Rightarrow> wire_attempt" where
  "wire_attempt_from a =
     \<lparr>wa_index = clamp_int (int (at_index a)) 0 99,
      wa_host = closed_or telemetry_hosts telemetry_host_custom (at_host a),
      wa_outcome = closed_or telemetry_outcomes ''transport_error'' (at_outcome a),
      wa_status = bounded_optional (Some (at_status a)) 100 599,
      wa_error_class = optional_string (closed_or telemetry_error_classes [] (at_error_class a)),
      wa_error_source = optional_string (closed_or telemetry_error_sources [] (at_error_source a)),
      wa_retry_after = bounded_optional (at_retry_after a) 0 telemetry_max_duration_ms,
      wa_elapsed = clamp_int (at_elapsed a) 0 telemetry_max_duration_ms,
      wa_ttfb = bounded_optional (at_ttfb a) 0 telemetry_max_duration_ms,
      wa_request_id = optional_string (if request_id_ok (at_request_id a) then at_request_id a else []),
      wa_moved = at_moved a,
      wa_should_retry = (if at_should_retry a = ''true'' then Some True
         else if at_should_retry a = ''false'' then Some False else None)\<rparr>"

definition usable_rate :: "float64 \<Rightarrow> bool" where
  "usable_rate r \<longleftrightarrow> \<not> (is_nan r \<or> is_inf r \<or> fle r (Fin 0) \<or> flt (Fin 1) r)"

definition wire_event_from :: "request_event \<Rightarrow> float64 \<Rightarrow> string \<Rightarrow> int \<Rightarrow> wire_event option" where
  "wire_event_from ev rate reason age_ms =
     (let attempts = map wire_attempt_from (take telemetry_max_event_attempts (ev_attempts ev)) in
      if ev_attempts ev = [] \<or> reason \<notin> set telemetry_sample_reasons \<or> \<not> usable_rate rate then None
      else Some
        \<lparr>we_age_ms = clamp_int age_ms 0 telemetry_max_age_ms,
         we_plane = ''inference'',
         we_endpoint = closed_or telemetry_endpoints ''inference_other'' (ev_endpoint ev),
         we_method = closed_or [''GET'', ''POST''] ''POST'' (ev_method ev),
         we_streaming = ev_streaming ev,
         we_provider_pinned = ev_provider_pinned ev,
         we_model = optional_string (if model_ok (ev_model ev) then ev_model ev else []),
         we_attempts = attempts,
         we_final_outcome = closed_or telemetry_final_outcomes (wa_outcome (last attempts)) (ev_final_outcome ev),
         we_final_status = bounded_optional (Some (ev_final_status ev)) 100 599,
         we_total_ms = clamp_int (ev_total_ms ev) 0 telemetry_max_duration_ms,
         we_ttft = bounded_optional (ev_ttft ev) 0 telemetry_max_duration_ms,
         we_failover_used = ev_failover_used ev,
         we_timeout_phase = closed_or telemetry_timeout_phases ''none'' (ev_timeout_phase ev),
         we_configured = bounded_optional (ev_configured ev) 1 telemetry_max_duration_ms,
         we_sample_rate = rate,
         we_sample_reason = reason\<rparr>)"

section \<open>Sampling\<close>

definition telemetry_slow_ms :: int where
  "telemetry_slow_ms = 30000"

text \<open>\<open>sampleReason\<close>: \<open>draw\<close> is the random number, \<open>rate\<close> the current success rate.\<close>

definition sample_reason :: "request_event \<Rightarrow> float64 \<Rightarrow> float64 \<Rightarrow> (string \<times> float64) option" where
  "sample_reason ev rate draw =
     (if ev_final_outcome ev \<noteq> ''ok'' then Some (''failure'', Fin 1)
      else if 1 < length (ev_attempts ev) \<or> ev_failover_used ev then Some (''retried'', Fin 1)
      else if telemetry_slow_ms < clamp_int (ev_total_ms ev) 0 telemetry_max_duration_ms then Some (''slow'', Fin 1)
      else if fle rate (Fin 0) \<or> fle rate draw then None
      else Some (''random'', rate))"

section \<open>Identity\<close>

definition normalise_sdk_identity :: "wire_sdk \<Rightarrow> wire_sdk \<Rightarrow> wire_sdk" where
  "normalise_sdk_identity fallback i =
     \<lparr>sdk_name = closed_or [''tr-py'', ''tr-js'', ''tr-go'', ''tr-rust'', ''tr-java'', ''tr-swift''] (sdk_name fallback) (sdk_name i),
      sdk_version = (if 32 < length (sdk_version i) \<or> \<not> semver_ok (sdk_version i) then sdk_version fallback else sdk_version i),
      sdk_lang = closed_or [''python'', ''js'', ''go'', ''rust'', ''java'', ''swift''] (sdk_lang fallback) (sdk_lang i),
      sdk_runtime = (if runtime_token_ok (sdk_runtime i) then sdk_runtime i else sdk_runtime fallback),
      sdk_os = closed_or [''linux'', ''macos'', ''windows'', ''ios'', ''android'', ''freebsd'', ''other''] (sdk_os fallback) (sdk_os i),
      sdk_arch = closed_or [''x64'', ''x32'', ''arm'', ''arm64'', ''wasm'', ''other''] (sdk_arch fallback) (sdk_arch i)\<rparr>"

section \<open>The wire schema\<close>

text \<open>What the schema admits, independently of how a value was bounded.\<close>

definition in_range :: "int \<Rightarrow> int \<Rightarrow> int option \<Rightarrow> bool" where
  "in_range lo hi v = (case v of None \<Rightarrow> True | Some i \<Rightarrow> lo \<le> i \<and> i \<le> hi)"

definition from_list :: "string list \<Rightarrow> string option \<Rightarrow> bool" where
  "from_list vs v = (case v of None \<Rightarrow> True | Some s \<Rightarrow> s \<in> set vs)"

definition wire_attempt_valid :: "wire_attempt \<Rightarrow> bool" where
  "wire_attempt_valid w \<longleftrightarrow>
     0 \<le> wa_index w \<and> wa_index w \<le> 99 \<and> wa_host w \<in> set telemetry_hosts \<and>
     wa_outcome w \<in> set telemetry_outcomes \<and> in_range 100 599 (wa_status w) \<and>
     from_list telemetry_error_classes (wa_error_class w) \<and> from_list telemetry_error_sources (wa_error_source w) \<and>
     in_range 0 telemetry_max_duration_ms (wa_retry_after w) \<and>
     0 \<le> wa_elapsed w \<and> wa_elapsed w \<le> telemetry_max_duration_ms \<and>
     in_range 0 telemetry_max_duration_ms (wa_ttfb w) \<and>
     (case wa_request_id w of None \<Rightarrow> True | Some i \<Rightarrow> request_id_ok i)"

definition wire_event_valid :: "wire_event \<Rightarrow> bool" where
  "wire_event_valid w \<longleftrightarrow>
     0 \<le> we_age_ms w \<and> we_age_ms w \<le> telemetry_max_age_ms \<and> we_plane w = ''inference'' \<and>
     we_endpoint w \<in> set telemetry_endpoints \<and> we_method w \<in> {''GET'', ''POST''} \<and>
     (case we_model w of None \<Rightarrow> True | Some m \<Rightarrow> model_ok m) \<and>
     1 \<le> length (we_attempts w) \<and> length (we_attempts w) \<le> 16 \<and> list_all wire_attempt_valid (we_attempts w) \<and>
     we_final_outcome w \<in> set telemetry_final_outcomes \<and> in_range 100 599 (we_final_status w) \<and>
     0 \<le> we_total_ms w \<and> we_total_ms w \<le> telemetry_max_duration_ms \<and>
     in_range 0 telemetry_max_duration_ms (we_ttft w) \<and> we_timeout_phase w \<in> set telemetry_timeout_phases \<and>
     in_range 1 telemetry_max_duration_ms (we_configured w) \<and>
     (\<exists>q. we_sample_rate w = Fin q \<and> 0 < q \<and> q \<le> 1) \<and> we_sample_reason w \<in> set telemetry_sample_reasons"

lemma clamp_int_bounds: "lo \<le> hi \<Longrightarrow> lo \<le> clamp_int v lo hi \<and> clamp_int v lo hi \<le> hi"
  by (simp add: clamp_int_def)

lemma bounded_optional_range: "in_range lo hi (bounded_optional v lo hi)"
  by (auto simp: in_range_def bounded_optional_def split: option.split)

lemma closed_or_closed: "fallback \<in> set vs \<Longrightarrow> closed_or vs fallback s \<in> set vs"
  by (simp add: closed_or_def)

lemma optional_closed: "from_list vs (optional_string (closed_or vs [] s))"
  by (auto simp: from_list_def optional_string_def closed_or_def)

lemma vocabulary_members:
  "telemetry_host_custom \<in> set telemetry_hosts" "''transport_error'' \<in> set telemetry_outcomes"
  "''inference_other'' \<in> set telemetry_endpoints" "''none'' \<in> set telemetry_timeout_phases"
  by (simp_all add: telemetry_hosts_def telemetry_host_custom_def telemetry_outcomes_def telemetry_endpoints_def
      telemetry_timeout_phases_def)

lemma wire_attempt_from_valid: "wire_attempt_valid (wire_attempt_from a)"
  using clamp_int_bounds [of 0 99] clamp_int_bounds [of 0 telemetry_max_duration_ms]
  by (simp add: wire_attempt_valid_def wire_attempt_from_def bounded_optional_range optional_closed
      closed_or_closed vocabulary_members telemetry_max_duration_ms_def)
    (simp add: optional_string_def)

lemma usable_rate_range: "usable_rate r \<longleftrightarrow> (\<exists>q. r = Fin q \<and> 0 < q \<and> q \<le> 1)"
  by (cases r) (auto simp: usable_rate_def is_nan_def is_inf_def fle_def)

text \<open>
  C19. Nothing outside the published schema can ride a telemetry event: whatever an event
  and its attempts hold (any strings, any numbers, any number of attempts), the wire form,
  when there is one, is valid, that is every string is from a closed list or matches its
  bounded pattern and every number is in its range, with 1 to 16 attempts.
\<close>

theorem wire_event_from_valid:
  assumes "wire_event_from ev rate reason age = Some w"
  shows "wire_event_valid w \<and> we_sample_rate w = rate \<and> we_sample_reason w = reason"
proof -
  have ne: "ev_attempts ev \<noteq> []" and reason: "reason \<in> set telemetry_sample_reasons" and rate: "usable_rate rate"
    using assms by (auto simp: wire_event_from_def Let_def split: if_splits)
  let ?as = "map wire_attempt_from (take telemetry_max_event_attempts (ev_attempts ev))"
  have as: "?as \<noteq> []" "list_all wire_attempt_valid ?as" "length ?as \<le> 16"
    using ne by (simp_all add: telemetry_max_event_attempts_def list_all_iff wire_attempt_from_valid)
  have "wa_outcome (last ?as) \<in> set telemetry_outcomes"
    using as(1,2) last_in_set [OF as(1)] by (auto simp: list_all_iff wire_attempt_valid_def)
  then have final: "wa_outcome (last ?as) \<in> set telemetry_final_outcomes"
    by (simp add: telemetry_final_outcomes_def)
  have w: "w = the (wire_event_from ev rate reason age)" using assms by simp
  show ?thesis
    using ne reason rate as final clamp_int_bounds [of 0 telemetry_max_age_ms]
      clamp_int_bounds [of 0 telemetry_max_duration_ms] closed_or_closed [of "''POST''" "[''GET'', ''POST'']"]
    unfolding w wire_event_from_def Let_def wire_event_valid_def
    by (simp add: usable_rate_range bounded_optional_range closed_or_closed vocabulary_members
        telemetry_max_age_ms_def telemetry_max_duration_ms_def optional_string_def Suc_le_eq)
qed

text \<open>An event whose free text tries to ride along.\<close>

definition leaky_event :: request_event where
  "leaky_event = \<lparr>ev_endpoint = ''/secret'', ev_method = ''DELETE'', ev_streaming = False, ev_provider_pinned = False,
     ev_model = ''my prompt text'', ev_attempts = [\<lparr>at_index = 7000, at_host = ''10.0.0.1'', at_outcome = ''leak'',
       at_status = 42, at_error_class = ''secret'', at_error_source = [], at_should_retry = ''maybe'',
       at_retry_after = Some (- 5), at_elapsed = 99999999, at_ttfb = None, at_request_id = ''rlog_zz'',
       at_moved = False, at_phase = ''none''\<rparr>],
     ev_final_outcome = ''ok'', ev_final_status = 200, ev_total_ms = 12, ev_ttft = None, ev_failover_used = False,
     ev_timeout_phase = ''none'', ev_configured = None\<rparr>"

theorem wire_event_from_valid_witness:
  "\<exists>w. wire_event_from leaky_event (Fin 1) ''random'' 0 = Some w \<and> wire_event_valid w"
proof -
  have "wire_event_from leaky_event (Fin 1) ''random'' 0 \<noteq> None"
    by (simp add: wire_event_from_def leaky_event_def usable_rate_range telemetry_sample_reasons_def Let_def)
  then obtain w where w: "wire_event_from leaky_event (Fin 1) ''random'' 0 = Some w" by auto
  from wire_event_from_valid [OF w] w show ?thesis by blast
qed

text \<open>
  No failure escapes the beacon by sampling: an event that did not end well, was
  retried, failed over or took longer than 30 seconds is always sampled with weight 1, and
  a fast first-attempt success is sampled only below the current rate, with that rate as
  its weight.
\<close>

theorem sample_reason_correct:
  "(ev_final_outcome ev \<noteq> ''ok'' \<or> 1 < length (ev_attempts ev) \<or> ev_failover_used ev \<or>
      telemetry_slow_ms < ev_total_ms ev \<longrightarrow>
      (\<exists>why. sample_reason ev rate draw = Some (why, Fin 1) \<and> why \<in> {''failure'', ''retried'', ''slow''})) \<and>
   (sample_reason ev rate draw = Some (''random'', w) \<longrightarrow> w = rate \<and> \<not> fle rate draw \<and> \<not> fle rate (Fin 0)) \<and>
   (\<forall>why. sample_reason ev rate draw = Some (why, w) \<longrightarrow> why \<in> set telemetry_sample_reasons)"
  by (auto simp: sample_reason_def clamp_int_def telemetry_slow_ms_def telemetry_max_duration_ms_def
      telemetry_sample_reasons_def)

theorem sample_reason_correct_witness:
  "\<exists>why. sample_reason (leaky_event\<lparr>ev_final_outcome := ''exhausted''\<rparr>) (Fin 0) (Fin 0) = Some (why, Fin 1)"
  using sample_reason_correct [of "leaky_event\<lparr>ev_final_outcome := ''exhausted''\<rparr>" "Fin 0" "Fin 0"] by auto

end
