(* ===== verification/Reporter_Counters.thy ===== *)
theory Reporter_Counters
  imports Reporter_Wire
begin

text \<open>
  The minute counters of \<open>telemetry_reporter.go\<close>: rows of counts in an insertion-ordered
  table, the merging of increments, and the fold ladder that keeps the table within 256
  keys.  The table's contract is the locale \<open>ordered_table\<close>; the exactness of folding is
  proved from it.
\<close>

section \<open>Rows\<close>

record counter_value =
  cv_requests :: int
  cv_attempts :: int
  cv_failover_used :: int
  cv_first_attempt_success :: int
  cv_total_ms_hist :: "(string \<times> int) list"
  cv_first_event_ms_hist :: "(string \<times> int) list"

definition zero_counter :: counter_value where
  "zero_counter = \<lparr>cv_requests = 0, cv_attempts = 0, cv_failover_used = 0, cv_first_attempt_success = 0,
     cv_total_ms_hist = [], cv_first_event_ms_hist = []\<rparr>"

definition hist_get :: "(string \<times> int) list \<Rightarrow> string \<Rightarrow> int" where
  "hist_get h b = (case map_of h b of None \<Rightarrow> 0 | Some c \<Rightarrow> c)"

definition merge_histogram :: "(string \<times> int) list \<Rightarrow> (string \<times> int) list \<Rightarrow> (string \<times> int) list" where
  "merge_histogram target from =
     fold (\<lambda>(b, c) t. if b \<in> set telemetry_latency_buckets
                      then AList.update b (hist_get t b + bounded_count c) t else t) from target"

definition merge_increment :: "counter_value \<Rightarrow> counter_increment \<Rightarrow> counter_value" where
  "merge_increment v i =
     \<lparr>cv_requests = cv_requests v + bounded_count (ci_requests i),
      cv_attempts = cv_attempts v + bounded_count (ci_attempts i),
      cv_failover_used = cv_failover_used v + bounded_count (ci_failover_used i),
      cv_first_attempt_success = cv_first_attempt_success v + bounded_count (ci_first_attempt_success i),
      cv_total_ms_hist = merge_histogram (cv_total_ms_hist v) (ci_total_ms_hist i),
      cv_first_event_ms_hist = merge_histogram (cv_first_event_ms_hist v) (ci_first_event_ms_hist i)\<rparr>"

definition as_increment :: "counter_value \<Rightarrow> counter_key \<Rightarrow> counter_increment" where
  "as_increment v k =
     \<lparr>ci_key = k, ci_requests = cv_requests v, ci_attempts = cv_attempts v, ci_failover_used = cv_failover_used v,
      ci_first_attempt_success = cv_first_attempt_success v, ci_total_ms_hist = cv_total_ms_hist v,
      ci_first_event_ms_hist = cv_first_event_ms_hist v\<rparr>"

record wire_counter =
  wc_window_start_age_ms :: int
  wc_key :: counter_key \<comment> \<open>the ten key fields\<close>
  wc_error_class :: "string option"
  wc_requests :: int
  wc_attempts :: int
  wc_failover_used :: int
  wc_first_attempt_success :: int
  wc_total_ms_hist :: "(string \<times> int) list"
  wc_first_event_ms_hist :: "(string \<times> int) list"

definition wire_counter_from :: "counter_key \<Rightarrow> counter_value \<Rightarrow> int \<Rightarrow> wire_counter" where
  "wire_counter_from k v age_ms =
     \<lparr>wc_window_start_age_ms = clamp_int age_ms 0 telemetry_max_age_ms, wc_key = k,
      wc_error_class = optional_string (ck_error_class k),
      wc_requests = clamp_int (cv_requests v) 1 telemetry_max_count,
      wc_attempts = bounded_count (cv_attempts v), wc_failover_used = bounded_count (cv_failover_used v),
      wc_first_attempt_success = bounded_count (cv_first_attempt_success v),
      wc_total_ms_hist = cv_total_ms_hist v, wc_first_event_ms_hist = cv_first_event_ms_hist v\<rparr>"

section \<open>The insertion-ordered table\<close>

type_synonym counter_table = "(counter_key \<times> counter_value) list"

definition table_keys :: "counter_table \<Rightarrow> counter_key list" where
  "table_keys t = map fst t"

definition table_get :: "counter_table \<Rightarrow> counter_key \<Rightarrow> counter_value option" where
  "table_get t k = map_of t k"

definition table_put :: "counter_key \<Rightarrow> counter_value \<Rightarrow> counter_table \<Rightarrow> counter_table" where
  "table_put k v t = AList.update k v t"

definition table_remove :: "counter_key \<Rightarrow> counter_table \<Rightarrow> counter_table" where
  "table_remove k t = AList.delete k t"

definition table_ok :: "counter_table \<Rightarrow> bool" where
  "table_ok t \<longleftrightarrow> distinct (map fst t)"

text \<open>What the reporter relies on; a new key goes to the end, a replaced one keeps its place.\<close>

locale ordered_table =
  fixes keys :: "'t \<Rightarrow> 'k list"
    and get :: "'t \<Rightarrow> 'k \<Rightarrow> 'v option"
    and put :: "'k \<Rightarrow> 'v \<Rightarrow> 't \<Rightarrow> 't"
    and remove :: "'k \<Rightarrow> 't \<Rightarrow> 't"
    and ok :: "'t \<Rightarrow> bool"
  assumes keys_get: "ok t \<Longrightarrow> k \<in> set (keys t) \<longleftrightarrow> get t k \<noteq> None"
    and keys_distinct: "ok t \<Longrightarrow> distinct (keys t)"
    and put_ok: "ok t \<Longrightarrow> ok (put k v t)"
    and remove_ok: "ok t \<Longrightarrow> ok (remove k t)"
    and get_put: "ok t \<Longrightarrow> get (put k v t) k' = (if k' = k then Some v else get t k')"
    and get_remove: "ok t \<Longrightarrow> get (remove k t) k' = (if k' = k then None else get t k')"
    and keys_put: "ok t \<Longrightarrow> keys (put k v t) = (if k \<in> set (keys t) then keys t else keys t @ [k])"
    and keys_remove: "ok t \<Longrightarrow> keys (remove k t) = filter (\<lambda>k'. k' \<noteq> k) (keys t)"
begin

text \<open>The total of an additive measure over all rows.\<close>

definition total :: "('v \<Rightarrow> int) \<Rightarrow> 't \<Rightarrow> int" where
  "total w t = sum_list (map (\<lambda>k. w (the (get t k))) (keys t))"

lemma total_cong: "(\<And>k. k \<in> set ks \<Longrightarrow> f k = g k) \<Longrightarrow> sum_list (map f ks) = (sum_list (map g ks) :: int)"
  by (simp cong: map_cong)

lemma total_put_new:
  assumes "ok t" "get t k = None"
  shows "total w (put k v t) = total w t + w v"
proof -
  have "k \<notin> set (keys t)" using assms keys_get by blast
  then have "sum_list (map (\<lambda>k'. w (the (get (put k v t) k'))) (keys t)) = sum_list (map (\<lambda>k'. w (the (get t k'))) (keys t))"
    using assms(1) by (intro total_cong) (auto simp: get_put)
  with \<open>k \<notin> set (keys t)\<close> assms(1) show ?thesis by (simp add: total_def keys_put get_put)
qed

lemma sum_list_remove:
  "distinct ks \<Longrightarrow> k \<in> set ks \<Longrightarrow> sum_list (map f ks) = sum_list (map f (filter (\<lambda>k'. k' \<noteq> k) ks)) + (f k :: int)"
proof (induction ks)
  case (Cons a ks)
  have "filter (\<lambda>k'. k' \<noteq> k) ks = ks" if "k \<notin> set ks" using that by (auto simp: filter_id_conv)
  with Cons show ?case by (cases "a = k") auto
qed simp

lemma total_remove:
  assumes "ok t" "get t k = Some v"
  shows "total w (remove k t) = total w t - w v"
proof -
  have k: "k \<in> set (keys t)" using assms keys_get by blast
  have "sum_list (map (\<lambda>k'. w (the (get (remove k t) k'))) (filter (\<lambda>k'. k' \<noteq> k) (keys t))) =
      sum_list (map (\<lambda>k'. w (the (get t k'))) (filter (\<lambda>k'. k' \<noteq> k) (keys t)))"
    using assms(1) by (intro total_cong) (auto simp: get_remove)
  with assms sum_list_remove [OF keys_distinct [OF assms(1)] k, of "\<lambda>k'. w (the (get t k'))"] show ?thesis
    by (simp add: total_def keys_remove)
qed

lemma total_put_old:
  assumes "ok t" "get t k = Some v"
  shows "total w (put k v' t) = total w t - w v + w v'"
proof -
  have k: "k \<in> set (keys t)" using assms keys_get by blast
  let ?rest = "filter (\<lambda>k'. k' \<noteq> k) (keys t)"
  have "sum_list (map (\<lambda>k'. w (the (get (put k v' t) k'))) ?rest) = sum_list (map (\<lambda>k'. w (the (get t k'))) ?rest)"
    using assms(1) by (intro total_cong) (auto simp: get_put)
  with k assms sum_list_remove [OF keys_distinct [OF assms(1)] k, of "\<lambda>k'. w (the (get t k'))"]
    sum_list_remove [OF keys_distinct [OF assms(1)] k, of "\<lambda>k'. w (the (get (put k v' t) k'))"]
  show ?thesis by (simp add: total_def keys_put get_put)
qed

text \<open>Re-keying a row: removed under one key, stored under a fresh one.\<close>

lemma rekey_total:
  assumes "ok t" "get t k = Some v" "get t k' = None \<or> k' = k"
  shows "total w (put k' v' (remove k t)) = total w t - w v + w v'"
proof -
  have "get (remove k t) k' = None" using assms by (auto simp: get_remove)
  then show ?thesis using assms(1,2) by (simp add: total_put_new remove_ok total_remove)
qed

lemma rekey_size:
  assumes "ok t" "get t k = Some v" "get t k' = None \<or> k' = k"
  shows "length (keys (put k' v' (remove k t))) = length (keys t)"
proof -
  have "total (\<lambda>_. 1) u = int (length (keys u))" for u by (simp add: total_def sum_list_triv)
  with rekey_total [OF assms, of "\<lambda>_. 1" v'] show ?thesis by simp
qed

end

interpretation counter_rows: ordered_table table_keys table_get table_put table_remove table_ok
proof unfold_locales
  fix t k k' v
  assume ok: "table_ok t"
  show "k \<in> set (table_keys t) \<longleftrightarrow> table_get t k \<noteq> None"
    by (auto simp: table_keys_def table_get_def map_of_eq_None_iff)
  show "distinct (table_keys t)" using ok by (simp add: table_keys_def table_ok_def)
  show "table_ok (table_put k v t)" using ok by (simp add: table_ok_def table_put_def distinct_update)
  show "table_ok (table_remove k t)" using ok by (simp add: table_ok_def table_remove_def distinct_delete)
  show "table_get (table_put k v t) k' = (if k' = k then Some v else table_get t k')"
    by (simp add: table_get_def table_put_def update_conv')
  show "table_get (table_remove k t) k' = (if k' = k then None else table_get t k')"
    by (simp add: table_get_def table_remove_def delete_conv')
  show "table_keys (table_put k v t) = (if k \<in> set (table_keys t) then table_keys t else table_keys t @ [k])"
    by (simp add: table_keys_def table_put_def update_keys)
  show "table_keys (table_remove k t) = filter (\<lambda>k'. k' \<noteq> k) (table_keys t)"
    by (auto simp: table_keys_def table_remove_def delete_keys removeAll_filter_not_eq intro: filter_cong)
qed

section \<open>The fold ladder\<close>

definition telemetry_max_window_keys :: nat where
  "telemetry_max_window_keys = 256"

definition folded_counter_key :: "counter_key \<Rightarrow> bool \<Rightarrow> counter_key" where
  "folded_counter_key k fold_endpoint =
     (let k1 = k\<lparr>ck_error_class := ''unknown''\<rparr> in
      if fold_endpoint then k1\<lparr>ck_endpoint := ''inference_other''\<rparr> else k1)"

definition match_except_error_class :: "counter_key \<Rightarrow> counter_key \<Rightarrow> bool" where
  "match_except_error_class a b \<longleftrightarrow> a\<lparr>ck_error_class := []\<rparr> = b\<lparr>ck_error_class := []\<rparr>"

definition match_except_endpoint :: "counter_key \<Rightarrow> counter_key \<Rightarrow> bool" where
  "match_except_endpoint a b \<longleftrightarrow>
     a\<lparr>ck_error_class := [], ck_endpoint := []\<rparr> = b\<lparr>ck_error_class := [], ck_endpoint := []\<rparr>"

definition rekey_row :: "counter_key \<Rightarrow> counter_key \<Rightarrow> counter_table \<Rightarrow> counter_table" where
  "rekey_row existing target t =
     table_put target (merge_increment zero_counter (as_increment (the (table_get t existing)) existing))
       (table_remove existing t)"

definition counter_target :: "counter_key \<Rightarrow> counter_table \<Rightarrow> counter_key \<times> counter_table" where
  "counter_target k t =
     (if table_get t k \<noteq> None \<or> length (table_keys t) < telemetry_max_window_keys then (k, t)
      else if table_get t (folded_counter_key k False) \<noteq> None then (folded_counter_key k False, t)
      else case find (\<lambda>e. match_except_error_class e k) (table_keys t) of
          Some e \<Rightarrow> (folded_counter_key e False, rekey_row e (folded_counter_key e False) t)
        | None \<Rightarrow>
           (if table_get t (folded_counter_key k True) \<noteq> None then (folded_counter_key k True, t)
            else case find (\<lambda>e. match_except_endpoint e k) (table_keys t) of
                Some e \<Rightarrow> (folded_counter_key e True, rekey_row e (folded_counter_key e True) t)
              | None \<Rightarrow> (hd (table_keys t), t)))"

definition normalise_counter_key :: "counter_key \<Rightarrow> counter_key option" where
  "normalise_counter_key k =
     (if ck_level k \<noteq> ''attempt'' \<and> ck_level k \<noteq> ''request'' then None
      else if ck_outcome k \<notin> set telemetry_outcomes then None
      else Some (k\<lparr>ck_endpoint := closed_or telemetry_endpoints ''inference_other'' (ck_endpoint k),
          ck_host := closed_or telemetry_hosts telemetry_host_custom (ck_host k),
          ck_error_class := (if ck_error_class k = [] then []
             else closed_or telemetry_error_classes ''unknown'' (ck_error_class k)),
          ck_status_class := closed_or telemetry_http_status_classes ''none'' (ck_status_class k),
          ck_timeout_phase := closed_or telemetry_timeout_phases ''none'' (ck_timeout_phase k)\<rparr>))"

text \<open>One increment: the table and whether it was dropped.\<close>

definition merge_counter :: "counter_increment \<Rightarrow> counter_table \<times> int \<Rightarrow> counter_table \<times> int" where
  "merge_counter i st =
     (case normalise_counter_key (ci_key i) of
        None \<Rightarrow> (fst st, snd st + 1)
      | Some k \<Rightarrow>
         (let (target, t) = counter_target k (fst st);
              v = (case table_get t target of Some v \<Rightarrow> v | None \<Rightarrow> zero_counter)
          in (table_put target (merge_increment v i) t, snd st)))"

definition merge_counters :: "counter_increment list \<Rightarrow> counter_table \<times> int \<Rightarrow> counter_table \<times> int" where
  "merge_counters is st = fold merge_counter is st"

section \<open>Folding keeps the counts\<close>

text \<open>A count of a row and the same count of an increment.\<close>

definition same_count :: "(counter_value \<Rightarrow> int) \<Rightarrow> (counter_increment \<Rightarrow> int) \<Rightarrow> bool" where
  "same_count w wi \<longleftrightarrow> (\<forall>v i. w (merge_increment v i) = w v + bounded_count (wi i)) \<and> w zero_counter = 0 \<and>
     (\<forall>v k. wi (as_increment v k) = w v)"

lemma same_counts:
  "same_count cv_requests ci_requests" "same_count cv_attempts ci_attempts"
  "same_count cv_failover_used ci_failover_used" "same_count cv_first_attempt_success ci_first_attempt_success"
  by (simp_all add: same_count_def merge_increment_def as_increment_def zero_counter_def)

lemma bounded_count_range: "0 \<le> bounded_count v \<and> bounded_count v \<le> telemetry_max_count"
  by (simp add: bounded_count_def clamp_int_def telemetry_max_count_def)

lemma bounded_count_id: "0 \<le> v \<Longrightarrow> v \<le> telemetry_max_count \<Longrightarrow> bounded_count v = v"
  by (simp add: bounded_count_def clamp_int_def)

definition rows_bounded :: "(counter_value \<Rightarrow> int) \<Rightarrow> counter_table \<Rightarrow> bool" where
  "rows_bounded w t \<longleftrightarrow> table_ok t \<and> length (table_keys t) \<le> telemetry_max_window_keys \<and>
     (\<forall>k v. table_get t k = Some v \<longrightarrow> 0 \<le> w v)"

lemma row_le_total:
  assumes "rows_bounded w t" "table_get t k = Some v"
  shows "w v \<le> counter_rows.total w t"
proof -
  have ok: "table_ok t" using assms(1) by (simp add: rows_bounded_def)
  have k: "k \<in> set (table_keys t)" using counter_rows.keys_get [OF ok] assms(2) by blast
  have nonneg: "0 \<le> w (the (table_get t k'))" if "k' \<in> set (table_keys t)" for k'
  proof -
    from that counter_rows.keys_get [OF ok] obtain v' where "table_get t k' = Some v'" by blast
    with assms(1) show ?thesis by (auto simp: rows_bounded_def)
  qed
  have "w (the (table_get t k)) \<le> sum_list (map (\<lambda>k'. w (the (table_get t k'))) (table_keys t))"
    using k nonneg by (intro member_le_sum_list) auto
  with assms(2) show ?thesis by (simp add: counter_rows.total_def)
qed

lemma rekey_row_facts:
  assumes "rows_bounded w t" "same_count w wi" "counter_rows.total w t \<le> telemetry_max_count"
    "table_get t e = Some v" "table_get t e' = None \<or> e' = e"
  shows "rows_bounded w (rekey_row e e' t) \<and> counter_rows.total w (rekey_row e e' t) = counter_rows.total w t \<and>
    table_get (rekey_row e e' t) e' \<noteq> None \<and> length (table_keys (rekey_row e e' t)) = length (table_keys t)"
proof -
  let ?v = "merge_increment zero_counter (as_increment v e)"
  have ok: "table_ok t" using assms(1) by (simp add: rows_bounded_def)
  have "0 \<le> w v" "w v \<le> telemetry_max_count"
    using assms(1,3,4) row_le_total [OF assms(1,4)] by (auto simp: rows_bounded_def)
  then have wv: "w ?v = w v" using assms(2) by (simp add: same_count_def bounded_count_id)
  have r: "rekey_row e e' t = table_put e' ?v (table_remove e t)" using assms(4) by (simp add: rekey_row_def)
  have ok': "table_ok (table_remove e t)" using counter_rows.remove_ok [OF ok] .
  have "0 \<le> w u" if "table_get (rekey_row e e' t) k = Some u" for k u
    using that assms(1) wv \<open>0 \<le> w v\<close>
    by (auto simp: r counter_rows.get_put [OF ok'] counter_rows.get_remove [OF ok] rows_bounded_def split: if_splits)
  moreover have "length (table_keys (rekey_row e e' t)) = length (table_keys t)"
    unfolding r by (rule counter_rows.rekey_size [OF ok assms(4,5)])
  moreover have "counter_rows.total w (rekey_row e e' t) = counter_rows.total w t"
    unfolding r using counter_rows.rekey_total [OF ok assms(4,5)] wv by simp
  ultimately show ?thesis
    using assms(1) counter_rows.put_ok [OF ok'] by (auto simp: rows_bounded_def r counter_rows.get_put [OF ok'])
qed

lemma folded_key_eq:
  "match_except_error_class e k \<Longrightarrow> folded_counter_key e False = folded_counter_key k False"
  "match_except_endpoint e k \<Longrightarrow> folded_counter_key e True = folded_counter_key k True"
  by (cases e; cases k; simp add: match_except_error_class_def match_except_endpoint_def folded_counter_key_def Let_def)+

lemma counter_target_facts:
  assumes "rows_bounded w t" "same_count w wi" "counter_rows.total w t \<le> telemetry_max_count"
    "counter_target k t = (target, t')"
  shows "rows_bounded w t' \<and> counter_rows.total w t' = counter_rows.total w t \<and>
    (table_get t' target = None \<longrightarrow> length (table_keys t') < telemetry_max_window_keys)"
proof -
  have ok: "table_ok t" using assms(1) by (simp add: rows_bounded_def)
  have found: "\<exists>v. table_get t e = Some v \<and> P e" if "find P (table_keys t) = Some e" for P e
  proof -
    from that have "e \<in> set (table_keys t) \<and> P e" by (auto simp: find_Some_iff)
    with counter_rows.keys_get [OF ok] show ?thesis by blast
  qed
  consider (direct) "t' = t" "target = k" "table_get t k \<noteq> None \<or> length (table_keys t) < telemetry_max_window_keys"
    | (existing) "t' = t" "table_get t target \<noteq> None"
    | (rekeyed) e v where "t' = rekey_row e target t" "table_get t e = Some v" "table_get t target = None"
    | (first) "t' = t" "target = hd (table_keys t)" "\<not> length (table_keys t) < telemetry_max_window_keys"
    using assms(4) folded_key_eq
    by (auto simp: counter_target_def split: if_splits option.splits dest!: found)
  then show ?thesis
  proof cases
    case first
    then have "table_keys t \<noteq> []" by (auto simp: telemetry_max_window_keys_def)
    then have "table_get t target \<noteq> None" using first counter_rows.keys_get [OF ok] hd_in_set by blast
    with first assms show ?thesis by simp
  next
    case (rekeyed e v)
    with rekey_row_facts [OF assms(1-3) rekeyed(2), of target] rekeyed show ?thesis by auto
  qed (use assms in auto)
qed

text \<open>The increments the table accepts.\<close>

definition accepted :: "counter_increment list \<Rightarrow> counter_increment list" where
  "accepted is = filter (\<lambda>i. normalise_counter_key (ci_key i) \<noteq> None) is"

lemma merge_counter_facts:
  assumes "rows_bounded w t" "same_count w wi" "counter_rows.total w t \<le> telemetry_max_count"
    "normalise_counter_key (ci_key i) = Some k" "merge_counter i (t, d) = (t', d')"
  shows "rows_bounded w t' \<and> counter_rows.total w t' = counter_rows.total w t + bounded_count (wi i) \<and> d' = d"
proof -
  obtain target u where ct: "counter_target k t = (target, u)" by (cases "counter_target k t")
  note u = counter_target_facts [OF assms(1-3) ct]
  then have ok: "table_ok u" by (simp add: rows_bounded_def)
  define v where "v = (case table_get u target of Some v \<Rightarrow> v | None \<Rightarrow> zero_counter)"
  have t': "t' = table_put target (merge_increment v i) u" "d' = d"
    using assms(4,5) ct by (auto simp: merge_counter_def v_def Let_def)
  have wm: "w (merge_increment v i) = w v + bounded_count (wi i)" using assms(2) by (simp add: same_count_def)
  have wz: "w zero_counter = 0" using assms(2) by (simp add: same_count_def)
  have "0 \<le> w v" using u wz by (auto simp: v_def rows_bounded_def split: option.split)
  then have nonneg: "0 \<le> w x" if "table_get t' y = Some x" for x y
    using that u wm bounded_count_range [of "wi i"]
    by (auto simp: t' counter_rows.get_put [OF ok] rows_bounded_def split: if_splits)
  have size: "length (table_keys t') \<le> telemetry_max_window_keys"
    using u counter_rows.keys_get [OF ok, of target] by (auto simp: t' counter_rows.keys_put [OF ok] rows_bounded_def)
  have "counter_rows.total w t' = counter_rows.total w u + bounded_count (wi i)"
  proof (cases "table_get u target")
    case None
    then show ?thesis using counter_rows.total_put_new [OF ok None] wm wz by (simp add: t' v_def)
  next
    case (Some x)
    then show ?thesis using counter_rows.total_put_old [OF ok Some] wm by (simp add: t' v_def)
  qed
  with u nonneg size counter_rows.put_ok [OF ok] t' show ?thesis by (simp add: rows_bounded_def)
qed

definition count_sum :: "(counter_increment \<Rightarrow> int) \<Rightarrow> counter_increment list \<Rightarrow> int" where
  "count_sum wi is = sum_list (map (\<lambda>i. bounded_count (wi i)) (accepted is))"

lemma accepted_Cons:
  "accepted (i # is) = (if normalise_counter_key (ci_key i) = None then accepted is else i # accepted is)"
  by (simp add: accepted_def)

lemma count_sum_Cons:
  "count_sum wi (i # is) =
    (if normalise_counter_key (ci_key i) = None then 0 else bounded_count (wi i)) + count_sum wi is"
  by (simp add: count_sum_def accepted_Cons)

lemma count_sum_nonneg: "0 \<le> count_sum wi is"
  by (induction "is") (use bounded_count_range in \<open>auto simp: count_sum_Cons count_sum_def [of wi "[]"] accepted_def\<close>)

lemma merge_counters_facts:
  "rows_bounded w t \<Longrightarrow> same_count w wi \<Longrightarrow>
   counter_rows.total w t + count_sum wi is \<le> telemetry_max_count \<Longrightarrow> merge_counters is (t, d) = (t', d') \<Longrightarrow>
   rows_bounded w t' \<and> counter_rows.total w t' = counter_rows.total w t + count_sum wi is \<and>
   d' = d + int (length is - length (accepted is))"
proof (induction "is" arbitrary: t d)
  case Nil
  then show ?case by (simp add: merge_counters_def count_sum_def accepted_def)
next
  case (Cons i "is")
  obtain u e where ue: "merge_counter i (t, d) = (u, e)" by (cases "merge_counter i (t, d)")
  have rest: "merge_counters is (u, e) = (t', d')" using Cons.prems(4) ue by (simp add: merge_counters_def)
  have le: "counter_rows.total w t \<le> telemetry_max_count"
    using Cons.prems(3) count_sum_nonneg [of wi "i # is"] by linarith
  have len: "length (accepted is) \<le> length is" by (simp add: accepted_def)
  show ?case
  proof (cases "normalise_counter_key (ci_key i)")
    case None
    then have "u = t" "e = d + 1" using ue by (auto simp: merge_counter_def)
    with Cons.IH [OF _ Cons.prems(2) _ rest] Cons.prems(1,3) None len show ?thesis
      by (auto simp: count_sum_Cons accepted_Cons of_nat_diff)
  next
    case (Some k)
    have u: "rows_bounded w u \<and> counter_rows.total w u = counter_rows.total w t + bounded_count (wi i) \<and> e = d"
      by (rule merge_counter_facts [OF Cons.prems(1,2) le Some ue])
    with Cons.IH [OF _ Cons.prems(2) _ rest] Cons.prems(3) Some len show ?thesis
      by (auto simp: count_sum_Cons accepted_Cons)
  qed
qed

lemma rows_bounded_Nil: "rows_bounded w []"
  by (simp add: rows_bounded_def table_ok_def table_keys_def table_get_def)


text \<open>Three increments: two for one key, one whose level is unknown.\<close>

definition sample_increment :: "string \<Rightarrow> int \<Rightarrow> counter_increment" where
  "sample_increment level n =
     \<lparr>ci_key = \<lparr>ck_level = level, ck_endpoint = ''chat_completions'', ck_streaming = False, ck_host = ''api'',
        ck_outcome = ''ok'', ck_error_class = [], ck_status_class = ''2xx'', ck_timeout_phase = ''none'',
        ck_timeout_floor_met = False, ck_provider_pinned = False\<rparr>,
      ci_requests = n, ci_attempts = n, ci_failover_used = 0, ci_first_attempt_success = 0,
      ci_total_ms_hist = [], ci_first_event_ms_hist = []\<rparr>"


end
