(* ===== verification/Client.thy ===== *)
theory Client
  imports Telemetry_Recorder
begin

text \<open>
  \<open>client.go\<close> and \<open>planes.go\<close>: construction and configuration of a client, the ordered
  candidate base URLs of a call, and the plane routers that turn an API call into one
  \<open>request_spec\<close> for the transport engine.  Reading the environment and marshalling a
  request body are arguments.
\<close>

section \<open>Configuration\<close>

text \<open>An \<open>*http.Client\<close>: which transport, which cookie jar, whether it follows redirects.\<close>

record http_client =
  hc_transport :: nat
  hc_jar :: "nat option"
  hc_timeout :: duration
  hc_follow_redirects :: bool

definition zero_http_client :: http_client where
  "zero_http_client = \<lparr>hc_transport = 0, hc_jar = None, hc_timeout = 0, hc_follow_redirects = True\<rparr>"

record options =
  o_api_key :: string
  o_base_url :: string
  o_control_base_url :: string
  o_http_client :: "http_client option"
  o_timeout :: "duration option"
  o_headers :: "(string \<times> string) list"
  o_workspace_id :: string
  o_max_retries :: "int option"
  o_regional_failover :: "bool option"
  o_telemetry :: "bool option"
  o_telemetry_sample_rate :: "float64 option"

record call_options =
  co_api_key :: "string option"
  co_extra_headers :: "(string \<times> string) list"
  co_workspace_id :: "string option"
  co_idempotency_key :: string
  co_timeout :: "duration option"

record client =
  cl_api_key :: string
  cl_base_url :: string
  cl_control_base_url :: string
  cl_http_client :: http_client
  cl_credential_free_client :: http_client
  cl_timeout :: "duration option"
  cl_headers :: "(string \<times> string) list"
  cl_workspace_id :: string
  cl_max_retries :: nat
  cl_regional_failover :: bool
  cl_telemetry :: bool
  cl_telemetry_sample_rate :: float64
  cl_base_urls :: "string list"

definition default_api_base_url :: string where
  "default_api_base_url = ''https://api.trustedrouter.com/v1''"

definition alias_api_base_urls :: "string list" where
  "alias_api_base_urls = [''https://api.allyrouter.com/v1'', ''https://api.uptimerouter.com/v1'']"

definition default_control_base_url :: string where
  "default_control_base_url = ''https://trustedrouter.com/v1''"

definition default_request_timeout :: duration where
  "default_request_timeout = 120 * 1000000000"

definition default_max_retries :: int where
  "default_max_retries = 2"

definition telemetry_default_sample_rate :: float64 where
  "telemetry_default_sample_rate = round64 (1 / 100)"

definition telemetry_sample_rate_value :: "float64 \<Rightarrow> float64" where
  "telemetry_sample_rate_value v =
     (if is_nan v \<or> is_inf v then telemetry_default_sample_rate
      else math_min (Fin 1) (math_max (Fin 0) v))"

definition default_timeout_from_options :: "duration option \<Rightarrow> duration option" where
  "default_timeout_from_options t = (case t of None \<Rightarrow> Some default_request_timeout
     | Some d \<Rightarrow> (if d = 0 then None else Some d))"

definition inference_base_urls :: "string \<Rightarrow> string list" where
  "inference_base_urls primary =
     (let trimmed = trim_right (CHR ''/'') primary in
      if trimmed \<noteq> trim_right (CHR ''/'') default_api_base_url then [primary]
      else trimmed # map (trim_right (CHR ''/'')) alias_api_base_urls)"

text \<open>The API client: the caller's, or a fresh one, but it never follows a redirect.\<close>

definition clone_with_redirect_protection :: "http_client option \<Rightarrow> http_client" where
  "clone_with_redirect_protection c =
     (case c of None \<Rightarrow> zero_http_client | Some h \<Rightarrow> h)\<lparr>hc_follow_redirects := False\<rparr>"

definition clone_credential_free :: "http_client option \<Rightarrow> http_client" where
  "clone_credential_free c = (clone_with_redirect_protection c)\<lparr>hc_jar := None\<rparr>"

definition new_client :: "(string \<Rightarrow> string) \<Rightarrow> options \<Rightarrow> client" where
  "new_client getenv opts =
     (let base = trim_right (CHR ''/'') (if o_base_url opts = [] then default_api_base_url else o_base_url opts);
          control = trim_right (CHR ''/'') (if o_control_base_url opts = [] then default_control_base_url
                                            else o_control_base_url opts);
          retries = (case o_max_retries opts of None \<Rightarrow> default_max_retries | Some n \<Rightarrow> n);
          http = clone_with_redirect_protection (o_http_client opts)
      in \<lparr>cl_api_key = o_api_key opts, cl_base_url = base, cl_control_base_url = control,
          cl_http_client = http, cl_credential_free_client = clone_credential_free (Some http),
          cl_timeout = default_timeout_from_options (o_timeout opts),
          cl_headers = fold (\<lambda>(k, v) m. AList.update k v m) (o_headers opts) [],
          cl_workspace_id = o_workspace_id opts,
          cl_max_retries = (if retries < 0 then 0 else nat retries),
          cl_regional_failover = (case o_regional_failover opts of None \<Rightarrow> True | Some b \<Rightarrow> b),
          cl_telemetry = resolve_telemetry_enabled (o_telemetry opts) base control getenv,
          cl_telemetry_sample_rate = (case o_telemetry_sample_rate opts of
              None \<Rightarrow> telemetry_default_sample_rate | Some r \<Rightarrow> telemetry_sample_rate_value r),
          cl_base_urls = inference_base_urls base\<rparr>)"

definition effective_timeout :: "client \<Rightarrow> call_options option \<Rightarrow> duration option" where
  "effective_timeout c opts =
     (case opts of
        Some o' \<Rightarrow> (case co_timeout o' of
            Some d \<Rightarrow> (if d = 0 then None else Some d)
          | None \<Rightarrow> cl_timeout c)
      | None \<Rightarrow> cl_timeout c)"

definition default_headers :: "client \<Rightarrow> (string \<times> string) list" where
  "default_headers c = fold (\<lambda>(k, v) m. AList.update k v m) (cl_headers c) []"

section \<open>Planes\<close>

record request_spec =
  rs_method :: string
  rs_path :: string
  rs_body :: bytes
  rs_has_body :: bool
  rs_opts :: "call_options option"
  rs_candidates :: "string list"
  rs_failover :: bool
  rs_stream_open :: bool
  rs_auto_idempotency :: bool
  rs_credential_free :: bool
  rs_control_plane :: bool
  rs_telemetry :: request_facts

text \<open>
  \<open>marshalRequestBody\<close>: a nil body is no body, raw bytes are sent as they are, everything
  else is marshalled; \<open>None\<close> is an encoding error.
\<close>

datatype request_body = No_Body | Raw_Body bytes | Any_Body gvalue

definition marshal_request_body ::
    "(gvalue \<Rightarrow> bytes option) \<Rightarrow> request_body \<Rightarrow> (bytes \<times> bool) option" where
  "marshal_request_body marshal b = (case b of
       No_Body \<Rightarrow> Some ([], False)
     | Raw_Body bs \<Rightarrow> Some (bs, True)
     | Any_Body v \<Rightarrow> map_option (\<lambda>bs. (bs, True)) (marshal v))"

definition body_value :: "request_body \<Rightarrow> gvalue" where
  "body_value b = (case b of Any_Body v \<Rightarrow> v | _ \<Rightarrow> GNil)"

definition dispatch_spec ::
    "(gvalue \<Rightarrow> bytes option) \<Rightarrow> string \<Rightarrow> string \<Rightarrow> request_body \<Rightarrow> call_options option \<Rightarrow>
     string list \<Rightarrow> bool \<Rightarrow> bool \<Rightarrow> bool \<Rightarrow> request_spec option" where
  "dispatch_spec marshal http_method path body opts base_urls failover control_plane credential_free =
     (case marshal_request_body marshal body of None \<Rightarrow> None
      | Some (bs, has) \<Rightarrow> Some
          \<lparr>rs_method = http_method, rs_path = path, rs_body = bs, rs_has_body = has, rs_opts = opts,
           rs_candidates = base_urls, rs_failover = failover, rs_stream_open = False,
           rs_auto_idempotency = False, rs_credential_free = credential_free,
           rs_control_plane = control_plane,
           rs_telemetry = telemetry_request_facts_for http_method path (body_value body)\<rparr>)"

text \<open>\<open>rawRequest\<close>, \<open>rawControlRequestWithBoundary\<close>: the inference and the control plane.\<close>

definition inference_spec ::
    "(gvalue \<Rightarrow> bytes option) \<Rightarrow> client \<Rightarrow> string \<Rightarrow> string \<Rightarrow> request_body \<Rightarrow> call_options option \<Rightarrow> request_spec option"
  where
  "inference_spec marshal c http_method path body opts =
     dispatch_spec marshal http_method path body opts (cl_base_urls c) (cl_regional_failover c) False False"

definition control_spec ::
    "(gvalue \<Rightarrow> bytes option) \<Rightarrow> client \<Rightarrow> string \<Rightarrow> string \<Rightarrow> request_body \<Rightarrow> call_options option \<Rightarrow> bool \<Rightarrow> request_spec option"
  where
  "control_spec marshal c http_method path body opts credential_free =
     dispatch_spec marshal http_method path body opts [cl_control_base_url c] True True credential_free"

section \<open>Properties\<close>

lemma trim_right_no_slash [simp]: "last s \<noteq> CHR ''/'' \<Longrightarrow> trim_right (CHR ''/'') s = s"
  by (cases s rule: rev_cases) (auto simp: trim_right_in_def)

lemma inference_base_urls_nonempty [simp]: "inference_base_urls p \<noteq> []"
  by (simp add: inference_base_urls_def Let_def)

lemma default_candidates:
  "inference_base_urls default_api_base_url = default_api_base_url # alias_api_base_urls"
  by code_simp

lemma sample_rate_bounds:
  "\<exists>q. telemetry_sample_rate_value v = Fin q \<and> 0 \<le> q \<and> q \<le> 1"
proof (cases "is_nan v \<or> is_inf v")
  case True
  have "\<exists>q. telemetry_default_sample_rate = Fin q \<and> 0 \<le> q \<and> q \<le> of_int 1"
    unfolding telemetry_default_sample_rate_def by (rule round64_small) auto
  with True show ?thesis by (simp add: telemetry_sample_rate_value_def)
next
  case False
  then obtain r where "v = Fin r" by (cases v) (auto simp: is_nan_def is_inf_def)
  with False show ?thesis
    by (auto simp: telemetry_sample_rate_value_def math_min_def math_max_def)
qed

lemma new_client_base_urls: "cl_base_urls (new_client getenv opts) = inference_base_urls (cl_base_url (new_client getenv opts))"
  by (simp add: new_client_def Let_def)

lemma new_client_trimmed: "trim_right (CHR ''/'') (cl_base_url (new_client getenv opts)) = cl_base_url (new_client getenv opts)"
  by (simp add: new_client_def Let_def)

lemma trimmed_base_urls:
  assumes "trim_right (CHR ''/'') p = p"
  shows "inference_base_urls p = (if p = default_api_base_url then default_api_base_url # alias_api_base_urls else [p])"
proof -
  have "trim_right (CHR ''/'') default_api_base_url = default_api_base_url"
    "map (trim_right (CHR ''/'')) alias_api_base_urls = alias_api_base_urls" by code_simp+
  with assms show ?thesis by (simp add: inference_base_urls_def Let_def)
qed

lemma new_client_http:
  "\<not> hc_follow_redirects (cl_http_client (new_client getenv opts))"
  "\<not> hc_follow_redirects (cl_credential_free_client (new_client getenv opts))"
  "hc_jar (cl_credential_free_client (new_client getenv opts)) = None"
  "hc_transport (cl_credential_free_client (new_client getenv opts)) =
     hc_transport (cl_http_client (new_client getenv opts))"
  by (simp_all add: new_client_def Let_def clone_credential_free_def clone_with_redirect_protection_def)

lemma new_client_rate:
  "\<exists>q. cl_telemetry_sample_rate (new_client getenv opts) = Fin q \<and> 0 \<le> q \<and> q \<le> 1"
  using sample_rate_bounds sample_rate_bounds [of NaN]
  by (cases "o_telemetry_sample_rate opts")
    (simp_all add: new_client_def Let_def telemetry_sample_rate_value_def [of NaN] is_nan_def)

lemma control_spec_candidates:
  "control_spec marshal c m p b co cf = Some s \<Longrightarrow> rs_candidates s = [cl_control_base_url c]"
  by (auto simp: control_spec_def dispatch_spec_def split: option.splits)

text \<open>
  Traffic goes where the caller pointed it.  A client built on its own base URL has
  that one candidate, whatever its failover option; only the default base, with or
  without trailing slashes, gets the two aliases after it; a control-plane call always
  has exactly one candidate.  The retry budget is never negative, neither HTTP client
  follows redirects, the credential-free one has no cookie jar, and the sample rate is
  between 0 and 1.
\<close>

theorem new_client_correct:
  "let c = new_client getenv opts in
   cl_base_urls c \<noteq> [] \<and> hd (cl_base_urls c) = cl_base_url c \<and>
   (tl (cl_base_urls c) \<noteq> [] \<longrightarrow> cl_base_url c = default_api_base_url \<and> tl (cl_base_urls c) = alias_api_base_urls) \<and>
   (cl_base_url c \<noteq> default_api_base_url \<longrightarrow> cl_base_urls c = [cl_base_url c]) \<and>
   (\<forall>marshal m p b co cf s. control_spec marshal c m p b co cf = Some s \<longrightarrow> rs_candidates s = [cl_control_base_url c]) \<and>
   \<not> hc_follow_redirects (cl_http_client c) \<and> \<not> hc_follow_redirects (cl_credential_free_client c) \<and>
   hc_jar (cl_credential_free_client c) = None \<and>
   hc_transport (cl_credential_free_client c) = hc_transport (cl_http_client c) \<and>
   (\<exists>q. cl_telemetry_sample_rate c = Fin q \<and> 0 \<le> q \<and> q \<le> 1)"
proof -
  let ?c = "new_client getenv opts"
  have urls: "cl_base_urls ?c = (if cl_base_url ?c = default_api_base_url
      then default_api_base_url # alias_api_base_urls else [cl_base_url ?c])"
    using trimmed_base_urls [OF new_client_trimmed] by (simp add: new_client_base_urls)
  have control: "rs_candidates s = [cl_control_base_url ?c]"
    if "control_spec marshal ?c m p b co cf = Some s" for marshal m p b co cf s
    using that by (rule control_spec_candidates)
  show ?thesis
    unfolding Let_def using urls control new_client_http [of getenv opts] new_client_rate [of getenv opts]
    by simp
qed

text \<open>A client whose base URL only looks like the default one.\<close>

definition lookalike_options :: options where
  "lookalike_options = \<lparr>o_api_key = ''k'', o_base_url = ''https://api.trustedrouter.com.example/v1//'',
     o_control_base_url = [], o_http_client = None, o_timeout = None, o_headers = [], o_workspace_id = [],
     o_max_retries = Some (- 3), o_regional_failover = None, o_telemetry = None, o_telemetry_sample_rate = None\<rparr>"

theorem new_client_correct_witness:
  "cl_base_urls (new_client bare_environment lookalike_options) = [''https://api.trustedrouter.com.example/v1'']"
proof -
  have "cl_base_url (new_client bare_environment lookalike_options) = ''https://api.trustedrouter.com.example/v1''"
    by (simp add: new_client_def Let_def lookalike_options_def trim_right_in_def)
  with new_client_correct [of bare_environment lookalike_options] show ?thesis
    by (simp add: Let_def default_api_base_url_def)
qed

end
