(* ===== verification/Go_Base64.thy ===== *)
theory Go_Base64
  imports Go_Prelude
begin

text \<open>
  Package \<open>encoding/base64\<close> with the URL alphabet: \<open>RawURLEncoding\<close> (no padding) and
  \<open>URLEncoding\<close> (padded).  The decoders skip carriage returns and line feeds and accept
  any trailing bits, as Go's do.
\<close>

definition b64_char :: "nat \<Rightarrow> char" where
  "b64_char n =
     (if n < 26 then char_of (65 + n) else if n < 52 then char_of (71 + n)
      else if n < 62 then char_of (n - 4) else if n = 62 then CHR ''-'' else CHR ''_'')"

definition b64_value :: "char \<Rightarrow> nat option" where
  "b64_value c =
     (if is_upper c then Some (byte_val c - 65) else if is_lower c then Some (byte_val c - 71)
      else if is_digit c then Some (byte_val c + 4) else if c = CHR ''-'' then Some 62
      else if c = CHR ''_'' then Some 63 else None)"

fun b64_encode_bytes :: "nat list \<Rightarrow> nat list" where
  "b64_encode_bytes [] = []"
| "b64_encode_bytes [a] = [a div 4, a mod 4 * 16]"
| "b64_encode_bytes [a, b] = [a div 4, a mod 4 * 16 + b div 16, b mod 16 * 4]"
| "b64_encode_bytes (a # b # c # r) =
     a div 4 # (a mod 4 * 16 + b div 16) # (b mod 16 * 4 + c div 64) # c mod 64 # b64_encode_bytes r"

fun b64_decode_values :: "nat list \<Rightarrow> nat list option" where
  "b64_decode_values [] = Some []"
| "b64_decode_values [w] = None"
| "b64_decode_values [w, x] = Some [w * 4 + x div 16]"
| "b64_decode_values [w, x, y] = Some [w * 4 + x div 16, x mod 16 * 16 + y div 4]"
| "b64_decode_values (w # x # y # z # r) = map_option
     (\<lambda>t. (w * 4 + x div 16) # (x mod 16 * 16 + y div 4) # (y mod 4 * 64 + z) # t) (b64_decode_values r)"

definition b64_encode :: "bytes \<Rightarrow> string" where
  "b64_encode s = map b64_char (b64_encode_bytes (map byte_val s))"

fun all_some :: "'a option list \<Rightarrow> 'a list option" where
  "all_some [] = Some []"
| "all_some (None # r) = None"
| "all_some (Some x # r) = map_option ((#) x) (all_some r)"

definition b64_decode :: "string \<Rightarrow> bytes option" where
  "b64_decode s =
     (case all_some (map b64_value (filter (\<lambda>c. c \<noteq> CHR 0x0A \<and> c \<noteq> CHR 0x0D) s)) of
        None \<Rightarrow> None
      | Some vs \<Rightarrow> map_option (map char_of) (b64_decode_values vs))"

text \<open>Padded: whole groups of four, with one or two padding bytes at the very end.\<close>

definition b64_decode_padded :: "string \<Rightarrow> bytes option" where
  "b64_decode_padded s =
     (let t = filter (\<lambda>c. c \<noteq> CHR 0x0A \<and> c \<noteq> CHR 0x0D) s;
          body = trim_right (CHR ''='') t;
          pad = length t - length body
      in if length t mod 4 \<noteq> 0 \<or> 2 < pad then None else b64_decode body)"

section \<open>Round trip\<close>

lemma b64_value_char: "n < 64 \<Longrightarrow> b64_value (b64_char n) = Some n \<and> b64_char n \<noteq> CHR 0x0A \<and> b64_char n \<noteq> CHR 0x0D"
proof -
  have "\<forall>k \<in> set [0..<64]. b64_value (b64_char k) = Some k \<and> b64_char k \<noteq> CHR 0x0A \<and> b64_char k \<noteq> CHR 0x0D"
    by code_simp
  then show "n < 64 \<Longrightarrow> ?thesis" by simp
qed

lemma sextet_bounds:
  assumes "(a::nat) < 256" "b < 256" "c < 256"
  shows "a div 4 < 64" "b div 16 < 16" "c div 64 < 4" "a mod 4 * 16 + b div 16 < 64"
    "b mod 16 * 4 + c div 64 < 64" "a mod 4 * 16 < 64" "b mod 16 * 4 < 64" "c mod 64 < 64"
proof -
  show "a div 4 < 64" "b div 16 < 16" "c div 64 < 4" using assms by (simp_all add: div_less_iff_less_mult)
  then show "a mod 4 * 16 + b div 16 < 64" "b mod 16 * 4 + c div 64 < 64" "a mod 4 * 16 < 64"
    "b mod 16 * 4 < 64" "c mod 64 < 64"
    using mod_less_divisor [of 4 a] mod_less_divisor [of 16 b] mod_less_divisor [of 64 c] by linarith+
qed

lemma b64_encode_range: "list_all (\<lambda>b. b < 256) bs \<Longrightarrow> list_all (\<lambda>v. v < 64) (b64_encode_bytes bs)"
proof (induction bs rule: b64_encode_bytes.induct)
  case (2 a)
  then show ?case using sextet_bounds [of a 0 0] by simp
next
  case (3 a b)
  then show ?case using sextet_bounds [of a b 0] by simp
next
  case (4 a b c r)
  then show ?case using sextet_bounds [of a b c] by simp
qed simp

lemma split_low: "(r::nat) < k \<Longrightarrow> (q * k + r) div k = q" "(r::nat) < k \<Longrightarrow> (q * k + r) mod k = r"
  by simp_all

lemma b64_group:
  assumes "(a::nat) < 256" "b < 256" "c < 256"
  shows "a div 4 * 4 + (a mod 4 * 16 + b div 16) div 16 = a"
    "(a mod 4 * 16 + b div 16) mod 16 * 16 + (b mod 16 * 4 + c div 64) div 4 = b"
    "(b mod 16 * 4 + c div 64) mod 4 * 64 + c mod 64 = c"
    "(a mod 4 * 16 + b div 16) mod 16 * 16 + b mod 16 * 4 div 4 = b"
    "a div 4 * 4 + a mod 4 * 16 div 16 = a"
  using sextet_bounds [OF assms] by (simp_all only: split_low div_mult_mod_eq) simp_all

lemma b64_values_roundtrip:
  "list_all (\<lambda>b. b < 256) bs \<Longrightarrow> b64_decode_values (b64_encode_bytes bs) = Some bs"
proof (induction bs rule: b64_encode_bytes.induct)
  case (2 a)
  then show ?case using b64_group(5) [of a 0 0] by (simp only: b64_encode_bytes.simps b64_decode_values.simps) simp
next
  case (3 a b)
  then show ?case
    using b64_group(1,4) [of a b 0] by (simp only: b64_encode_bytes.simps b64_decode_values.simps) simp
next
  case (4 a b c r)
  then show ?case
    using b64_group(1-3) [of a b c]
    by (simp only: b64_encode_bytes.simps b64_decode_values.simps list.pred_inject option.map simp_thms)
qed simp

lemma b64_decode_chars:
  "list_all (\<lambda>v. v < 64) vs \<Longrightarrow> b64_decode (map b64_char vs) = map_option (map char_of) (b64_decode_values vs)"
proof -
  assume v: "list_all (\<lambda>v. v < 64) vs"
  then have "filter (\<lambda>c. c \<noteq> CHR 0x0A \<and> c \<noteq> CHR 0x0D) (map b64_char vs) = map b64_char vs"
    by (induction vs) (auto simp: b64_value_char)
  moreover have "all_some (map b64_value (map b64_char vs)) = Some vs"
    using v by (induction vs) (auto simp: b64_value_char)
  ultimately show ?thesis by (simp add: b64_decode_def)
qed

lemma b64_roundtrip [simp]: "b64_decode (b64_encode s) = Some s"
proof -
  have r: "list_all (\<lambda>b. b < 256) (map byte_val s)" by (induction s) simp_all
  show ?thesis
    by (simp add: b64_encode_def b64_decode_chars [OF b64_encode_range [OF r]] b64_values_roundtrip [OF r]
        map_idI)
qed

lemma b64_encode_inj: "b64_encode s = b64_encode t \<longleftrightarrow> s = t"
  by (metis b64_roundtrip option.inject)

lemma b64_encode_bytes_length: "length (b64_encode_bytes bs) = (4 * length bs + 2) div 3"
proof (induction bs rule: b64_encode_bytes.induct)
  case (4 a b c r)
  have "(4 * length (a # b # c # r) + 2) div 3 = (4 * length r + 2 + 4 * 3) div 3" by simp
  also have "\<dots> = (4 * length r + 2) div 3 + 4" by linarith
  finally show ?case using 4 by simp
qed simp_all

lemma b64_encode_length: "length (b64_encode s) = (4 * length s + 2) div 3"
  by (simp add: b64_encode_def b64_encode_bytes_length)

text \<open>Only letters, digits, hyphen and underscore.\<close>

lemma b64_encode_alphabet: "c \<in> set (b64_encode s) \<Longrightarrow> b64_value c \<noteq> None"
proof -
  have "list_all (\<lambda>b. b < 256) (map byte_val s)" by (induction s) simp_all
  from b64_encode_range [OF this] show "c \<in> set (b64_encode s) \<Longrightarrow> ?thesis"
    by (auto simp: b64_encode_def list_all_iff b64_value_char)
qed

end
