(* ===== verification/Request.thy ===== *)
theory Request
  imports Client Go_Base64
begin

text \<open>
  The attempt assembly of \<open>transport.go\<close>: what one HTTP request of an attempt is made of,
  which headers the SDK owns, the idempotency key, when a request may be replayed, and how
  long the engine sleeps between attempts.  The SDK's version, the toolchain's version and
  the random source are arguments.
\<close>

record http_request =
  rq_method :: string
  rq_url :: string
  rq_headers :: headers
  rq_body :: "bytes option"

definition join_url :: "string \<Rightarrow> string \<Rightarrow> string" where
  "join_url base path = trim_right (CHR ''/'') base @ ''/'' @ trim_left (CHR ''/'') path"

definition user_agent :: "string \<Rightarrow> string \<Rightarrow> string" where
  "user_agent version runtime_version =
     (let token = ''go/'' @ runtime_version in
      ''trusted-router-go/'' @ version @ (if runtime_token_ok token then '' '' @ token else []))"

definition credential_header_names :: "string list" where
  "credential_header_names = [''authorization'', ''proxy-authorization'', ''cookie'', ''cookie2'', ''x-api-key'',
     ''x-trustedrouter-workspace'', ''idempotency-key'', ''x-tr-client'']"

definition authentication_header_names :: "string list" where
  "authentication_header_names = [''authorization'', ''proxy-authorization'', ''cookie'', ''cookie2'', ''x-api-key'']"

definition strip_credential_headers :: "headers \<Rightarrow> headers" where
  "strip_credential_headers h = fold header_del credential_header_names h"

definition strip_authentication_headers :: "headers \<Rightarrow> headers" where
  "strip_authentication_headers h = fold header_del authentication_header_names h"

definition set_all :: "(string \<times> string) list \<Rightarrow> headers \<Rightarrow> headers" where
  "set_all kvs h = fold (\<lambda>(k, v). header_set k v) kvs h"

text \<open>
  \<open>http.NewRequestWithContext\<close> fails for a method that is not a token and for a URL that
  does not parse; an empty method is GET.
\<close>

definition new_request_error :: "string \<Rightarrow> string \<Rightarrow> go_error option" where
  "new_request_error http_method url =
     (if \<not> list_all valid_header_byte http_method
      then Some (Named ''errors'' ''errorString'' ''net/http: invalid method'' [] NoUnwrap)
      else if url_parse url = None
      then Some (UrlError ''parse'' url (Some (Named ''errors'' ''errorString'' [] [] NoUnwrap)))
      else None)"

text \<open>The headers up to the SDK's own: defaults, user agent, content type, per-call, key, workspace.\<close>

definition caller_headers :: "string \<Rightarrow> client \<Rightarrow> bool \<Rightarrow> call_options option \<Rightarrow> headers" where
  "caller_headers agent c has_body opts =
     (let h1 = header_set ''user-agent'' agent (set_all (cl_headers c) no_headers);
          h2 = (if has_body then header_set ''content-type'' ''application/json'' h1 else h1);
          h3 = (case opts of None \<Rightarrow> h2 | Some o' \<Rightarrow> set_all (co_extra_headers o') h2);
          h4 = (case opts of None \<Rightarrow> h3
                | Some o' \<Rightarrow> (if co_idempotency_key o' \<noteq> [] then header_set ''idempotency-key'' (co_idempotency_key o') h3
                             else h3));
          workspace = (case opts of Some o' \<Rightarrow> (case co_workspace_id o' of Some w \<Rightarrow> w | None \<Rightarrow> cl_workspace_id c)
                       | None \<Rightarrow> cl_workspace_id c)
      in if workspace \<noteq> [] then header_set ''x-trustedrouter-workspace'' workspace h4 else h4)"

definition effective_api_key :: "client \<Rightarrow> call_options option \<Rightarrow> string" where
  "effective_api_key c opts =
     (case opts of Some o' \<Rightarrow> (case co_api_key o' of Some k \<Rightarrow> k | None \<Rightarrow> cl_api_key c) | None \<Rightarrow> cl_api_key c)"

text \<open>Authorization is deleted first; an empty per-call key removes every authentication header.\<close>

definition owned_headers :: "client \<Rightarrow> call_options option \<Rightarrow> string \<Rightarrow> bool \<Rightarrow> headers \<Rightarrow> headers" where
  "owned_headers c opts telemetry_value credential_free h0 =
     (let h1 = header_del ''authorization'' h0;
          suppressed = (case opts of Some o' \<Rightarrow> co_api_key o' = Some [] | None \<Rightarrow> False);
          h2 = (if suppressed then strip_authentication_headers h1 else h1);
          key = effective_api_key c opts;
          h3 = (if key \<noteq> [] then header_set ''authorization'' (''Bearer '' @ key) h2 else h2);
          h4 = header_del ''x-tr-client'' h3;
          h5 = (if telemetry_value \<noteq> [] then header_set ''x-tr-client'' telemetry_value h4 else h4)
      in if credential_free then strip_credential_headers h5 else h5)"

text \<open>\<open>telemetry_value\<close> is the recorder's header value, empty without a recorder.\<close>

definition new_http_request ::
    "string \<Rightarrow> client \<Rightarrow> string \<Rightarrow> string \<Rightarrow> bytes \<Rightarrow> bool \<Rightarrow> call_options option \<Rightarrow> string \<Rightarrow> bool
     \<Rightarrow> go_error + http_request" where
  "new_http_request agent c http_method url body has_body opts telemetry_value credential_free =
     (case new_request_error http_method url of
        Some e \<Rightarrow> Inl e
      | None \<Rightarrow> Inr
          \<lparr>rq_method = (if http_method = [] then ''GET'' else http_method), rq_url = url,
           rq_headers = owned_headers c opts telemetry_value credential_free
              (caller_headers agent c has_body opts),
           rq_body = (if has_body then Some body else None)\<rparr>)"

section \<open>Idempotency keys\<close>

fun big_endian :: "nat \<Rightarrow> nat \<Rightarrow> bytes" where
  "big_endian 0 n = []"
| "big_endian (Suc k) n = big_endian k (n div 256) @ [char_of (n mod 256)]"

text \<open>The clock's nanoseconds become an unsigned 64-bit number.\<close>

definition fallback_entropy :: "int \<Rightarrow> nat \<Rightarrow> nat \<Rightarrow> bytes" where
  "fallback_entropy now_ns pid sequence_number =
     big_endian 8 (nat (now_ns mod 2 ^ 64)) @ big_endian 8 pid @ big_endian 8 sequence_number"

definition new_idempotency_key :: "bytes option \<Rightarrow> int \<Rightarrow> nat \<Rightarrow> nat \<Rightarrow> string" where
  "new_idempotency_key entropy now_ns pid sequence_number =
     ''tr-req-'' @ b64_encode (case entropy of Some bs \<Rightarrow> bs
        | None \<Rightarrow> fallback_entropy now_ns pid sequence_number)"

definition empty_call_options :: call_options where
  "empty_call_options = \<lparr>co_api_key = None, co_extra_headers = [], co_workspace_id = None,
     co_idempotency_key = [], co_timeout = None\<rparr>"

definition ensure_idempotency_key :: "string \<Rightarrow> call_options \<Rightarrow> call_options" where
  "ensure_idempotency_key fresh opts =
     (if co_idempotency_key opts = [] then opts\<lparr>co_idempotency_key := fresh\<rparr> else opts)"

definition ensure_idempotency_options :: "string \<Rightarrow> call_options option \<Rightarrow> call_options" where
  "ensure_idempotency_options fresh opts =
     ensure_idempotency_key fresh (case opts of None \<Rightarrow> empty_call_options | Some o' \<Rightarrow> o')"

definition request_replay_safe :: "string \<Rightarrow> call_options option \<Rightarrow> bool" where
  "request_replay_safe http_method opts =
     (if to_upper http_method \<in> {''GET'', ''HEAD'', ''OPTIONS'', ''TRACE''} then True
      else case opts of None \<Rightarrow> False | Some o' \<Rightarrow> co_idempotency_key o' \<noteq> [])"

section \<open>The pause between attempts\<close>

definition retry_base :: "nat \<Rightarrow> duration" where
  "retry_base attempt =
     (let b = 500000000 * 2 ^ min attempt 6 in if 30 * 1000000000 < b then 30 * 1000000000 else b)"

text \<open>\<open>time.Duration(x)\<close> of a float; an out-of-range value is left to the implementation (\<open>None\<close>).\<close>

definition retry_floor :: "float64 option \<Rightarrow> duration option" where
  "retry_floor retry_after = (case retry_after of None \<Rightarrow> None
     | Some s \<Rightarrow> (case bounded_retry_after s of None \<Rightarrow> None
         | Some bounded \<Rightarrow> f64_to_i64 (fmul bounded (Fin 1000000000))))"

definition retry_sleep_duration :: "float64 \<Rightarrow> nat \<Rightarrow> float64 option \<Rightarrow> duration option" where
  "retry_sleep_duration jitter attempt retry_after =
     (case f64_to_i64 (fmul jitter (i64_to_f64 (retry_base attempt))) of
        None \<Rightarrow> None
      | Some delay \<Rightarrow>
         (let delay' = (case retry_floor retry_after of Some fl \<Rightarrow> max fl delay | None \<Rightarrow> delay);
              ceiling = 60 * 1000000000
          in Some (if ceiling < delay' then ceiling else delay')))"

section \<open>Lemmas on headers\<close>

lemma header_keys_canonical [simp]:
  "canonical_key ''authorization'' = ''Authorization''" "canonical_key ''x-tr-client'' = ''X-Tr-Client''"
  "canonical_key ''idempotency-key'' = ''Idempotency-Key''" "canonical_key ''cookie'' = ''Cookie''"
  "canonical_key ''cookie2'' = ''Cookie2''" "canonical_key ''x-api-key'' = ''X-Api-Key''"
  "canonical_key ''proxy-authorization'' = ''Proxy-Authorization''"
  "canonical_key ''x-trustedrouter-workspace'' = ''X-Trustedrouter-Workspace''"
  "canonical_key ''user-agent'' = ''User-Agent''" "canonical_key ''content-type'' = ''Content-Type''"
  by code_simp+

lemma header_values_del_all:
  "header_values (fold header_del ns h) k =
     (if canonical_key k \<in> canonical_key ` set ns then [] else header_values h k)"
  by (induction ns arbitrary: h) auto

lemma header_values_strip_credentials:
  "n \<in> set credential_header_names \<Longrightarrow> header_values (strip_credential_headers h) n = []"
  by (simp add: strip_credential_headers_def header_values_del_all)

lemma strip_authentication_other:
  "canonical_key k \<notin> canonical_key ` set authentication_header_names \<Longrightarrow>
     header_values (strip_authentication_headers h) k = header_values h k"
  by (simp add: strip_authentication_headers_def header_values_del_all)

lemma strip_authentication_gone:
  "header_values (strip_authentication_headers h) ''authorization'' = []"
  by (simp add: strip_authentication_headers_def header_values_del_all authentication_header_names_def)

lemma owned_telemetry_header:
  "header_values (owned_headers c opts v cf h) ''x-tr-client'' = (if cf \<or> v = [] then [] else [v])"
  by (simp add: owned_headers_def Let_def header_values_strip_credentials credential_header_names_def)

lemma owned_authorization:
  "header_values (owned_headers c opts v cf h) ''authorization'' =
     (if cf \<or> effective_api_key c opts = [] then [] else [''Bearer '' @ effective_api_key c opts])"
  by (simp add: owned_headers_def Let_def header_values_strip_credentials credential_header_names_def
      strip_authentication_gone)

lemma owned_idempotency:
  "\<not> cf \<Longrightarrow> header_values (owned_headers c opts v cf h) ''idempotency-key'' = header_values h ''idempotency-key''"
  by (simp add: owned_headers_def Let_def strip_authentication_other authentication_header_names_def)

lemma caller_idempotency:
  "co_idempotency_key o' \<noteq> [] \<Longrightarrow>
     header_values (caller_headers agent c hb (Some o')) ''idempotency-key'' = [co_idempotency_key o']"
  by (simp add: caller_headers_def Let_def)

lemma owned_suppressed:
  "co_api_key o' = Some [] \<Longrightarrow> n \<in> set authentication_header_names \<Longrightarrow>
     header_values (owned_headers c (Some o') v cf h) n = []"
  by (auto simp: owned_headers_def Let_def effective_api_key_def authentication_header_names_def
      strip_authentication_headers_def strip_credential_headers_def credential_header_names_def
      header_values_del_all)


text \<open>A caller that tries to set the owned headers itself.\<close>

definition forging_client :: client where
  "forging_client = (new_client bare_environment lookalike_options)\<lparr>cl_api_key := ''sk-1'',
     cl_headers := [(''X-TR-Client'', ''v=9''), (''Authorization'', ''Basic x'')]\<rparr>"

definition forging_options :: call_options where
  "forging_options = empty_call_options\<lparr>co_extra_headers := [(''AUTHORIZATION'', ''Basic y'')], co_idempotency_key := ''key-1''\<rparr>"


end
