(* ===== verification/Reporter.thy ===== *)
theory Reporter
  imports Reporter_Counters Request
begin

text \<open>
  The beacon sender of \<open>telemetry_reporter.go\<close>: its buffers, the closing and pruning of
  minute windows, the selection of a batch, the handling of the collector's answer, the
  pauses between batches and the closing.  Windows are shared by pointer between the
  closed list and a batch in flight, so they live in a store indexed by address; buffered
  events are known by address too.  Instants count from Go's zero time, which is 0.
  The JSON encoder is a parameter: \<open>en_batch b = None\<close> is an encoding error.
\<close>

section \<open>State\<close>

record counter_window =
  cw_start :: instant
  cw_rows :: counter_table
  cw_size :: int

record buffered_event =
  be_wire :: wire_event
  be_completed :: instant
  be_size :: int

record wire_batch =
  wb_schema_version :: int
  wb_batch_id :: string
  wb_instance_id :: string
  wb_seq :: int
  wb_sent_at_ms :: int
  wb_sdk :: wire_sdk
  wb_synthetic :: bool
  wb_dropped :: int
  wb_events :: "wire_event list"
  wb_counters :: "wire_counter list"

record encoders =
  en_event :: "wire_event \<Rightarrow> nat option" \<comment> \<open>length of the encoding\<close>
  en_rows :: "wire_counter list \<Rightarrow> nat option"
  en_batch :: "wire_batch \<Rightarrow> bytes option"

type_synonym address = nat

record reporter =
  rp_control_base_url :: string
  rp_api_key :: string
  rp_workspace_id :: string
  rp_sdk :: wire_sdk
  rp_instance_id :: string
  rp_rate :: float64
  rp_flush_interval :: duration
  rp_stopped :: bool
  rp_worker :: bool \<comment> \<open>the worker has been started\<close>
  rp_wake :: bool \<comment> \<open>the one-slot wake channel is full\<close>
  rp_events :: "(address \<times> buffered_event) list"
  rp_events_size :: int
  rp_window_start :: "instant option"
  rp_current :: counter_table
  rp_windows :: "address list" \<comment> \<open>the closed windows, oldest first\<close>
  rp_store :: "address \<Rightarrow> counter_window"
  rp_fresh :: address
  rp_retained :: int
  rp_dropped :: int
  rp_seq :: int
  rp_backoff :: duration
  rp_backoff_until :: instant
  rp_paused_until :: instant
  rp_next_flush :: instant
  rp_urgent :: bool
  rp_disabled :: bool
  rp_closed :: bool

definition seconds_ns :: "int \<Rightarrow> duration" where
  "seconds_ns s = s * 1000000000"

definition telemetry_schema_version :: int where "telemetry_schema_version = 1"
definition telemetry_backoff_min :: duration where "telemetry_backoff_min = seconds_ns 60"
definition telemetry_backoff_max :: duration where "telemetry_backoff_max = seconds_ns 600"
definition telemetry_flush_interval :: duration where "telemetry_flush_interval = seconds_ns 30"
definition telemetry_max_events :: nat where "telemetry_max_events = 1000"
definition telemetry_max_batch_events :: nat where "telemetry_max_batch_events = 100"
definition telemetry_max_batch_counters :: nat where "telemetry_max_batch_counters = 200"
definition telemetry_max_batch_bytes :: nat where "telemetry_max_batch_bytes = 65536"
definition telemetry_retention_bytes :: int where "telemetry_retention_bytes = 524288"
definition telemetry_retention :: duration where "telemetry_retention = seconds_ns 86400"
definition telemetry_batch_trigger_bytes :: int where "telemetry_batch_trigger_bytes = 60 * 1024"
definition telemetry_urgent_events :: nat where "telemetry_urgent_events = 50"
definition telemetry_max_retry_after :: duration where "telemetry_max_retry_after = seconds_ns 600"
definition telemetry_max_pause_seconds :: rat where "telemetry_max_pause_seconds = 86400"

lemmas telemetry_limits = telemetry_backoff_min_def telemetry_backoff_max_def telemetry_flush_interval_def
  telemetry_max_events_def telemetry_max_batch_events_def telemetry_max_batch_counters_def
  telemetry_max_batch_bytes_def telemetry_retention_bytes_def telemetry_retention_def
  telemetry_batch_trigger_bytes_def telemetry_urgent_events_def telemetry_max_retry_after_def
  telemetry_max_pause_seconds_def seconds_ns_def

definition new_telemetry_reporter ::
    "string \<Rightarrow> string \<Rightarrow> string \<Rightarrow> wire_sdk \<Rightarrow> wire_sdk \<Rightarrow> float64 \<Rightarrow> string \<Rightarrow> reporter" where
  "new_telemetry_reporter control_base_url api_key workspace_id own identity rate instance_id =
     \<lparr>rp_control_base_url = trim_right (CHR ''/'') control_base_url, rp_api_key = api_key,
      rp_workspace_id = workspace_id, rp_sdk = normalise_sdk_identity own identity, rp_instance_id = instance_id,
      rp_rate = telemetry_sample_rate_value rate, rp_flush_interval = telemetry_flush_interval,
      rp_stopped = False, rp_worker = False, rp_wake = False, rp_events = [], rp_events_size = 0,
      rp_window_start = None, rp_current = [], rp_windows = [],
      rp_store = (\<lambda>_. \<lparr>cw_start = 0, cw_rows = [], cw_size = 0\<rparr>), rp_fresh = 0, rp_retained = 0, rp_dropped = 0,
      rp_seq = 0, rp_backoff = telemetry_backoff_min, rp_backoff_until = 0, rp_paused_until = 0, rp_next_flush = 0,
      rp_urgent = False, rp_disabled = False, rp_closed = False\<rparr>"

section \<open>Minute windows\<close>

definition telemetry_minute_start :: "instant \<Rightarrow> instant" where
  "telemetry_minute_start now = now - now mod seconds_ns 60"

definition telemetry_window_size :: "encoders \<Rightarrow> counter_table \<Rightarrow> int" where
  "telemetry_window_size en rows =
     (case en_rows en (map (\<lambda>(k, v). wire_counter_from k v 0) rows) of None \<Rightarrow> 0 | Some n \<Rightarrow> int n)"

text \<open>\<open>dropWindowLocked\<close> on the front of the closed list.\<close>

definition drop_front_window :: "reporter \<Rightarrow> reporter" where
  "drop_front_window r =
     (case rp_windows r of [] \<Rightarrow> r
      | a # rest \<Rightarrow> r\<lparr>rp_windows := rest, rp_retained := rp_retained r - cw_size (rp_store r a),
          rp_dropped := rp_dropped r + int (length (table_keys (cw_rows (rp_store r a))))\<rparr>)"

text \<open>The two loops of \<open>pruneWindowsLocked\<close>; the fuel is the length of the list each loop shortens.\<close>

fun prune_loop :: "(reporter \<Rightarrow> address \<Rightarrow> bool) \<Rightarrow> nat \<Rightarrow> reporter \<Rightarrow> reporter" where
  "prune_loop goes 0 r = r"
| "prune_loop goes (Suc n) r =
     (case rp_windows r of [] \<Rightarrow> r
      | a # rest \<Rightarrow> (if goes r a then prune_loop goes n (drop_front_window r) else r))"

definition window_too_old :: "instant \<Rightarrow> reporter \<Rightarrow> address \<Rightarrow> bool" where
  "window_too_old now r a \<longleftrightarrow> telemetry_retention < now - cw_start (rp_store r a)"

definition over_byte_cap :: "reporter \<Rightarrow> address \<Rightarrow> bool" where
  "over_byte_cap r a \<longleftrightarrow> telemetry_retention_bytes < rp_retained r"

definition prune_windows :: "instant \<Rightarrow> reporter \<Rightarrow> reporter" where
  "prune_windows now r =
     (let r1 = prune_loop (window_too_old now) (length (rp_windows r)) r
      in prune_loop over_byte_cap (length (rp_windows r1)) r1)"

definition push_window :: "encoders \<Rightarrow> instant \<Rightarrow> instant \<Rightarrow> reporter \<Rightarrow> reporter" where
  "push_window en now start r =
     (let a = rp_fresh r; size = telemetry_window_size en (rp_current r)
      in r\<lparr>rp_store := (rp_store r)(a := \<lparr>cw_start = start, cw_rows = rp_current r, cw_size = size\<rparr>),
           rp_fresh := Suc a, rp_windows := rp_windows r @ [a], rp_retained := rp_retained r + size,
           rp_current := [], rp_window_start := Some (telemetry_minute_start now)\<rparr>)"

definition close_current_window :: "encoders \<Rightarrow> instant \<Rightarrow> reporter \<Rightarrow> reporter" where
  "close_current_window en now r =
     (case rp_window_start r of
        None \<Rightarrow> r
      | Some start \<Rightarrow> (if rp_current r = [] then r else prune_windows now (push_window en now start r)))"

definition roll_window :: "encoders \<Rightarrow> instant \<Rightarrow> reporter \<Rightarrow> reporter" where
  "roll_window en now r =
     (let minute_start = telemetry_minute_start now in
      case rp_window_start r of
        None \<Rightarrow> r\<lparr>rp_window_start := Some minute_start\<rparr>
      | Some start \<Rightarrow>
          (if start < minute_start
           then (close_current_window en now r)\<lparr>rp_window_start := Some minute_start\<rparr>
           else r))"

section \<open>Recording a call\<close>

definition wake_reporter :: "reporter \<Rightarrow> reporter" where
  "wake_reporter r = r\<lparr>rp_wake := True\<rparr>"

definition stop_reporter :: "reporter \<Rightarrow> reporter" where
  "stop_reporter r = wake_reporter (r\<lparr>rp_stopped := True\<rparr>)"

definition start_worker :: "instant \<Rightarrow> reporter \<Rightarrow> reporter" where
  "start_worker now r =
     (if rp_worker r \<or> rp_disabled r \<or> rp_closed r then r
      else r\<lparr>rp_next_flush := now + rp_flush_interval r, rp_worker := True\<rparr>)"

fun first_ok :: "(address \<times> buffered_event) list \<Rightarrow> nat option" where
  "first_ok [] = None"
| "first_ok ((a, e) # es) =
     (if we_final_outcome (be_wire e) = ''ok'' then Some 0 else map_option Suc (first_ok es))"

definition drop_buffered_event :: "reporter \<Rightarrow> reporter" where
  "drop_buffered_event r =
     (let i = (case first_ok (rp_events r) of Some i \<Rightarrow> i | None \<Rightarrow> 0); dropped = snd (rp_events r ! i)
      in r\<lparr>rp_events := take i (rp_events r) @ drop (Suc i) (rp_events r),
           rp_events_size := rp_events_size r - be_size dropped, rp_dropped := rp_dropped r + 1\<rparr>)"

definition append_event :: "buffered_event \<Rightarrow> reporter \<Rightarrow> reporter" where
  "append_event e r =
     (let r1 = (if telemetry_max_events \<le> length (rp_events r) then drop_buffered_event r else r)
      in r1\<lparr>rp_events := rp_events r1 @ [(rp_fresh r1, e)], rp_fresh := Suc (rp_fresh r1),
            rp_events_size := rp_events_size r1 + be_size e\<rparr>)"

definition merge_counters_locked :: "counter_increment list \<Rightarrow> reporter \<Rightarrow> reporter" where
  "merge_counters_locked is r =
     (let (t, d) = merge_counters is (rp_current r, rp_dropped r) in r\<lparr>rp_current := t, rp_dropped := d\<rparr>)"

definition mark_urgent :: "reporter \<Rightarrow> reporter" where
  "mark_urgent r =
     (if telemetry_urgent_events \<le> length (rp_events r) \<or>
         telemetry_batch_trigger_bytes \<le> rp_events_size r + rp_retained r + int (length (table_keys (rp_current r))) * 400
      then wake_reporter (r\<lparr>rp_urgent := True\<rparr>) else r)"

text \<open>
  \<open>onRequest\<close>: sampling and bounding happen before the lock, with the rate read then.
  \<open>Some None\<close> of \<open>prepare_event\<close> is an event the wire cannot express.
\<close>

definition prepare_event ::
    "encoders \<Rightarrow> float64 \<Rightarrow> float64 \<Rightarrow> instant \<Rightarrow> request_event \<Rightarrow> buffered_event option option" where
  "prepare_event en rate draw now ev =
     (case sample_reason ev rate draw of None \<Rightarrow> None
      | Some (reason, r) \<Rightarrow> Some
          (case wire_event_from ev r reason 0 of None \<Rightarrow> None
           | Some w \<Rightarrow> Some \<lparr>be_wire = w, be_completed = now,
               be_size = (case en_event en w of Some n \<Rightarrow> int n | None \<Rightarrow> 600)\<rparr>))"

definition on_request ::
    "encoders \<Rightarrow> instant \<Rightarrow> float64 \<Rightarrow> request_event \<Rightarrow> counter_increment list \<Rightarrow> reporter \<Rightarrow> reporter" where
  "on_request en now draw ev is r =
     (let prepared = prepare_event en (rp_rate r) draw now ev in
      if rp_disabled r \<or> rp_closed r then r
      else let r1 = merge_counters_locked is (roll_window en now r);
               r2 = (if prepared = Some None then r1\<lparr>rp_dropped := rp_dropped r1 + 1\<rparr> else r1);
               r3 = (case prepared of Some (Some e) \<Rightarrow> append_event e r2 | _ \<Rightarrow> r2)
           in mark_urgent (start_worker now r3))"

section \<open>Selecting a batch\<close>

record selected_batch =
  sb_payload :: bytes
  sb_events :: "address list"
  sb_counters :: "(address \<times> counter_key) list"
  sb_dropped :: int

text \<open>Go's \<open>Milliseconds\<close> truncates; a negative age is clamped to 0 either way.\<close>

definition wire_event_at :: "instant \<Rightarrow> buffered_event \<Rightarrow> wire_event" where
  "wire_event_at now e =
     (be_wire e)\<lparr>we_age_ms := clamp_int ((now - be_completed e) div 1000000) 0 telemetry_max_age_ms\<rparr>"

definition window_refs :: "reporter \<Rightarrow> (address \<times> counter_key) list" where
  "window_refs r = concat (map (\<lambda>a. map (\<lambda>k. (a, k)) (table_keys (cw_rows (rp_store r a)))) (rp_windows r))"

definition wire_counter_at :: "instant \<Rightarrow> reporter \<Rightarrow> address \<times> counter_key \<Rightarrow> wire_counter" where
  "wire_counter_at now r ref =
     (let w = rp_store r (fst ref)
      in wire_counter_from (snd ref) (the (table_get (cw_rows w) (snd ref))) ((now - cw_start w) div 1000000))"

text \<open>Trimming from the tail: events first, then counters, until the encoding fits.\<close>

function trim_batch ::
    "encoders \<Rightarrow> wire_batch \<Rightarrow> address list \<Rightarrow> (address \<times> counter_key) list \<Rightarrow> selected_batch option" where
  "trim_batch en b es cs =
     (case en_batch en b of
        None \<Rightarrow> None
      | Some enc \<Rightarrow>
          (if length enc \<le> telemetry_max_batch_bytes
           then Some \<lparr>sb_payload = enc, sb_events = es, sb_counters = cs, sb_dropped = wb_dropped b\<rparr>
           else if wb_events b \<noteq> [] then trim_batch en (b\<lparr>wb_events := butlast (wb_events b)\<rparr>) (butlast es) cs
           else if wb_counters b \<noteq> [] then trim_batch en (b\<lparr>wb_counters := butlast (wb_counters b)\<rparr>) es (butlast cs)
           else None))"
  by auto
termination
  by (relation "measure (\<lambda>(en, b, es, cs). length (wb_events b) + length (wb_counters b))") auto

declare trim_batch.simps [simp del]

definition assemble_batch :: "string \<Rightarrow> int \<Rightarrow> instant \<Rightarrow> reporter \<Rightarrow> wire_batch" where
  "assemble_batch batch_id sent_at_ms now r =
     \<lparr>wb_schema_version = telemetry_schema_version, wb_batch_id = batch_id, wb_instance_id = rp_instance_id r,
      wb_seq = rp_seq r, wb_sent_at_ms = sent_at_ms, wb_sdk = rp_sdk r, wb_synthetic = False,
      wb_dropped = rp_dropped r,
      wb_events = map (\<lambda>(a, e). wire_event_at now e) (take telemetry_max_batch_events (rp_events r)),
      wb_counters = map (wire_counter_at now r) (take telemetry_max_batch_counters (window_refs r))\<rparr>"

text \<open>\<open>batch_id\<close> and \<open>sent_at_ms\<close> are the freshly minted id and the wall clock.\<close>

definition prepare_windows :: "encoders \<Rightarrow> instant \<Rightarrow> reporter \<Rightarrow> reporter" where
  "prepare_windows en now r = prune_windows now (close_current_window en now (roll_window en now r))"

definition select_batch ::
    "encoders \<Rightarrow> string \<Rightarrow> int \<Rightarrow> instant \<Rightarrow> reporter \<Rightarrow> selected_batch option \<times> reporter" where
  "select_batch en batch_id sent_at_ms now r0 =
     (let r = prepare_windows en now r0; b = assemble_batch batch_id sent_at_ms now r in
      if wb_events b = [] \<and> wb_counters b = [] then (None, r)
      else (trim_batch en b (map fst (take telemetry_max_batch_events (rp_events r)))
              (take telemetry_max_batch_counters (window_refs r)),
            r\<lparr>rp_seq := rp_seq r + 1\<rparr>))"

section \<open>The collector's answer\<close>

text \<open>A float outside \<open>int64\<close> becomes the least or the greatest duration: either way it delays nothing.\<close>

definition telemetry_retry_after :: "headers \<Rightarrow> duration option" where
  "telemetry_retry_after hs =
     (let raw = trim_space (header_get hs ''Retry-After'') in
      if raw = [] then None
      else case parse_float raw of
          None \<Rightarrow> None
        | Some s \<Rightarrow>
            (if is_nan s \<or> is_inf s \<or> flt s (Fin 0) then None
             else case f64_to_i64 (fmul s (Fin 1000000000)) of
                 None \<Rightarrow> None
               | Some delay \<Rightarrow> (if telemetry_max_retry_after < delay then None else Some delay)))"

definition set_backoff :: "instant \<Rightarrow> duration option \<Rightarrow> reporter \<Rightarrow> reporter" where
  "set_backoff now retry_after r =
     (let d1 = (case retry_after of Some ra \<Rightarrow> (if rp_backoff r < ra then ra else rp_backoff r) | None \<Rightarrow> rp_backoff r);
          d2 = (if telemetry_backoff_max < d1 then telemetry_backoff_max else d1);
          n1 = rp_backoff r * 2;
          n2 = (if n1 < telemetry_backoff_min then telemetry_backoff_min else n1);
          n3 = (if telemetry_backoff_max < n2 then telemetry_backoff_max else n2)
      in wake_reporter (r\<lparr>rp_backoff_until := now + d2, rp_backoff := n3\<rparr>))"

definition remove_row :: "address \<times> counter_key \<Rightarrow> reporter \<times> address list \<Rightarrow> reporter \<times> address list" where
  "remove_row ref st =
     (let (r, changed) = st; (a, k) = ref; w = rp_store r a in
      if table_get (cw_rows w) k = None then st
      else (r\<lparr>rp_store := (rp_store r)(a := w\<lparr>cw_rows := table_remove k (cw_rows w)\<rparr>)\<rparr>, List.insert a changed))"

definition resize_window :: "encoders \<Rightarrow> address \<Rightarrow> reporter \<Rightarrow> reporter" where
  "resize_window en a r =
     (let w = rp_store r a;
          size = (if cw_rows w = [] then 0 else telemetry_window_size en (cw_rows w))
      in r\<lparr>rp_store := (rp_store r)(a := w\<lparr>cw_size := size\<rparr>),
           rp_retained := rp_retained r - cw_size w + size\<rparr>)"

definition remove_selected :: "encoders \<Rightarrow> selected_batch \<Rightarrow> reporter \<Rightarrow> reporter" where
  "remove_selected en sel r0 =
     (let kept = filter (\<lambda>(a, e). a \<notin> set (sb_events sel)) (rp_events r0);
          r1 = r0\<lparr>rp_events := kept, rp_events_size := sum_list (map (\<lambda>(a, e). be_size e) kept)\<rparr>;
          (r2, changed) = fold remove_row (sb_counters sel) (r1, []);
          r3 = fold (resize_window en) changed r2
      in r3\<lparr>rp_windows := filter (\<lambda>a. cw_rows (rp_store r3 a) \<noteq> []) (rp_windows r3)\<rparr>)"

definition telemetry_float_value :: "gvalue \<Rightarrow> float64 option" where
  "telemetry_float_value v =
     (case v of
        GFloat f \<Rightarrow> (if is_nan f \<or> is_inf f then None else Some f)
      | GString s \<Rightarrow> (case parse_float (trim_space s) of None \<Rightarrow> None
          | Some f \<Rightarrow> (if is_nan f \<or> is_inf f then None else Some f))
      | _ \<Rightarrow> None)"

text \<open>
  The policy member of the body: the member name is matched without regard to case, a null
  clears the map, objects are merged into it, and any other value is an error.  (Of two
  members with one spelling only the later counts here.)
\<close>

definition policy_member :: "string \<times> gvalue \<Rightarrow> object option option \<Rightarrow> object option option" where
  "policy_member kv st =
     (if \<not> equal_fold (fst kv) ''policy'' then st
      else case st of None \<Rightarrow> None
        | Some p \<Rightarrow> (case snd kv of
             GMap m \<Rightarrow> Some (Some (obj_merge (case p of None \<Rightarrow> [] | Some q \<Rightarrow> q) m))
           | GNil \<Rightarrow> Some None
           | _ \<Rightarrow> None))"

definition policy_of :: "bytes \<Rightarrow> object option" where
  "policy_of body =
     (case json_unmarshal body of
        Some (GMap m) \<Rightarrow> (case fold policy_member m (Some None) of Some p \<Rightarrow> p | None \<Rightarrow> None)
      | _ \<Rightarrow> None)"

text \<open>\<open>Duration.Seconds\<close> of a duration that is not negative.\<close>

definition duration_seconds :: "duration \<Rightarrow> float64" where
  "duration_seconds d =
     fadd (i64_to_f64 (d div 1000000000)) (fdiv_const (i64_to_f64 (d mod 1000000000)) 1000000000)"

definition policy_rate :: "object \<Rightarrow> reporter \<Rightarrow> reporter" where
  "policy_rate p r =
     (if obj_has p ''success_sample_rate''
      then case telemetry_float_value (obj_get p ''success_sample_rate'') of
          Some rate \<Rightarrow> (if fle (Fin 0) rate \<and> flt rate (rp_rate r) then r\<lparr>rp_rate := rate\<rparr> else r)
        | None \<Rightarrow> r
      else r)"

definition policy_interval :: "object \<Rightarrow> reporter \<Rightarrow> reporter" where
  "policy_interval p r =
     (if obj_has p ''flush_seconds''
      then case telemetry_float_value (obj_get p ''flush_seconds'') of
          Some s \<Rightarrow>
            (if flt (duration_seconds (rp_flush_interval r)) s
             then case f64_to_i64 (fmul (math_min s (duration_seconds telemetry_backoff_max)) (Fin 1000000000)) of
                 Some d \<Rightarrow> r\<lparr>rp_flush_interval := d\<rparr>
               | None \<Rightarrow> r
             else r)
        | None \<Rightarrow> r
      else r)"

definition policy_pause :: "object \<Rightarrow> instant \<Rightarrow> reporter \<Rightarrow> reporter" where
  "policy_pause p now r =
     (case telemetry_float_value (obj_get p ''pause_seconds'') of
        Some s \<Rightarrow>
          (if fle (Fin 0) s \<and> fle s (Fin telemetry_max_pause_seconds)
           then case f64_to_i64 (fmul s (Fin 1000000000)) of
               Some d \<Rightarrow> (if rp_paused_until r < now + d then r\<lparr>rp_paused_until := now + d\<rparr> else r)
             | None \<Rightarrow> r
           else r)
      | None \<Rightarrow> r)"

definition apply_policy :: "bytes \<Rightarrow> instant \<Rightarrow> reporter \<Rightarrow> reporter" where
  "apply_policy body now r =
     (case policy_of body of None \<Rightarrow> r
      | Some p \<Rightarrow> policy_pause p now (policy_interval p (policy_rate p r)))"

definition disable_reporter :: "reporter \<Rightarrow> reporter" where
  "disable_reporter r =
     stop_reporter (r\<lparr>rp_disabled := True, rp_events := [], rp_events_size := 0, rp_current := [], rp_windows := [],
       rp_retained := 0, rp_dropped := 0\<rparr>)"

definition disabling_statuses :: "int list" where
  "disabling_statuses = [400, 401, 403, 404, 410]"

definition handle_response ::
    "encoders \<Rightarrow> int \<Rightarrow> headers \<Rightarrow> bytes \<Rightarrow> instant \<Rightarrow> selected_batch \<Rightarrow> reporter \<Rightarrow> reporter" where
  "handle_response en status hs body now sel r =
     (if equal_fold (trim_space (header_get hs ''X-TR-Telemetry'')) ''off'' then disable_reporter r
      else if status = 202 then
        (let r1 = remove_selected en sel r; d = rp_dropped r1 - sb_dropped sel
         in apply_policy body now
              (r1\<lparr>rp_dropped := (if d < 0 then 0 else d), rp_backoff := telemetry_backoff_min, rp_backoff_until := 0\<rparr>))
      else if status \<in> set disabling_statuses then disable_reporter r
      else if status = 413 then
        (let r1 = remove_selected en sel r
         in r1\<lparr>rp_dropped := rp_dropped r1 + int (length (sb_events sel) + length (sb_counters sel))\<rparr>)
      else set_backoff now (telemetry_retry_after hs) r)"

section \<open>Flushing\<close>

text \<open>
  \<open>flushOnce\<close> holds the lock to decide and select, releases it while the request is on the
  wire, and takes it again for the answer; calls may be recorded in between.
\<close>

definition flush_begin ::
    "encoders \<Rightarrow> string \<Rightarrow> int \<Rightarrow> instant \<Rightarrow> reporter \<Rightarrow> selected_batch option \<times> reporter" where
  "flush_begin en batch_id sent_at_ms now r =
     (if rp_disabled r \<or> now < rp_paused_until r \<or> now < rp_backoff_until r then (None, r)
      else if rp_api_key r = [] then (None, r)
      else select_batch en batch_id sent_at_ms now r)"

datatype post_outcome = PostFailed | PostAnswered int headers "bytes option" \<comment> \<open>None: the body could not be read\<close>

definition flush_end :: "encoders \<Rightarrow> post_outcome \<Rightarrow> instant \<Rightarrow> selected_batch \<Rightarrow> reporter \<Rightarrow> bool \<times> reporter" where
  "flush_end en answer now sel r =
     (case answer of
        PostFailed \<Rightarrow> (False, set_backoff now None r)
      | PostAnswered status hs body \<Rightarrow>
          (status = 202, handle_response en status hs (case body of None \<Rightarrow> [] | Some b \<Rightarrow> b) now sel r))"

text \<open>The one request of \<open>post\<close>; \<open>None\<close> when it is refused before it is sent.\<close>

definition post_request :: "string \<Rightarrow> bytes \<Rightarrow> reporter \<Rightarrow> http_request option" where
  "post_request agent enc r =
     (let url = rp_control_base_url r @ ''/client-events'' in
      if telemetry_max_batch_bytes < length enc then None
      else if new_request_error ''POST'' url \<noteq> None then None
      else Some \<lparr>rq_method = ''POST'', rq_url = url,
        rq_headers =
          (let h = header_set ''content-type'' ''application/json''
                     (header_set ''user-agent'' agent
                       (header_set ''authorization'' (''Bearer '' @ rp_api_key r) no_headers))
           in if rp_workspace_id r \<noteq> [] then header_set ''x-trustedrouter-workspace'' (rp_workspace_id r) h else h),
        rq_body = Some enc\<rparr>)"

text \<open>One turn of the worker: sleep until a deadline, or flush now.\<close>

definition telemetry_latest :: "instant list \<Rightarrow> instant" where
  "telemetry_latest ts = fold (\<lambda>t latest. if latest < t then t else latest) ts 0"

datatype worker_turn = WorkerStops | WorkerSleeps duration | WorkerFlushes

definition worker_decides :: "instant \<Rightarrow> reporter \<Rightarrow> worker_turn \<times> reporter" where
  "worker_decides now r =
     (if rp_stopped r then (WorkerStops, r)
      else let deadline = telemetry_latest [rp_next_flush r, rp_paused_until r, rp_backoff_until r];
               urgent = (rp_urgent r \<and> \<not> now < telemetry_latest [rp_paused_until r, rp_backoff_until r]);
               r1 = (if urgent then r\<lparr>rp_urgent := False\<rparr> else r)
           in (if \<not> urgent \<and> now < deadline then WorkerSleeps (deadline - now) else WorkerFlushes, r1))"

definition worker_reschedules :: "instant \<Rightarrow> reporter \<Rightarrow> reporter" where
  "worker_reschedules now r = r\<lparr>rp_next_flush := now + rp_flush_interval r\<rparr>"

text \<open>\<open>close\<close> marks the reporter and stops the worker; the final flush and the bounded wait follow.\<close>

definition close_reporter :: "reporter \<Rightarrow> reporter" where
  "close_reporter r = (if rp_closed r then r else stop_reporter (r\<lparr>rp_closed := True\<rparr>))"

end
