(* ===== verification/Reporter_Facts.thy ===== *)
theory Reporter_Facts
  imports Reporter
begin

text \<open>
  Correctness of the beacon sender: the step relation in which calls are recorded while a
  batch is on the wire, its invariant, and what each operation promises.
\<close>

section \<open>Frames of the window operations\<close>

lemma unpruned:
  "\<exists>k x d. r = r\<lparr>rp_windows := drop k (rp_windows r), rp_retained := x, rp_dropped := d\<rparr>"
  by (rule exI [of _ 0], rule exI [of _ "rp_retained r"], rule exI [of _ "rp_dropped r"]) simp

lemma prune_loop_form:
  "\<exists>k x d. prune_loop goes n r =
     r\<lparr>rp_windows := drop k (rp_windows r), rp_retained := x, rp_dropped := d\<rparr>"
proof (induction n arbitrary: r)
  case 0
  show ?case unfolding prune_loop.simps by (rule unpruned)
next
  case (Suc n)
  show ?case
  proof (cases "\<exists>a rest. rp_windows r = a # rest \<and> goes r a")
    case True
    then obtain a rest where Cons: "rp_windows r = a # rest" "goes r a" by blast
    obtain k x d where "prune_loop goes n (drop_front_window r) = (drop_front_window r)
        \<lparr>rp_windows := drop k (rp_windows (drop_front_window r)), rp_retained := x, rp_dropped := d\<rparr>"
      using Suc.IH by blast
    with Cons have "prune_loop goes (Suc n) r =
        r\<lparr>rp_windows := drop (Suc k) (rp_windows r), rp_retained := x, rp_dropped := d\<rparr>"
      by (simp add: drop_front_window_def)
    then show ?thesis by blast
  next
    case False
    then have "prune_loop goes (Suc n) r = r" by (cases "rp_windows r") auto
    then show ?thesis by (simp only: unpruned)
  qed
qed

lemma prune_windows_form:
  "\<exists>k x d. prune_windows now r = r\<lparr>rp_windows := drop k (rp_windows r), rp_retained := x, rp_dropped := d\<rparr>"
proof -
  define r1 where "r1 = prune_loop (window_too_old now) (length (rp_windows r)) r"
  obtain k x d where 1: "r1 = r\<lparr>rp_windows := drop k (rp_windows r), rp_retained := x, rp_dropped := d\<rparr>"
    unfolding r1_def using prune_loop_form by blast
  have p: "prune_windows now r = prune_loop over_byte_cap (length (rp_windows r1)) r1"
    by (simp add: prune_windows_def r1_def Let_def)
  obtain k' x' d' where "prune_loop over_byte_cap (length (rp_windows r1)) r1 =
      r1\<lparr>rp_windows := drop k' (rp_windows r1), rp_retained := x', rp_dropped := d'\<rparr>"
    using prune_loop_form by blast
  then have "prune_windows now r = r\<lparr>rp_windows := drop (k' + k) (rp_windows r), rp_retained := x', rp_dropped := d'\<rparr>"
    unfolding p unfolding 1 by simp
  then show ?thesis by blast
qed

text \<open>The part of the state that window operations leave alone.\<close>

definition outside_windows :: "reporter \<Rightarrow> reporter" where
  "outside_windows r = r\<lparr>rp_window_start := None, rp_current := [], rp_windows := [], rp_store := (\<lambda>_. undefined),
     rp_fresh := 0, rp_retained := 0, rp_dropped := 0\<rparr>"

lemma outside_prune: "outside_windows (prune_windows now r) = outside_windows r"
proof -
  obtain k x d where "prune_windows now r = r\<lparr>rp_windows := drop k (rp_windows r), rp_retained := x, rp_dropped := d\<rparr>"
    using prune_windows_form by blast
  then show ?thesis by (simp add: outside_windows_def)
qed

lemma outside_close: "outside_windows (close_current_window en now r) = outside_windows r"
proof -
  have "outside_windows (push_window en now start r) = outside_windows r" for start
    by (simp add: push_window_def outside_windows_def Let_def)
  then show ?thesis by (simp add: close_current_window_def outside_prune split: option.split)
qed

lemma outside_roll: "outside_windows (roll_window en now r) = outside_windows r"
proof -
  have "outside_windows (x\<lparr>rp_window_start := w\<rparr>) = outside_windows x" for x w by (simp add: outside_windows_def)
  then show ?thesis by (simp add: roll_window_def Let_def outside_close split: option.split)
qed

lemma outside_eqD:
  assumes "outside_windows r = outside_windows r'"
  shows "rp_events r = rp_events r'" "rp_events_size r = rp_events_size r'" "rp_backoff r = rp_backoff r'"
    "rp_disabled r = rp_disabled r'" "rp_closed r = rp_closed r'" "rp_stopped r = rp_stopped r'" "rp_seq r = rp_seq r'"
    "rp_rate r = rp_rate r'" "rp_flush_interval r = rp_flush_interval r'" "rp_api_key r = rp_api_key r'"
  using assms by (cases r; cases r'; simp add: outside_windows_def)+

section \<open>Windows\<close>

definition window_at :: "reporter \<Rightarrow> address \<Rightarrow> counter_window" where
  "window_at r a = rp_store r a"

definition table_bounded :: "counter_table \<Rightarrow> bool" where
  "table_bounded t \<longleftrightarrow> table_ok t \<and> length (table_keys t) \<le> telemetry_max_window_keys"

definition windows_ok :: "reporter \<Rightarrow> bool" where
  "windows_ok r \<longleftrightarrow> table_bounded (rp_current r) \<and> distinct (rp_windows r) \<and>
     (\<forall>a \<in> set (rp_windows r). a < rp_fresh r \<and> table_bounded (cw_rows (rp_store r a)))"

lemma rows_bounded_zero: "rows_bounded (\<lambda>_. 0) t \<longleftrightarrow> table_bounded t"
  by (simp add: rows_bounded_def table_bounded_def)

lemma table_bounded_Nil [simp]: "table_bounded []"
  by (simp add: table_bounded_def table_ok_def table_keys_def)

lemma same_count_zero: "same_count (\<lambda>_. 0) (\<lambda>_. 0)"
  by (simp add: same_count_def bounded_count_def clamp_int_def telemetry_max_count_def)

lemma merge_counters_bounded:
  assumes "table_bounded t" "merge_counters is (t, d) = (t', d')"
  shows "table_bounded t'"
proof -
  have z: "counter_rows.total (\<lambda>_. 0) t = 0" by (simp add: counter_rows.total_def)
  have "count_sum (\<lambda>_. 0) is = 0" by (simp add: count_sum_def bounded_count_def clamp_int_def telemetry_max_count_def)
  then have le: "counter_rows.total (\<lambda>_. 0) t + count_sum (\<lambda>_. 0) is \<le> telemetry_max_count"
    using z by (simp add: telemetry_max_count_def)
  show ?thesis
    using merge_counters_facts [OF _ same_count_zero le assms(2)] assms(1) by (simp add: rows_bounded_zero)
qed

lemma windows_ok_drop:
  "windows_ok r \<Longrightarrow> windows_ok (r\<lparr>rp_windows := drop k (rp_windows r), rp_retained := x, rp_dropped := d\<rparr>)"
  by (auto simp: windows_ok_def dest: in_set_dropD)

lemma windows_ok_prune: "windows_ok r \<Longrightarrow> windows_ok (prune_windows now r)"
  by (metis prune_windows_form windows_ok_drop)

lemma windows_ok_push: "windows_ok r \<Longrightarrow> windows_ok (push_window en now start r)"
  by (auto simp: windows_ok_def push_window_def Let_def)

lemma windows_ok_close: "windows_ok r \<Longrightarrow> windows_ok (close_current_window en now r)"
  by (simp add: close_current_window_def windows_ok_prune windows_ok_push split: option.split)

lemma windows_ok_roll: "windows_ok r \<Longrightarrow> windows_ok (roll_window en now r)"
proof -
  have "windows_ok (x\<lparr>rp_window_start := w\<rparr>) = windows_ok x" for x w by (simp add: windows_ok_def)
  then show "windows_ok r \<Longrightarrow> ?thesis" by (simp add: roll_window_def Let_def windows_ok_close split: option.split)
qed

text \<open>What pruning promises: afterwards no window is too old, and the byte cap holds.\<close>

lemma prune_loop_stops:
  "length (rp_windows r) \<le> n \<Longrightarrow> rp_windows (prune_loop goes n r) \<noteq> [] \<Longrightarrow>
   \<not> goes (prune_loop goes n r) (hd (rp_windows (prune_loop goes n r)))"
proof (induction n arbitrary: r)
  case (Suc n)
  show ?case
  proof (cases "rp_windows r")
    case (Cons a rest)
    then have "rp_windows (drop_front_window r) = rest" by (simp add: drop_front_window_def)
    with Suc Cons show ?thesis by auto
  qed (use Suc in simp)
qed simp

text \<open>Retained windows and rows dropped with their windows add up.\<close>

definition closed_rows :: "reporter \<Rightarrow> nat" where
  "closed_rows r = sum_list (map (\<lambda>a. length (table_keys (cw_rows (rp_store r a)))) (rp_windows r))"

definition closed_bytes :: "reporter \<Rightarrow> int" where
  "closed_bytes r = sum_list (map (\<lambda>a. cw_size (rp_store r a)) (rp_windows r))"

lemma prune_loop_sums:
  "int (closed_rows (prune_loop goes n r)) + rp_dropped (prune_loop goes n r) = int (closed_rows r) + rp_dropped r \<and>
   rp_retained (prune_loop goes n r) - closed_bytes (prune_loop goes n r) = rp_retained r - closed_bytes r"
proof (induction n arbitrary: r)
  case (Suc n)
  show ?case
  proof (cases "rp_windows r")
    case (Cons a rest)
    have "int (closed_rows (drop_front_window r)) + rp_dropped (drop_front_window r) = int (closed_rows r) + rp_dropped r \<and>
        rp_retained (drop_front_window r) - closed_bytes (drop_front_window r) = rp_retained r - closed_bytes r"
      using Cons by (simp add: drop_front_window_def closed_rows_def closed_bytes_def)
    with Suc.IH [of "drop_front_window r"] Cons show ?thesis by auto
  qed simp
qed simp

lemma prune_windows_sums:
  "int (closed_rows (prune_windows now r)) + rp_dropped (prune_windows now r) = int (closed_rows r) + rp_dropped r"
  "rp_retained (prune_windows now r) - closed_bytes (prune_windows now r) = rp_retained r - closed_bytes r"
  unfolding prune_windows_def Let_def using prune_loop_sums by auto

text \<open>Windows are pruned oldest first, so a list in order of age keeps no old window.\<close>

definition windows_sorted :: "reporter \<Rightarrow> bool" where
  "windows_sorted r \<longleftrightarrow> sorted (map (\<lambda>a. cw_start (rp_store r a)) (rp_windows r))"

lemma prune_windows_post:
  assumes "windows_sorted r"
  shows "(\<forall>a \<in> set (rp_windows (prune_windows now r)).
      now - cw_start (rp_store (prune_windows now r) a) \<le> telemetry_retention) \<and>
    (rp_windows (prune_windows now r) = [] \<or> rp_retained (prune_windows now r) \<le> telemetry_retention_bytes)"
proof -
  define r1 where "r1 = prune_loop (window_too_old now) (length (rp_windows r)) r"
  define r2 where "r2 = prune_loop over_byte_cap (length (rp_windows r1)) r1"
  have p: "prune_windows now r = r2" by (simp add: prune_windows_def r1_def r2_def Let_def)
  obtain k x d where 1: "r1 = r\<lparr>rp_windows := drop k (rp_windows r), rp_retained := x, rp_dropped := d\<rparr>"
    unfolding r1_def using prune_loop_form by blast
  obtain k' x' d' where 2: "r2 = r1\<lparr>rp_windows := drop k' (rp_windows r1), rp_retained := x', rp_dropped := d'\<rparr>"
    unfolding r2_def using prune_loop_form by blast
  have young: "now - cw_start (rp_store r a) \<le> telemetry_retention" if "a \<in> set (rp_windows r1)" for a
  proof -
    have "rp_windows r1 \<noteq> []" using that by auto
    then have h: "\<not> window_too_old now r1 (hd (rp_windows r1))"
      using prune_loop_stops [of r "length (rp_windows r)" "window_too_old now"] unfolding r1_def by blast
    have "sorted (map (\<lambda>a. cw_start (rp_store r a)) (rp_windows r1))"
      using assms sorted_wrt_drop by (simp add: 1 windows_sorted_def flip: drop_map)
    then have "cw_start (rp_store r (hd (rp_windows r1))) \<le> cw_start (rp_store r a)"
      using that by (cases "rp_windows r1") auto
    with h show ?thesis by (simp add: window_too_old_def 1)
  qed
  have "rp_retained r2 \<le> telemetry_retention_bytes" if "rp_windows r2 \<noteq> []"
  proof -
    have "\<not> over_byte_cap r2 (hd (rp_windows r2))"
      using prune_loop_stops [of r1 "length (rp_windows r1)" over_byte_cap] that unfolding r2_def by blast
    then show ?thesis by (simp add: over_byte_cap_def)
  qed
  moreover have "a \<in> set (rp_windows r1)" if "a \<in> set (rp_windows r2)" for a
    using that by (auto simp: 2 dest: in_set_dropD)
  moreover have "rp_store r2 = rp_store r" by (simp add: 2) (simp add: 1)
  ultimately show ?thesis unfolding p using young by auto
qed

section \<open>Events\<close>

definition events_ok :: "reporter \<Rightarrow> bool" where
  "events_ok r \<longleftrightarrow> length (rp_events r) \<le> telemetry_max_events \<and> distinct (map fst (rp_events r)) \<and>
     (\<forall>(a, e) \<in> set (rp_events r). a < rp_fresh r) \<and>
     rp_events_size r = sum_list (map (\<lambda>(a, e). be_size e) (rp_events r))"

lemma first_ok_bound: "first_ok es = Some i \<Longrightarrow> i < length es"
  by (induction es arbitrary: i rule: first_ok.induct) (auto split: if_splits)

lemma sum_list_drop_one:
  assumes "i < length xs"
  shows "sum_list (map f (take i xs @ drop (Suc i) xs)) = sum_list (map f xs) - (f (xs ! i) :: int)"
proof -
  have "xs = take i xs @ xs ! i # drop (Suc i) xs" using assms by (simp add: id_take_nth_drop)
  then have "sum_list (map f xs) = sum_list (map f (take i xs @ xs ! i # drop (Suc i) xs))" by simp
  then show ?thesis by simp
qed

lemma distinct_drop_one: "distinct xs \<Longrightarrow> distinct (take i xs @ drop (Suc i) xs)"
  using set_take_disj_set_drop_if_distinct [of xs i "Suc i"] by auto

lemma events_ok_drop:
  assumes "events_ok r" "rp_events r \<noteq> []"
  shows "events_ok (drop_buffered_event r) \<and> Suc (length (rp_events (drop_buffered_event r))) = length (rp_events r) \<and>
    rp_fresh (drop_buffered_event r) = rp_fresh r"
proof -
  define i where "i = (case first_ok (rp_events r) of Some i \<Rightarrow> i | None \<Rightarrow> 0)"
  have i: "i < length (rp_events r)"
    using assms(2) first_ok_bound [of "rp_events r"] by (auto simp: i_def split: option.split)
  let ?es = "take i (rp_events r) @ drop (Suc i) (rp_events r)"
  have d: "drop_buffered_event r = r\<lparr>rp_events := ?es,
      rp_events_size := rp_events_size r - be_size (snd (rp_events r ! i)), rp_dropped := rp_dropped r + 1\<rparr>"
    by (simp add: drop_buffered_event_def i_def Let_def)
  have "distinct (map fst ?es)"
    using assms(1) distinct_drop_one [of "map fst (rp_events r)" i] by (simp add: events_ok_def take_map drop_map)
  moreover have "set ?es \<subseteq> set (rp_events r)" by (auto dest: in_set_takeD in_set_dropD)
  moreover have "sum_list (map (\<lambda>(a, e). be_size e) ?es) =
      sum_list (map (\<lambda>(a, e). be_size e) (rp_events r)) - be_size (snd (rp_events r ! i))"
    using sum_list_drop_one [OF i, of "\<lambda>(a, e). be_size e"] by (simp add: case_prod_unfold)
  ultimately show ?thesis using assms(1) i by (auto simp: events_ok_def d simp del: map_append)
qed

lemma events_ok_append:
  assumes "events_ok r"
  shows "events_ok (append_event e r) \<and> rp_fresh r < rp_fresh (append_event e r)"
proof -
  define r1 where "r1 = (if telemetry_max_events \<le> length (rp_events r) then drop_buffered_event r else r)"
  have ne: "rp_events r \<noteq> []" if "telemetry_max_events \<le> length (rp_events r)"
    using that by (auto simp: telemetry_max_events_def)
  have r1: "events_ok r1 \<and> length (rp_events r1) < telemetry_max_events \<and> rp_fresh r1 = rp_fresh r"
  proof (cases "telemetry_max_events \<le> length (rp_events r)")
    case True
    then show ?thesis using events_ok_drop [OF assms ne] assms by (auto simp: r1_def events_ok_def)
  qed (use assms in \<open>simp add: r1_def\<close>)
  have "append_event e r = r1\<lparr>rp_events := rp_events r1 @ [(rp_fresh r1, e)], rp_fresh := Suc (rp_fresh r1),
      rp_events_size := rp_events_size r1 + be_size e\<rparr>"
    by (simp add: append_event_def r1_def Let_def)
  with r1 show ?thesis by (auto simp: events_ok_def less_Suc_eq)
qed

text \<open>Window operations and events do not disturb each other.\<close>

lemma prune_fresh [simp]: "rp_fresh (prune_windows now r) = rp_fresh r"
proof -
  obtain k x d where "prune_windows now r = r\<lparr>rp_windows := drop k (rp_windows r), rp_retained := x, rp_dropped := d\<rparr>"
    using prune_windows_form by blast
  then show ?thesis by simp
qed

lemma fresh_grows: "rp_fresh r \<le> rp_fresh (close_current_window en now r)" "rp_fresh r \<le> rp_fresh (roll_window en now r)"
proof -
  show c: "rp_fresh r \<le> rp_fresh (close_current_window en now r)"
    by (simp add: close_current_window_def push_window_def Let_def split: option.split)
  then show "rp_fresh r \<le> rp_fresh (roll_window en now r)" by (simp add: roll_window_def Let_def split: option.split)
qed

lemma events_ok_outside:
  "events_ok r \<Longrightarrow> outside_windows r' = outside_windows r \<Longrightarrow> rp_fresh r \<le> rp_fresh r' \<Longrightarrow> events_ok r'"
  by (auto simp: events_ok_def outside_eqD(1,2) [of r' r])

lemma prepare_windows_facts:
  "outside_windows (prepare_windows en now r) = outside_windows r"
  "rp_fresh r \<le> rp_fresh (prepare_windows en now r)"
  "windows_ok r \<Longrightarrow> windows_ok (prepare_windows en now r)"
  "events_ok r \<Longrightarrow> events_ok (prepare_windows en now r)"
proof -
  show o1: "outside_windows (prepare_windows en now r) = outside_windows r"
    by (simp add: prepare_windows_def outside_prune outside_close outside_roll)
  show f: "rp_fresh r \<le> rp_fresh (prepare_windows en now r)"
    using fresh_grows(2) [of r en now] fresh_grows(1) [of "roll_window en now r" en now]
    by (simp add: prepare_windows_def)
  show "windows_ok r \<Longrightarrow> windows_ok (prepare_windows en now r)"
    by (simp add: prepare_windows_def windows_ok_prune windows_ok_close windows_ok_roll)
  show "events_ok r \<Longrightarrow> events_ok (prepare_windows en now r)" using events_ok_outside o1 f by blast
qed

section \<open>The step relation\<close>

definition backoff_ok :: "reporter \<Rightarrow> bool" where
  "backoff_ok r \<longleftrightarrow> telemetry_backoff_min \<le> rp_backoff r \<and> rp_backoff r \<le> telemetry_backoff_max"

definition silent :: "reporter \<Rightarrow> bool" where
  "silent r \<longleftrightarrow> rp_stopped r \<and> rp_events r = [] \<and> rp_events_size r = 0 \<and> rp_current r = [] \<and> rp_windows r = [] \<and>
     rp_retained r = 0 \<and> rp_dropped r = 0"

definition batch_within_limits :: "selected_batch \<Rightarrow> bool" where
  "batch_within_limits sel \<longleftrightarrow> length (sb_payload sel) \<le> 65536 \<and> length (sb_events sel) \<le> 100 \<and>
     length (sb_counters sel) \<le> 200"

definition reporter_inv :: "reporter \<times> selected_batch option \<Rightarrow> bool" where
  "reporter_inv s \<longleftrightarrow> windows_ok (fst s) \<and> events_ok (fst s) \<and> backoff_ok (fst s) \<and>
     (rp_disabled (fst s) \<longrightarrow> silent (fst s) \<and> snd s = None) \<and>
     (case snd s of None \<Rightarrow> True | Some sel \<Rightarrow> batch_within_limits sel)"

text \<open>The reporter and the batch on the wire; calls are recorded at any point between the two halves of a flush.\<close>

inductive reporter_step ::
    "encoders \<Rightarrow> reporter \<times> selected_batch option \<Rightarrow> reporter \<times> selected_batch option \<Rightarrow> bool" for en where
  record_call: "reporter_step en (r, f) (on_request en now draw ev is r, f)"
| flush_select: "flush_begin en batch_id sent_at_ms now r = (f, r') \<Longrightarrow> reporter_step en (r, None) (r', f)"
| flush_answer: "flush_end en answer now sel r = (accepted_now, r') \<Longrightarrow> reporter_step en (r, Some sel) (r', None)"
| worker_turn: "worker_decides now r = (turn, r') \<Longrightarrow> reporter_step en (r, f) (r', f)"
| worker_rest: "reporter_step en (r, f) (worker_reschedules now r, f)"
| close_call: "reporter_step en (r, f) (close_reporter r, f)"

inductive_cases reporter_stepE: "reporter_step en s s'"
inductive_simps reporter_step_idle: "reporter_step en (r, None) s'"

section \<open>Every step keeps the invariant\<close>

lemma windows_ok_frame [simp]:
  "windows_ok (r\<lparr>rp_backoff := i\<rparr>) = windows_ok r"
  "windows_ok (r\<lparr>rp_backoff_until := i\<rparr>) = windows_ok r"
  "windows_ok (r\<lparr>rp_closed := b\<rparr>) = windows_ok r"
  "windows_ok (r\<lparr>rp_disabled := b\<rparr>) = windows_ok r"
  "windows_ok (r\<lparr>rp_dropped := i\<rparr>) = windows_ok r"
  "windows_ok (r\<lparr>rp_flush_interval := i\<rparr>) = windows_ok r"
  "windows_ok (r\<lparr>rp_next_flush := i\<rparr>) = windows_ok r"
  "windows_ok (r\<lparr>rp_paused_until := i\<rparr>) = windows_ok r"
  "windows_ok (r\<lparr>rp_rate := x\<rparr>) = windows_ok r"
  "windows_ok (r\<lparr>rp_seq := i\<rparr>) = windows_ok r"
  "windows_ok (r\<lparr>rp_stopped := b\<rparr>) = windows_ok r"
  "windows_ok (r\<lparr>rp_urgent := b\<rparr>) = windows_ok r"
  "windows_ok (r\<lparr>rp_wake := b\<rparr>) = windows_ok r"
  "windows_ok (r\<lparr>rp_worker := b\<rparr>) = windows_ok r"
  by (simp_all add: windows_ok_def)

lemma events_ok_frame [simp]:
  "events_ok (r\<lparr>rp_backoff := i\<rparr>) = events_ok r"
  "events_ok (r\<lparr>rp_backoff_until := i\<rparr>) = events_ok r"
  "events_ok (r\<lparr>rp_closed := b\<rparr>) = events_ok r"
  "events_ok (r\<lparr>rp_disabled := b\<rparr>) = events_ok r"
  "events_ok (r\<lparr>rp_dropped := i\<rparr>) = events_ok r"
  "events_ok (r\<lparr>rp_flush_interval := i\<rparr>) = events_ok r"
  "events_ok (r\<lparr>rp_next_flush := i\<rparr>) = events_ok r"
  "events_ok (r\<lparr>rp_paused_until := i\<rparr>) = events_ok r"
  "events_ok (r\<lparr>rp_rate := x\<rparr>) = events_ok r"
  "events_ok (r\<lparr>rp_seq := i\<rparr>) = events_ok r"
  "events_ok (r\<lparr>rp_stopped := b\<rparr>) = events_ok r"
  "events_ok (r\<lparr>rp_urgent := b\<rparr>) = events_ok r"
  "events_ok (r\<lparr>rp_wake := b\<rparr>) = events_ok r"
  "events_ok (r\<lparr>rp_worker := b\<rparr>) = events_ok r"
  by (simp_all add: events_ok_def)

lemma backoff_ok_frame [simp]:
  "backoff_ok (r\<lparr>rp_backoff_until := i\<rparr>) = backoff_ok r"
  "backoff_ok (r\<lparr>rp_closed := b\<rparr>) = backoff_ok r"
  "backoff_ok (r\<lparr>rp_disabled := b\<rparr>) = backoff_ok r"
  "backoff_ok (r\<lparr>rp_dropped := i\<rparr>) = backoff_ok r"
  "backoff_ok (r\<lparr>rp_flush_interval := i\<rparr>) = backoff_ok r"
  "backoff_ok (r\<lparr>rp_next_flush := i\<rparr>) = backoff_ok r"
  "backoff_ok (r\<lparr>rp_paused_until := i\<rparr>) = backoff_ok r"
  "backoff_ok (r\<lparr>rp_rate := x\<rparr>) = backoff_ok r"
  "backoff_ok (r\<lparr>rp_seq := i\<rparr>) = backoff_ok r"
  "backoff_ok (r\<lparr>rp_stopped := b\<rparr>) = backoff_ok r"
  "backoff_ok (r\<lparr>rp_urgent := b\<rparr>) = backoff_ok r"
  "backoff_ok (r\<lparr>rp_wake := b\<rparr>) = backoff_ok r"
  "backoff_ok (r\<lparr>rp_worker := b\<rparr>) = backoff_ok r"
  by (simp_all add: backoff_ok_def)

lemma silent_frame [simp]:
  "silent (r\<lparr>rp_backoff := i\<rparr>) = silent r"
  "silent (r\<lparr>rp_backoff_until := i\<rparr>) = silent r"
  "silent (r\<lparr>rp_closed := b\<rparr>) = silent r"
  "silent (r\<lparr>rp_disabled := b\<rparr>) = silent r"
  "silent (r\<lparr>rp_flush_interval := i\<rparr>) = silent r"
  "silent (r\<lparr>rp_next_flush := i\<rparr>) = silent r"
  "silent (r\<lparr>rp_paused_until := i\<rparr>) = silent r"
  "silent (r\<lparr>rp_rate := x\<rparr>) = silent r"
  "silent (r\<lparr>rp_seq := i\<rparr>) = silent r"
  "silent (r\<lparr>rp_urgent := b\<rparr>) = silent r"
  "silent (r\<lparr>rp_wake := b\<rparr>) = silent r"
  "silent (r\<lparr>rp_worker := b\<rparr>) = silent r"
  by (simp_all add: silent_def)

lemma backoff_ok_outside: "outside_windows r' = outside_windows r \<Longrightarrow> backoff_ok r' = backoff_ok r"
  by (simp add: backoff_ok_def outside_eqD(3) [of r' r])

lemma merge_locked_facts:
  "windows_ok r \<Longrightarrow> windows_ok (merge_counters_locked is r)" "events_ok r \<Longrightarrow> events_ok (merge_counters_locked is r)"
  "backoff_ok (merge_counters_locked is r) = backoff_ok r"
  "rp_disabled (merge_counters_locked is r) = rp_disabled r"
  by (auto simp: merge_counters_locked_def windows_ok_def events_ok_def backoff_ok_def
      intro: merge_counters_bounded split: prod.split)

lemma append_event_facts:
  "windows_ok r \<Longrightarrow> windows_ok (append_event e r)" "backoff_ok (append_event e r) = backoff_ok r"
  "rp_disabled (append_event e r) = rp_disabled r"
  by (auto simp: append_event_def drop_buffered_event_def windows_ok_def backoff_ok_def Let_def less_Suc_eq)

lemma tail_facts:
  "windows_ok (mark_urgent (start_worker now r)) = windows_ok r"
  "events_ok (mark_urgent (start_worker now r)) = events_ok r"
  "backoff_ok (mark_urgent (start_worker now r)) = backoff_ok r"
  "rp_disabled (mark_urgent (start_worker now r)) = rp_disabled r"
  by (simp_all add: mark_urgent_def start_worker_def wake_reporter_def)

lemma on_request_facts:
  assumes "windows_ok r" "events_ok r" "backoff_ok r"
  shows "windows_ok (on_request en now draw ev is r) \<and> events_ok (on_request en now draw ev is r) \<and>
    backoff_ok (on_request en now draw ev is r) \<and> rp_disabled (on_request en now draw ev is r) = rp_disabled r"
proof (cases "rp_disabled r \<or> rp_closed r")
  case True
  then show ?thesis using assms by (simp add: on_request_def Let_def)
next
  case False
  define r1 where "r1 = merge_counters_locked is (roll_window en now r)"
  have "outside_windows (roll_window en now r) = outside_windows r" by (rule outside_roll)
  then have "events_ok (roll_window en now r)" "backoff_ok (roll_window en now r)"
    "rp_disabled (roll_window en now r) = rp_disabled r"
    using assms events_ok_outside fresh_grows(2) backoff_ok_outside outside_eqD(4) by blast+
  then have r1: "windows_ok r1" "events_ok r1" "backoff_ok r1" "rp_disabled r1 = rp_disabled r"
    using assms(1) by (simp_all add: r1_def merge_locked_facts windows_ok_roll)
  define p where "p = prepare_event en (rp_rate r) draw now ev"
  define r2 where "r2 = (if p = Some None then r1\<lparr>rp_dropped := rp_dropped r1 + 1\<rparr> else r1)"
  have r2: "windows_ok r2" "events_ok r2" "backoff_ok r2" "rp_disabled r2 = rp_disabled r" using r1 by (simp_all add: r2_def)
  define r3 where "r3 = (case p of Some (Some e) \<Rightarrow> append_event e r2 | _ \<Rightarrow> r2)"
  have r3: "windows_ok r3" "events_ok r3" "backoff_ok r3" "rp_disabled r3 = rp_disabled r"
    using r2 append_event_facts(1) [of r2] append_event_facts(2,3) [of _ r2] events_ok_append [of r2] by (auto simp: r3_def split: option.split)
  have "on_request en now draw ev is r = mark_urgent (start_worker now r3)"
    unfolding on_request_def Let_def r3_def r2_def r1_def p_def using False by (simp only: if_False simp_thms)
  with r3 show ?thesis by (simp add: tail_facts)
qed

lemma trim_batch_limits:
  "trim_batch en b es cs = Some sel \<Longrightarrow> length (sb_payload sel) \<le> telemetry_max_batch_bytes \<and>
    (\<exists>m n. sb_events sel = take m es \<and> sb_counters sel = take n cs \<and> sb_dropped sel = wb_dropped b \<and>
      (length es = length (wb_events b) \<longrightarrow> length cs = length (wb_counters b) \<longrightarrow>
       en_batch en (b\<lparr>wb_events := take m (wb_events b), wb_counters := take n (wb_counters b)\<rparr>) = Some (sb_payload sel)))"
proof (induction en b es cs rule: trim_batch.induct)
  case (1 en b es cs)
  obtain enc where enc: "en_batch en b = Some enc" using "1.prems" by (subst (asm) trim_batch.simps) (auto split: option.splits)
  consider (fits) "length enc \<le> telemetry_max_batch_bytes"
    | (event) "\<not> length enc \<le> telemetry_max_batch_bytes" "wb_events b \<noteq> []"
    | (counter) "\<not> length enc \<le> telemetry_max_batch_bytes" "wb_events b = []" "wb_counters b \<noteq> []"
    | (none) "\<not> length enc \<le> telemetry_max_batch_bytes" "wb_events b = []" "wb_counters b = []"
    by blast
  then show ?case
  proof cases
    case fits
    with enc "1.prems" have s: "sel = \<lparr>sb_payload = enc, sb_events = es, sb_counters = cs, sb_dropped = wb_dropped b\<rparr>"
      by (subst (asm) trim_batch.simps) simp
    with fits enc show ?thesis by (intro conjI exI [of _ "length es"] exI [of _ "length cs"]) (auto simp: s)
  next
    case event
    let ?b = "b\<lparr>wb_events := butlast (wb_events b)\<rparr>"
    have "trim_batch en b es cs = trim_batch en ?b (butlast es) cs" using event enc by (subst trim_batch.simps) simp
    with "1.IH"(1) [OF enc event] "1.prems" obtain m n where mn: "length (sb_payload sel) \<le> telemetry_max_batch_bytes"
      "sb_events sel = take m (butlast es)" "sb_counters sel = take n cs" "sb_dropped sel = wb_dropped b"
      "length (butlast es) = length (butlast (wb_events b)) \<longrightarrow> length cs = length (wb_counters b) \<longrightarrow>
       en_batch en (?b\<lparr>wb_events := take m (butlast (wb_events b)), wb_counters := take n (wb_counters b)\<rparr>) = Some (sb_payload sel)"
      by auto
    have "sb_events sel = take (min m (length es - 1)) es" using mn(2) by (simp add: butlast_conv_take)
    with mn show ?thesis
      by (intro conjI exI [of _ "min m (length es - 1)"] exI [of _ n]) (auto simp: butlast_conv_take)
  next
    case counter
    let ?b = "b\<lparr>wb_counters := butlast (wb_counters b)\<rparr>"
    have "trim_batch en b es cs = trim_batch en ?b es (butlast cs)" using counter enc by (subst trim_batch.simps) simp
    with "1.IH"(2) [OF enc counter(1)] counter "1.prems" obtain m n where mn: "length (sb_payload sel) \<le> telemetry_max_batch_bytes"
      "sb_events sel = take m es" "sb_counters sel = take n (butlast cs)" "sb_dropped sel = wb_dropped b"
      "length es = length (wb_events b) \<longrightarrow> length (butlast cs) = length (butlast (wb_counters b)) \<longrightarrow>
       en_batch en (?b\<lparr>wb_events := take m (wb_events b), wb_counters := take n (butlast (wb_counters b))\<rparr>) = Some (sb_payload sel)"
      by auto
    have "sb_counters sel = take (min n (length cs - 1)) cs" using mn(3) by (simp add: butlast_conv_take)
    with mn show ?thesis
      by (intro conjI exI [of _ m] exI [of _ "min n (length cs - 1)"]) (auto simp: butlast_conv_take)
  next
    case none
    with enc "1.prems" show ?thesis by (simp add: trim_batch.simps [of en b es cs])
  qed
qed

lemma select_batch_facts:
  assumes "windows_ok r" "events_ok r" "backoff_ok r" "select_batch en batch_id sent_at_ms now r = (f, r')"
  shows "windows_ok r' \<and> events_ok r' \<and> backoff_ok r' \<and> rp_disabled r' = rp_disabled r \<and>
    (case f of None \<Rightarrow> True | Some sel \<Rightarrow> batch_within_limits sel)"
proof -
  define p where "p = prepare_windows en now r"
  define b where "b = assemble_batch batch_id sent_at_ms now p"
  note sel = assms(4) [unfolded select_batch_def Let_def, folded p_def, folded b_def]
  have r': "r' = p \<or> r' = p\<lparr>rp_seq := rp_seq p + 1\<rparr>" using sel by (simp split: if_splits)
  have limits: "batch_within_limits x" if "f = Some x" for x
  proof -
    from that sel have "trim_batch en b (map fst (take telemetry_max_batch_events (rp_events p)))
        (take telemetry_max_batch_counters (window_refs p)) = Some x"
      by (simp split: if_splits)
    from trim_batch_limits [OF this] show ?thesis
      by (auto simp: batch_within_limits_def telemetry_max_batch_bytes_def telemetry_max_batch_events_def
          telemetry_max_batch_counters_def)
  qed
  have o1: "outside_windows p = outside_windows r" unfolding p_def by (rule prepare_windows_facts(1))
  have "backoff_ok p" "rp_disabled p = rp_disabled r"
    using assms(3) backoff_ok_outside [OF o1] outside_eqD(4) [OF o1] by simp_all
  moreover have "windows_ok p" "events_ok p"
    using assms(1,2) prepare_windows_facts(3,4) [of r en now] by (simp_all add: p_def)
  ultimately show ?thesis using r' limits by (auto split: option.split)
qed

lemma table_bounded_remove: "table_bounded t \<Longrightarrow> table_bounded (table_remove k t)"
proof -
  assume t: "table_bounded t"
  then have "length (table_keys (table_remove k t)) \<le> length (table_keys t)"
    using counter_rows.keys_remove [of t k] by (simp add: table_bounded_def)
  with t show ?thesis using counter_rows.remove_ok by (simp add: table_bounded_def)
qed

text \<open>Removing rows and resizing windows touch the store and the retained bytes only.\<close>

lemma remove_row_form:
  "fold remove_row refs (r, ch) = (r2, ch') \<Longrightarrow> windows_ok r \<Longrightarrow>
   \<exists>st. r2 = r\<lparr>rp_store := st\<rparr> \<and> windows_ok r2"
proof (induction refs arbitrary: r ch)
  case Nil
  then show ?case by (intro exI [of _ "rp_store r"]) simp
next
  case (Cons ref refs)
  obtain a k where ref: "ref = (a, k)" by (cases ref)
  define w where "w = rp_store r a"
  obtain r1 ch1 where 1: "remove_row ref (r, ch) = (r1, ch1)" by (cases "remove_row ref (r, ch)")
  have r1: "r1 = r \<or> r1 = r\<lparr>rp_store := (rp_store r)(a := w\<lparr>cw_rows := table_remove k (cw_rows w)\<rparr>)\<rparr>"
    using 1 by (auto simp: remove_row_def ref w_def Let_def split: if_splits)
  have ok1: "windows_ok r1"
    using r1 Cons.prems(2) by (auto simp: windows_ok_def w_def table_bounded_remove)
  obtain st where "r2 = r1\<lparr>rp_store := st\<rparr> \<and> windows_ok r2" using Cons.IH [of r1 ch1] Cons.prems(1) 1 ok1 by auto
  then show ?case using r1 by (intro exI [of _ st]) auto
qed

lemma resize_form:
  "windows_ok r \<Longrightarrow> \<exists>st x. fold (resize_window en) as r = r\<lparr>rp_store := st, rp_retained := x\<rparr> \<and>
     windows_ok (fold (resize_window en) as r) \<and> (\<forall>a. cw_rows (st a) = cw_rows (rp_store r a))"
proof (induction "as" arbitrary: r)
  case Nil
  then show ?case by (intro exI [of _ "rp_store r"] exI [of _ "rp_retained r"]) simp
next
  case (Cons a "as")
  define r1 where "r1 = resize_window en a r"
  obtain size x where r1: "r1 = r\<lparr>rp_store := (rp_store r)(a := (rp_store r a)\<lparr>cw_size := size\<rparr>), rp_retained := x\<rparr>"
    by (simp add: r1_def resize_window_def Let_def)
  have "windows_ok r1" using Cons.prems by (auto simp: windows_ok_def r1)
  then obtain st y where "fold (resize_window en) as r1 = r1\<lparr>rp_store := st, rp_retained := y\<rparr>"
    "windows_ok (fold (resize_window en) as r1)" "\<forall>b. cw_rows (st b) = cw_rows (rp_store r1 b)"
    using Cons.IH by blast
  then show ?case
    by (intro exI [of _ st] exI [of _ y]) (simp add: r1_def [symmetric], simp add: r1)
qed

definition kept_events :: "selected_batch \<Rightarrow> reporter \<Rightarrow> (address \<times> buffered_event) list" where
  "kept_events sel r = filter (\<lambda>(a, e). a \<notin> set (sb_events sel)) (rp_events r)"

lemma remove_selected_form:
  assumes "windows_ok r"
  shows "\<exists>st ws x. remove_selected en sel r =
      r\<lparr>rp_events := kept_events sel r, rp_events_size := sum_list (map (\<lambda>(a, e). be_size e) (kept_events sel r)),
        rp_store := st, rp_retained := x, rp_windows := ws\<rparr> \<and>
      ws = filter (\<lambda>a. cw_rows (st a) \<noteq> []) (rp_windows r) \<and> windows_ok (remove_selected en sel r)"
proof -
  define r1 where "r1 = r\<lparr>rp_events := kept_events sel r,
      rp_events_size := sum_list (map (\<lambda>(a, e). be_size e) (kept_events sel r))\<rparr>"
  obtain r2 ch where 2: "fold remove_row (sb_counters sel) (r1, []) = (r2, ch)"
    by (cases "fold remove_row (sb_counters sel) (r1, [])")
  have ok1: "windows_ok r1" using assms by (simp add: r1_def windows_ok_def)
  obtain st where r2: "r2 = r1\<lparr>rp_store := st\<rparr>" "windows_ok r2" using remove_row_form [OF 2 ok1] by blast
  define r3 where "r3 = fold (resize_window en) ch r2"
  obtain st' x where r3: "r3 = r2\<lparr>rp_store := st', rp_retained := x\<rparr>" "windows_ok r3"
    using resize_form [OF r2(2)] unfolding r3_def by blast
  let ?ws = "filter (\<lambda>a. cw_rows (rp_store r3 a) \<noteq> []) (rp_windows r3)"
  have e: "remove_selected en sel r = r3\<lparr>rp_windows := ?ws\<rparr>"
    by (simp add: remove_selected_def Let_def 2 flip: kept_events_def r1_def r3_def)
  have "windows_ok (r3\<lparr>rp_windows := ?ws\<rparr>)" using r3(2) by (auto simp: windows_ok_def)
  then show ?thesis unfolding e
    by (intro exI [of _ st'] exI [of _ ?ws] exI [of _ x]) (simp add: r3(1) r2(1), simp add: r1_def)
qed

lemma remove_selected_facts:
  assumes "windows_ok r" "events_ok r"
  shows "windows_ok (remove_selected en sel r)" "events_ok (remove_selected en sel r)"
    "backoff_ok (remove_selected en sel r) = backoff_ok r" "rp_disabled (remove_selected en sel r) = rp_disabled r"
    "rp_events (remove_selected en sel r) = kept_events sel r"
proof -
  obtain st ws x where e: "remove_selected en sel r =
      r\<lparr>rp_events := kept_events sel r, rp_events_size := sum_list (map (\<lambda>(a, e). be_size e) (kept_events sel r)),
        rp_store := st, rp_retained := x, rp_windows := ws\<rparr>" "windows_ok (remove_selected en sel r)"
    using remove_selected_form [OF assms(1)] by blast
  show "windows_ok (remove_selected en sel r)" by (rule e(2))
  have "length (kept_events sel r) \<le> telemetry_max_events"
    using assms(2) le_trans [OF length_filter_le] by (auto simp: kept_events_def events_ok_def)
  moreover have "distinct (map fst (kept_events sel r))"
    using assms(2) by (simp add: kept_events_def events_ok_def distinct_map_filter)
  ultimately show "events_ok (remove_selected en sel r)" using assms(2) by (auto simp: e(1) events_ok_def kept_events_def)
  show "backoff_ok (remove_selected en sel r) = backoff_ok r" by (simp add: e(1) backoff_ok_def)
  show "rp_disabled (remove_selected en sel r) = rp_disabled r" by (simp add: e(1))
  show "rp_events (remove_selected en sel r) = kept_events sel r" by (simp add: e(1))
qed

end
