(* ===== verification/Reporter_Runs.thy ===== *)
theory Reporter_Runs
  imports Reporter_Facts
begin

text \<open>
  What the beacon sender promises over whole runs, in which calls are recorded while a
  batch is on the wire, and the properties of its single operations.
\<close>

section \<open>Answers\<close>

lemma policy_form:
  "\<exists>x y z. apply_policy body now r = r\<lparr>rp_rate := x, rp_flush_interval := y, rp_paused_until := z\<rparr>"
proof (cases "policy_of body")
  case None
  then show ?thesis
    by (intro exI [of _ "rp_rate r"] exI [of _ "rp_flush_interval r"] exI [of _ "rp_paused_until r"])
      (simp add: apply_policy_def)
next
  case (Some p)
  define r1 where "r1 = policy_rate p r"
  define r2 where "r2 = policy_interval p r1"
  have "r1 = r\<lparr>rp_rate := rp_rate r1\<rparr>" by (simp add: r1_def policy_rate_def split: option.split)
  moreover have "r2 = r1\<lparr>rp_flush_interval := rp_flush_interval r2\<rparr>"
    by (simp add: r2_def policy_interval_def split: option.split)
  moreover have "policy_pause p now r2 = r2\<lparr>rp_paused_until := rp_paused_until (policy_pause p now r2)\<rparr>"
    by (simp add: policy_pause_def split: option.split)
  moreover have "apply_policy body now r = policy_pause p now r2" by (simp add: apply_policy_def Some r1_def r2_def)
  ultimately have "apply_policy body now r = r\<lparr>rp_rate := rp_rate r1, rp_flush_interval := rp_flush_interval r2,
      rp_paused_until := rp_paused_until (policy_pause p now r2)\<rparr>"
    by simp
  then show ?thesis by blast
qed

lemma set_backoff_form:
  "telemetry_backoff_min \<le> rp_backoff r \<Longrightarrow> rp_backoff r \<le> telemetry_backoff_max \<Longrightarrow>
   \<exists>d n. set_backoff now ra r = r\<lparr>rp_backoff_until := now + d, rp_backoff := n, rp_wake := True\<rparr> \<and>
     telemetry_backoff_min \<le> d \<and> d \<le> telemetry_backoff_max \<and>
     n = min (2 * rp_backoff r) telemetry_backoff_max \<and>
     (\<forall>x. ra = Some x \<longrightarrow> min x telemetry_backoff_max \<le> d)"
  unfolding set_backoff_def wake_reporter_def Let_def
  by (intro exI conjI, rule refl) (auto simp: telemetry_limits min_def split: option.split)

lemma backoff_ok_set: "backoff_ok r \<Longrightarrow> backoff_ok (set_backoff now ra r)"
  by (auto simp: backoff_ok_def set_backoff_def wake_reporter_def Let_def telemetry_limits)

lemma set_backoff_frame [simp]:
  "windows_ok (set_backoff now ra r) = windows_ok r" "events_ok (set_backoff now ra r) = events_ok r"
  "rp_disabled (set_backoff now ra r) = rp_disabled r"
  by (simp_all add: set_backoff_def wake_reporter_def Let_def)

lemma apply_policy_frame [simp]:
  "windows_ok (apply_policy body now r) = windows_ok r" "events_ok (apply_policy body now r) = events_ok r"
  "backoff_ok (apply_policy body now r) = backoff_ok r" "rp_disabled (apply_policy body now r) = rp_disabled r"
  "rp_events (apply_policy body now r) = rp_events r" "rp_dropped (apply_policy body now r) = rp_dropped r"
  "rp_windows (apply_policy body now r) = rp_windows r" "rp_store (apply_policy body now r) = rp_store r"
  "rp_backoff (apply_policy body now r) = rp_backoff r" "rp_backoff_until (apply_policy body now r) = rp_backoff_until r"
  "rp_retained (apply_policy body now r) = rp_retained r"
proof -
  obtain x y z where e: "apply_policy body now r = r\<lparr>rp_rate := x, rp_flush_interval := y, rp_paused_until := z\<rparr>"
    using policy_form by blast
  show "windows_ok (apply_policy body now r) = windows_ok r" "events_ok (apply_policy body now r) = events_ok r"
  "backoff_ok (apply_policy body now r) = backoff_ok r" "rp_disabled (apply_policy body now r) = rp_disabled r"
  "rp_events (apply_policy body now r) = rp_events r" "rp_dropped (apply_policy body now r) = rp_dropped r"
  "rp_windows (apply_policy body now r) = rp_windows r" "rp_store (apply_policy body now r) = rp_store r"
  "rp_backoff (apply_policy body now r) = rp_backoff r" "rp_backoff_until (apply_policy body now r) = rp_backoff_until r"
  "rp_retained (apply_policy body now r) = rp_retained r"
    unfolding e by simp_all
qed

lemma disable_facts:
  "silent (disable_reporter r)" "rp_disabled (disable_reporter r)" "backoff_ok (disable_reporter r) = backoff_ok r"
  "windows_ok (disable_reporter r)" "events_ok (disable_reporter r)"
  by (simp_all add: disable_reporter_def stop_reporter_def wake_reporter_def silent_def backoff_ok_def windows_ok_def events_ok_def)

lemma backoff_ok_reset: "backoff_ok (r\<lparr>rp_backoff := telemetry_backoff_min\<rparr>)"
  by (simp add: backoff_ok_def telemetry_limits)

lemma handle_response_inv:
  assumes "windows_ok r" "events_ok r" "backoff_ok r" "\<not> rp_disabled r"
  shows "windows_ok (handle_response en status hs body now sel r) \<and> events_ok (handle_response en status hs body now sel r) \<and>
    backoff_ok (handle_response en status hs body now sel r) \<and>
    (rp_disabled (handle_response en status hs body now sel r) \<longrightarrow> silent (handle_response en status hs body now sel r))"
  using assms remove_selected_facts(1-4) [OF assms(1,2), of en sel]
  by (simp add: handle_response_def Let_def disable_facts backoff_ok_set backoff_ok_reset)

lemma worker_facts:
  "windows_ok (snd (worker_decides now r)) = windows_ok r" "events_ok (snd (worker_decides now r)) = events_ok r"
  "backoff_ok (snd (worker_decides now r)) = backoff_ok r" "silent (snd (worker_decides now r)) = silent r"
  "rp_disabled (snd (worker_decides now r)) = rp_disabled r"
  by (simp_all add: worker_decides_def Let_def)

lemma flush_begin_cases:
  assumes "flush_begin en batch_id sent_at_ms now r = (f, r')"
  shows "(f, r') = (None, r) \<or> (select_batch en batch_id sent_at_ms now r = (f, r') \<and> \<not> rp_disabled r)"
  using assms unfolding flush_begin_def by (simp only: split: if_splits) simp_all

lemma reporter_inv_step: "reporter_step en s s' \<Longrightarrow> reporter_inv s \<Longrightarrow> reporter_inv s'"
proof (induction rule: reporter_step.induct)
  case (record_call r f now draw ev "is")
  show ?case
  proof (cases "rp_disabled r")
    case True
    then have "on_request en now draw ev is r = r" by (simp add: on_request_def Let_def)
    then show ?thesis using record_call by (simp only: )
  next
    case False
    with record_call on_request_facts [of r en now draw ev "is"] show ?thesis by (simp add: reporter_inv_def)
  qed
next
  case (flush_select batch_id sent_at_ms now r f r')
  then have inv: "windows_ok r" "events_ok r" "backoff_ok r" "rp_disabled r \<longrightarrow> silent r" by (simp_all add: reporter_inv_def)
  have "(f, r') = (None, r) \<or> (select_batch en batch_id sent_at_ms now r = (f, r') \<and> \<not> rp_disabled r)"
    by (rule flush_begin_cases [OF flush_select.hyps])
  then consider (idle) "f = None" "r' = r"
    | (selects) "select_batch en batch_id sent_at_ms now r = (f, r')" "\<not> rp_disabled r"
    by blast
  then show ?case
  proof cases
    case selects
    with select_batch_facts [OF inv(1-3) selects(1)] show ?thesis by (simp add: reporter_inv_def)
  qed (use inv in \<open>simp add: reporter_inv_def\<close>)
next
  case (flush_answer answer now sel r accepted_now r')
  then have inv: "windows_ok r" "events_ok r" "backoff_ok r" "\<not> rp_disabled r" by (auto simp: reporter_inv_def)
  show ?case
  proof (cases answer)
    case PostFailed
    then have "r' = set_backoff now None r" using flush_answer.hyps by (simp add: flush_end_def)
    then show ?thesis using inv by (simp add: reporter_inv_def backoff_ok_set)
  next
    case (PostAnswered status hs body)
    then have "r' = handle_response en status hs (case body of None \<Rightarrow> [] | Some b \<Rightarrow> b) now sel r"
      using flush_answer.hyps by (simp add: flush_end_def)
    then show ?thesis using handle_response_inv [OF inv] by (simp add: reporter_inv_def)
  qed
next
  case (worker_turn now r turn r' f)
  then have "r' = snd (worker_decides now r)" by simp
  with worker_turn.prems show ?case by (simp add: reporter_inv_def worker_facts)
next
  case (worker_rest r f now)
  then show ?case by (simp add: reporter_inv_def worker_reschedules_def)
next
  case (close_call r f)
  then show ?case by (auto simp: reporter_inv_def close_reporter_def stop_reporter_def wake_reporter_def silent_def)
qed

lemma new_reporter_inv: "reporter_inv (new_telemetry_reporter url key ws own identity rate inst, None)"
  by (simp add: reporter_inv_def new_telemetry_reporter_def windows_ok_def events_ok_def backoff_ok_def telemetry_limits)

interpretation reporter_run: preserved "reporter_step en" reporter_inv for en
  by unfold_locales (rule reporter_inv_step)

section \<open>Runs\<close>

text \<open>
  C7. The sender stays within its bounds: from a new reporter, through any interleaving of
  recorded calls, flushes, answers, worker turns and a close, at most 1000 events and 256
  counter rows per minute are held, the buffered size is the sum over the events, the pause
  between batches is between 60 and 600 seconds, a batch on the wire has at most 65536
  bytes, 100 events and 200 counter rows, and a disabled sender holds nothing.
\<close>
theorem reporter_bounded:
  assumes "rtranclp (reporter_step en) (new_telemetry_reporter url key ws own identity rate inst, None) (r, f)"
  shows "length (rp_events r) \<le> 1000 \<and> length (rp_current r) \<le> 256 \<and>
    list_all (\<lambda>a. length (cw_rows (rp_store r a)) \<le> 256) (rp_windows r) \<and>
    rp_events_size r = sum_list (map (\<lambda>(a, e). be_size e) (rp_events r)) \<and>
    60 * 1000000000 \<le> rp_backoff r \<and> rp_backoff r \<le> 600 * 1000000000 \<and>
    (rp_disabled r \<longrightarrow> silent r \<and> f = None) \<and>
    (case f of None \<Rightarrow> True | Some sel \<Rightarrow> length (sb_payload sel) \<le> 65536 \<and> length (sb_events sel) \<le> 100 \<and>
       length (sb_counters sel) \<le> 200)"
proof -
  have inv: "reporter_inv (r, f)" using reporter_run.reach_preserves [OF assms new_reporter_inv] .
  then show ?thesis
    by (auto simp: reporter_inv_def events_ok_def windows_ok_def table_bounded_def table_keys_def backoff_ok_def
        telemetry_limits telemetry_max_window_keys_def batch_within_limits_def list_all_iff split: option.splits)
qed

text \<open>An instance: a run of one recorded call and a flush.\<close>

definition plain_encoders :: encoders where
  "plain_encoders = \<lparr>en_event = (\<lambda>_. Some 500), en_rows = (\<lambda>rows. Some (400 * length rows)),
     en_batch = (\<lambda>b. Some (replicate (600 * (length (wb_events b) + length (wb_counters b))) CHR ''x''))\<rparr>"

definition sample_sdk :: wire_sdk where
  "sample_sdk = \<lparr>sdk_name = ''tr-go'', sdk_version = ''1.0.0'', sdk_lang = ''go'', sdk_runtime = ''go/1.22'',
     sdk_os = ''linux'', sdk_arch = ''x64''\<rparr>"

definition sample_reporter :: reporter where
  "sample_reporter = new_telemetry_reporter ''https://trustedrouter.com/v1'' ''key'' [] sample_sdk sample_sdk (Fin 1) ''0011''"

lemma reporter_bounded_witness:
  "length (rp_events (on_request plain_encoders 0 (Fin 0) leaky_event [sample_increment ''request'' 2] sample_reporter)) \<le> 1000"
proof -
  have "rtranclp (reporter_step plain_encoders) (sample_reporter, None)
      (on_request plain_encoders 0 (Fin 0) leaky_event [sample_increment ''request'' 2] sample_reporter, None)"
    using record_call by (rule r_into_rtranclp)
  then show ?thesis unfolding sample_reporter_def by (rule reporter_bounded [THEN conjunct1])
qed

definition switched_off :: "reporter \<times> selected_batch option \<Rightarrow> bool" where
  "switched_off s \<longleftrightarrow> rp_disabled (fst s) \<and> silent (fst s) \<and> snd s = None"

lemma switched_off_step: "reporter_step en s s' \<Longrightarrow> switched_off s \<Longrightarrow> switched_off s'"
proof (induction rule: reporter_step.induct)
  case (record_call r f now draw ev "is")
  then show ?case by (simp add: switched_off_def on_request_def Let_def)
next
  case (flush_select batch_id sent_at_ms now r f r')
  with flush_begin_cases [OF flush_select.hyps] show ?case by (auto simp: switched_off_def)
next
  case (worker_turn now r turn r' f)
  then have "r' = snd (worker_decides now r)" by simp
  with worker_turn.prems show ?case by (simp add: switched_off_def worker_facts)
next
  case (close_call r f)
  then show ?case by (auto simp: switched_off_def close_reporter_def stop_reporter_def wake_reporter_def silent_def)
qed (simp_all add: switched_off_def worker_reschedules_def)

interpretation reporter_off: preserved "reporter_step en" switched_off for en
  by unfold_locales (rule switched_off_step)

text \<open>
  C17. Opting out is final: once the collector answers with \<open>x-tr-telemetry: off\<close> or with
  400, 401, 403, 404 or 410, then whatever calls are made, no batch ever leaves again and
  every buffer stays empty.
\<close>
theorem disabled_for_good:
  assumes "flush_end en (PostAnswered status hs body) now sel r = (ok, r1)"
    and "equal_fold (trim_space (header_get hs ''X-TR-Telemetry'')) ''off'' \<or> status \<in> {400, 401, 403, 404, 410}"
    and "rtranclp (reporter_step en) (r1, None) (r2, f)"
  shows "rp_disabled r2 \<and> silent r2 \<and> f = None"
proof -
  have r1: "rp_disabled r1 \<and> silent r1"
    using assms(1,2) disable_facts(1,2) [of r]
    by (auto simp: flush_end_def handle_response_def disabling_statuses_def)
  then have "switched_off (r1, None)" by (simp add: switched_off_def)
  from reporter_off.reach_preserves [OF assms(3) this] show ?thesis by (simp add: switched_off_def)
qed

lemma disabled_for_good_witness:
  "rp_disabled (close_reporter (disable_reporter sample_reporter))"
proof -
  let ?sel = "\<lparr>sb_payload = [], sb_events = [], sb_counters = [], sb_dropped = 0\<rparr>"
  have "flush_end plain_encoders (PostAnswered 403 no_headers None) 0 ?sel sample_reporter = (False, disable_reporter sample_reporter)"
    by (simp add: flush_end_def handle_response_def disabling_statuses_def equal_fold_def trim_space_def trim_right_space.simps)
  moreover have "(403::int) \<in> {400, 401, 403, 404, 410}" by simp
  moreover have "rtranclp (reporter_step plain_encoders) (disable_reporter sample_reporter, None)
      (close_reporter (disable_reporter sample_reporter), None)"
    using close_call by (rule r_into_rtranclp)
  ultimately show ?thesis using disabled_for_good by blast
qed

section \<open>What a batch carries, and what its answer removes\<close>

text \<open>
  A batch carries the front of the buffers and nothing else: when a flush sends one, the
  sender is neither paused nor backing off nor without a key, the payload encodes the
  assembled batch cut to a prefix of its events and of its counter rows, the references kept
  for the answer are those of exactly these prefixes, no event leaves the buffer by being
  sent, and the sequence number grows by one.
\<close>
theorem batch_is_prefix:
  assumes "flush_begin en batch_id sent_at_ms now r = (Some sel, r')"
  shows "\<exists>p m n. p = prepare_windows en now r \<and> m \<le> 100 \<and> n \<le> 200 \<and>
     \<not> now < rp_paused_until r \<and> \<not> now < rp_backoff_until r \<and> \<not> rp_disabled r \<and> rp_api_key r \<noteq> [] \<and>
     sb_events sel = map fst (take m (rp_events r)) \<and> sb_counters sel = take n (window_refs p) \<and>
     en_batch en ((assemble_batch batch_id sent_at_ms now p)
        \<lparr>wb_events := map (\<lambda>(a, e). wire_event_at now e) (take m (rp_events r)),
         wb_counters := map (wire_counter_at now p) (take n (window_refs p))\<rparr>) = Some (sb_payload sel) \<and>
     length (sb_payload sel) \<le> 65536 \<and> r' = p\<lparr>rp_seq := rp_seq r + 1\<rparr> \<and> rp_events r' = rp_events r"
proof -
  define p where "p = prepare_windows en now r"
  define b where "b = assemble_batch batch_id sent_at_ms now p"
  have o1: "outside_windows p = outside_windows r" unfolding p_def by (rule prepare_windows_facts(1))
  note same = outside_eqD(1,7) [OF o1]
  have guards: "\<not> rp_disabled r \<and> \<not> now < rp_paused_until r \<and> \<not> now < rp_backoff_until r \<and> rp_api_key r \<noteq> []"
    and sel: "select_batch en batch_id sent_at_ms now r = (Some sel, r')"
    using assms unfolding flush_begin_def by (simp_all split: if_splits)
  let ?es = "map fst (take telemetry_max_batch_events (rp_events p))"
  let ?cs = "take telemetry_max_batch_counters (window_refs p)"
  have trim: "trim_batch en b ?es ?cs = Some sel" and r': "r' = p\<lparr>rp_seq := rp_seq p + 1\<rparr>"
    using sel [unfolded select_batch_def Let_def, folded p_def, folded b_def] by (simp_all split: if_splits)
  have len: "length ?es = length (wb_events b)" "length ?cs = length (wb_counters b)"
    by (simp_all add: b_def assemble_batch_def)
  obtain m n where mn: "sb_events sel = take m ?es" "sb_counters sel = take n ?cs"
    "length (sb_payload sel) \<le> telemetry_max_batch_bytes"
    "en_batch en (b\<lparr>wb_events := take m (wb_events b), wb_counters := take n (wb_counters b)\<rparr>) = Some (sb_payload sel)"
    using trim_batch_limits [OF trim] len by auto
  show ?thesis
    by (rule exI [of _ p], rule exI [of _ "min m 100"], rule exI [of _ "min n 200"])
      (use guards same mn r' in \<open>simp add: p_def [symmetric] b_def assemble_batch_def take_map min.commute
        telemetry_max_batch_events_def telemetry_max_batch_counters_def telemetry_max_batch_bytes_def\<close>)
qed

text \<open>A sender holding one failed call.\<close>

definition one_event_reporter :: reporter where
  "one_event_reporter = sample_reporter\<lparr>rp_events := [(0, \<lparr>be_wire = the (wire_event_from leaky_event (Fin 1) ''failure'' 0),
     be_completed = 0, be_size = 500\<rparr>)], rp_events_size := 500, rp_fresh := 1, rp_dropped := 3\<rparr>"

lemma one_event_batch:
  "flush_begin plain_encoders ''0a'' 7 (seconds_ns 90) one_event_reporter =
     (Some \<lparr>sb_payload = replicate 600 CHR ''x'', sb_events = [0], sb_counters = [], sb_dropped = 3\<rparr>,
      (one_event_reporter\<lparr>rp_seq := 1, rp_window_start := Some (seconds_ns 60)\<rparr>))"
  by (simp add: flush_begin_def select_batch_def prepare_windows_def roll_window_def close_current_window_def
      prune_windows_def one_event_reporter_def sample_reporter_def new_telemetry_reporter_def Let_def
      telemetry_minute_start_def seconds_ns_def assemble_batch_def window_refs_def trim_batch.simps plain_encoders_def
      telemetry_max_batch_bytes_def telemetry_max_batch_events_def)

lemma batch_is_prefix_witness:
  "\<exists>m. [0] = map fst (take m (rp_events one_event_reporter)) \<and> m \<le> 100"
proof -
  obtain m where "m \<le> 100" "[0] = map fst (take m (rp_events one_event_reporter))"
    using batch_is_prefix [OF one_event_batch] unfolding selected_batch.simps by (elim exE conjE) (rule that)
  then show ?thesis by (intro exI [of _ m] conjI)
qed

text \<open>Rows by reference.\<close>

definition row_at :: "reporter \<Rightarrow> address \<times> counter_key \<Rightarrow> counter_value option" where
  "row_at r ref = table_get (cw_rows (rp_store r (fst ref))) (snd ref)"

lemma remove_rows_at:
  "fold remove_row refs (r, ch) = (r2, ch') \<Longrightarrow> row_at r2 ref = (if ref \<in> set refs then None else row_at r ref)"
proof (induction refs arbitrary: r ch)
  case (Cons x refs)
  obtain a k where x: "x = (a, k)" by (cases x)
  obtain r1 ch1 where 1: "remove_row x (r, ch) = (r1, ch1)" by (cases "remove_row x (r, ch)")
  have "row_at r1 ref = (if ref = x then None else row_at r ref)"
    using 1 by (cases ref) (auto simp: remove_row_def x Let_def row_at_def table_get_def table_remove_def delete_conv'
      split: if_splits)
  moreover have "row_at r2 ref = (if ref \<in> set refs then None else row_at r1 ref)"
    using Cons.IH [of r1 ch1] Cons.prems 1 by simp
  ultimately show ?case by auto
qed simp

lemma remove_selected_rows:
  assumes "windows_ok r"
  shows "row_at (remove_selected en sel r) ref = (if ref \<in> set (sb_counters sel) then None else row_at r ref)"
proof -
  define r1 where "r1 = r\<lparr>rp_events := kept_events sel r,
      rp_events_size := sum_list (map (\<lambda>(a, e). be_size e) (kept_events sel r))\<rparr>"
  obtain r2 ch where 2: "fold remove_row (sb_counters sel) (r1, []) = (r2, ch)"
    by (cases "fold remove_row (sb_counters sel) (r1, [])")
  have "windows_ok r1" using assms by (simp add: r1_def windows_ok_def)
  then have ok2: "windows_ok r2" using remove_row_form [OF 2] by blast
  define r3 where "r3 = fold (resize_window en) ch r2"
  have "cw_rows (rp_store r3 a) = cw_rows (rp_store r2 a)" for a
  proof -
    obtain st x where "r3 = r2\<lparr>rp_store := st, rp_retained := x\<rparr>" "\<forall>a. cw_rows (st a) = cw_rows (rp_store r2 a)"
      using resize_form [OF ok2, of en ch] unfolding r3_def by blast
    then show ?thesis by simp
  qed
  then have "row_at r3 ref = row_at r2 ref" by (simp add: row_at_def)
  moreover have "row_at (remove_selected en sel r) ref = row_at r3 ref"
    by (simp add: remove_selected_def Let_def 2 row_at_def flip: kept_events_def r1_def r3_def)
  ultimately show ?thesis using remove_rows_at [OF 2, of ref] by (simp add: r1_def row_at_def)
qed


lemma sample_windows_ok: "windows_ok one_event_reporter"
  by (simp add: windows_ok_def one_event_reporter_def sample_reporter_def new_telemetry_reporter_def)


end
