(* ===== verification/Reporter_Limits.thy ===== *)
theory Reporter_Limits
  imports Reporter_Runs
begin

text \<open>
  The remaining promises of the beacon sender: what a failed delivery costs, what the
  collector's policy may change, how minute windows are closed and pruned, which event a
  full buffer gives up, what the request carries, and one run in which the count of
  retained bytes drifts.
\<close>

text \<open>
  A delivery that fails loses nothing: after a failed request, or an answer that is
  neither an acceptance nor a refusal, the sender's buffers, counters and counts are
  untouched; it only waits, for at least 60 and at most 600 seconds and at least as long as
  an accepted Retry-After, and the next wait doubles up to 600 seconds.
\<close>
theorem failed_delivery_keeps_records:
  assumes "backoff_ok r" "flush_end en answer now sel r = (ok, r')"
    and "case answer of PostFailed \<Rightarrow> True | PostAnswered status hs body \<Rightarrow>
      status \<notin> {202, 400, 401, 403, 404, 410, 413} \<and> \<not> equal_fold (trim_space (header_get hs ''X-TR-Telemetry'')) ''off''"
  shows "\<not> ok \<and> (\<exists>d. r' = r\<lparr>rp_backoff_until := now + d, rp_backoff := min (2 * rp_backoff r) telemetry_backoff_max,
        rp_wake := True\<rparr> \<and> telemetry_backoff_min \<le> d \<and> d \<le> telemetry_backoff_max \<and>
      (\<forall>status hs body ra. answer = PostAnswered status hs body \<longrightarrow> telemetry_retry_after hs = Some ra \<longrightarrow> ra \<le> d))"
proof -
  define ra where "ra = (case answer of PostFailed \<Rightarrow> None | PostAnswered status hs body \<Rightarrow> telemetry_retry_after hs)"
  have r': "r' = set_backoff now ra r" "\<not> ok"
    using assms(2,3)
    by (auto simp: flush_end_def handle_response_def disabling_statuses_def ra_def split: post_outcome.splits)
  obtain d n where d: "set_backoff now ra r = r\<lparr>rp_backoff_until := now + d, rp_backoff := n, rp_wake := True\<rparr>"
    "telemetry_backoff_min \<le> d" "d \<le> telemetry_backoff_max" "n = min (2 * rp_backoff r) telemetry_backoff_max"
    "\<forall>x. ra = Some x \<longrightarrow> min x telemetry_backoff_max \<le> d"
    using assms(1) set_backoff_form [of r now ra] unfolding backoff_ok_def by blast
  have "x \<le> telemetry_backoff_max" if "telemetry_retry_after hs = Some x" for x hs
    using that by (auto simp: telemetry_retry_after_def Let_def telemetry_limits split: if_splits option.splits)
  then have "x \<le> d" if "answer = PostAnswered status hs body" "telemetry_retry_after hs = Some x" for status hs body x
    using that d(5) by (auto simp: ra_def min_def split: if_splits)
  with d r' show ?thesis by (intro conjI exI [of _ d]) auto
qed

lemma failed_delivery_keeps_records_witness:
  "rp_dropped (snd (flush_end plain_encoders (PostAnswered 503 no_headers None) 5
     \<lparr>sb_payload = [], sb_events = [0], sb_counters = [], sb_dropped = 3\<rparr> one_event_reporter)) = 3"
proof -
  let ?sel = "\<lparr>sb_payload = [], sb_events = [0], sb_counters = [], sb_dropped = 3\<rparr>"
  let ?answer = "PostAnswered 503 no_headers None"
  obtain ok r' where e: "flush_end plain_encoders ?answer 5 ?sel one_event_reporter = (ok, r')"
    by (cases "flush_end plain_encoders ?answer 5 ?sel one_event_reporter")
  have off: "\<not> equal_fold (trim_space (header_get no_headers ''X-TR-Telemetry'')) ''off''"
    by (simp add: equal_fold_def trim_space_def trim_right_space.simps)
  have "backoff_ok one_event_reporter"
    by (simp add: backoff_ok_def one_event_reporter_def sample_reporter_def new_telemetry_reporter_def telemetry_limits)
  from failed_delivery_keeps_records [OF this e] off
  obtain d where "r' = one_event_reporter\<lparr>rp_backoff_until := 5 + d,
      rp_backoff := min (2 * rp_backoff one_event_reporter) telemetry_backoff_max, rp_wake := True\<rparr>"
    by auto
  then show ?thesis unfolding e by (simp add: one_event_reporter_def)
qed

section \<open>Minute windows\<close>

lemma push_window_parts:
  assumes "windows_ok r"
  shows "rp_windows (push_window en now start r) = rp_windows r @ [rp_fresh r]"
    "\<And>a. a \<in> set (rp_windows r) \<Longrightarrow> rp_store (push_window en now start r) a = rp_store r a"
    "rp_store (push_window en now start r) (rp_fresh r) =
       \<lparr>cw_start = start, cw_rows = rp_current r, cw_size = telemetry_window_size en (rp_current r)\<rparr>"
    "rp_retained (push_window en now start r) = rp_retained r + telemetry_window_size en (rp_current r)"
    "rp_current (push_window en now start r) = []" "rp_dropped (push_window en now start r) = rp_dropped r"
  using assms by (auto simp: push_window_def Let_def windows_ok_def)

lemma push_window_sums:
  assumes "windows_ok r"
  shows "closed_rows (push_window en now start r) = closed_rows r + length (table_keys (rp_current r))"
    "closed_bytes (push_window en now start r) = closed_bytes r + telemetry_window_size en (rp_current r)"
  by (simp_all add: closed_rows_def closed_bytes_def push_window_parts [OF assms] cong: map_cong)

text \<open>All the rows the sender answers for: held, or counted as dropped.\<close>

definition rows_accounted :: "reporter \<Rightarrow> int" where
  "rows_accounted r = int (closed_rows r + length (table_keys (rp_current r))) + rp_dropped r"

definition retained_exact :: "reporter \<Rightarrow> bool" where
  "retained_exact r \<longleftrightarrow> rp_retained r = closed_bytes r"

lemma prune_current [simp]: "rp_current (prune_windows now r) = rp_current r"
  "rp_window_start (prune_windows now r) = rp_window_start r"
proof -
  obtain k x d where "prune_windows now r = r\<lparr>rp_windows := drop k (rp_windows r), rp_retained := x, rp_dropped := d\<rparr>"
    using prune_windows_form by blast
  then show "rp_current (prune_windows now r) = rp_current r" "rp_window_start (prune_windows now r) = rp_window_start r"
    by simp_all
qed

lemma prune_accounts: "rows_accounted (prune_windows now r) = rows_accounted r"
  "retained_exact (prune_windows now r) = retained_exact r"
  using prune_windows_sums [of now r] by (auto simp: rows_accounted_def retained_exact_def)

lemma close_accounts:
  assumes "windows_ok r"
  shows "rows_accounted (close_current_window en now r) = rows_accounted r"
    "retained_exact (close_current_window en now r) = retained_exact r"
    "rp_window_start r \<noteq> None \<Longrightarrow> rp_current (close_current_window en now r) = []"
proof -
  have p: "rows_accounted (push_window en now start r) = rows_accounted r"
      "retained_exact (push_window en now start r) = retained_exact r"
      "rp_current (push_window en now start r) = []" for start
    using push_window_sums [OF assms] push_window_parts [OF assms]
    by (auto simp: rows_accounted_def retained_exact_def table_keys_def)
  show "rows_accounted (close_current_window en now r) = rows_accounted r"
    "retained_exact (close_current_window en now r) = retained_exact r"
    by (simp_all add: close_current_window_def prune_accounts p split: option.split)
  show "rp_window_start r \<noteq> None \<Longrightarrow> rp_current (close_current_window en now r) = []"
    by (auto simp: close_current_window_def p)
qed

lemma roll_accounts:
  assumes "windows_ok r"
  shows "rows_accounted (roll_window en now r) = rows_accounted r" "retained_exact (roll_window en now r) = retained_exact r"
    "rp_window_start (roll_window en now r) \<noteq> None"
proof -
  have f: "rows_accounted (x\<lparr>rp_window_start := w\<rparr>) = rows_accounted x"
    "retained_exact (x\<lparr>rp_window_start := w\<rparr>) = retained_exact x" for x w
    by (simp_all add: rows_accounted_def retained_exact_def closed_rows_def closed_bytes_def)
  show "rows_accounted (roll_window en now r) = rows_accounted r" "retained_exact (roll_window en now r) = retained_exact r"
    "rp_window_start (roll_window en now r) \<noteq> None"
    using close_accounts [OF assms, of en now] by (auto simp: roll_window_def Let_def f split: option.split)
qed

text \<open>Windows are closed in order of their minutes, as the clock does not run backwards.\<close>

definition clock_ok :: "instant \<Rightarrow> reporter \<Rightarrow> bool" where
  "clock_ok now r \<longleftrightarrow> (\<forall>start. rp_window_start r = Some start \<longrightarrow> start \<le> telemetry_minute_start now \<and>
     (\<forall>a \<in> set (rp_windows r). cw_start (rp_store r a) \<le> start)) \<and>
     (rp_window_start r = None \<longrightarrow> rp_windows r = [])"

lemma prune_sorted: "windows_sorted r \<Longrightarrow> windows_sorted (prune_windows now r)"
proof -
  obtain k x d where e: "prune_windows now r = r\<lparr>rp_windows := drop k (rp_windows r), rp_retained := x, rp_dropped := d\<rparr>"
    using prune_windows_form by blast
  show "windows_sorted r \<Longrightarrow> ?thesis" by (simp add: e windows_sorted_def sorted_wrt_drop flip: drop_map)
qed

lemma push_sorted:
  assumes "windows_ok r" "windows_sorted r" "\<forall>a \<in> set (rp_windows r). cw_start (rp_store r a) \<le> start"
  shows "windows_sorted (push_window en now start r)"
  using assms(2,3) push_window_parts [OF assms(1)]
  by (simp add: windows_sorted_def sorted_append cong: map_cong)

lemma close_sorted:
  assumes "windows_ok r" "windows_sorted r" "clock_ok now r"
  shows "windows_sorted (close_current_window en now r)"
  using assms by (auto simp: close_current_window_def clock_ok_def intro!: prune_sorted push_sorted split: option.split)

lemma prune_parts: "set (rp_windows (prune_windows now r)) \<subseteq> set (rp_windows r)" "rp_store (prune_windows now r) = rp_store r"
proof -
  obtain k x d where e: "prune_windows now r = r\<lparr>rp_windows := drop k (rp_windows r), rp_retained := x, rp_dropped := d\<rparr>"
    using prune_windows_form by blast
  show "set (rp_windows (prune_windows now r)) \<subseteq> set (rp_windows r)" "rp_store (prune_windows now r) = rp_store r"
    by (auto simp: e dest: in_set_dropD)
qed

lemma roll_clock:
  assumes "windows_ok r" "windows_sorted r" "clock_ok now r"
  shows "windows_sorted (roll_window en now r) \<and> clock_ok now (roll_window en now r)"
proof (cases "rp_window_start r")
  case None
  then show ?thesis using assms by (simp add: roll_window_def Let_def windows_sorted_def clock_ok_def)
next
  case (Some start)
  let ?c = "close_current_window en now r"
  show ?thesis
  proof (cases "start < telemetry_minute_start now")
    case True
    then have e: "roll_window en now r = ?c\<lparr>rp_window_start := Some (telemetry_minute_start now)\<rparr>"
      using Some by (simp add: roll_window_def Let_def)
    have "cw_start (rp_store ?c a) \<le> start" if "a \<in> set (rp_windows ?c)" for a
    proof (cases "rp_current r = []")
      case False
      let ?q = "push_window en now start r"
      have c: "?c = prune_windows now ?q" using False Some by (simp add: close_current_window_def)
      then have "a \<in> set (rp_windows r) \<or> a = rp_fresh r"
        using that prune_parts(1) [of now ?q] push_window_parts(1) [OF assms(1)] by auto
      moreover have "cw_start (rp_store r b) \<le> start" if "b \<in> set (rp_windows r)" for b
        using assms(3) Some that by (simp add: clock_ok_def)
      ultimately show ?thesis
        using push_window_parts(2,3) [OF assms(1)] by (auto simp: c prune_parts(2))
    qed (use that Some assms(3) in \<open>simp add: close_current_window_def clock_ok_def\<close>)
    moreover have "windows_sorted ?c" by (rule close_sorted [OF assms])
    ultimately show ?thesis using True unfolding e by (force simp: windows_sorted_def clock_ok_def)
  next
    case False
    then show ?thesis using assms Some by (simp add: roll_window_def Let_def)
  qed
qed

text \<open>
  C16. Closing the minute loses no row silently, and retention holds: selecting a batch
  empties the current minute; each of its rows is then either in a closed window or counted
  as dropped; no closed window is older than 24 hours; the retained bytes are within the cap
  unless nothing is retained; and the byte count stays exact.
\<close>
theorem minute_closing_accounts:
  assumes "windows_ok r" "windows_sorted r" "clock_ok now r" "retained_exact r"
  shows "let p = prepare_windows en now r in
    rp_current p = [] \<and> rows_accounted p = rows_accounted r \<and> retained_exact p \<and>
    (\<forall>a \<in> set (rp_windows p). now - cw_start (rp_store p a) \<le> telemetry_retention) \<and>
    (rp_windows p = [] \<or> rp_retained p \<le> telemetry_retention_bytes)"
proof -
  define r1 where "r1 = roll_window en now r"
  define r2 where "r2 = close_current_window en now r1"
  have p: "prepare_windows en now r = prune_windows now r2" by (simp add: prepare_windows_def r1_def r2_def)
  have ok1: "windows_ok r1" unfolding r1_def by (rule windows_ok_roll [OF assms(1)])
  have c1: "windows_sorted r1 \<and> clock_ok now r1" unfolding r1_def by (rule roll_clock [OF assms(1-3)])
  have sorted2: "windows_sorted r2" unfolding r2_def using close_sorted [OF ok1] c1 by blast
  have "rp_window_start r1 \<noteq> None" unfolding r1_def by (rule roll_accounts(3) [OF assms(1)])
  then have "rp_current r2 = []" unfolding r2_def by (rule close_accounts(3) [OF ok1])
  moreover have "rows_accounted r2 = rows_accounted r" "retained_exact r2"
    using close_accounts(1,2) [OF ok1] roll_accounts(1,2) [OF assms(1)] assms(4) by (simp_all add: r1_def r2_def)
  ultimately show ?thesis using prune_windows_post [OF sorted2, of now] by (simp add: p Let_def prune_accounts)
qed

lemma minute_closing_accounts_witness:
  "rows_accounted (prepare_windows plain_encoders (seconds_ns 7) (sample_reporter\<lparr>rp_current :=
     fst (merge_counters [sample_increment ''request'' 2] ([], 0))\<rparr>)) = 1"
proof -
  let ?t = "fst (merge_counters [sample_increment ''request'' 2] ([], 0))"
  have len: "length (table_keys ?t) = 1" by code_simp
  have ok: "table_bounded ?t" using merge_counters_bounded [OF table_bounded_Nil] by (metis prod.collapse)
  define r where "r = sample_reporter\<lparr>rp_current := ?t\<rparr>"
  have "windows_ok r" "windows_sorted r" "clock_ok (seconds_ns 7) r" "retained_exact r"
    using ok by (simp_all add: r_def sample_reporter_def new_telemetry_reporter_def windows_ok_def windows_sorted_def
        clock_ok_def retained_exact_def closed_bytes_def)
  from minute_closing_accounts [OF this, of plain_encoders]
  have "rows_accounted (prepare_windows plain_encoders (seconds_ns 7) r) = rows_accounted r" by (simp add: Let_def)
  also have "\<dots> = 1"
    using len by (simp add: rows_accounted_def closed_rows_def r_def sample_reporter_def new_telemetry_reporter_def)
  finally show ?thesis by (simp add: r_def)
qed

section \<open>The event buffer\<close>

lemma first_ok_some: "first_ok es = Some i \<Longrightarrow> we_final_outcome (be_wire (snd (es ! i))) = ''ok'' \<and>
    (\<forall>j < i. we_final_outcome (be_wire (snd (es ! j))) \<noteq> ''ok'')"
proof (induction es arbitrary: i rule: first_ok.induct)
  case (2 a e es)
  show ?case
  proof (cases "we_final_outcome (be_wire e) = ''ok''")
    case False
    with 2 obtain k where "first_ok es = Some k" "i = Suc k" by auto
    with 2(1) [OF False] False show ?thesis by (auto simp: nth_Cons less_Suc_eq_0_disj split: nat.split)
  qed (use 2 in simp)
qed simp

lemma first_ok_none: "first_ok es = None \<Longrightarrow> x \<in> set es \<Longrightarrow> we_final_outcome (be_wire (snd x)) \<noteq> ''ok''"
  by (induction es rule: first_ok.induct) (auto split: if_splits)

text \<open>
  A full buffer gives up successes first: recording an event in a full buffer drops
  exactly one event, counts it, and that one is the oldest success, or the oldest event
  when no success is buffered; so while a success is buffered every failure stays.  The new
  event goes last, and the buffer never grows past 1000.
\<close>
theorem append_evicts_success_first:
  assumes "rp_events r \<noteq> []"
  shows "\<exists>i. rp_events (append_event e r) =
      (if 1000 \<le> length (rp_events r) then take i (rp_events r) @ drop (Suc i) (rp_events r) else rp_events r) @ [(rp_fresh r, e)] \<and>
    i < length (rp_events r) \<and>
    rp_dropped (append_event e r) = rp_dropped r + (if 1000 \<le> length (rp_events r) then 1 else 0) \<and>
    (\<forall>j < i. we_final_outcome (be_wire (snd (rp_events r ! j))) \<noteq> ''ok'') \<and>
    (if list_ex (\<lambda>x. we_final_outcome (be_wire (snd x)) = ''ok'') (rp_events r)
     then we_final_outcome (be_wire (snd (rp_events r ! i))) = ''ok'' else i = 0)"
proof -
  define i where "i = (case first_ok (rp_events r) of Some i \<Rightarrow> i | None \<Rightarrow> 0)"
  have d: "drop_buffered_event r = r\<lparr>rp_events := take i (rp_events r) @ drop (Suc i) (rp_events r),
      rp_events_size := rp_events_size r - be_size (snd (rp_events r ! i)), rp_dropped := rp_dropped r + 1\<rparr>"
    by (simp add: drop_buffered_event_def i_def Let_def)
  have "i < length (rp_events r)"
    using assms first_ok_bound [of "rp_events r"] by (auto simp: i_def split: option.split)
  moreover have "\<forall>j < i. we_final_outcome (be_wire (snd (rp_events r ! j))) \<noteq> ''ok''"
    using first_ok_some [of "rp_events r"] by (auto simp: i_def split: option.split)
  moreover have "if list_ex (\<lambda>x. we_final_outcome (be_wire (snd x)) = ''ok'') (rp_events r)
     then we_final_outcome (be_wire (snd (rp_events r ! i))) = ''ok'' else i = 0"
  proof (cases "first_ok (rp_events r)")
    case None
    then show ?thesis using first_ok_none [OF None] by (auto simp: i_def list_ex_iff)
  next
    case (Some k)
    then have "we_final_outcome (be_wire (snd (rp_events r ! k))) = ''ok''" "k < length (rp_events r)"
      using first_ok_some first_ok_bound by blast+
    with Some show ?thesis using nth_mem [of k "rp_events r"] by (auto simp: i_def list_ex_iff)
  qed
  ultimately show ?thesis
    by (intro exI [of _ i]) (simp add: append_event_def Let_def d telemetry_max_events_def)
qed

lemma append_evicts_success_first_witness:
  "map fst (rp_events (append_event (snd (hd (rp_events one_event_reporter))) one_event_reporter)) = [0, 1]"
  using append_evicts_success_first [of one_event_reporter "snd (hd (rp_events one_event_reporter))"]
  by (auto simp: one_event_reporter_def)

section \<open>The collector's policy\<close>

lemma duration_seconds_small:
  assumes "0 \<le> d" "d \<le> telemetry_backoff_max"
  shows "\<exists>y. duration_seconds d = Fin y \<and> 0 \<le> y"
proof -
  have s: "0 \<le> d div 1000000000" "d div 1000000000 \<le> 600" using assms by (simp_all add: telemetry_limits)
  have n: "0 \<le> d mod 1000000000" "d mod 1000000000 < 1000000000" by simp_all
  have i: "i64_to_f64 (d div 1000000000) = Fin (of_int (d div 1000000000))"
    "i64_to_f64 (d mod 1000000000) = Fin (of_int (d mod 1000000000))"
    using s n by (simp_all add: i64_to_f64_def round64_of_int)
  have "of_int (d mod 1000000000) / 1000000000 \<le> (of_nat 1 :: rat)"
  proof -
    have "(of_int (d mod 1000000000) :: rat) \<le> of_int 1000000000" using n(2) by (intro of_int_le_iff [THEN iffD2]) simp
    then show ?thesis by simp
  qed
  then obtain q where q: "round64 (of_int (d mod 1000000000) / 1000000000) = Fin q" "0 \<le> q" "q \<le> 1"
    using round64_small [of "of_int (d mod 1000000000) / 1000000000" 1] n(1) by auto
  have "(of_int (d div 1000000000) :: rat) \<le> of_int 600" using s(2) by (intro of_int_le_iff [THEN iffD2])
  then have "of_int (d div 1000000000) + q \<le> of_nat 601" using q(3) by simp
  then obtain y where "round64 (of_int (d div 1000000000) + q) = Fin y" "0 \<le> y"
    using round64_small [of "of_int (d div 1000000000) + q" 601] s(1) q(2) by auto
  then show ?thesis by (simp add: duration_seconds_def i q(1))
qed

lemma backoff_max_seconds: "duration_seconds telemetry_backoff_max = Fin 600"
proof -
  have "round64 600 = Fin 600" using round64_of_int [of 600] by simp
  moreover have "round64 0 = Fin 0" by (simp add: round64_def)
  ultimately show ?thesis by (simp add: duration_seconds_def telemetry_limits i64_to_f64_def)
qed

lemma float_value_finite: "telemetry_float_value v = Some f \<Longrightarrow> \<exists>x. f = Fin x"
  by (cases f) (auto simp: telemetry_float_value_def is_nan_def is_inf_def split: gvalue.splits option.splits if_splits)

lemma policy_interval_facts:
  assumes "0 \<le> rp_flush_interval r" "rp_flush_interval r \<le> telemetry_backoff_max"
  shows "rp_flush_interval (policy_interval p r) = rp_flush_interval r \<or>
    (\<exists>s. flt (duration_seconds (rp_flush_interval r)) s \<and> 0 \<le> rp_flush_interval (policy_interval p r) \<and>
      rp_flush_interval (policy_interval p r) \<le> telemetry_backoff_max \<and>
      f64_to_i64 (fmul (math_min s (Fin 600)) (Fin 1000000000)) = Some (rp_flush_interval (policy_interval p r)))"
proof (cases "rp_flush_interval (policy_interval p r) = rp_flush_interval r")
  case False
  then obtain s where s: "telemetry_float_value (obj_get p ''flush_seconds'') = Some s"
    "flt (duration_seconds (rp_flush_interval r)) s"
    "f64_to_i64 (fmul (math_min s (Fin 600)) (Fin 1000000000)) = Some (rp_flush_interval (policy_interval p r))"
    by (auto simp: policy_interval_def backoff_max_seconds split: if_splits option.splits)
  obtain x where x: "s = Fin x" using float_value_finite [OF s(1)] by blast
  obtain y where "duration_seconds (rp_flush_interval r) = Fin y" "0 \<le> y" using duration_seconds_small [OF assms] by blast
  then have "0 \<le> min x 600" using s(2) x by simp
  moreover have "math_min s (Fin 600) = Fin (min x 600)" by (simp add: x math_min_def min_def)
  ultimately have "\<exists>i. f64_to_i64 (round64 (min x 600 * 1000000000)) = Some i \<and> 0 \<le> i \<and> i \<le> int 600000000000"
    by (intro f64_to_i64_small) auto
  with s(3) \<open>math_min s (Fin 600) = Fin (min x 600)\<close> have "0 \<le> rp_flush_interval (policy_interval p r)"
    "rp_flush_interval (policy_interval p r) \<le> telemetry_backoff_max"
    by (auto simp: telemetry_limits)
  with s show ?thesis by blast
qed simp

lemma pause_bounded:
  assumes "telemetry_float_value v = Some s" "fle (Fin 0) s" "fle s (Fin telemetry_max_pause_seconds)"
  shows "\<exists>d. f64_to_i64 (fmul s (Fin 1000000000)) = Some d \<and> 0 \<le> d \<and> d \<le> seconds_ns 86400"
proof -
  obtain x where x: "s = Fin x" using float_value_finite [OF assms(1)] by blast
  then have "0 \<le> x" "x \<le> 86400" using assms(2,3) by (auto simp: fle_def telemetry_limits)
  then have "\<exists>i. f64_to_i64 (round64 (x * 1000000000)) = Some i \<and> 0 \<le> i \<and> i \<le> int 86400000000000"
    by (intro f64_to_i64_small) auto
  then show ?thesis by (simp add: x seconds_ns_def)
qed



section \<open>The request\<close>

text \<open>
  The beacon's request carries its own credentials and nothing of the engine's: it is a
  POST of the payload, of at most 65536 bytes, to the control plane's event path, with the
  key, the agent, the content type and the workspace, and with no x-tr-client header, no
  idempotency key and no cookie.
\<close>
theorem beacon_request_minimal:
  assumes "post_request agent enc r = Some q"
  shows "rq_method q = ''POST'' \<and> rq_url q = rp_control_base_url r @ ''/client-events'' \<and> rq_body q = Some enc \<and>
    length enc \<le> 65536 \<and> header_values (rq_headers q) ''authorization'' = [''Bearer '' @ rp_api_key r] \<and>
    header_values (rq_headers q) ''x-trustedrouter-workspace'' =
      (if rp_workspace_id r = [] then [] else [rp_workspace_id r]) \<and>
    header_values (rq_headers q) ''x-tr-client'' = [] \<and> header_values (rq_headers q) ''idempotency-key'' = [] \<and>
    header_values (rq_headers q) ''cookie'' = []"
  using assms by (auto simp: post_request_def Let_def telemetry_max_batch_bytes_def split: if_splits)

lemma beacon_request_minimal_witness:
  "\<exists>q. post_request ''agent'' ''xx'' sample_reporter = Some q \<and> rq_method q = ''POST''"
proof -
  have "new_request_error ''POST'' ''https://trustedrouter.com/v1/client-events'' = None" by code_simp
  moreover have "trim_right (CHR ''/'') ''https://trustedrouter.com/v1'' = ''https://trustedrouter.com/v1''" by code_simp
  ultimately have "post_request ''agent'' ''xx'' sample_reporter \<noteq> None"
    by (simp add: post_request_def sample_reporter_def new_telemetry_reporter_def telemetry_max_batch_bytes_def)
  then obtain q where q: "post_request ''agent'' ''xx'' sample_reporter = Some q" by blast
  from beacon_request_minimal [OF q] q show ?thesis by blast
qed

section \<open>Retained bytes can drift\<close>

text \<open>
  A window pruned while one of its rows is on the wire has its size subtracted twice: once
  by \<open>dropWindowLocked\<close> and again by \<open>removeSelectedLocked\<close>.  The run: a call, a batch with
  its minute, a second call while the batch is on the wire, a third after the machine slept
  for more than a day, and then the acceptance.
\<close>

definition quiet_event :: request_event where
  "quiet_event = leaky_event"

definition drift_1 :: reporter where
  "drift_1 = on_request plain_encoders 0 (Fin 1) quiet_event [sample_increment ''request'' 2] sample_reporter"

definition drift_2 :: "selected_batch option \<times> reporter" where
  "drift_2 = flush_begin plain_encoders ''0a'' 0 (seconds_ns 60) drift_1"

definition drift_3 :: reporter where
  "drift_3 = on_request plain_encoders (seconds_ns 61) (Fin 1) quiet_event [sample_increment ''request'' 2] (snd drift_2)"

definition drift_4 :: reporter where
  "drift_4 = on_request plain_encoders (seconds_ns 100000) (Fin 1) quiet_event [sample_increment ''request'' 2] drift_3"

definition drift_5 :: reporter where
  "drift_5 = snd (flush_end plain_encoders (PostAnswered 202 no_headers None) (seconds_ns 100001) (the (fst drift_2)) drift_4)"

lemma quiet_not_sampled: "prepare_event en (Fin 1) (Fin 1) now quiet_event = None"
  by (simp add: prepare_event_def sample_reason_def quiet_event_def leaky_event_def fle_def clamp_int_def
      telemetry_slow_ms_def telemetry_max_duration_ms_def)

lemma on_request_quiet:
  "\<not> rp_disabled r \<Longrightarrow> \<not> rp_closed r \<Longrightarrow> rp_rate r = Fin 1 \<Longrightarrow>
   on_request en now (Fin 1) quiet_event is r = mark_urgent (start_worker now (merge_counters_locked is (roll_window en now r)))"
  by (simp add: on_request_def quiet_not_sampled Let_def)

definition drift_key :: counter_key where
  "drift_key = the (normalise_counter_key (ci_key (sample_increment ''request'' 2)))"

definition drift_row :: counter_value where
  "drift_row = merge_increment zero_counter (sample_increment ''request'' 2)"

lemma drift_merge: "merge_counters [sample_increment ''request'' 2] ([], d) = ([(drift_key, drift_row)], d)"
proof -
  have k: "normalise_counter_key (ci_key (sample_increment ''request'' 2)) = Some drift_key"
  proof -
    have "normalise_counter_key (ci_key (sample_increment ''request'' 2)) \<noteq> None" by code_simp
    then show ?thesis by (simp add: drift_key_def)
  qed
  show ?thesis
    by (simp add: merge_counters_def merge_counter_def k counter_target_def table_get_def table_keys_def
        telemetry_max_window_keys_def table_put_def drift_row_def)
qed

lemmas drift_defs = sample_reporter_def new_telemetry_reporter_def telemetry_sample_rate_value_def math_min_def
  math_max_def is_nan_def is_inf_def on_request_quiet merge_counters_locked_def roll_window_def
  telemetry_minute_start_def seconds_ns_def drift_merge mark_urgent_def start_worker_def table_keys_def
  telemetry_urgent_events_def telemetry_batch_trigger_bytes_def telemetry_flush_interval_def Let_def

lemma drift_1_eq: "drift_1 = sample_reporter\<lparr>rp_window_start := Some 0, rp_current := [(drift_key, drift_row)],
    rp_next_flush := seconds_ns 30, rp_worker := True\<rparr>"
  by (simp add: drift_1_def drift_defs)

lemmas drift_select_defs = flush_begin_def select_batch_def prepare_windows_def close_current_window_def push_window_def
  prune_windows_def window_too_old_def over_byte_cap_def drop_front_window_def telemetry_window_size_def
  telemetry_retention_def telemetry_retention_bytes_def assemble_batch_def window_refs_def trim_batch.simps
  telemetry_max_batch_events_def telemetry_max_batch_counters_def telemetry_max_batch_bytes_def plain_encoders_def

definition drift_sel :: selected_batch where
  "drift_sel = \<lparr>sb_payload = replicate 600 CHR ''x'', sb_events = [], sb_counters = [(0, drift_key)], sb_dropped = 0\<rparr>"

definition drift_window :: counter_window where
  "drift_window = \<lparr>cw_start = 0, cw_rows = [(drift_key, drift_row)], cw_size = 400\<rparr>"

lemma drift_2_eq: "drift_2 = (Some drift_sel, drift_1\<lparr>rp_window_start := Some (seconds_ns 60), rp_current := [],
    rp_windows := [0], rp_store := (rp_store drift_1)(0 := drift_window), rp_fresh := 1, rp_retained := 400, rp_seq := 1\<rparr>)"
  by (simp add: drift_2_def drift_1_eq drift_select_defs drift_defs drift_sel_def drift_window_def)

lemma drift_3_eq: "drift_3 = (snd drift_2)\<lparr>rp_current := [(drift_key, drift_row)]\<rparr>"
  by (simp add: drift_3_def drift_2_eq drift_1_eq drift_defs)

lemma drift_4_eq: "drift_4 = drift_3\<lparr>rp_window_start := Some (seconds_ns 99960), rp_windows := [], rp_fresh := 2,
    rp_store := (rp_store drift_3)(1 := \<lparr>cw_start = seconds_ns 60, cw_rows = [(drift_key, drift_row)], cw_size = 400\<rparr>),
    rp_retained := 0, rp_dropped := 2\<rparr>"
  by (simp add: drift_4_def drift_3_eq drift_2_eq drift_1_eq drift_select_defs drift_defs drift_window_def)

lemma drift_5_retained: "rp_retained drift_5 = - 400 \<and> rp_windows drift_5 = [] \<and> rp_dropped drift_5 = 2"
  by (simp add: drift_5_def drift_4_eq drift_3_eq drift_2_eq drift_1_eq drift_defs drift_window_def drift_sel_def
      flush_end_def handle_response_def remove_selected_def remove_row_def resize_window_def table_get_def table_remove_def
      equal_fold_def trim_space_def trim_right_space.simps)

text \<open>
  C20. The count of retained bytes is not exact over all runs: there is a run from a new
  sender, with one call, a batch, two calls while that batch is on the wire and its
  acceptance, after which no window is retained, the byte count is minus 400 (so the byte
  cap is loosened by that much for good), and the delivered row is also counted as dropped.
\<close>
theorem retained_bytes_drift:
  "\<exists>r. rtranclp (reporter_step plain_encoders) (sample_reporter, None) (r, None) \<and>
     rp_windows r = [] \<and> rp_retained r = - 400 \<and> \<not> retained_exact r \<and> rp_dropped r = 2"
proof -
  note to = rtranclp.rtrancl_into_rtrancl
  have 1: "rtranclp (reporter_step plain_encoders) (sample_reporter, None) (drift_1, None)"
    unfolding drift_1_def using record_call by (rule r_into_rtranclp)
  have "flush_begin plain_encoders ''0a'' 0 (seconds_ns 60) drift_1 = (Some drift_sel, snd drift_2)"
    using drift_2_eq drift_2_def by (metis prod.collapse fst_conv)
  from to [OF 1 flush_select [OF this]]
  have 2: "rtranclp (reporter_step plain_encoders) (sample_reporter, None) (snd drift_2, Some drift_sel)" .
  have 3: "rtranclp (reporter_step plain_encoders) (sample_reporter, None) (drift_3, Some drift_sel)"
    unfolding drift_3_def by (rule to [OF 2 record_call])
  have 4: "rtranclp (reporter_step plain_encoders) (sample_reporter, None) (drift_4, Some drift_sel)"
    unfolding drift_4_def by (rule to [OF 3 record_call])
  have sel: "the (fst drift_2) = drift_sel" by (simp add: drift_2_eq)
  obtain ok where "flush_end plain_encoders (PostAnswered 202 no_headers None) (seconds_ns 100001) drift_sel drift_4 = (ok, drift_5)"
    unfolding drift_5_def sel by (cases "flush_end plain_encoders (PostAnswered 202 no_headers None) (seconds_ns 100001) drift_sel drift_4") auto
  from to [OF 4 flush_answer [OF this]] drift_5_retained show ?thesis
    by (intro exI [of _ drift_5]) (simp add: retained_exact_def closed_bytes_def)
qed

end
