(* ===== verification/Checks.thy ===== *)
theory Checks
  imports Main
begin

text \<open>
  Chains of checks: a step is \<open>Inl\<close> the error it returns early with, or \<open>Inr\<close> the value the
  code goes on with.  The collection \<open>check_iff\<close> turns the success of a chain into the
  conjunction of what its steps established.
\<close>

named_theorems check_iff "when a chain of checks succeeds"

definition and_then :: "'e + 'a \<Rightarrow> ('a \<Rightarrow> 'e + 'b) \<Rightarrow> 'e + 'b" where
  "and_then m f = (case m of Inl e \<Rightarrow> Inl e | Inr x \<Rightarrow> f x)"

definition require :: "bool \<Rightarrow> 'e \<Rightarrow> 'e + unit" where
  "require ok e = (if ok then Inr () else Inl e)"

definition from_option :: "'e \<Rightarrow> 'a option \<Rightarrow> 'e + 'a" where
  "from_option e m = (case m of None \<Rightarrow> Inl e | Some x \<Rightarrow> Inr x)"

definition change_error :: "('e \<Rightarrow> 'f) \<Rightarrow> 'e + 'a \<Rightarrow> 'f + 'a" where
  "change_error g m = (case m of Inl e \<Rightarrow> Inl (g e) | Inr x \<Rightarrow> Inr x)"

lemma and_then_simps [simp]: "and_then (Inl e) f = Inl e" "and_then (Inr x) f = f x"
  by (simp_all add: and_then_def)

lemma require_simps [simp]: "require True e = Inr ()" "require False e = Inl e"
  by (simp_all add: require_def)

lemma and_then_iff [check_iff]: "and_then m f = Inr y \<longleftrightarrow> (\<exists>x. m = Inr x \<and> f x = Inr y)"
  by (cases m) simp_all

lemma require_iff [check_iff]: "require ok e = Inr u \<longleftrightarrow> ok"
  by (simp add: require_def)

lemma from_option_iff [check_iff]: "from_option e m = Inr x \<longleftrightarrow> m = Some x"
  by (cases m) (simp_all add: from_option_def)

lemma change_error_iff [check_iff]: "change_error g m = Inr x \<longleftrightarrow> m = Inr x"
  by (cases m) (simp_all add: change_error_def)

lemma if_check_iff [check_iff]: "(if c then Inl e else m) = Inr y \<longleftrightarrow> \<not> c \<and> m = Inr y"
  by simp

end
