(* ===== verification/Receipt_Jws.thy ===== *)
theory Receipt_Jws
  imports Checks Go_Json Go_Base64
begin

text \<open>
  Receipts as signed documents (\<open>receipts.go\<close>): the typed errors, strict base64url, strict
  JSON, the compact and flattened envelopes, the protected header and the signature.
  SHA-256 and Ed25519 are the crypto library's and are parameters.
\<close>

section \<open>Errors\<close>

datatype receipt_error_kind =
    ReceiptStructure | ReceiptHeader | ReceiptSignature | ReceiptClaimsError | MissingBinding | ReceiptIssuer
  | ReceiptTime | ReceiptNonce | ReceiptUpstream | ReceiptHash | ReceiptAttestation | MissingAttestation
  | UnsupportedAttestation

text \<open>
  What \<open>Unwrap\<close> of the error returns: the more general error; \<open>None\<close> is the common base
  \<open>ReceiptVerificationError\<close>.
\<close>

fun receipt_error_parent :: "receipt_error_kind \<Rightarrow> receipt_error_kind option" where
  "receipt_error_parent MissingBinding = Some ReceiptClaimsError"
| "receipt_error_parent ReceiptIssuer = Some ReceiptClaimsError"
| "receipt_error_parent ReceiptTime = Some ReceiptClaimsError"
| "receipt_error_parent ReceiptNonce = Some ReceiptClaimsError"
| "receipt_error_parent ReceiptUpstream = Some ReceiptClaimsError"
| "receipt_error_parent MissingAttestation = Some ReceiptAttestation"
| "receipt_error_parent UnsupportedAttestation = Some ReceiptAttestation"
| "receipt_error_parent k = None"

text \<open>An error: its type, and its message up to \<open>check failed\<close> (what follows renders values).\<close>

datatype receipt_error = ReceiptError (re_kind: receipt_error_kind) (re_check: string)

section \<open>Strict base64url\<close>

definition b64url_byte :: "char \<Rightarrow> bool" where
  "b64url_byte c \<longleftrightarrow> is_upper c \<or> is_lower c \<or> is_digit c \<or> c = CHR ''_'' \<or> c = CHR ''-''"

definition receipt_b64url_decode :: "string \<Rightarrow> string \<Rightarrow> receipt_error + bytes" where
  "receipt_b64url_decode s check =
     (let e = ReceiptError ReceiptStructure check in
      if s = [] \<or> CHR ''='' \<in> set s then Inl e
      else if \<not> list_all b64url_byte s then Inl e
      else case b64_decode s of
          None \<Rightarrow> Inl e
        | Some decoded \<Rightarrow> (if b64_encode decoded \<noteq> s then Inl e else Inr decoded))"

section \<open>Strict JSON\<close>

text \<open>Numbers are kept as their text, a repeated member name is an error, nesting is not bounded.\<close>

definition receipt_json_rules :: json_rules where
  "receipt_json_rules = \<lparr>reject_duplicates = True, number_value = (\<lambda>n. Some (GNumber n)), max_depth = None\<rparr>"

definition decode_receipt_json :: "bytes \<Rightarrow> string \<Rightarrow> receipt_error + gvalue" where
  "decode_receipt_json data check =
     (if \<not> utf8_valid data then Inl (ReceiptError ReceiptStructure check)
      else from_option (ReceiptError ReceiptStructure check) (parse_json receipt_json_rules data))"

text \<open>\<open>strconv.ParseInt(s, 10, 64)\<close>.\<close>

definition parse_i64 :: "string \<Rightarrow> int option" where
  "parse_i64 s =
     (let (neg, ds) = strip_sign s; n = int (foldl (\<lambda>n c. n * 10 + digit_val c) 0 ds); i = (if neg then - n else n)
      in if ds = [] \<or> \<not> list_all is_digit ds \<or> i < - (2 ^ 63) \<or> 2 ^ 63 \<le> i then None else Some i)"

definition receipt_integer :: "gvalue \<Rightarrow> int option" where
  "receipt_integer v = (case v of GNumber n \<Rightarrow> parse_i64 n | _ \<Rightarrow> None)"

definition required_receipt_map :: "object \<Rightarrow> string \<Rightarrow> receipt_error_kind \<Rightarrow> receipt_error + object" where
  "required_receipt_map obj name kind = from_option (ReceiptError kind (name @ '' claim'')) (as_map (obj_get obj name))"

definition required_receipt_string :: "object \<Rightarrow> string \<Rightarrow> string \<Rightarrow> receipt_error + string" where
  "required_receipt_string obj name family =
     (case obj_get obj name of
        GString s \<Rightarrow> (if s = [] then Inl (ReceiptError ReceiptClaimsError (family @ '' '' @ name)) else Inr s)
      | _ \<Rightarrow> Inl (ReceiptError ReceiptClaimsError (family @ '' '' @ name)))"

definition optional_receipt_string :: "object \<Rightarrow> string \<Rightarrow> string \<Rightarrow> receipt_error + string" where
  "optional_receipt_string obj name family =
     (if \<not> obj_has obj name then Inr []
      else case obj_get obj name of
          GString s \<Rightarrow> (if s = [] then Inl (ReceiptError ReceiptClaimsError (family @ '' '' @ name)) else Inr s)
        | _ \<Rightarrow> Inl (ReceiptError ReceiptClaimsError (family @ '' '' @ name)))"

section \<open>Envelopes\<close>

datatype receipt_input = ReceiptText string | ReceiptBytes bytes | ReceiptMap "object option" | ReceiptOther

record receipt_envelope =
  en_protected :: string
  en_payload :: string
  en_signature :: string
  en_flattened_json :: "object option" \<comment> \<open>\<open>None\<close>: compact\<close>

abbreviation en_flattened :: "receipt_envelope \<Rightarrow> bool" where
  "en_flattened e \<equiv> en_flattened_json e \<noteq> None"

definition is_ascii :: "string \<Rightarrow> bool" where
  "is_ascii s = list_all (\<lambda>c. byte_val c \<le> 127) s"

definition jws_structure :: receipt_error where
  "jws_structure = ReceiptError ReceiptStructure ''JWS structure''"

definition flattened_envelope :: "object \<Rightarrow> receipt_error + receipt_envelope" where
  "flattened_envelope m =
     (if obj_has m ''header'' then Inl jws_structure
      else case (obj_get m ''protected'', obj_get m ''payload'', obj_get m ''signature'') of
          (GString p, GString pl, GString s) \<Rightarrow>
            (if p = [] \<or> pl = [] \<or> s = [] then Inl jws_structure
             else Inr \<lparr>en_protected = p, en_payload = pl, en_signature = s, en_flattened_json = Some m\<rparr>)
        | _ \<Rightarrow> Inl jws_structure)"

definition compact_envelope :: "string \<Rightarrow> receipt_error + receipt_envelope" where
  "compact_envelope text =
     (if \<not> is_ascii text then Inl jws_structure
      else case split_on (CHR ''.'') text of
          [p, pl, s] \<Rightarrow>
            (if p = [] \<or> pl = [] \<or> s = [] then Inl jws_structure
             else Inr \<lparr>en_protected = p, en_payload = pl, en_signature = s, en_flattened_json = None\<rparr>)
        | _ \<Rightarrow> Inl jws_structure)"

definition text_envelope :: "string \<Rightarrow> receipt_error + receipt_envelope" where
  "text_envelope text =
     (if has_prefix text ''{'' then
        and_then (decode_receipt_json text ''JWS structure'') (\<lambda>v.
        and_then (from_option jws_structure (as_map v)) flattened_envelope)
      else compact_envelope text)"

definition parse_receipt_envelope :: "receipt_input \<Rightarrow> receipt_error + receipt_envelope" where
  "parse_receipt_envelope receipt =
     (case receipt of
        ReceiptText s \<Rightarrow> text_envelope (trim_space s)
      | ReceiptBytes s \<Rightarrow> text_envelope (trim_space s)
      | ReceiptMap (Some m) \<Rightarrow> flattened_envelope m
      | ReceiptMap None \<Rightarrow> text_envelope []
      | ReceiptOther \<Rightarrow> Inl jws_structure)"

section \<open>Header and signature\<close>

record receipt_crypto =
  cr_sha256 :: "bytes \<Rightarrow> bytes"
  cr_ed25519_verify :: "bytes \<Rightarrow> bytes \<Rightarrow> bytes \<Rightarrow> bool" \<comment> \<open>key, message, signature\<close>

definition receipt_type :: string where
  "receipt_type = ''inference-receipt+jws''"

definition header_error :: "string \<Rightarrow> receipt_error" where
  "header_error check = ReceiptError ReceiptHeader check"

definition receipt_public_key :: "object \<Rightarrow> receipt_error + bytes" where
  "receipt_public_key header =
     and_then (from_option (header_error ''protected header jwk'') (as_map (obj_get header ''jwk''))) (\<lambda>jwk.
     and_then (require (obj_get jwk ''kty'' = GString ''OKP'' \<and> obj_get jwk ''crv'' = GString ''Ed25519'' \<and> \<not> obj_has jwk ''d'')
        (header_error ''protected header jwk'')) (\<lambda>_.
     and_then (from_option (header_error ''protected header jwk.x'') (as_string (obj_get jwk ''x''))) (\<lambda>x.
     and_then (change_error (\<lambda>e. header_error (re_check e)) (receipt_b64url_decode x ''protected header jwk.x'')) (\<lambda>key.
     and_then (require (length key = 32) (header_error ''protected header jwk.x'')) (\<lambda>_. Inr key)))))"

definition parse_receipt_header :: "receipt_crypto \<Rightarrow> receipt_envelope \<Rightarrow> receipt_error + object \<times> bytes" where
  "parse_receipt_header cr en =
     and_then (receipt_b64url_decode (en_protected en) ''protected header'') (\<lambda>raw.
     and_then (decode_receipt_json raw ''protected header'') (\<lambda>v.
     and_then (from_option (header_error ''protected header'') (as_map v)) (\<lambda>header.
     and_then (require (obj_get header ''alg'' = GString ''EdDSA'') (header_error ''protected header alg'')) (\<lambda>_.
     and_then (require (obj_get header ''typ'' = GString receipt_type) (header_error ''protected header typ'')) (\<lambda>_.
     and_then (receipt_public_key header) (\<lambda>key.
     and_then (from_option (header_error ''protected header kid'') (as_string (obj_get header ''kid''))) (\<lambda>kid.
     and_then (require (kid = b64_encode (cr_sha256 cr key)) (header_error ''protected header kid'')) (\<lambda>_.
     Inr (header, key)))))))))"

definition verify_receipt_signature :: "receipt_crypto \<Rightarrow> receipt_envelope \<Rightarrow> bytes \<Rightarrow> receipt_error + bytes" where
  "verify_receipt_signature cr en key =
     and_then (receipt_b64url_decode (en_payload en) ''JWS payload'') (\<lambda>payload.
     and_then (change_error (\<lambda>e. ReceiptError ReceiptSignature (re_check e))
        (receipt_b64url_decode (en_signature en) ''JWS signature'')) (\<lambda>signature.
     and_then (require (length signature = 64 \<and>
          cr_ed25519_verify cr key (en_protected en @ ''.'' @ en_payload en) signature)
        (ReceiptError ReceiptSignature ''Ed25519 signature'')) (\<lambda>_.
     Inr payload)))"

section \<open>One spelling per byte string\<close>

lemma b64_encode_bytes_ok: "c \<in> set (b64_encode s) \<Longrightarrow> b64url_byte c \<and> c \<noteq> CHR ''=''"
proof -
  assume "c \<in> set (b64_encode s)"
  then have v: "b64_value c \<noteq> None" by (rule b64_encode_alphabet)
  then have "b64url_byte c" by (auto simp: b64_value_def b64url_byte_def split: if_splits)
  moreover have "b64_value (CHR ''='') = None" by code_simp
  ultimately show ?thesis using v by auto
qed

lemma receipt_b64url_iff:
  "receipt_b64url_decode s check = Inr decoded \<longleftrightarrow> decoded \<noteq> [] \<and> s = b64_encode decoded"
proof
  assume "receipt_b64url_decode s check = Inr decoded"
  then have s: "s \<noteq> []" "b64_encode decoded = s"
    by (auto simp: receipt_b64url_decode_def Let_def split: if_splits option.splits)
  moreover have "b64_encode [] = []" by code_simp
  ultimately show "decoded \<noteq> [] \<and> s = b64_encode decoded" by auto
next
  assume d: "decoded \<noteq> [] \<and> s = b64_encode decoded"
  then have "1 \<le> length decoded" by (cases decoded) auto
  then have "s \<noteq> []" using d b64_encode_length [of decoded] by auto
  moreover have "list_all b64url_byte s" "CHR ''='' \<notin> set s" using d b64_encode_bytes_ok by (auto simp: list_all_iff)
  ultimately show "receipt_b64url_decode s check = Inr decoded" using d by (simp add: receipt_b64url_decode_def)
qed

text \<open>
  Base64url in a receipt has exactly one spelling: the strict decoder accepts a string
  if and only if it is the unpadded base64url encoding of a non-empty byte string, which it
  then returns; so no two spellings of a header, payload, signature or digest verify.
\<close>
theorem receipt_b64url_canonical:
  "receipt_b64url_decode s check = Inr decoded \<longleftrightarrow> decoded \<noteq> [] \<and> s = b64_encode decoded"
  by (rule receipt_b64url_iff)

end
