(* ===== verification/Receipt_Stream.thy ===== *)
theory Receipt_Stream
  imports Receipt_Jws
begin

text \<open>
  The streamed half of \<open>receipts.go\<close>: the exact framing of a server-sent-event stream, the
  digest over its events, the embedded receipt, and the capture of a stream while it is
  read.  Positions in the wire are suffixes of it.
\<close>

section \<open>Framing\<close>

abbreviation LF :: char where "LF \<equiv> CHR 0x0A"
abbreviation CR :: char where "CR \<equiv> CHR 0x0D"

definition sep_lf :: bytes where "sep_lf = [LF, LF]"
definition sep_crlf :: bytes where "sep_crlf = [CR, LF, CR, LF]"

text \<open>The first event of the input with its separator, and the rest.\<close>

definition receipt_event_end :: "bytes \<Rightarrow> nat option" where
  "receipt_event_end data =
     (case (index_of sep_lf data, index_of sep_crlf data) of
        (None, None) \<Rightarrow> None
      | (Some i, None) \<Rightarrow> Some (i + 2)
      | (Some i, Some j) \<Rightarrow> (if i < j then Some (i + 2) else Some (j + 4))
      | (None, Some j) \<Rightarrow> Some (j + 4))"

definition next_receipt_sse_event :: "bytes \<Rightarrow> (bytes \<times> bytes) option" where
  "next_receipt_sse_event data = map_option (\<lambda>e. (take e data, drop e data)) (receipt_event_end data)"

record receipt_sse_event =
  se_name :: bytes
  se_payload :: bytes
  se_done :: bool

definition framing_error :: receipt_error where
  "framing_error = ReceiptError ReceiptHash ''response stream framing''"

definition drop_space :: "bytes \<Rightarrow> bytes" where
  "drop_space s = (case s of c # r \<Rightarrow> (if c = CHR '' '' then r else s) | [] \<Rightarrow> [])"

definition drop_cr :: "bytes \<Rightarrow> bytes" where
  "drop_cr line = (if line \<noteq> [] \<and> last line = CR then butlast line else line)"

text \<open>The fields of one event: its name and its data, each at most once.\<close>

fun scan_receipt_lines :: "bytes list \<Rightarrow> bytes option \<times> bytes option \<Rightarrow> receipt_error + bytes option \<times> bytes option" where
  "scan_receipt_lines [] st = Inr st"
| "scan_receipt_lines (l # ls) (name, payload) =
     (let line = drop_cr l in
      if has_prefix line ''data:'' then
        (if payload \<noteq> None then Inl framing_error
         else scan_receipt_lines ls (name, Some (drop_space (drop 5 line))))
      else if has_prefix line ''event:'' then
        (if name \<noteq> None then Inl framing_error
         else scan_receipt_lines ls (Some (drop_space (drop 6 line)), payload))
      else Inl framing_error)"

definition or_empty :: "bytes option \<Rightarrow> bytes" where
  "or_empty b = (case b of None \<Rightarrow> [] | Some s \<Rightarrow> s)"

definition decode_receipt_body :: "bytes \<Rightarrow> receipt_error + receipt_sse_event" where
  "decode_receipt_body body =
     and_then (scan_receipt_lines (split_on LF body) (None, None)) (\<lambda>(name, payload).
       case payload of
         None \<Rightarrow> Inl framing_error
       | Some p \<Rightarrow> Inr \<lparr>se_name = or_empty name, se_payload = p, se_done = (p = ''[DONE]'')\<rparr>)"

definition decode_receipt_sse_event :: "bytes \<Rightarrow> receipt_error + receipt_sse_event" where
  "decode_receipt_sse_event raw =
     (if has_suffix raw sep_crlf then decode_receipt_body (take (length raw - 4) raw)
      else if has_suffix raw sep_lf then decode_receipt_body (take (length raw - 2) raw)
      else Inl framing_error)"

section \<open>The embedded receipt\<close>

definition position_error :: receipt_error where
  "position_error = ReceiptError ReceiptHash ''response stream receipt position''"

definition embedded_receipt :: "bytes \<Rightarrow> receipt_error + object option" where
  "embedded_receipt payload =
     (case decode_receipt_json payload ''response stream event JSON'' of
        Inr (GMap m) \<Rightarrow>
          (if \<not> obj_has m ''inference_receipt'' then Inr None
           else case obj_get m ''inference_receipt'' of
               GMap r \<Rightarrow> Inr (Some r)
             | _ \<Rightarrow> Inl position_error)
      | _ \<Rightarrow> Inr None)"

section \<open>The digest\<close>

lemma index_of_bound: "index_of p s = Some i \<Longrightarrow> i + length p \<le> length s"
  by (induction s arbitrary: i) (auto simp: has_prefix_def split: if_splits dest: arg_cong [where f = length])

lemma receipt_event_end_bound: "receipt_event_end data = Some e \<Longrightarrow> 0 < e \<and> e \<le> length data"
  using index_of_bound [of sep_lf data] index_of_bound [of sep_crlf data]
  by (auto simp: receipt_event_end_def sep_lf_def sep_crlf_def split: option.splits if_splits)

lemma next_event_shrinks: "next_receipt_sse_event data = Some (raw, rest) \<Longrightarrow> length rest < length data"
  using receipt_event_end_bound by (fastforce simp: next_receipt_sse_event_def)

text \<open>
  The state of the loop of \<open>receiptStreamDigest\<close>: the bytes written to the hash, the number
  of events, whether \<open>[DONE]\<close> and the receipt have been seen.
\<close>

record stream_state =
  st_hashed :: bytes
  st_events :: int
  st_done :: bool
  st_receipt :: bool

definition start_stream :: stream_state where
  "start_stream = \<lparr>st_hashed = [], st_events = 0, st_done = False, st_receipt = False\<rparr>"

definition stream_hash_error :: receipt_error where
  "stream_hash_error = ReceiptError ReceiptHash ''response stream hash''"

definition stream_event ::
    "string \<Rightarrow> object option \<Rightarrow> receipt_sse_event \<Rightarrow> stream_state \<Rightarrow> receipt_error + stream_state" where
  "stream_event kind expected ev st =
     (if st_done st then Inl position_error
      else if se_done ev then Inr (st\<lparr>st_done := True\<rparr>)
      else and_then (embedded_receipt (se_payload ev)) (\<lambda>embedded.
        case embedded of
          Some r \<Rightarrow>
            (if st_receipt st then Inl position_error
             else if \<not> (case expected of None \<Rightarrow> False | Some e \<Rightarrow> deep_equal (GMap r) (GMap e)) then Inl position_error
             else Inr (st\<lparr>st_receipt := True\<rparr>))
        | None \<Rightarrow>
            (if st_receipt st then Inl position_error
             else if kind = ''sse-data-v1'' then
               (if se_name ev \<noteq> [] then Inl stream_hash_error
                else Inr (st\<lparr>st_hashed := st_hashed st @ se_payload ev @ [LF], st_events := st_events st + 1\<rparr>))
             else if kind = ''sse-events-v1'' then
               Inr (st\<lparr>st_hashed := st_hashed st @ se_name ev @ [LF] @ se_payload ev @ [LF], st_events := st_events st + 1\<rparr>)
             else Inl stream_hash_error)))"

function stream_loop :: "string \<Rightarrow> object option \<Rightarrow> bytes \<Rightarrow> stream_state \<Rightarrow> receipt_error + stream_state" where
  "stream_loop kind expected data st =
     (if data = [] then Inr st
      else case next_receipt_sse_event data of
          None \<Rightarrow> Inl framing_error
        | Some (raw, rest) \<Rightarrow>
            (case decode_receipt_sse_event raw of
               Inl e \<Rightarrow> Inl e
             | Inr ev \<Rightarrow>
                 (case stream_event kind expected ev st of
                    Inl e \<Rightarrow> Inl e
                  | Inr st' \<Rightarrow> stream_loop kind expected rest st')))"
  by auto
termination
  by (relation "measure (\<lambda>(kind, expected, data, st). length data)") (auto dest: next_event_shrinks)

declare stream_loop.simps [simp del]

definition receipt_stream_digest ::
    "receipt_crypto \<Rightarrow> bytes \<Rightarrow> string \<Rightarrow> object option \<Rightarrow> receipt_error + bytes \<times> int" where
  "receipt_stream_digest crypto stream kind expected =
     and_then (stream_loop kind expected stream start_stream) (\<lambda>st.
     and_then (require (st_receipt st) position_error) (\<lambda>_.
     and_then (require (st_done st) position_error) (\<lambda>_.
     Inr (cr_sha256 crypto (st_hashed st), st_events st))))"

section \<open>Capture\<close>

record receipt_capture =
  cp_wire :: bytes
  cp_scanned :: nat
  cp_receipt :: "object option"

definition new_receipt_capture :: receipt_capture where
  "new_receipt_capture = \<lparr>cp_wire = [], cp_scanned = 0, cp_receipt = None\<rparr>"

function refresh_loop :: "bytes \<Rightarrow> nat \<times> object option \<Rightarrow> nat \<times> object option" where
  "refresh_loop data st =
     (if data = [] then st
      else case next_receipt_sse_event data of
          None \<Rightarrow> st
        | Some (raw, rest) \<Rightarrow>
            refresh_loop rest
              (fst st + (length data - length rest),
               (case decode_receipt_sse_event raw of
                  Inl e \<Rightarrow> snd st
                | Inr ev \<Rightarrow> (case embedded_receipt (se_payload ev) of
                      Inr (Some r) \<Rightarrow> Some r
                    | _ \<Rightarrow> snd st))))"
  by auto
termination
  by (relation "measure (\<lambda>(data, st). length data)") (auto dest: next_event_shrinks)

declare refresh_loop.simps [simp del]

definition refresh_receipt :: "receipt_capture \<Rightarrow> receipt_capture" where
  "refresh_receipt c =
     (let (scanned, receipt) = refresh_loop (drop (cp_scanned c) (cp_wire c)) (cp_scanned c, cp_receipt c)
      in c\<lparr>cp_scanned := scanned, cp_receipt := receipt\<rparr>)"

text \<open>\<open>Read\<close>: \<open>chunk\<close> is what the source returned.\<close>

definition capture_read :: "bytes \<Rightarrow> receipt_capture \<Rightarrow> receipt_capture" where
  "capture_read chunk c = (if chunk = [] then c else refresh_receipt (c\<lparr>cp_wire := cp_wire c @ chunk\<rparr>))"

end
