(* ===== verification/Attestation.thy ===== *)
theory Attestation
  imports Receipt_Jws Go_Error
begin

text \<open>
  The attestation checks of \<open>attestation.go\<close>: policies built from a trust release, the JWT
  and its RS256 key, and the claims.  SHA-256 and RSA are the crypto library's and are
  parameters; fetching a document is the environment's, its handling is modelled.
\<close>

section \<open>Policies\<close>

text \<open>An error by its message up to the first value it renders; a fetch may pass an error of the HTTP client on.\<close>

datatype attestation_error = AttestationError string | FetchError go_error

record attestation_policy =
  ap_gcp_audience :: string
  ap_expected_cert_sha256 :: string
  ap_expected_image_digest :: string
  ap_expected_image_digests :: "string list"
  ap_expected_image_reference :: string
  ap_expected_image_references :: "string list"
  ap_allow_debug :: bool

definition pins_image_identity :: "attestation_policy \<Rightarrow> bool" where
  "pins_image_identity p \<longleftrightarrow> ap_expected_image_digests p \<noteq> [] \<or> ap_expected_image_digest p \<noteq> [] \<or>
     ap_expected_image_references p \<noteq> [] \<or> ap_expected_image_reference p \<noteq> []"

text \<open>The members of a trust release the policy is built from.\<close>

record trust_release =
  tr_image_reference :: string
  tr_accepted_image_references :: "string list"
  tr_image_digest :: string
  tr_accepted_image_digests :: "string list"

definition default_attestation_audience :: string where
  "default_attestation_audience = ''quill-cloud''"

definition gcp_issuer :: string where
  "gcp_issuer = ''https://confidentialcomputing.googleapis.com''"

definition accepted_or_single :: "string list \<Rightarrow> string \<Rightarrow> string list" where
  "accepted_or_single accepted single = (if accepted = [] \<and> single \<noteq> [] then [single] else accepted)"

definition policy_from_trust_release :: "string \<Rightarrow> string \<Rightarrow> trust_release \<Rightarrow> attestation_error + attestation_policy" where
  "policy_from_trust_release audience cert_sha256 release =
     (let policy = \<lparr>ap_gcp_audience = (if audience = [] then default_attestation_audience else audience),
          ap_expected_cert_sha256 = cert_sha256,
          ap_expected_image_digest = tr_image_digest release,
          ap_expected_image_digests = accepted_or_single (tr_accepted_image_digests release) (tr_image_digest release),
          ap_expected_image_reference = tr_image_reference release,
          ap_expected_image_references = accepted_or_single (tr_accepted_image_references release) (tr_image_reference release),
          ap_allow_debug = False\<rparr>
      in if \<not> pins_image_identity policy then Inl (AttestationError ''trust release pins no image identity'')
         else Inr policy)"

definition attestation_url :: "string \<Rightarrow> string" where
  "attestation_url base = trim_suffix (trim_right (CHR ''/'') base) ''/v1'' @ ''/attestation''"

section \<open>The token\<close>

record attestation_crypto =
  ac_sha256 :: "bytes \<Rightarrow> bytes"
  ac_rsa_verify :: "nat \<Rightarrow> nat \<Rightarrow> bytes \<Rightarrow> bytes \<Rightarrow> bool" \<comment> \<open>modulus, exponent, digest, signature\<close>

definition b64url_decode :: "string \<Rightarrow> bytes option" where
  "b64url_decode segment = b64_decode_padded (segment @ replicate ((4 - length segment mod 4) mod 4) (CHR ''=''))"

definition decode_json_object :: "bytes \<Rightarrow> object option" where
  "decode_json_object data =
     (case decode_receipt_json data ''attestation JSON'' of Inr v \<Rightarrow> as_map v | Inl e \<Rightarrow> None)"

record jwt =
  jwt_header :: object
  jwt_payload :: object
  jwt_signing_input :: bytes
  jwt_signature :: bytes

definition jwt_encoding_error :: attestation_error where
  "jwt_encoding_error = AttestationError ''invalid JWT encoding''"

definition jwt_split :: "bytes \<Rightarrow> attestation_error + jwt" where
  "jwt_split token =
     (case split_on (CHR ''.'') (trim_space token) of
        [h, p, s] \<Rightarrow>
          and_then (from_option jwt_encoding_error (b64url_decode h)) (\<lambda>hb.
          and_then (from_option jwt_encoding_error (b64url_decode p)) (\<lambda>pb.
          and_then (from_option jwt_encoding_error (b64url_decode s)) (\<lambda>signature.
          and_then (from_option jwt_encoding_error (decode_json_object hb)) (\<lambda>header.
          and_then (from_option jwt_encoding_error (decode_json_object pb)) (\<lambda>payload.
          Inr \<lparr>jwt_header = header, jwt_payload = payload, jwt_signing_input = h @ ''.'' @ p, jwt_signature = signature\<rparr>)))))
      | _ \<Rightarrow> Inl (AttestationError ''expected 3 JWT segments''))"

fun all_maps :: "gvalue list \<Rightarrow> object list option" where
  "all_maps [] = Some []"
| "all_maps (v # vs) = (case (as_map v, all_maps vs) of (Some m, Some ms) \<Rightarrow> Some (m # ms) | _ \<Rightarrow> None)"

definition jwks_keys :: "object \<Rightarrow> object list option" where
  "jwks_keys jwks =
     (case obj_get jwks ''keys'' of
        GMaps ms \<Rightarrow> Some ms
      | GSlice vs \<Rightarrow> all_maps vs
      | _ \<Rightarrow> None)"

definition big_int :: "bytes \<Rightarrow> nat" where
  "big_int bs = foldl (\<lambda>n c. n * 256 + byte_val c) 0 bs"

definition malformed_jwk :: attestation_error where
  "malformed_jwk = AttestationError ''malformed JWK''"

definition rsa_key :: "object \<Rightarrow> attestation_error + nat \<times> nat" where
  "rsa_key jwk =
     and_then (require (obj_get jwk ''kty'' = GString ''RSA'') (AttestationError ''expected RSA key in JWKS'')) (\<lambda>_.
     and_then (from_option malformed_jwk (as_string (obj_get jwk ''n''))) (\<lambda>n.
     and_then (from_option malformed_jwk (as_string (obj_get jwk ''e''))) (\<lambda>e.
     and_then (from_option malformed_jwk (b64url_decode n)) (\<lambda>nb.
     and_then (from_option malformed_jwk (b64url_decode e)) (\<lambda>eb.
     and_then (require (0 < big_int eb \<and> big_int eb < 2 ^ 63) malformed_jwk) (\<lambda>_.
     Inr (big_int nb, big_int eb)))))))"

definition verify_rs256 :: "attestation_crypto \<Rightarrow> object \<Rightarrow> jwt \<Rightarrow> attestation_error + unit" where
  "verify_rs256 ac jwks t =
     and_then (require (obj_get (jwt_header t) ''alg'' = GString ''RS256'') (AttestationError ''unsupported JWT alg'')) (\<lambda>_.
     and_then (from_option (AttestationError ''JWT kid must be a non-empty string'') (as_string (obj_get (jwt_header t) ''kid''))) (\<lambda>kid.
     and_then (require (kid \<noteq> []) (AttestationError ''JWT kid must be a non-empty string'')) (\<lambda>_.
     and_then (from_option (AttestationError ''GCP JWKS'') (jwks_keys jwks)) (\<lambda>keys.
     and_then (from_option (AttestationError ''no JWK with kid'') (find (\<lambda>k. obj_get k ''kid'' = GString kid) keys)) (\<lambda>key.
     and_then (rsa_key key) (\<lambda>(n, e).
     require (ac_rsa_verify ac n e (ac_sha256 ac (jwt_signing_input t)) (jwt_signature t))
       (AttestationError ''JWT signature verification failed'')))))))"

text \<open>The answer to the fetch of a key set: status and body, \<open>None\<close> when it cannot be read.\<close>

definition jwks_of_response :: "int \<Rightarrow> bytes option \<Rightarrow> attestation_error + object" where
  "jwks_of_response status body =
     (if status < 200 \<or> 300 \<le> status then Inl (AttestationError ''JWKS fetch returned HTTP'')
      else and_then (from_option (AttestationError ''cannot read JWKS response'') body) (\<lambda>b.
        and_then (from_option (AttestationError ''JWKS response is not JSON'') (decode_json_object b)) (\<lambda>out.
        and_then (require (jwks_keys out \<noteq> None) (AttestationError ''GCP JWKS'')) (\<lambda>_. Inr out))))"

section \<open>Claims\<close>

definition valid_int64_float :: "float64 \<Rightarrow> bool" where
  "valid_int64_float f \<longleftrightarrow> (case f of
       Fin r \<Rightarrow> - (2 ^ 63) \<le> r \<and> r < 2 ^ 63 \<and> of_int (trunc_rat r) = r
     | _ \<Rightarrow> False)"

definition int_claim :: "gvalue \<Rightarrow> int option" where
  "int_claim v =
     (case v of
        GNumber n \<Rightarrow>
          (case parse_i64 n of
             Some i \<Rightarrow> Some i
           | None \<Rightarrow> (case parse_float n of
                 Some f \<Rightarrow> (if valid_int64_float f then f64_to_i64 f else None)
               | None \<Rightarrow> None))
      | GFloat f \<Rightarrow> (if valid_int64_float f then f64_to_i64 f else None)
      | GInt kind i \<Rightarrow> (if kind \<in> {KInt, KInt64, KInt32} then Some i else None)
      | _ \<Rightarrow> None)"

fun only_strings :: "gvalue list \<Rightarrow> string list" where
  "only_strings [] = []"
| "only_strings (v # vs) = (case v of GString s \<Rightarrow> s # only_strings vs | _ \<Rightarrow> only_strings vs)"

definition audience_list :: "gvalue \<Rightarrow> string list" where
  "audience_list v = (case v of
       GString s \<Rightarrow> [s]
     | GStrings ss \<Rightarrow> ss
     | GSlice vs \<Rightarrow> only_strings vs
     | _ \<Rightarrow> [])"

definition string_list_claim :: "gvalue \<Rightarrow> string list" where
  "string_list_claim v = (case v of
       GString s \<Rightarrow> (if s = [] then [] else [s])
     | GStrings ss \<Rightarrow> ss
     | GSlice vs \<Rightarrow> only_strings vs
     | _ \<Rightarrow> [])"

definition nonce_list :: "object \<Rightarrow> string list" where
  "nonce_list claims =
     (if string_list_claim (obj_get claims ''eat_nonce'') \<noteq> [] then string_list_claim (obj_get claims ''eat_nonce'')
      else string_list_claim (obj_get claims ''nonces''))"

definition hex_digit :: "nat \<Rightarrow> char" where
  "hex_digit n = (if n < 10 then char_of (48 + n) else char_of (87 + n))"

definition hex_encode :: "bytes \<Rightarrow> string" where
  "hex_encode bs = concat (map (\<lambda>c. [hex_digit (byte_val c div 16), hex_digit (byte_val c mod 16)]) bs)"

definition sha256_hex :: "attestation_crypto \<Rightarrow> bytes \<Rightarrow> string" where
  "sha256_hex ac data = hex_encode (ac_sha256 ac data)"

definition find_cert_in_nonces :: "attestation_crypto \<Rightarrow> string list \<Rightarrow> bytes option \<Rightarrow> string" where
  "find_cert_in_nonces ac nonces cert =
     (case cert of None \<Rightarrow> []
      | Some der \<Rightarrow> (case find (\<lambda>n. to_lower n = sha256_hex ac der) nonces of None \<Rightarrow> [] | Some n \<Rightarrow> to_lower n))"

definition contains_safe_string :: "string list \<Rightarrow> string \<Rightarrow> bool" where
  "contains_safe_string vs target \<longleftrightarrow> target \<noteq> [] \<and> target \<in> set vs"

definition contains_folded_safe_string :: "string list \<Rightarrow> string \<Rightarrow> bool" where
  "contains_folded_safe_string vs target \<longleftrightarrow> to_lower target \<in> set (map to_lower vs)"

datatype attestation_binding = Binding_Live_Channel | Binding_Receipt_Key

record gateway_attestation =
  ga_cert_sha256 :: string
  ga_image_digest :: string
  ga_image_reference :: string
  ga_nonce :: "string option"
  ga_expires_at :: int
  ga_issuer :: string
  ga_audience :: string
  ga_raw_claims :: object

definition hardware_models :: "string list" where
  "hardware_models = [''GCP_AMD_SEV'', ''GCP_AMD_SEV_ES'', ''GCP_INTEL_TDX'']"

definition policy_audience :: "attestation_policy \<Rightarrow> string" where
  "policy_audience p = (if ap_gcp_audience p = [] then default_attestation_audience else ap_gcp_audience p)"

text \<open>Expiry, issuer, debug status, software, secure boot, hardware, audience.\<close>

definition check_platform :: "int \<Rightarrow> object \<Rightarrow> attestation_policy \<Rightarrow> attestation_error + int" where
  "check_platform now claims policy =
     and_then (from_option (AttestationError ''JWT is missing a valid expiration'') (int_claim (obj_get claims ''exp''))) (\<lambda>exp.
     and_then (require (now < exp) (AttestationError ''JWT expired at'')) (\<lambda>_.
     and_then (require (string_or_empty (obj_get claims ''iss'') = gcp_issuer) (AttestationError ''unexpected issuer'')) (\<lambda>_.
     and_then (require (ap_allow_debug policy \<or> equal_fold (string_or_empty (obj_get claims ''dbgstat'')) ''disabled-since-boot'')
        (AttestationError ''debug Confidential Space workload must report disabled-since-boot'')) (\<lambda>_.
     and_then (require (string_or_empty (obj_get claims ''swname'') = ''CONFIDENTIAL_SPACE'')
        (AttestationError ''attested workload is not running Confidential Space'')) (\<lambda>_.
     and_then (require (obj_get claims ''secboot'' = GBool True)
        (AttestationError ''attested workload does not report Secure Boot'')) (\<lambda>_.
     and_then (require (string_or_empty (obj_get claims ''hwmodel'') \<in> set hardware_models)
        (AttestationError ''unsupported confidential hardware model'')) (\<lambda>_.
     and_then (require (policy_audience policy \<in> set (audience_list (obj_get claims ''aud''))) (AttestationError ''audience'')) (\<lambda>_.
     Inr exp))))))))"

definition image_claim :: "object \<Rightarrow> string \<Rightarrow> string" where
  "image_claim claims name =
     string_or_empty (obj_get (map_or_empty (obj_get (map_or_empty (obj_get claims ''submods'')) ''container'')) name)"

definition check_image :: "object \<Rightarrow> attestation_policy \<Rightarrow> attestation_error + string \<times> string" where
  "check_image claims policy =
     (let digest = image_claim claims ''image_digest''; reference = image_claim claims ''image_reference'';
          digests = accepted_or_single (ap_expected_image_digests policy) (ap_expected_image_digest policy);
          references = accepted_or_single (ap_expected_image_references policy) (ap_expected_image_reference policy)
      in and_then (require (pins_image_identity policy) (AttestationError ''attestation policy pins no image identity'')) (\<lambda>_.
         and_then (require (digests = [] \<or> contains_safe_string digests digest) (AttestationError ''image_digest mismatch'')) (\<lambda>_.
         and_then (require (references = [] \<or> contains_safe_string references reference) (AttestationError ''image_reference mismatch'')) (\<lambda>_.
         Inr (digest, reference)))))"

text \<open>An empty caller nonce or exporter means none.\<close>

definition check_live_nonces :: "string list \<Rightarrow> string \<Rightarrow> bytes \<Rightarrow> attestation_error + string option" where
  "check_live_nonces nonces nonce_hex exporter =
     and_then (require (exporter = [] \<or> nonce_hex \<noteq> []) (AttestationError ''fresh nonce required with exporter binding'')) (\<lambda>_.
     and_then (require (nonce_hex = [] \<or> nonce_hex \<in> set nonces) (AttestationError ''nonce'')) (\<lambda>_.
     and_then (require (exporter = [] \<or> hex_encode exporter \<in> set nonces) (AttestationError ''TLS exporter'')) (\<lambda>_.
     and_then (require (exporter = [] \<or> nonce_hex \<noteq> hex_encode exporter)
        (AttestationError ''fresh nonce must be distinct from TLS exporter for G6 relay closure'')) (\<lambda>_.
     Inr (if nonce_hex = [] then None else Some nonce_hex)))))"

definition committed_cert :: "attestation_crypto \<Rightarrow> object \<Rightarrow> bytes option \<Rightarrow> string" where
  "committed_cert ac claims cert =
     (let c1 = string_or_empty (obj_get claims ''tls_cert_sha256'');
          c2 = (if c1 = [] then string_or_empty (obj_get claims ''workload_tls_cert_sha256'') else c1)
      in if c2 = [] then find_cert_in_nonces ac (nonce_list claims) cert else c2)"

definition check_live_cert ::
    "attestation_crypto \<Rightarrow> object \<Rightarrow> attestation_policy \<Rightarrow> bytes option \<Rightarrow> attestation_error + string" where
  "check_live_cert ac claims policy cert =
     (let committed = committed_cert ac claims cert; sha = to_lower committed in
      and_then (require (length committed = 64) (AttestationError ''JWT does not commit to a TLS cert SHA-256'')) (\<lambda>_.
      and_then (require (case cert of None \<Rightarrow> True | Some der \<Rightarrow> sha256_hex ac der = sha) (AttestationError ''TLS cert mismatch'')) (\<lambda>_.
      and_then (require (ap_expected_cert_sha256 policy = [] \<or> sha = to_lower (ap_expected_cert_sha256 policy))
         (AttestationError ''JWT-committed cert SHA-256'')) (\<lambda>_.
      Inr sha))))"

definition check_attestation_claims ::
    "attestation_crypto \<Rightarrow> int \<Rightarrow> object \<Rightarrow> attestation_policy \<Rightarrow> string \<Rightarrow> bytes option \<Rightarrow> bytes \<Rightarrow> attestation_binding
     \<Rightarrow> attestation_error + gateway_attestation" where
  "check_attestation_claims ac now claims policy nonce_hex cert exporter mode =
     and_then (check_platform now claims policy) (\<lambda>exp.
     and_then (check_image claims policy) (\<lambda>(digest, reference).
     and_then (case mode of
         Binding_Receipt_Key \<Rightarrow>
           and_then (require (contains_folded_safe_string (string_list_claim (obj_get claims ''eat_nonce'')) nonce_hex)
             (AttestationError ''nonce'')) (\<lambda>_. Inr (Some nonce_hex))
       | Binding_Live_Channel \<Rightarrow> check_live_nonces (nonce_list claims) nonce_hex exporter) (\<lambda>nonce.
     and_then (case mode of
         Binding_Receipt_Key \<Rightarrow> Inr []
       | Binding_Live_Channel \<Rightarrow> check_live_cert ac claims policy cert) (\<lambda>sha.
     Inr \<lparr>ga_cert_sha256 = sha, ga_image_digest = digest, ga_image_reference = reference, ga_nonce = nonce,
          ga_expires_at = exp, ga_issuer = gcp_issuer, ga_audience = policy_audience policy, ga_raw_claims = claims\<rparr>))))"

section \<open>Verification\<close>

definition verified_claims :: "attestation_crypto \<Rightarrow> bytes \<Rightarrow> attestation_error + object \<Rightarrow> attestation_error + object" where
  "verified_claims ac document jwks =
     and_then (jwt_split document) (\<lambda>t.
     and_then jwks (\<lambda>keys.
     and_then (verify_rs256 ac keys t) (\<lambda>_.
     Inr (jwt_payload t))))"

definition verify_gateway_attestation ::
    "attestation_crypto \<Rightarrow> int \<Rightarrow> bytes \<Rightarrow> attestation_error + object \<Rightarrow> attestation_policy \<Rightarrow> string \<Rightarrow> bytes option \<Rightarrow> bytes
     \<Rightarrow> attestation_error + gateway_attestation" where
  "verify_gateway_attestation ac now document jwks policy nonce_hex cert exporter =
     and_then (verified_claims ac document jwks) (\<lambda>claims.
     check_attestation_claims ac now claims policy nonce_hex cert exporter Binding_Live_Channel)"

definition verify_receipt_key_attestation ::
    "attestation_crypto \<Rightarrow> int \<Rightarrow> bytes \<Rightarrow> attestation_error + object \<Rightarrow> attestation_policy \<Rightarrow> string
     \<Rightarrow> attestation_error + unit" where
  "verify_receipt_key_attestation ac now document jwks policy commitment_hex =
     and_then (verified_claims ac document jwks) (\<lambda>claims.
     and_then (check_attestation_claims ac now claims policy commitment_hex None [] Binding_Receipt_Key) (\<lambda>_. Inr ()))"

end
