(* ===== verification/Receipt_Verify.thy ===== *)
theory Receipt_Verify
  imports Receipt_Stream Attestation Go_Url
begin

text \<open>
  \<open>VerifyReceipt\<close> of \<open>receipts.go\<close>: the pinned issuer origin, the claims and their bindings to
  the caller's exact bytes, and the attestation of the signing key.  Each group of checks of
  the function is one definition; the function is their composition in the code's order.
\<close>

section \<open>Origins\<close>

function contains_space :: "string \<Rightarrow> bool" where
  "contains_space s =
     (if s = [] then False
      else is_space_rune (fst (decode_rune s)) \<or> contains_space (drop (snd (decode_rune s)) s))"
  by auto
termination
  by (relation "measure length") (use decode_rune_width_pos in \<open>auto simp: neq_Nil_conv\<close>)

declare contains_space.simps [simp del]

definition port_ok :: "string \<Rightarrow> bool" where
  "port_ok p \<longleftrightarrow> list_all is_digit p \<and> foldl (\<lambda>n c. n * 10 + digit_val c) 0 p \<le> 65535"

definition bare_origin :: "url \<Rightarrow> bool" where
  "bare_origin u \<longleftrightarrow> url_opaque u = [] \<and> url_host u \<noteq> [] \<and> url_user u = None \<and> (url_path u = [] \<or> url_path u = ''/'') \<and>
     url_raw_query u = [] \<and> \<not> url_force_query u \<and> url_fragment u = [] \<and> url_raw_fragment u = []"

definition canonical_receipt_https_origin :: "string \<Rightarrow> string \<Rightarrow> receipt_error + string" where
  "canonical_receipt_https_origin v check =
     (let e = ReceiptError ReceiptIssuer check in
      if v = [] then Inl e
      else case url_parse v of
          None \<Rightarrow> Inl e
        | Some u \<Rightarrow>
            (if \<not> equal_fold (url_scheme u) ''https'' then Inl e
             else if \<not> bare_origin u then Inl e
             else let host = to_lower (url_hostname u); port = url_port u in
               if host = [] \<or> contains_space host then Inl e
               else if port \<noteq> [] \<and> \<not> port_ok port then Inl e
               else let bracketed = (if CHR '':'' \<in> set host then ''['' @ host @ '']'' else host);
                        canonical = ''https://'' @ bracketed @ (if port \<noteq> [] \<and> port \<noteq> ''443'' then '':'' @ port else []);
                        normalised = to_lower (trim_suffix v ''/'')
                    in if (if port = ''443'' then normalised = canonical @ '':443'' else normalised = canonical)
                       then Inr canonical else Inl e))"

section \<open>Options and claims\<close>

text \<open>\<open>None\<close> is a nil slice or pointer.\<close>

record verify_receipt_options =
  vo_request_body :: "bytes option"
  vo_response_body :: "bytes option"
  vo_response_stream :: "bytes option"
  vo_attestation :: "bytes option"
  vo_expected_nonce :: "string option"
  vo_max_age_seconds :: "float64 option"
  vo_now :: "float64 option"
  vo_require_attestation :: "bool option"
  vo_require_bindings :: "bool option"

record receipt_hash_claims =
  hc_alg :: string
  hc_hash :: string
  hc_of :: string
  hc_events :: "int option"

record receipt_model_claims =
  mc_requested :: string
  mc_selected :: string
  mc_provider :: string
  mc_endpoint :: string

record receipt_upstream_claims =
  uc_tier :: string
  uc_policy :: string
  uc_verified_at :: "int option"
  uc_expires_at :: "int option"
  uc_cert_sha256 :: string

record receipt_claims =
  rc_rv :: int
  rc_issuer :: string
  rc_issued_at :: int
  rc_jti :: string
  rc_generation_id :: string
  rc_nonce :: string
  rc_route :: string
  rc_request :: receipt_hash_claims
  rc_response :: receipt_hash_claims
  rc_model :: receipt_model_claims
  rc_upstream :: receipt_upstream_claims
  rc_attestation_sha256 :: string
  rc_attestation_status :: string

text \<open>What the verification reads from outside: clocks, the trust release, the key set, cryptography.\<close>

record receipt_env =
  ev_wall_ns :: int
  ev_unix :: int
  ev_release :: "attestation_error + trust_release"
  ev_jwks :: "attestation_error + object"
  ev_crypto :: receipt_crypto
  ev_rsa_verify :: "nat \<Rightarrow> nat \<Rightarrow> bytes \<Rightarrow> bytes \<Rightarrow> bool"

definition require_receipt_traffic_bindings :: "verify_receipt_options \<Rightarrow> receipt_error + unit" where
  "require_receipt_traffic_bindings opts =
     (if vo_require_bindings opts = Some False then Inr ()
      else require (vo_request_body opts \<noteq> None \<and> (vo_response_body opts \<noteq> None \<or> vo_response_stream opts \<noteq> None))
        (ReceiptError MissingBinding ''receipt binding''))"

section \<open>Groups of checks\<close>

definition check_receipt_version :: "object \<Rightarrow> receipt_error + int" where
  "check_receipt_version p =
     (case receipt_integer (obj_get p ''rv'') of
        Some i \<Rightarrow> (if i = 1 then Inr i else Inl (ReceiptError ReceiptClaimsError ''rv claim''))
      | None \<Rightarrow> Inl (ReceiptError ReceiptClaimsError ''rv claim''))"

definition check_receipt_issuer :: "object \<Rightarrow> string \<Rightarrow> receipt_error + string" where
  "check_receipt_issuer p canonical_expected =
     and_then (required_receipt_string p ''iss'' ''claims'') (\<lambda>issuer.
     and_then (canonical_receipt_https_origin issuer ''iss claim'') (\<lambda>canonical.
     and_then (require (canonical = canonical_expected) (ReceiptError ReceiptIssuer ''iss claim'')) (\<lambda>_.
     Inr issuer)))"

definition receipt_now :: "receipt_env \<Rightarrow> verify_receipt_options \<Rightarrow> receipt_error + float64" where
  "receipt_now env opts =
     (case vo_now opts of
        None \<Rightarrow> Inr (fdiv_const (i64_to_f64 (ev_wall_ns env)) 1000000000)
      | Some now \<Rightarrow> (if is_nan now \<or> is_inf now then Inl (ReceiptError ReceiptTime ''iat'') else Inr now))"

definition check_receipt_time :: "receipt_env \<Rightarrow> verify_receipt_options \<Rightarrow> object \<Rightarrow> receipt_error + int" where
  "check_receipt_time env opts p =
     and_then (from_option (ReceiptError ReceiptTime ''iat claim'') (receipt_integer (obj_get p ''iat''))) (\<lambda>iat.
     and_then (receipt_now env opts) (\<lambda>now.
     and_then (require (\<not> flt (fadd now (Fin 60)) (i64_to_f64 iat)) (ReceiptError ReceiptTime ''iat future-skew'')) (\<lambda>_.
     and_then (case vo_max_age_seconds opts of
         None \<Rightarrow> Inr ()
       | Some age \<Rightarrow> require (\<not> (flt age (Fin 0) \<or> is_nan age \<or> is_inf age) \<and> \<not> flt age (fsub now (i64_to_f64 iat)))
           (ReceiptError ReceiptTime ''iat max-age'')) (\<lambda>_.
     Inr iat))))"

definition nonce_pattern_ok :: "string \<Rightarrow> bool" where
  "nonce_pattern_ok s \<longleftrightarrow> 1 \<le> length s \<and> length s \<le> 88 \<and> list_all b64url_byte s"

definition check_receipt_nonce :: "verify_receipt_options \<Rightarrow> object \<Rightarrow> receipt_error + string" where
  "check_receipt_nonce opts p =
     and_then (require (\<not> obj_has p ''nonce'' \<or>
          (case obj_get p ''nonce'' of GString s \<Rightarrow> nonce_pattern_ok s | _ \<Rightarrow> False))
        (ReceiptError ReceiptNonce ''nonce claim'')) (\<lambda>_.
     and_then (require (case vo_expected_nonce opts of None \<Rightarrow> True | Some e \<Rightarrow> obj_get p ''nonce'' = GString e)
        (ReceiptError ReceiptNonce ''nonce match'')) (\<lambda>_.
     Inr (string_or_empty (obj_get p ''nonce''))))"

text \<open>The upstream object, its tier and the verification window.\<close>

definition check_receipt_upstream :: "object \<Rightarrow> int \<Rightarrow> receipt_error + object \<times> string \<times> (int \<times> int) option" where
  "check_receipt_upstream p iat =
     and_then (required_receipt_map p ''upstream'' ReceiptUpstream) (\<lambda>up.
     let tier = string_or_empty (obj_get up ''tier'') in
     if tier = ''tee-verified'' then
       and_then (from_option (ReceiptError ReceiptUpstream ''upstream.verified_at'') (receipt_integer (obj_get up ''verified_at''))) (\<lambda>verified.
       and_then (from_option (ReceiptError ReceiptUpstream ''upstream.verification_expires_at'')
          (receipt_integer (obj_get up ''verification_expires_at''))) (\<lambda>expires.
       and_then (require (verified \<le> iat \<and> iat < expires) (ReceiptError ReceiptUpstream ''tee-verified window'')) (\<lambda>_.
       Inr (up, tier, Some (verified, expires)))))
     else if tier = ''tls-webpki'' then Inr (up, tier, None)
     else Inl (ReceiptError ReceiptUpstream ''upstream.tier''))"

definition hash_error :: "string \<Rightarrow> receipt_error" where
  "hash_error check = ReceiptError ReceiptHash check"

definition parse_receipt_digest_claim :: "object \<Rightarrow> string \<Rightarrow> bool \<Rightarrow> receipt_error + receipt_hash_claims \<times> bytes" where
  "parse_receipt_digest_claim record name response =
     and_then (require (string_or_empty (obj_get record ''alg'') = ''sha256'') (hash_error (name @ ''.alg''))) (\<lambda>_.
     and_then (from_option (hash_error (name @ ''.hash'')) (as_string (obj_get record ''hash''))) (\<lambda>hash.
     and_then (change_error (\<lambda>e. hash_error (re_check e)) (receipt_b64url_decode hash (name @ ''.hash''))) (\<lambda>digest.
     and_then (require (length digest = 32) (hash_error (name @ ''.hash''))) (\<lambda>_.
     let of_kind = string_or_empty (obj_get record ''of'') in
     and_then (require (of_kind = ''body'' \<or> (response \<and> (of_kind = ''sse-data-v1'' \<or> of_kind = ''sse-events-v1'')))
        (hash_error (name @ ''.of''))) (\<lambda>_.
     and_then (if response \<and> of_kind \<noteq> ''body'' then
          (case receipt_integer (obj_get record ''events'') of
             Some n \<Rightarrow> (if n < 0 then Inl (hash_error (name @ ''.events'')) else Inr (Some n))
           | None \<Rightarrow> Inl (hash_error (name @ ''.events'')))
        else if obj_get record ''events'' \<noteq> GNil then Inl (hash_error (name @ ''.events''))
        else Inr None) (\<lambda>events.
     Inr (\<lparr>hc_alg = ''sha256'', hc_hash = hash, hc_of = of_kind, hc_events = events\<rparr>, digest)))))))"

definition check_receipt_request :: "receipt_crypto \<Rightarrow> verify_receipt_options \<Rightarrow> object \<Rightarrow> receipt_error + receipt_hash_claims" where
  "check_receipt_request crypto opts p =
     and_then (required_receipt_map p ''req'' ReceiptHash) (\<lambda>raw.
     and_then (parse_receipt_digest_claim raw ''req'' False) (\<lambda>(req, digest).
     and_then (require (case vo_request_body opts of None \<Rightarrow> True | Some body \<Rightarrow> cr_sha256 crypto body = digest)
        (hash_error ''request body hash'')) (\<lambda>_.
     Inr req)))"

definition check_receipt_stream ::
    "receipt_crypto \<Rightarrow> receipt_hash_claims \<Rightarrow> bytes \<Rightarrow> object option \<Rightarrow> bytes \<Rightarrow> receipt_error + unit" where
  "check_receipt_stream crypto resp digest flattened stream =
     and_then (require (hc_of resp = ''sse-data-v1'' \<or> hc_of resp = ''sse-events-v1'') (hash_error ''response stream hash'')) (\<lambda>_.
     and_then (receipt_stream_digest crypto stream (hc_of resp) flattened) (\<lambda>(actual, events).
     and_then (require (actual = digest) (hash_error ''response stream hash'')) (\<lambda>_.
     require (hc_events resp = Some events) (hash_error ''response stream events''))))"

definition check_receipt_response ::
    "receipt_crypto \<Rightarrow> verify_receipt_options \<Rightarrow> object option \<Rightarrow> object \<Rightarrow> receipt_error + receipt_hash_claims" where
  "check_receipt_response crypto opts flattened p =
     and_then (required_receipt_map p ''resp'' ReceiptHash) (\<lambda>raw.
     and_then (parse_receipt_digest_claim raw ''resp'' True) (\<lambda>(resp, digest).
     and_then (require (vo_response_body opts = None \<or> vo_response_stream opts = None) (hash_error ''response hash'')) (\<lambda>_.
     and_then (case vo_response_body opts of
         Some body \<Rightarrow>
           and_then (require (hc_of resp = ''body'') (hash_error ''response body hash'')) (\<lambda>_.
           require (cr_sha256 crypto body = digest) (hash_error ''response body hash''))
       | None \<Rightarrow>
           (case vo_response_stream opts of
              Some stream \<Rightarrow> check_receipt_stream crypto resp digest flattened stream
            | None \<Rightarrow> Inr ())) (\<lambda>_.
     Inr resp))))"

definition check_receipt_model :: "object \<Rightarrow> receipt_error + receipt_model_claims" where
  "check_receipt_model p =
     and_then (required_receipt_map p ''model'' ReceiptClaimsError) (\<lambda>m.
     and_then (required_receipt_string m ''requested'' ''model'') (\<lambda>requested.
     and_then (required_receipt_string m ''selected'' ''model'') (\<lambda>selected.
     and_then (required_receipt_string m ''provider'' ''model'') (\<lambda>provider.
     and_then (required_receipt_string m ''endpoint'' ''model'') (\<lambda>endpoint.
     Inr \<lparr>mc_requested = requested, mc_selected = selected, mc_provider = provider, mc_endpoint = endpoint\<rparr>)))))"

definition check_receipt_route :: "object \<Rightarrow> receipt_error + string" where
  "check_receipt_route p =
     and_then (required_receipt_string p ''route'' ''claims'') (\<lambda>route.
     and_then (require (route = ''chat.completions'' \<or> route = ''responses'') (ReceiptError ReceiptClaimsError ''route claim'')) (\<lambda>_.
     Inr route))"

definition check_receipt_pin :: "bool \<Rightarrow> object \<Rightarrow> receipt_error + string" where
  "check_receipt_pin flattened p =
     and_then (optional_receipt_string p ''att_sha256'' ''claims'') (\<lambda>pin.
     and_then (if pin = [] then Inr ()
        else and_then (change_error (\<lambda>e. ReceiptError ReceiptClaimsError (re_check e)) (receipt_b64url_decode pin ''att_sha256 claim''))
          (\<lambda>digest. require (length digest = 32) (ReceiptError ReceiptClaimsError ''att_sha256 claim''))) (\<lambda>_.
     and_then (require (flattened \<or> pin \<noteq> []) (ReceiptError ReceiptClaimsError ''att_sha256 claim'')) (\<lambda>_.
     Inr pin)))"

section \<open>Attestation of the signing key\<close>

definition receipt_attestation_verified :: string where "receipt_attestation_verified = ''verified''"
definition receipt_attestation_unverified :: string where "receipt_attestation_unverified = ''unverified_by_this_sdk''"

definition receipt_key_commitment_domain :: bytes where
  "receipt_key_commitment_domain = ''inference-receipt-key-v1'' @ [CHR 0x00]"

definition attestation_failure :: "string \<Rightarrow> receipt_error" where
  "attestation_failure check = ReceiptError ReceiptAttestation check"

text \<open>\<open>Inr None\<close>: explicitly not verified.\<close>

definition compact_attestation ::
    "receipt_crypto \<Rightarrow> bytes option \<Rightarrow> string \<Rightarrow> bool \<Rightarrow> receipt_error + bytes option" where
  "compact_attestation crypto supplied pin required =
     (case supplied of
        None \<Rightarrow> (if required then Inl (ReceiptError MissingAttestation ''attestation'') else Inr None)
      | Some doc \<Rightarrow>
          and_then (require (pin \<noteq> []) (ReceiptError MissingAttestation ''attestation'')) (\<lambda>_.
          and_then (change_error (\<lambda>e. attestation_failure (re_check e)) (receipt_b64url_decode pin ''att_sha256 claim'')) (\<lambda>digest.
          and_then (require (cr_sha256 crypto doc = digest) (attestation_failure ''att_sha256'')) (\<lambda>_.
          Inr (Some doc)))))"

definition flattened_attestation :: "object \<Rightarrow> bytes option \<Rightarrow> receipt_error + bytes option" where
  "flattened_attestation header supplied =
     (let kind = obj_get header ''att_kind'' in
      if kind = GString ''aws-nitro-cose'' \<or> kind = GString ''azure-maa-jwt''
      then Inl (ReceiptError UnsupportedAttestation ''attestation kind'')
      else if kind = GNil then Inl (ReceiptError MissingAttestation ''attestation'')
      else if kind \<noteq> GString ''gcp-cs-jwt'' then Inl (ReceiptError UnsupportedAttestation ''attestation kind'')
      else case obj_get header ''att'' of
          GString doc \<Rightarrow>
            (if doc = [] then Inl (ReceiptError MissingAttestation ''attestation'')
             else if supplied \<noteq> None \<and> supplied \<noteq> Some doc then Inl (attestation_failure ''attestation'')
             else Inr (Some doc))
        | _ \<Rightarrow> Inl (ReceiptError MissingAttestation ''attestation''))"

definition env_attestation_crypto :: "receipt_env \<Rightarrow> attestation_crypto" where
  "env_attestation_crypto env = \<lparr>ac_sha256 = cr_sha256 (ev_crypto env), ac_rsa_verify = ev_rsa_verify env\<rparr>"

definition receipt_key_commitment :: "receipt_crypto \<Rightarrow> bytes \<Rightarrow> string" where
  "receipt_key_commitment crypto key = hex_encode (cr_sha256 crypto (receipt_key_commitment_domain @ key))"

definition verify_key_document :: "receipt_env \<Rightarrow> bytes \<Rightarrow> bytes \<Rightarrow> attestation_error + unit" where
  "verify_key_document env key doc =
     and_then (ev_release env) (\<lambda>release.
     and_then (policy_from_trust_release [] [] release) (\<lambda>policy.
     verify_receipt_key_attestation (env_attestation_crypto env) (ev_unix env) doc (ev_jwks env) policy
       (receipt_key_commitment (ev_crypto env) key)))"

definition verify_receipt_attestation ::
    "receipt_env \<Rightarrow> bool \<Rightarrow> object \<Rightarrow> bytes \<Rightarrow> bytes option \<Rightarrow> string \<Rightarrow> bool \<Rightarrow> receipt_error + string" where
  "verify_receipt_attestation env flattened header key supplied pin required =
     and_then (if flattened then flattened_attestation header supplied
               else compact_attestation (ev_crypto env) supplied pin required) (\<lambda>doc.
     case doc of
       None \<Rightarrow> Inr receipt_attestation_unverified
     | Some d \<Rightarrow>
         and_then (change_error (\<lambda>_. attestation_failure ''GCP attestation'') (verify_key_document env key d)) (\<lambda>_.
         Inr receipt_attestation_verified))"

section \<open>The verification\<close>

definition verify_receipt ::
    "receipt_env \<Rightarrow> receipt_input \<Rightarrow> string \<Rightarrow> verify_receipt_options \<Rightarrow> receipt_error + receipt_claims" where
  "verify_receipt env receipt expected_issuer opts =
     and_then (require_receipt_traffic_bindings opts) (\<lambda>_.
     and_then (canonical_receipt_https_origin expected_issuer ''expected_issuer'') (\<lambda>expected.
     and_then (parse_receipt_envelope receipt) (\<lambda>en.
     and_then (parse_receipt_header (ev_crypto env) en) (\<lambda>(header, key).
     and_then (verify_receipt_signature (ev_crypto env) en key) (\<lambda>payload.
     and_then (decode_receipt_json payload ''receipt claims'') (\<lambda>decoded.
     and_then (from_option (ReceiptError ReceiptClaimsError ''rv claim'') (as_map decoded)) (\<lambda>p.
     and_then (check_receipt_version p) (\<lambda>rv.
     and_then (check_receipt_issuer p expected) (\<lambda>issuer.
     and_then (check_receipt_time env opts p) (\<lambda>iat.
     and_then (check_receipt_nonce opts p) (\<lambda>nonce.
     and_then (check_receipt_upstream p iat) (\<lambda>(up, tier, window).
     and_then (check_receipt_request (ev_crypto env) opts p) (\<lambda>req.
     and_then (check_receipt_response (ev_crypto env) opts (en_flattened_json en) p) (\<lambda>resp.
     and_then (required_receipt_string p ''jti'' ''claims'') (\<lambda>jti.
     and_then (optional_receipt_string p ''gen'' ''claims'') (\<lambda>gen.
     and_then (check_receipt_route p) (\<lambda>route.
     and_then (check_receipt_model p) (\<lambda>model.
     and_then (optional_receipt_string up ''policy'' ''upstream'') (\<lambda>policy.
     and_then (require (tier \<noteq> ''tee-verified'' \<or> policy \<noteq> []) (ReceiptError ReceiptUpstream ''upstream.policy'')) (\<lambda>_.
     and_then (optional_receipt_string up ''cert_sha256'' ''upstream'') (\<lambda>cert.
     and_then (check_receipt_pin (en_flattened en) p) (\<lambda>pin.
     and_then (verify_receipt_attestation env (en_flattened en) header key (vo_attestation opts) pin
        (vo_require_attestation opts \<noteq> Some False)) (\<lambda>status.
     Inr \<lparr>rc_rv = rv, rc_issuer = issuer, rc_issued_at = iat, rc_jti = jti, rc_generation_id = gen, rc_nonce = nonce,
       rc_route = route, rc_request = req, rc_response = resp, rc_model = model,
       rc_upstream = \<lparr>uc_tier = tier, uc_policy = policy, uc_verified_at = map_option fst window,
         uc_expires_at = map_option snd window, uc_cert_sha256 = cert\<rparr>,
       rc_attestation_sha256 = pin, rc_attestation_status = status\<rparr>)))))))))))))))))))))))"

text \<open>\<open>ReceiptCapture.Verify\<close> of a capture that is not nil.\<close>

definition capture_verify ::
    "receipt_env \<Rightarrow> receipt_capture \<Rightarrow> string \<Rightarrow> verify_receipt_options \<Rightarrow> receipt_error + receipt_claims" where
  "capture_verify env c expected_issuer opts =
     (let c1 = (if cp_receipt c = None then refresh_receipt c else c) in
      case cp_receipt c1 of
        None \<Rightarrow> Inl (ReceiptError ReceiptStructure ''receipt capture'')
      | Some r \<Rightarrow>
          (if vo_response_stream opts \<noteq> None
           then Inl (hash_error ''ReceiptCapture.Verify supplies ResponseStream from captured bytes'')
           else verify_receipt env (ReceiptMap (Some r)) expected_issuer
             (opts\<lparr>vo_response_stream := (if cp_wire c1 = [] then None else Some (cp_wire c1))\<rparr>)))"

end
