(* ===== verification/Receipt_Stream_Facts.thy ===== *)
theory Receipt_Stream_Facts
  imports Receipt_Stream
begin

text \<open>
  What the streamed half of a receipt promises: an accepted stream is cut without remainder
  into events, all of which are hashed but the receipt and the final marker; the hashed
  bytes determine the events; and capturing does not depend on how the source splits its
  bytes.
\<close>

section \<open>The stream as a list of events\<close>

text \<open>The specification: a stream is a sequence of framed events, each with its raw bytes.\<close>

inductive framed :: "bytes \<Rightarrow> (bytes \<times> receipt_sse_event) list \<Rightarrow> bool" where
  framed_Nil: "framed [] []"
| framed_Cons: "next_receipt_sse_event data = Some (raw, rest) \<Longrightarrow> decode_receipt_sse_event raw = Inr ev \<Longrightarrow>
    framed rest fs \<Longrightarrow> framed data ((raw, ev) # fs)"

inductive_cases framed_NilE: "framed data []"
inductive_cases framed_ConsE: "framed data (f # fs)"

lemma next_event_parts: "next_receipt_sse_event data = Some (raw, rest) \<Longrightarrow> raw @ rest = data"
  by (auto simp: next_receipt_sse_event_def)

lemma framed_concat: "framed data fs \<Longrightarrow> concat (map fst fs) = data"
  by (induction rule: framed.induct) (auto dest: next_event_parts)

fun run_events ::
    "string \<Rightarrow> object option \<Rightarrow> receipt_sse_event list \<Rightarrow> stream_state \<Rightarrow> receipt_error + stream_state" where
  "run_events kind expected [] st = Inr st"
| "run_events kind expected (ev # evs) st = and_then (stream_event kind expected ev st) (run_events kind expected evs)"

lemma next_event_empty: "next_receipt_sse_event [] = None"
  by (simp add: next_receipt_sse_event_def receipt_event_end_def sep_lf_def sep_crlf_def)

lemma stream_loop_iff:
  "stream_loop kind expected data st = Inr st' \<longleftrightarrow>
   (\<exists>fs. framed data fs \<and> run_events kind expected (map snd fs) st = Inr st')"
proof (induction kind expected data st rule: stream_loop.induct)
  case (1 kind expected data st)
  show ?case
  proof (cases "data = []")
    case True
    have "fs = []" if "framed [] fs" for fs using that by (cases rule: framed.cases) (auto simp: next_event_empty)
    then show ?thesis using True framed_Nil by (force simp: stream_loop.simps)
  next
    case False
    show ?thesis
    proof
      assume l: "stream_loop kind expected data st = Inr st'"
      then obtain raw rest ev st1 where n: "next_receipt_sse_event data = Some (raw, rest)"
        "decode_receipt_sse_event raw = Inr ev" "stream_event kind expected ev st = Inr st1"
        "stream_loop kind expected rest st1 = Inr st'"
        using False by (subst (asm) stream_loop.simps) (auto split: option.splits sum.splits)
      with "1.IH" [OF False n(1) refl n(2,3)] obtain fs where "framed rest fs" "run_events kind expected (map snd fs) st1 = Inr st'"
        by auto
      with n show "\<exists>fs. framed data fs \<and> run_events kind expected (map snd fs) st = Inr st'"
        by (intro exI [of _ "(raw, ev) # fs"]) (auto intro: framed_Cons)
    next
      assume "\<exists>fs. framed data fs \<and> run_events kind expected (map snd fs) st = Inr st'"
      then obtain fs where fs: "framed data fs" "run_events kind expected (map snd fs) st = Inr st'" by blast
      from fs(1) False show "stream_loop kind expected data st = Inr st'"
      proof (cases rule: framed.cases)
        case (framed_Cons raw rest ev fs')
        then obtain st1 where st1: "stream_event kind expected ev st = Inr st1"
          "run_events kind expected (map snd fs') st1 = Inr st'"
          using fs(2) by (auto simp: check_iff)
        then have "stream_loop kind expected rest st1 = Inr st'"
          using "1.IH" [OF False framed_Cons(2) refl framed_Cons(3) st1(1)] framed_Cons(4) by blast
        then show ?thesis using False framed_Cons(2,3) st1(1) by (subst stream_loop.simps) simp
      qed simp
    qed
  qed
qed

text \<open>What is hashed for an event, and which events are hashed.\<close>

definition event_bytes :: "string \<Rightarrow> receipt_sse_event \<Rightarrow> bytes" where
  "event_bytes kind ev = (if kind = ''sse-events-v1'' then se_name ev @ [LF] else []) @ se_payload ev @ [LF]"

definition hashed_event :: "string \<Rightarrow> receipt_sse_event \<Rightarrow> bool" where
  "hashed_event kind ev \<longleftrightarrow> \<not> se_done ev \<and> embedded_receipt (se_payload ev) = Inr None \<and>
     (kind = ''sse-events-v1'' \<or> (kind = ''sse-data-v1'' \<and> se_name ev = []))"

lemma stream_event_cases:
  assumes "stream_event kind expected ev st = Inr st'"
  shows "\<not> st_done st \<and>
    ((se_done ev \<and> st' = st\<lparr>st_done := True\<rparr>) \<or>
     (\<not> se_done ev \<and> \<not> st_receipt st \<and> st' = st\<lparr>st_receipt := True\<rparr> \<and>
        (\<exists>r e. embedded_receipt (se_payload ev) = Inr (Some r) \<and> expected = Some e \<and> deep_equal (GMap r) (GMap e))) \<or>
     (\<not> st_receipt st \<and> hashed_event kind ev \<and>
        st' = st\<lparr>st_hashed := st_hashed st @ event_bytes kind ev, st_events := st_events st + 1\<rparr>))"
proof (cases "st_done st \<or> se_done ev")
  case True
  with assms show ?thesis by (auto simp: stream_event_def split: if_splits)
next
  case False
  then obtain embedded where e: "embedded_receipt (se_payload ev) = Inr embedded"
    using assms by (cases "embedded_receipt (se_payload ev)") (auto simp: stream_event_def)
  show ?thesis
  proof (cases embedded)
    case None
    then show ?thesis using assms False e
      by (simp add: stream_event_def hashed_event_def event_bytes_def split: if_splits)
  next
    case (Some r)
    then show ?thesis using assms False e
      by (simp add: stream_event_def del: deep_equal.simps split: if_splits option.splits)
  qed
qed

lemma run_done: "run_events kind expected evs st = Inr st' \<Longrightarrow> st_done st \<Longrightarrow> evs = [] \<and> st' = st"
  by (cases evs) (auto simp: check_iff dest: stream_event_cases)

lemma run_receipt:
  assumes "run_events kind expected evs st = Inr st'" "st_receipt st" "\<not> st_done st" "st_done st'"
  shows "\<exists>d. evs = [d] \<and> se_done d \<and> st' = st\<lparr>st_done := True\<rparr>"
proof (cases evs)
  case Nil
  then show ?thesis using assms by simp
next
  case (Cons d rest)
  then obtain st1 where "stream_event kind expected d st = Inr st1" "run_events kind expected rest st1 = Inr st'"
    using assms(1) by (auto simp: check_iff)
  with stream_event_cases [of kind expected d st st1] assms(2) run_done [of kind expected rest st1 st'] Cons
  show ?thesis by auto
qed

lemma run_structure:
  assumes "run_events kind expected evs st = Inr st'" "\<not> st_receipt st" "\<not> st_done st" "st_receipt st'" "st_done st'"
  shows "\<exists>hs r d m e. evs = hs @ [r, d] \<and> list_all (hashed_event kind) hs \<and> se_done d \<and>
    embedded_receipt (se_payload r) = Inr (Some m) \<and> expected = Some e \<and> deep_equal (GMap m) (GMap e) \<and>
    st_hashed st' = st_hashed st @ concat (map (event_bytes kind) hs) \<and> st_events st' = st_events st + int (length hs)"
  using assms
proof (induction evs arbitrary: st)
  case Nil
  then show ?case by simp
next
  case (Cons ev evs)
  then obtain st1 where st1: "stream_event kind expected ev st = Inr st1" "run_events kind expected evs st1 = Inr st'"
    by (auto simp: check_iff)
  from stream_event_cases [OF st1(1)] consider
      (final) "se_done ev" "st1 = st\<lparr>st_done := True\<rparr>"
    | (receipt) m e where "st1 = st\<lparr>st_receipt := True\<rparr>" "embedded_receipt (se_payload ev) = Inr (Some m)" "expected = Some e"
        "deep_equal (GMap m) (GMap e)"
    | (hashed) "hashed_event kind ev" "st1 = st\<lparr>st_hashed := st_hashed st @ event_bytes kind ev, st_events := st_events st + 1\<rparr>"
    by blast
  then show ?case
  proof cases
    case final
    with run_done [OF st1(2)] Cons.prems show ?thesis by auto
  next
    case (receipt m e)
    then obtain d where "evs = [d]" "se_done d" "st' = st1\<lparr>st_done := True\<rparr>"
      using run_receipt [OF st1(2)] Cons.prems by auto
    then show ?thesis using receipt
      by (intro exI [of _ "[]"] exI [of _ ev] exI [of _ d] exI [of _ m] exI [of _ e]) simp
  next
    case hashed
    with Cons.IH [OF st1(2)] Cons.prems obtain hs r d m e where "evs = hs @ [r, d]" "list_all (hashed_event kind) hs" "se_done d"
      "embedded_receipt (se_payload r) = Inr (Some m)" "expected = Some e" "deep_equal (GMap m) (GMap e)"
      "st_hashed st' = st_hashed st1 @ concat (map (event_bytes kind) hs)" "st_events st' = st_events st1 + int (length hs)"
      by auto
    then show ?thesis using hashed
      by (intro exI [of _ "ev # hs"] exI [of _ r] exI [of _ d] exI [of _ m] exI [of _ e]) simp
  qed
qed

text \<open>
  C6. Nothing of an accepted stream escapes its digest: if the stream digest is computed,
  then the wire bytes are, without remainder, a sequence of events of which the last is
  [DONE], the one before it holds exactly the verified receipt, and every other one is an
  ordinary event whose bytes are hashed in order; the event count is their number.
\<close>
theorem stream_digest_covers:
  assumes "receipt_stream_digest crypto stream kind expected = Inr (digest, count)"
  shows "\<exists>fs hs r d m e. framed stream fs \<and> concat (map fst fs) = stream \<and> map snd fs = hs @ [r, d] \<and>
    list_all (hashed_event kind) hs \<and> se_done d \<and> embedded_receipt (se_payload r) = Inr (Some m) \<and>
    expected = Some e \<and> deep_equal (GMap m) (GMap e) \<and>
    digest = cr_sha256 crypto (concat (map (event_bytes kind) hs)) \<and> count = int (length hs)"
proof -
  obtain st where st: "stream_loop kind expected stream start_stream = Inr st" "st_receipt st" "st_done st"
    "digest = cr_sha256 crypto (st_hashed st)" "count = st_events st"
    using assms by (auto simp: receipt_stream_digest_def check_iff)
  obtain fs where fs: "framed stream fs" "run_events kind expected (map snd fs) start_stream = Inr st"
    using st(1) stream_loop_iff by blast
  have "\<exists>hs r d m e. map snd fs = hs @ [r, d] \<and> list_all (hashed_event kind) hs \<and> se_done d \<and>
    embedded_receipt (se_payload r) = Inr (Some m) \<and> expected = Some e \<and> deep_equal (GMap m) (GMap e) \<and>
    st_hashed st = st_hashed start_stream @ concat (map (event_bytes kind) hs) \<and>
    st_events st = st_events start_stream + int (length hs)"
    by (rule run_structure [OF fs(2) _ _ st(2,3)]) (simp_all add: start_stream_def)
  with fs(1) framed_concat [OF fs(1)] st(4,5) show ?thesis by (auto simp: start_stream_def)
qed

text \<open>A small stream: one event, a receipt, the final marker.\<close>

definition small_receipt :: object where
  "small_receipt = [(''protected'', GString ''a'')]"

definition quoted :: "string \<Rightarrow> string" where
  "quoted s = CHR 0x22 # s @ [CHR 0x22]"

definition small_stream :: bytes where
  "small_stream = ''data: {}'' @ sep_lf @
     ''data: {'' @ quoted ''inference_receipt'' @ '':{'' @ quoted ''protected'' @ '':'' @ quoted ''a'' @ ''}}'' @ sep_lf @
     ''data: [DONE]'' @ sep_lf"

definition plain_crypto :: receipt_crypto where
  "plain_crypto = \<lparr>cr_sha256 = (\<lambda>s. take 32 (s @ replicate 32 CHR ''0'')), cr_ed25519_verify = (\<lambda>k m s. s = take 64 (m @ replicate 64 CHR ''0''))\<rparr>"

lemma stream_digest_covers_witness:
  "\<exists>fs. framed small_stream fs \<and> concat (map fst fs) = small_stream \<and> length fs = 3"
proof -
  have "receipt_stream_digest plain_crypto small_stream ''sse-data-v1'' (Some small_receipt) =
      Inr (cr_sha256 plain_crypto ''{}\<newline>'', 1)"
    by code_simp
  from stream_digest_covers [OF this] obtain fs hs r d where "framed small_stream fs" "concat (map fst fs) = small_stream"
    "map snd fs = hs @ [r, d]" "1 = int (length hs)"
    by (elim exE conjE) (rule that)
  moreover have "length fs = length (map snd fs)" by simp
  ultimately show ?thesis by (intro exI [of _ fs]) simp
qed

section \<open>Chunks\<close>

definition occurs :: "'a list \<Rightarrow> 'a list \<Rightarrow> nat \<Rightarrow> bool" where
  "occurs p s i \<longleftrightarrow> i + length p \<le> length s \<and> (\<forall>k < length p. s ! (i + k) = p ! k)"

lemma occurs_0: "occurs p s 0 \<longleftrightarrow> has_prefix s p"
  by (auto simp: occurs_def has_prefix_def list_eq_iff_nth_eq min_def)

lemma occurs_Suc: "occurs p (x # s) (Suc i) \<longleftrightarrow> occurs p s i"
  by (simp add: occurs_def)

lemma occurs_append: "occurs p s i \<Longrightarrow> occurs p (s @ t) i"
  by (auto simp: occurs_def nth_append)

lemma occurs_prefix: "occurs p (s @ t) i \<Longrightarrow> i + length p \<le> length s \<Longrightarrow> occurs p s i"
  by (auto simp: occurs_def nth_append)

lemma index_of_iff:
  "p \<noteq> [] \<Longrightarrow> index_of p s = Some i \<longleftrightarrow> occurs p s i \<and> (\<forall>j < i. \<not> occurs p s j)"
proof (induction s arbitrary: i)
  case Nil
  then show ?case by (simp add: occurs_def)
next
  case (Cons x s)
  show ?case
  proof (cases "has_prefix (x # s) p")
    case True
    then show ?thesis using occurs_0 [of p "x # s"] by (auto intro: gr0I)
  next
    case False
    then have n0: "\<not> occurs p (x # s) 0" by (simp add: occurs_0)
    show ?thesis
    proof (cases i)
      case 0
      then show ?thesis using False n0 by auto
    next
      case (Suc k)
      have "(\<forall>j < Suc k. \<not> occurs p (x # s) j) \<longleftrightarrow> (\<forall>j < k. \<not> occurs p s j)"
        using n0 by (auto simp: less_Suc_eq_0_disj occurs_Suc)
      with False Suc Cons show ?thesis by (auto simp: occurs_Suc)
    qed
  qed
qed

lemma index_of_None: "p \<noteq> [] \<Longrightarrow> index_of p s = None \<Longrightarrow> \<not> occurs p s i"
proof
  assume p: "p \<noteq> []" "index_of p s = None" "occurs p s i"
  then have "\<exists>i. occurs p s i \<and> (\<forall>j < i. \<not> occurs p s j)" using exists_least_iff [of "occurs p s"] by blast
  with p index_of_iff [OF p(1), of s] show False by auto
qed

lemma index_of_append: "p \<noteq> [] \<Longrightarrow> index_of p s = Some i \<Longrightarrow> index_of p (s @ t) = Some i"
proof -
  assume p: "p \<noteq> []" "index_of p s = Some i"
  then have i: "occurs p s i" "\<forall>j < i. \<not> occurs p s j" by (simp_all add: index_of_iff)
  have "\<not> occurs p (s @ t) j" if "j < i" for j
  proof
    assume o: "occurs p (s @ t) j"
    have "j + length p \<le> length s" using i(1) that by (simp add: occurs_def)
    with o have "occurs p s j" by (rule occurs_prefix)
    with i(2) that show False by blast
  qed
  with i(1) occurs_append [of p s i t] show ?thesis by (simp add: index_of_iff p(1))
qed

lemma separators: "sep_lf \<noteq> []" "sep_crlf \<noteq> []" "length sep_lf = 2" "length sep_crlf = 4"
  by (simp_all add: sep_lf_def sep_crlf_def)

lemma occurs_lf: "occurs sep_lf s i \<longleftrightarrow> i + 2 \<le> length s \<and> s ! i = LF \<and> s ! (i + 1) = LF"
  by (auto simp: occurs_def sep_lf_def less_Suc_eq numeral_2_eq_2)

lemma occurs_crlf:
  "occurs sep_crlf s i \<longleftrightarrow> i + 4 \<le> length s \<and> s ! i = CR \<and> s ! (i + 1) = LF \<and> s ! (i + 2) = CR \<and> s ! (i + 3) = LF"
  by (auto simp: occurs_def sep_crlf_def less_Suc_eq numeral_eq_Suc)

lemma receipt_event_end_append:
  assumes "receipt_event_end s = Some e"
  shows "receipt_event_end (s @ t) = Some e"
proof (cases "index_of sep_lf s")
  case (Some i)
  note i = index_of_append [OF separators(1) Some, of t]
  have oi: "occurs sep_lf s i" using Some by (simp add: index_of_iff separators)
  show ?thesis
  proof (cases "index_of sep_crlf s")
    case None
    have "i < j" if "index_of sep_crlf (s @ t) = Some j" for j
    proof (rule ccontr)
      assume "\<not> i < j"
      have oj: "occurs sep_crlf (s @ t) j" using that by (simp add: index_of_iff separators)
      have "\<not> j + 4 \<le> length s" using index_of_None [OF separators(2) None] occurs_prefix [OF oj] separators by auto
      then have "j = i \<or> i = j + 1" using oi \<open>\<not> i < j\<close> by (auto simp: occurs_lf)
      with oi oj show False by (auto simp: occurs_lf occurs_crlf nth_append)
    qed
    then show ?thesis using assms Some None i by (auto simp: receipt_event_end_def split: option.splits)
  next
    case (Some j)
    from index_of_append [OF separators(2) Some, of t] Some \<open>index_of sep_lf s = Some i\<close> i assms
    show ?thesis by (simp add: receipt_event_end_def)
  qed
next
  case None
  then obtain j where j: "index_of sep_crlf s = Some j" "e = j + 4"
    using assms by (auto simp: receipt_event_end_def split: option.splits)
  have oj: "occurs sep_crlf s j" using j by (simp add: index_of_iff separators)
  have "\<not> i < j" if "index_of sep_lf (s @ t) = Some i" for i
  proof
    assume "i < j"
    have "occurs sep_lf (s @ t) i" using that by (simp add: index_of_iff separators)
    moreover have "i + length sep_lf \<le> length s" using \<open>i < j\<close> oj by (simp add: occurs_crlf separators)
    ultimately show False using occurs_prefix index_of_None [OF separators(1) None] by blast
  qed
  then show ?thesis using j index_of_append [OF separators(2) j(1), of t]
    by (auto simp: receipt_event_end_def split: option.splits)
qed

lemma next_event_append:
  "next_receipt_sse_event s = Some (raw, rest) \<Longrightarrow> next_receipt_sse_event (s @ t) = Some (raw, rest @ t)"
  using receipt_event_end_append [of s _ t] receipt_event_end_bound
  by (fastforce simp: next_receipt_sse_event_def)

lemma refresh_loop_scanned: "fst (refresh_loop s st) \<le> fst st + length s \<and> fst st \<le> fst (refresh_loop s st)"
proof (induction s st rule: refresh_loop.induct)
  case (1 s st)
  show ?case
  proof (cases "s = [] \<or> next_receipt_sse_event s = None")
    case True
    then show ?thesis by (subst (1 2) refresh_loop.simps) (auto split: option.split)
  next
    case False
    then obtain raw rest where n: "next_receipt_sse_event s = Some (raw, rest)" by auto
    from "1.IH" [OF _ n refl] False n next_event_shrinks [OF n] show ?thesis
      by (subst (1 2) refresh_loop.simps) auto
  qed
qed

lemma refresh_loop_append:
  "refresh_loop (s @ t) st = refresh_loop (drop (fst (refresh_loop s st) - fst st) s @ t) (refresh_loop s st)"
proof (induction s st rule: refresh_loop.induct)
  case (1 s st)
  show ?case
  proof (cases "s = [] \<or> next_receipt_sse_event s = None")
    case True
    then have "refresh_loop s st = st" by (subst refresh_loop.simps) (auto split: option.split)
    then show ?thesis by simp
  next
    case False
    then obtain raw rest where n: "next_receipt_sse_event s = Some (raw, rest)" by auto
    define st1 where "st1 = (fst st + (length s - length rest),
               (case decode_receipt_sse_event raw of
                  Inl e \<Rightarrow> snd st
                | Inr ev \<Rightarrow> (case embedded_receipt (se_payload ev) of
                      Inr (Some r) \<Rightarrow> Some r
                    | _ \<Rightarrow> snd st)))"
    have s: "refresh_loop s st = refresh_loop rest st1" using False n by (subst refresh_loop.simps) (simp add: st1_def)
    have len: "length (s @ t) - length (rest @ t) = length s - length rest" by simp
    have st: "refresh_loop (s @ t) st = refresh_loop (rest @ t) st1"
      using False next_event_append [OF n, of t] by (subst refresh_loop.simps) (simp add: st1_def)
    have ih: "refresh_loop (rest @ t) st1 = refresh_loop (drop (fst (refresh_loop rest st1) - fst st1) rest @ t) (refresh_loop rest st1)"
      using "1.IH" [OF _ n refl] False unfolding st1_def by blast
    have parts: "raw @ rest = s" using next_event_parts [OF n] .
    have "fst st1 \<le> fst (refresh_loop rest st1)" using refresh_loop_scanned by blast
    moreover have "fst st1 = fst st + length raw" using parts by (auto simp: st1_def)
    ultimately have "drop (fst (refresh_loop rest st1) - fst st) s = drop (fst (refresh_loop rest st1) - fst st1) rest"
      using parts by (auto simp flip: parts)
    then show ?thesis using s st ih by simp
  qed
qed

definition capture_ok :: "receipt_capture \<Rightarrow> bool" where
  "capture_ok c \<longleftrightarrow> (cp_scanned c, cp_receipt c) = refresh_loop (cp_wire c) (0, None)"

lemma capture_read_ok: "capture_ok c \<Longrightarrow> capture_ok (capture_read chunk c) \<and> cp_wire (capture_read chunk c) = cp_wire c @ chunk"
proof -
  assume ok: "capture_ok c"
  have le: "cp_scanned c \<le> length (cp_wire c)"
    using refresh_loop_scanned [of "cp_wire c" "(0, None)"] ok by (auto simp: capture_ok_def dest: arg_cong [where f = fst])
  have "refresh_loop (cp_wire c @ chunk) (0, None) =
      refresh_loop (drop (cp_scanned c) (cp_wire c) @ chunk) (cp_scanned c, cp_receipt c)"
    using refresh_loop_append [of "cp_wire c" chunk "(0, None)"] ok by (simp add: capture_ok_def) (metis fst_conv)
  with le ok show ?thesis
    by (auto simp: capture_ok_def capture_read_def refresh_receipt_def split: prod.split)
qed

text \<open>
  C21. Capturing does not depend on how the source delivers its bytes: whatever chunks the
  reads return, the captured bytes are their concatenation, and the receipt that has been
  found is the one a single read of all the bytes finds.
\<close>
theorem capture_chunks:
  "cp_wire (fold capture_read chunks new_receipt_capture) = concat chunks \<and>
   cp_receipt (fold capture_read chunks new_receipt_capture) = snd (refresh_loop (concat chunks) (0, None))"
proof -
  have new: "capture_ok new_receipt_capture"
    by (simp add: capture_ok_def new_receipt_capture_def) (subst refresh_loop.simps, simp)
  have "capture_ok (fold capture_read chunks c) \<and> cp_wire (fold capture_read chunks c) = cp_wire c @ concat chunks"
    if "capture_ok c" for c
    using that by (induction chunks arbitrary: c) (auto simp: capture_read_ok)
  from this [OF new] show ?thesis
    by (simp add: capture_ok_def new_receipt_capture_def) (metis snd_conv)
qed

end
