(* ===== verification/Tokens.thy ===== *)
theory Tokens
  imports Attestation
begin

text \<open>
  Serialised tokens: what the decoders read back from three base64url segments joined by
  dots, for attestation tokens (padding restored, surrounding space removed) and for compact
  receipts (one spelling only).
\<close>

section \<open>Plain text around the segments\<close>

definition token_byte :: "char \<Rightarrow> bool" where
  "token_byte c \<longleftrightarrow> b64url_byte c \<or> c = CHR ''.''"

lemma token_byte_range: "token_byte c \<Longrightarrow> 33 \<le> byte_val c \<and> byte_val c < 127"
  by (auto simp: token_byte_def b64url_byte_def is_upper_def is_lower_def is_digit_def)

lemma token_byte_plain: "token_byte c \<Longrightarrow> byte_val c < 128 \<and> \<not> is_space_rune (byte_val c)"
  using token_byte_range [of c] by (auto simp: is_space_rune_def)

lemma trim_space_token:
  assumes "list_all token_byte s"
  shows "trim_space s = s"
proof -
  have "trim_left_space s = s"
  proof (cases s)
    case (Cons c r)
    with assms have "token_byte c" by simp
    from token_byte_plain [OF this] Cons show ?thesis by (simp add: trim_left_space.simps(2))
  qed simp
  moreover have "trim_right_space s = s"
  proof (cases "s = []")
    case False
    then have "token_byte (last s)" using assms by (simp add: list_all_iff)
    from token_byte_plain [OF this] False show ?thesis
      by (subst trim_right_space.simps) (simp add: decode_last_rune_def)
  qed (simp add: trim_right_space.simps)
  ultimately show ?thesis by (simp add: trim_space_def)
qed

lemma split_on_first: "c \<notin> set x \<Longrightarrow> split_on c (x @ c # y) = x # split_on c y"
  by (induction x) auto

lemma split_on_none: "c \<notin> set x \<Longrightarrow> split_on c x = [x]"
  by (induction x) auto

lemma encoded_bytes: "list_all token_byte (b64_encode s)" "CHR ''.'' \<notin> set (b64_encode s)"
proof -
  have "\<not> b64url_byte (CHR ''.'')" by code_simp
  then show "CHR ''.'' \<notin> set (b64_encode s)" using b64_encode_bytes_ok by blast
  show "list_all token_byte (b64_encode s)" using b64_encode_bytes_ok by (auto simp: list_all_iff token_byte_def)
qed

definition token_text :: "bytes \<Rightarrow> bytes \<Rightarrow> bytes \<Rightarrow> string" where
  "token_text h p s = b64_encode h @ ''.'' @ b64_encode p @ ''.'' @ b64_encode s"

lemma token_text_bytes: "list_all token_byte (token_text h p s)"
  using encoded_bytes by (simp add: token_text_def token_byte_def)

lemma token_segments: "split_on (CHR ''.'') (trim_space (token_text h p s)) = [b64_encode h, b64_encode p, b64_encode s]"
  unfolding trim_space_token [OF token_text_bytes]
  using encoded_bytes(2) by (simp add: token_text_def split_on_first split_on_none)

section \<open>Attestation tokens\<close>

lemma dropWhile_replicate: "dropWhile (\<lambda>x. x = c) (replicate k c @ s) = dropWhile (\<lambda>x. x = c) s"
  by (induction k) auto

lemma trim_right_padding: "c \<notin> set s \<Longrightarrow> trim_right c (s @ replicate k c) = s"
proof -
  assume "c \<notin> set s"
  then have "dropWhile (\<lambda>x. x = c) (rev s) = rev s" by (cases "rev s") (auto dest: arg_cong [of _ _ set])
  then show ?thesis by (simp add: trim_right_in_def dropWhile_replicate)
qed

lemma encoded_mod: "length (b64_encode s) mod 4 \<noteq> 1"
proof -
  have "length (b64_encode_bytes bs) mod 4 \<noteq> 1" for bs by (induction bs rule: b64_encode_bytes.induct) simp_all
  then show ?thesis by (simp add: b64_encode_def)
qed

lemma pad_to_four:
  assumes "n mod 4 \<noteq> (1::nat)"
  shows "(n + (4 - n mod 4) mod 4) mod 4 = 0 \<and> (4 - n mod 4) mod 4 \<le> 2"
proof -
  have "n mod 4 < 4" by simp
  with assms consider "n mod 4 = 0" | "n mod 4 = 2" | "n mod 4 = 3" by linarith
  then show ?thesis
  proof cases
    case 2
    then have "(n + 2) mod 4 = (2 + 2) mod 4" by (simp only: mod_add_left_eq [of n 4 2, symmetric])
    with 2 show ?thesis by simp
  next
    case 3
    then have "(n + 1) mod 4 = (3 + 1) mod 4" by (simp only: mod_add_left_eq [of n 4 1, symmetric])
    with 3 show ?thesis by simp
  qed simp
qed

lemma b64url_decode_encoded [simp]: "b64url_decode (b64_encode s) = Some s"
proof -
  let ?k = "(4 - length (b64_encode s) mod 4) mod 4"
  let ?t = "b64_encode s @ replicate ?k (CHR ''='')"
  have plain: "c \<noteq> CHR 0x0A \<and> c \<noteq> CHR 0x0D \<and> c \<noteq> CHR ''=''" if "c \<in> set (b64_encode s)" for c
  proof -
    have "\<not> b64url_byte (CHR 0x0A)" "\<not> b64url_byte (CHR 0x0D)" by code_simp+
    then show ?thesis using b64_encode_bytes_ok [OF that] by auto
  qed
  have f: "filter (\<lambda>c. c \<noteq> CHR 0x0A \<and> c \<noteq> CHR 0x0D) ?t = ?t" using plain by (auto simp: filter_id_conv)
  have t: "trim_right (CHR ''='') ?t = b64_encode s" using plain by (intro trim_right_padding) blast
  have "(length (b64_encode s) + ?k) mod 4 = 0 \<and> ?k \<le> 2" by (rule pad_to_four [OF encoded_mod])
  then have "length ?t mod 4 = 0 \<and> length ?t - length (b64_encode s) \<le> 2" by (simp only: length_append length_replicate) simp
  then show ?thesis by (simp only: b64url_decode_def b64_decode_padded_def Let_def f t) simp
qed

text \<open>
  An attestation token is read back as it was assembled: of three base64url segments
  joined by dots the first two must be JSON objects, which become header and claims; the
  third is the signature; and what must be signed is the text of the first two segments
  with their dot, not a re-encoding of the decoded values.
\<close>
theorem jwt_reads_back:
  "jwt_split (token_text h p s) =
     (case (decode_json_object h, decode_json_object p) of
        (Some header, Some claims) \<Rightarrow>
          Inr \<lparr>jwt_header = header, jwt_payload = claims, jwt_signing_input = b64_encode h @ ''.'' @ b64_encode p, jwt_signature = s\<rparr>
      | _ \<Rightarrow> Inl (AttestationError ''invalid JWT encoding''))"
  by (simp add: jwt_split_def token_segments from_option_def jwt_encoding_error_def split: option.splits)

section \<open>Compact receipts\<close>

lemma encoded_empty [simp]: "b64_encode s = [] \<longleftrightarrow> s = []"
  using b64_encode_inj [of s "[]"] by (simp add: b64_encode_def)

lemma receipt_b64url_decode_encoded [simp]: "d \<noteq> [] \<Longrightarrow> receipt_b64url_decode (b64_encode d) check = Inr d"
  by (simp add: receipt_b64url_iff)

lemma token_not_brace: "\<not> has_prefix (token_text h p s) ''{''"
proof -
  have "\<not> token_byte (CHR ''{'')" by code_simp
  then show ?thesis using token_text_bytes [of h p s] by (cases "token_text h p s") (auto simp: has_prefix_def)
qed

lemma compact_receipt:
  "parse_receipt_envelope (ReceiptText (token_text h p s)) =
     (if h = [] \<or> p = [] \<or> s = [] then Inl jws_structure
      else Inr \<lparr>en_protected = b64_encode h, en_payload = b64_encode p, en_signature = b64_encode s, en_flattened_json = None\<rparr>)"
proof -
  have "is_ascii (token_text h p s)"
    using token_text_bytes [of h p s] token_byte_range by (fastforce simp: is_ascii_def list_all_iff)
  then show ?thesis
    using token_segments [of h p s]
    by (simp add: parse_receipt_envelope_def text_envelope_def compact_envelope_def trim_space_token [OF token_text_bytes]
        token_not_brace)
qed

end
