(* ===== verification/Receipt_Sound.thy ===== *)
theory Receipt_Sound
  imports Receipt_Verify Receipt_Stream_Facts Tokens
begin

text \<open>
  What a successful verification has established: for attestations, and for receipts with
  their bindings to the caller's bytes and to the attested key.
\<close>

section \<open>Attestations\<close>

text \<open>The platform part of an attestation, as a statement about its claims.\<close>

definition genuine_platform :: "int \<Rightarrow> object \<Rightarrow> attestation_policy \<Rightarrow> int \<Rightarrow> bool" where
  "genuine_platform now claims policy expiry \<longleftrightarrow>
     int_claim (obj_get claims ''exp'') = Some expiry \<and> now < expiry \<and>
     string_or_empty (obj_get claims ''iss'') = gcp_issuer \<and>
     (ap_allow_debug policy \<or> equal_fold (string_or_empty (obj_get claims ''dbgstat'')) ''disabled-since-boot'') \<and>
     string_or_empty (obj_get claims ''swname'') = ''CONFIDENTIAL_SPACE'' \<and> obj_get claims ''secboot'' = GBool True \<and>
     string_or_empty (obj_get claims ''hwmodel'') \<in> {''GCP_AMD_SEV'', ''GCP_AMD_SEV_ES'', ''GCP_INTEL_TDX''} \<and>
     policy_audience policy \<in> set (audience_list (obj_get claims ''aud''))"

text \<open>The image part: some identity is pinned, and every pinned list holds the claimed value.\<close>

definition genuine_image :: "object \<Rightarrow> attestation_policy \<Rightarrow> bool" where
  "genuine_image claims policy \<longleftrightarrow>
     (let digests = accepted_or_single (ap_expected_image_digests policy) (ap_expected_image_digest policy);
          references = accepted_or_single (ap_expected_image_references policy) (ap_expected_image_reference policy)
      in (digests \<noteq> [] \<or> references \<noteq> []) \<and>
         (digests \<noteq> [] \<longrightarrow> image_claim claims ''image_digest'' \<noteq> [] \<and> image_claim claims ''image_digest'' \<in> set digests) \<and>
         (references \<noteq> [] \<longrightarrow> image_claim claims ''image_reference'' \<noteq> [] \<and> image_claim claims ''image_reference'' \<in> set references))"

lemma check_platform_iff: "check_platform now claims policy = Inr expiry \<longleftrightarrow> genuine_platform now claims policy expiry"
  by (auto simp: check_platform_def genuine_platform_def check_iff hardware_models_def)

lemma pins_accepted: "pins_image_identity policy \<longleftrightarrow>
    accepted_or_single (ap_expected_image_digests policy) (ap_expected_image_digest policy) \<noteq> [] \<or>
    accepted_or_single (ap_expected_image_references policy) (ap_expected_image_reference policy) \<noteq> []"
  by (auto simp: pins_image_identity_def accepted_or_single_def)

lemma check_image_iff: "check_image claims policy = Inr (d, r) \<longleftrightarrow>
    genuine_image claims policy \<and> d = image_claim claims ''image_digest'' \<and> r = image_claim claims ''image_reference''"
  by (auto simp: check_image_def genuine_image_def check_iff Let_def contains_safe_string_def pins_accepted)

lemma check_live_nonces_iff: "check_live_nonces nonces nonce exporter = Inr m \<longleftrightarrow>
    (exporter \<noteq> [] \<longrightarrow> nonce \<noteq> [] \<and> hex_encode exporter \<in> set nonces \<and> nonce \<noteq> hex_encode exporter) \<and>
    (nonce \<noteq> [] \<longrightarrow> nonce \<in> set nonces) \<and> m = (if nonce = [] then None else Some nonce)"
  by (auto simp: check_live_nonces_def check_iff)

text \<open>The signed token: the key in the set that carries the token's key id signed it.\<close>

definition signed_token :: "attestation_crypto \<Rightarrow> bytes \<Rightarrow> object \<Rightarrow> object \<Rightarrow> bool" where
  "signed_token ac document jwks claims \<longleftrightarrow>
     (\<exists>t keys key kid n e. jwt_split document = Inr t \<and> jwt_payload t = claims \<and>
        obj_get (jwt_header t) ''alg'' = GString ''RS256'' \<and> obj_get (jwt_header t) ''kid'' = GString kid \<and> kid \<noteq> [] \<and>
        jwks_keys jwks = Some keys \<and> key \<in> set keys \<and> obj_get key ''kid'' = GString kid \<and> rsa_key key = Inr (n, e) \<and>
        ac_rsa_verify ac n e (ac_sha256 ac (jwt_signing_input t)) (jwt_signature t))"

lemma as_string_iff: "as_string v = Some s \<longleftrightarrow> v = GString s"
  by (cases v) (auto simp: as_string_def)

lemma verify_rs256_key:
  assumes "verify_rs256 ac jwks t = Inr ()"
  shows "\<exists>keys key kid n e. obj_get (jwt_header t) ''alg'' = GString ''RS256'' \<and> obj_get (jwt_header t) ''kid'' = GString kid \<and>
    kid \<noteq> [] \<and> jwks_keys jwks = Some keys \<and> key \<in> set keys \<and> obj_get key ''kid'' = GString kid \<and> rsa_key key = Inr (n, e) \<and>
    ac_rsa_verify ac n e (ac_sha256 ac (jwt_signing_input t)) (jwt_signature t)"
proof -
  obtain kid keys key n e where h: "obj_get (jwt_header t) ''alg'' = GString ''RS256''"
    "as_string (obj_get (jwt_header t) ''kid'') = Some kid" "kid \<noteq> []" "jwks_keys jwks = Some keys"
    "find (\<lambda>k. obj_get k ''kid'' = GString kid) keys = Some key" "rsa_key key = Inr (n, e)"
    "ac_rsa_verify ac n e (ac_sha256 ac (jwt_signing_input t)) (jwt_signature t)"
    using assms by (auto simp: verify_rs256_def check_iff)
  from h(5) have "key \<in> set keys \<and> obj_get key ''kid'' = GString kid" by (auto simp: find_Some_iff)
  with h show ?thesis by (auto simp: as_string_iff)
qed

lemma verified_claims_signed:
  assumes "verified_claims ac document jwks = Inr claims"
  shows "\<exists>keys. jwks = Inr keys \<and> signed_token ac document keys claims"
proof -
  obtain t keys where "jwt_split document = Inr t" "jwks = Inr keys" "verify_rs256 ac keys t = Inr ()" "jwt_payload t = claims"
    using assms by (auto simp: verified_claims_def check_iff)
  with verify_rs256_key [of ac keys t] show ?thesis unfolding signed_token_def by blast
qed

lemma gateway_attestation_facts:
  assumes "verify_gateway_attestation ac now document jwks policy nonce cert exporter = Inr g"
  shows "(\<exists>keys. jwks = Inr keys \<and> signed_token ac document keys (ga_raw_claims g)) \<and>
    genuine_platform now (ga_raw_claims g) policy (ga_expires_at g) \<and> genuine_image (ga_raw_claims g) policy \<and>
    (exporter \<noteq> [] \<longrightarrow> nonce \<noteq> [] \<and> nonce \<noteq> hex_encode exporter \<and>
       {nonce, hex_encode exporter} \<subseteq> set (nonce_list (ga_raw_claims g))) \<and>
    (nonce \<noteq> [] \<longrightarrow> ga_nonce g = Some nonce \<and> nonce \<in> set (nonce_list (ga_raw_claims g))) \<and>
    (\<forall>der. cert = Some der \<longrightarrow> ga_cert_sha256 g = sha256_hex ac der) \<and>
    (ap_expected_cert_sha256 policy \<noteq> [] \<longrightarrow> ga_cert_sha256 g = to_lower (ap_expected_cert_sha256 policy))"
proof -
  obtain claims where c: "verified_claims ac document jwks = Inr claims"
    "check_attestation_claims ac now claims policy nonce cert exporter Binding_Live_Channel = Inr g"
    using assms by (auto simp: verify_gateway_attestation_def check_iff)
  obtain expiry d r m sha where h: "check_platform now claims policy = Inr expiry" "check_image claims policy = Inr (d, r)"
    "check_live_nonces (nonce_list claims) nonce exporter = Inr m" "check_live_cert ac claims policy cert = Inr sha"
    "g = \<lparr>ga_cert_sha256 = sha, ga_image_digest = d, ga_image_reference = r, ga_nonce = m,
          ga_expires_at = expiry, ga_issuer = gcp_issuer, ga_audience = policy_audience policy, ga_raw_claims = claims\<rparr>"
    using c(2) by (auto simp: check_attestation_claims_def check_iff split_paired_Ex simp del: split_paired_Ex)
  have "sha = sha256_hex ac der" if "cert = Some der" for der
    using h(4) that by (auto simp: check_live_cert_def check_iff Let_def)
  moreover have "sha = to_lower (ap_expected_cert_sha256 policy)" if "ap_expected_cert_sha256 policy \<noteq> []"
    using h(4) that by (auto simp: check_live_cert_def check_iff Let_def)
  ultimately show ?thesis
    using verified_claims_signed [OF c(1)] h(1-3) by (simp add: h(5) check_platform_iff check_image_iff check_live_nonces_iff)
qed

text \<open>
  C4. An accepted gateway attestation binds this connection to a pinned image: the token is
  signed by the key of its key id, it has not expired and comes from Google's confidential
  space on supported hardware with secure boot and, unless the policy allows debugging,
  disabled debugging; a pinned image digest or reference matches; with a live certificate
  the committed hash is its SHA-256; and with a TLS exporter both the caller's nonce and the
  exporter are committed as two different nonces.
\<close>
theorem gateway_attestation_binds:
  assumes "verify_gateway_attestation ac now document jwks policy nonce cert exporter = Inr g"
  shows "(\<exists>keys. jwks = Inr keys \<and> signed_token ac document keys (ga_raw_claims g)) \<and>
    genuine_platform now (ga_raw_claims g) policy (ga_expires_at g) \<and> genuine_image (ga_raw_claims g) policy \<and>
    (exporter \<noteq> [] \<longrightarrow> nonce \<noteq> [] \<and> nonce \<noteq> hex_encode exporter \<and>
       {nonce, hex_encode exporter} \<subseteq> set (nonce_list (ga_raw_claims g))) \<and>
    (nonce \<noteq> [] \<longrightarrow> ga_nonce g = Some nonce \<and> nonce \<in> set (nonce_list (ga_raw_claims g))) \<and>
    (\<forall>der. cert = Some der \<longrightarrow> ga_cert_sha256 g = sha256_hex ac der) \<and>
    (ap_expected_cert_sha256 policy \<noteq> [] \<longrightarrow> ga_cert_sha256 g = to_lower (ap_expected_cert_sha256 policy))"
  by (rule gateway_attestation_facts [OF assms])

section \<open>Receipts\<close>

text \<open>The signing key of an envelope: inside the protected header, named by its hash, and its signature holds.\<close>

definition signed_envelope :: "receipt_crypto \<Rightarrow> receipt_envelope \<Rightarrow> object \<Rightarrow> bytes \<Rightarrow> object \<Rightarrow> bool" where
  "signed_envelope crypto en header key p \<longleftrightarrow>
     (\<exists>raw octets sig. en_protected en = b64_encode raw \<and> parse_json receipt_json_rules raw = Some (GMap header) \<and>
        obj_get header ''alg'' = GString ''EdDSA'' \<and> obj_get header ''typ'' = GString ''inference-receipt+jws'' \<and>
        obj_get header ''kid'' = GString (b64_encode (cr_sha256 crypto key)) \<and> length key = 32 \<and>
        obj_get (map_or_empty (obj_get header ''jwk'')) ''x'' = GString (b64_encode key) \<and>
        \<not> obj_has (map_or_empty (obj_get header ''jwk'')) ''d'' \<and>
        en_payload en = b64_encode octets \<and> parse_json receipt_json_rules octets = Some (GMap p) \<and>
        en_signature en = b64_encode sig \<and> length sig = 64 \<and>
        cr_ed25519_verify crypto key (en_protected en @ ''.'' @ en_payload en) sig)"

lemma as_map_iff: "as_map v = Some m \<longleftrightarrow> v = GMap m"
  by (cases v) (auto simp: as_map_def)

lemma decode_json_iff: "decode_receipt_json data check = Inr v \<longleftrightarrow> utf8_valid data \<and> parse_json receipt_json_rules data = Some v"
  by (auto simp: decode_receipt_json_def check_iff)

lemma public_key_facts:
  assumes "receipt_public_key header = Inr key"
  shows "length key = 32 \<and> obj_get (map_or_empty (obj_get header ''jwk'')) ''x'' = GString (b64_encode key) \<and>
    \<not> obj_has (map_or_empty (obj_get header ''jwk'')) ''d''"
proof -
  obtain jwk x where "as_map (obj_get header ''jwk'') = Some jwk" "\<not> obj_has jwk ''d''" "as_string (obj_get jwk ''x'') = Some x"
    "receipt_b64url_decode x ''protected header jwk.x'' = Inr key" "length key = 32"
    using assms by (auto simp: receipt_public_key_def check_iff)
  then show ?thesis by (auto simp: as_map_iff as_string_iff receipt_b64url_iff map_or_empty_def)
qed

lemma signed_envelopeI:
  assumes "parse_receipt_header crypto en = Inr (header, key)" "verify_receipt_signature crypto en key = Inr octets"
    "decode_receipt_json octets ''receipt claims'' = Inr (GMap p)"
  shows "signed_envelope crypto en header key p"
proof -
  obtain raw v kid where h: "receipt_b64url_decode (en_protected en) ''protected header'' = Inr raw"
    "decode_receipt_json raw ''protected header'' = Inr v" "as_map v = Some header" "obj_get header ''alg'' = GString ''EdDSA''"
    "obj_get header ''typ'' = GString receipt_type" "receipt_public_key header = Inr key"
    "as_string (obj_get header ''kid'') = Some kid" "kid = b64_encode (cr_sha256 crypto key)"
    using assms(1) by (auto simp: parse_receipt_header_def check_iff)
  obtain sig where s: "receipt_b64url_decode (en_payload en) ''JWS payload'' = Inr octets"
    "receipt_b64url_decode (en_signature en) ''JWS signature'' = Inr sig" "length sig = 64"
    "cr_ed25519_verify crypto key (en_protected en @ ''.'' @ en_payload en) sig"
    using assms(2) by (auto simp: verify_receipt_signature_def check_iff)
  from h s assms(3) public_key_facts [OF h(6)] show ?thesis
    unfolding signed_envelope_def
    by (intro exI [of _ raw] exI [of _ octets] exI [of _ sig])
      (auto simp: receipt_b64url_iff decode_json_iff as_map_iff as_string_iff receipt_type_def)
qed

lemma digest_claim_facts:
  assumes "parse_receipt_digest_claim record name response = Inr (hc, digest)"
  shows "hc_hash hc = b64_encode digest \<and> length digest = 32"
  using assms by (auto simp: parse_receipt_digest_claim_def check_iff Let_def receipt_b64url_iff)

text \<open>The bindings: the signed hashes are those of the caller's exact bytes.\<close>

definition request_bound :: "receipt_crypto \<Rightarrow> verify_receipt_options \<Rightarrow> receipt_hash_claims \<Rightarrow> bool" where
  "request_bound crypto opts hc \<longleftrightarrow>
     (\<forall>body. vo_request_body opts = Some body \<longrightarrow> hc_hash hc = b64_encode (cr_sha256 crypto body))"

definition response_bound ::
    "receipt_crypto \<Rightarrow> verify_receipt_options \<Rightarrow> object option \<Rightarrow> receipt_hash_claims \<Rightarrow> bool" where
  "response_bound crypto opts flattened hc \<longleftrightarrow>
     (\<forall>body. vo_response_body opts = Some body \<longrightarrow> hc_of hc = ''body'' \<and> hc_hash hc = b64_encode (cr_sha256 crypto body)) \<and>
     (\<forall>stream. vo_response_stream opts = Some stream \<longrightarrow>
        (\<exists>digest count. receipt_stream_digest crypto stream (hc_of hc) flattened = Inr (digest, count) \<and>
           hc_hash hc = b64_encode digest \<and> hc_events hc = Some count))"

lemma request_boundI:
  assumes "check_receipt_request crypto opts p = Inr hc"
  shows "request_bound crypto opts hc"
proof -
  obtain raw digest where "parse_receipt_digest_claim raw ''req'' False = Inr (hc, digest)"
    "case vo_request_body opts of None \<Rightarrow> True | Some body \<Rightarrow> cr_sha256 crypto body = digest"
    using assms by (auto simp: check_receipt_request_def check_iff)
  with digest_claim_facts [of raw "''req''" False hc digest] show ?thesis by (auto simp: request_bound_def)
qed

lemma response_boundI:
  assumes "check_receipt_response crypto opts flattened p = Inr hc"
  shows "response_bound crypto opts flattened hc"
proof -
  obtain raw digest where d: "parse_receipt_digest_claim raw ''resp'' True = Inr (hc, digest)"
    "vo_response_body opts = None \<or> vo_response_stream opts = None"
    "(case vo_response_body opts of
         Some body \<Rightarrow>
           and_then (require (hc_of hc = ''body'') (hash_error ''response body hash'')) (\<lambda>_.
           require (cr_sha256 crypto body = digest) (hash_error ''response body hash''))
       | None \<Rightarrow>
           (case vo_response_stream opts of
              Some stream \<Rightarrow> check_receipt_stream crypto hc digest flattened stream
            | None \<Rightarrow> Inr ())) = Inr ()"
    using assms by (auto simp: check_receipt_response_def check_iff)
  with digest_claim_facts [OF d(1)] show ?thesis
    by (auto simp: response_bound_def check_iff check_receipt_stream_def split: option.splits)
qed

text \<open>The evidence for the key: the document pinned by a compact receipt, or embedded in a flattened one.\<close>

definition key_document :: "receipt_env \<Rightarrow> bool \<Rightarrow> object \<Rightarrow> bytes option \<Rightarrow> string \<Rightarrow> bytes \<Rightarrow> bool" where
  "key_document env flattened header supplied pin doc \<longleftrightarrow>
     (if flattened then obj_get header ''att_kind'' = GString ''gcp-cs-jwt'' \<and> obj_get header ''att'' = GString doc \<and>
         (supplied = None \<or> supplied = Some doc)
      else supplied = Some doc \<and> pin = b64_encode (cr_sha256 (ev_crypto env) doc))"

lemma attestation_verifiedI:
  assumes "verify_receipt_attestation env flattened header key supplied pin True = Inr status"
  shows "status = ''verified'' \<and> (\<exists>doc. key_document env flattened header supplied pin doc \<and> verify_key_document env key doc = Inr ())"
proof -
  obtain doc where doc: "(if flattened then flattened_attestation header supplied
      else compact_attestation (ev_crypto env) supplied pin True) = Inr doc"
    "(case doc of
       None \<Rightarrow> Inr receipt_attestation_unverified
     | Some d \<Rightarrow>
         and_then (change_error (\<lambda>_. attestation_failure ''GCP attestation'') (verify_key_document env key d)) (\<lambda>_.
         Inr receipt_attestation_verified)) = Inr status"
    using assms by (auto simp: verify_receipt_attestation_def check_iff)
  have "\<exists>d. doc = Some d \<and> key_document env flattened header supplied pin d"
  proof (cases flattened)
    case True
    with doc(1) have "flattened_attestation header supplied = Inr doc" by simp
    then show ?thesis using True
      by (auto simp: flattened_attestation_def key_document_def Let_def split: gvalue.splits if_splits)
  next
    case False
    with doc(1) have "compact_attestation (ev_crypto env) supplied pin True = Inr doc" by simp
    then show ?thesis using False
      by (auto simp: compact_attestation_def key_document_def check_iff receipt_b64url_iff split: option.splits)
  qed
  with doc(2) show ?thesis by (auto simp: check_iff receipt_attestation_verified_def)
qed

lemma verify_receipt_steps:
  assumes "verify_receipt env receipt expected_issuer opts = Inr claims"
  shows "\<exists>en header key p expected. require_receipt_traffic_bindings opts = Inr () \<and>
    canonical_receipt_https_origin expected_issuer ''expected_issuer'' = Inr expected \<and>
    parse_receipt_envelope receipt = Inr en \<and> signed_envelope (ev_crypto env) en header key p \<and>
    check_receipt_issuer p expected = Inr (rc_issuer claims) \<and> check_receipt_time env opts p = Inr (rc_issued_at claims) \<and>
    check_receipt_nonce opts p = Inr (rc_nonce claims) \<and>
    check_receipt_request (ev_crypto env) opts p = Inr (rc_request claims) \<and>
    check_receipt_response (ev_crypto env) opts (en_flattened_json en) p = Inr (rc_response claims) \<and>
    check_receipt_route p = Inr (rc_route claims) \<and> check_receipt_model p = Inr (rc_model claims) \<and>
    check_receipt_pin (en_flattened en) p = Inr (rc_attestation_sha256 claims) \<and>
    verify_receipt_attestation env (en_flattened en) header key (vo_attestation opts) (rc_attestation_sha256 claims)
      (vo_require_attestation opts \<noteq> Some False) = Inr (rc_attestation_status claims)"
proof -
  obtain expected en header key octets p where h: "require_receipt_traffic_bindings opts = Inr ()"
    "canonical_receipt_https_origin expected_issuer ''expected_issuer'' = Inr expected"
    "parse_receipt_envelope receipt = Inr en" "parse_receipt_header (ev_crypto env) en = Inr (header, key)"
    "verify_receipt_signature (ev_crypto env) en key = Inr octets"
    "decode_receipt_json octets ''receipt claims'' = Inr (GMap p)"
    and c: "check_receipt_issuer p expected = Inr (rc_issuer claims)" "check_receipt_time env opts p = Inr (rc_issued_at claims)"
    "check_receipt_nonce opts p = Inr (rc_nonce claims)"
    "check_receipt_request (ev_crypto env) opts p = Inr (rc_request claims)"
    "check_receipt_response (ev_crypto env) opts (en_flattened_json en) p = Inr (rc_response claims)"
    "check_receipt_route p = Inr (rc_route claims)" "check_receipt_model p = Inr (rc_model claims)"
    "check_receipt_pin (en_flattened en) p = Inr (rc_attestation_sha256 claims)"
    "verify_receipt_attestation env (en_flattened en) header key (vo_attestation opts) (rc_attestation_sha256 claims)
      (vo_require_attestation opts \<noteq> Some False) = Inr (rc_attestation_status claims)"
    using assms by (auto simp: verify_receipt_def and_then_iff from_option_iff as_map_iff)
  from h c signed_envelopeI [OF h(4-6)] show ?thesis by blast
qed


end
