(* ===== verification/Receipt_Examples.thy ===== *)
theory Receipt_Examples
  imports Receipt_Sound
begin

text \<open>
  Concrete documents on which the properties of receipts and attestations apply.  The
  cryptography of the examples is a toy one: a digest is the first 32 bytes, a signature
  repeats what it signs.
\<close>

text \<open>Text with double quotes written as tildes.\<close>

definition dq :: "string \<Rightarrow> string" where
  "dq s = map (\<lambda>c. if c = CHR ''~'' then CHR 0x22 else c) s"

definition example_ac :: attestation_crypto where
  "example_ac = \<lparr>ac_sha256 = cr_sha256 plain_crypto, ac_rsa_verify = (\<lambda>n e d s. s = d)\<rparr>"

section \<open>An attestation token\<close>

definition example_header_text :: string where
  "example_header_text = dq ''{~alg~:~RS256~,~kid~:~k~}''"

definition example_claims_text :: "string \<Rightarrow> string \<Rightarrow> string" where
  "example_claims_text nonce cert =
     dq (''{~exp~:100,~iss~:~https://confidentialcomputing.googleapis.com~,~dbgstat~:~disabled-since-boot~,'' @
       ''~swname~:~CONFIDENTIAL_SPACE~,~secboot~:true,~hwmodel~:~GCP_AMD_SEV~,~aud~:~quill-cloud~,'' @
       ''~submods~:{~container~:{~image_digest~:~sha256:1~}},~eat_nonce~:[~'' @ nonce @ ''~],~tls_cert_sha256~:~'' @ cert @ ''~}'')"

definition example_claims :: "string \<Rightarrow> string \<Rightarrow> object" where
  "example_claims nonce cert =
     [(''exp'', GNumber ''100''), (''iss'', GString ''https://confidentialcomputing.googleapis.com''),
      (''dbgstat'', GString ''disabled-since-boot''), (''swname'', GString ''CONFIDENTIAL_SPACE''),
      (''secboot'', GBool True), (''hwmodel'', GString ''GCP_AMD_SEV''), (''aud'', GString ''quill-cloud''),
      (''submods'', GMap [(''container'', GMap [(''image_digest'', GString ''sha256:1'')])]),
      (''eat_nonce'', GSlice [GString nonce]), (''tls_cert_sha256'', GString cert)]"

definition signed_example :: "string \<Rightarrow> bytes" where
  "signed_example claims_text =
     token_text example_header_text claims_text
       (ac_sha256 example_ac (b64_encode example_header_text @ ''.'' @ b64_encode claims_text))"

definition example_token :: "string \<Rightarrow> string \<Rightarrow> bytes" where
  "example_token nonce cert = signed_example (example_claims_text nonce cert)"

definition example_jwks :: object where
  "example_jwks = [(''keys'', GSlice [GMap [(''kid'', GString ''k''), (''kty'', GString ''RSA''), (''n'', GString ''AQ''), (''e'', GString ''AQAB'')]])]"

definition example_release :: trust_release where
  "example_release = \<lparr>tr_image_reference = [], tr_accepted_image_references = [], tr_image_digest = ''sha256:1'',
     tr_accepted_image_digests = []\<rparr>"

definition example_policy :: attestation_policy where
  "example_policy = \<lparr>ap_gcp_audience = ''quill-cloud'', ap_expected_cert_sha256 = [], ap_expected_image_digest = ''sha256:1'',
     ap_expected_image_digests = [''sha256:1''], ap_expected_image_reference = [], ap_expected_image_references = [],
     ap_allow_debug = False\<rparr>"

lemma example_header_json: "decode_json_object example_header_text = Some [(''alg'', GString ''RS256''), (''kid'', GString ''k'')]"
  by code_simp

lemma example_rsa_key: "rsa_key [(''kid'', GString ''k''), (''kty'', GString ''RSA''), (''n'', GString ''AQ''), (''e'', GString ''AQAB'')] = Inr (1, 65537)"
  by code_simp

lemma signed_example_claims:
  assumes "decode_json_object claims_text = Some claims"
  shows "verified_claims example_ac (signed_example claims_text) (Inr example_jwks) = Inr claims"
proof -
  have keys: "jwks_keys example_jwks = Some [[(''kid'', GString ''k''), (''kty'', GString ''RSA''), (''n'', GString ''AQ''), (''e'', GString ''AQAB'')]]"
    by code_simp
  show ?thesis
    by (simp add: verified_claims_def signed_example_def jwt_split_def token_segments example_header_json assms from_option_def
        verify_rs256_def require_def keys obj_get_def as_string_def example_rsa_key example_ac_def)
qed

lemma example_token_claims:
  assumes "decode_json_object (example_claims_text nonce cert) = Some (example_claims nonce cert)"
  shows "verified_claims example_ac (example_token nonce cert) (Inr example_jwks) = Inr (example_claims nonce cert)"
  unfolding example_token_def by (rule signed_example_claims [OF assms])

section \<open>A live gateway\<close>

definition example_cert :: string where "example_cert = sha256_hex example_ac ''der''"

lemma example_gateway_json:
  "decode_json_object (example_claims_text ''n1'' example_cert) = Some (example_claims ''n1'' example_cert)"
  by code_simp

lemma example_gateway_claims:
  "check_attestation_claims example_ac 7 (example_claims ''n1'' example_cert) example_policy ''n1'' (Some ''der'') [] Binding_Live_Channel =
   Inr \<lparr>ga_cert_sha256 = example_cert, ga_image_digest = ''sha256:1'', ga_image_reference = [], ga_nonce = Some ''n1'',
        ga_expires_at = 100, ga_issuer = gcp_issuer, ga_audience = ''quill-cloud'', ga_raw_claims = example_claims ''n1'' example_cert\<rparr>"
  by code_simp

lemma gateway_attestation_binds_witness:
  "\<exists>g. verify_gateway_attestation example_ac 7 (example_token ''n1'' example_cert) (Inr example_jwks) example_policy ''n1'' (Some ''der'') [] = Inr g \<and>
     ga_cert_sha256 g = sha256_hex example_ac ''der'' \<and> ga_nonce g = Some ''n1'' \<and> ga_expires_at g = 100"
proof -
  have "\<exists>g. verify_gateway_attestation example_ac 7 (example_token ''n1'' example_cert) (Inr example_jwks) example_policy ''n1'' (Some ''der'') [] = Inr g
      \<and> ga_expires_at g = 100"
    by (simp add: verify_gateway_attestation_def example_token_claims [OF example_gateway_json] example_gateway_claims)
  then obtain g where g: "verify_gateway_attestation example_ac 7 (example_token ''n1'' example_cert) (Inr example_jwks) example_policy ''n1'' (Some ''der'') [] = Inr g"
    "ga_expires_at g = 100" by (elim exE conjE) (rule that)
  from gateway_attestation_binds [OF g(1)] have "ga_cert_sha256 g = sha256_hex example_ac ''der'' \<and> ga_nonce g = Some ''n1''"
    by simp
  with g show ?thesis by (intro exI [of _ g]) simp
qed

section \<open>A receipt\<close>

definition example_key :: bytes where "example_key = replicate 32 (CHR ''K'')"

definition example_document :: bytes where
  "example_document = example_token (receipt_key_commitment plain_crypto example_key) ''x''"

definition example_hash :: "bytes \<Rightarrow> string" where
  "example_hash body = b64_encode (cr_sha256 plain_crypto body)"

definition example_receipt_header_text :: string where
  "example_receipt_header_text =
     dq (''{~alg~:~EdDSA~,~typ~:~inference-receipt+jws~,~jwk~:{~kty~:~OKP~,~crv~:~Ed25519~,~x~:~'' @ b64_encode example_key @
       ''~},~kid~:~'' @ b64_encode example_key @ ''~}'')"

definition example_receipt_header :: object where
  "example_receipt_header =
     [(''alg'', GString ''EdDSA''), (''typ'', GString ''inference-receipt+jws''),
      (''jwk'', GMap [(''kty'', GString ''OKP''), (''crv'', GString ''Ed25519''), (''x'', GString (b64_encode example_key))]),
      (''kid'', GString (b64_encode example_key))]"

definition example_receipt_claims_text :: string where
  "example_receipt_claims_text =
     dq (''{~rv~:1,~iss~:~https://a.io~,~iat~:50,~upstream~:{~tier~:~tls-webpki~},~req~:{~alg~:~sha256~,~hash~:~'' @ example_hash ''q'' @
       ''~,~of~:~body~},~resp~:{~alg~:~sha256~,~hash~:~'' @ example_hash ''r'' @ ''~,~of~:~body~},~jti~:~j~,~route~:~responses~,'' @
       ''~model~:{~requested~:~a~,~selected~:~b~,~provider~:~c~,~endpoint~:~d~},~att_sha256~:~'' @
       example_hash (b64_encode example_header_text) @ ''~}'')"

definition example_receipt_claims :: object where
  "example_receipt_claims =
     [(''rv'', GNumber ''1''), (''iss'', GString ''https://a.io''), (''iat'', GNumber ''50''),
      (''upstream'', GMap [(''tier'', GString ''tls-webpki'')]),
      (''req'', GMap [(''alg'', GString ''sha256''), (''hash'', GString (example_hash ''q'')), (''of'', GString ''body'')]),
      (''resp'', GMap [(''alg'', GString ''sha256''), (''hash'', GString (example_hash ''r'')), (''of'', GString ''body'')]),
      (''jti'', GString ''j''), (''route'', GString ''responses''),
      (''model'', GMap [(''requested'', GString ''a''), (''selected'', GString ''b''), (''provider'', GString ''c''), (''endpoint'', GString ''d'')]),
      (''att_sha256'', GString (example_hash (b64_encode example_header_text)))]"

definition example_signature :: bytes where
  "example_signature =
     take 64 ((b64_encode example_receipt_header_text @ ''.'' @ b64_encode example_receipt_claims_text) @ replicate 64 CHR ''0'')"

definition example_receipt :: string where
  "example_receipt = token_text example_receipt_header_text example_receipt_claims_text example_signature"

definition example_env :: receipt_env where
  "example_env = \<lparr>ev_wall_ns = 0, ev_unix = 7, ev_release = Inr example_release, ev_jwks = Inr example_jwks,
     ev_crypto = plain_crypto, ev_rsa_verify = (\<lambda>n e d s. s = d)\<rparr>"

definition example_options :: "bytes \<Rightarrow> verify_receipt_options" where
  "example_options document = \<lparr>vo_request_body = Some ''q'', vo_response_body = Some ''r'', vo_response_stream = None,
     vo_attestation = Some document, vo_expected_nonce = None, vo_max_age_seconds = None, vo_now = Some (Fin 50),
     vo_require_attestation = None, vo_require_bindings = None\<rparr>"

lemma example_document_hash: "example_hash example_document = example_hash (b64_encode example_header_text)"
proof -
  have "32 \<le> length (b64_encode example_header_text)" by (simp add: b64_encode_length example_header_text_def dq_def)
  then show ?thesis
    by (simp add: example_hash_def example_document_def example_token_def signed_example_def token_text_def plain_crypto_def)
qed

lemma example_receipt_header_json: "decode_receipt_json example_receipt_header_text ''protected header'' = Inr (GMap example_receipt_header)"
  by code_simp

lemma example_receipt_claims_json: "decode_receipt_json example_receipt_claims_text ''receipt claims'' = Inr (GMap example_receipt_claims)"
  by code_simp

lemma example_document_json:
  "decode_json_object (example_claims_text (receipt_key_commitment plain_crypto example_key) ''x'') =
     Some (example_claims (receipt_key_commitment plain_crypto example_key) ''x'')"
  by code_simp

lemma example_document_claims:
  "check_attestation_claims example_ac 7 (example_claims (receipt_key_commitment plain_crypto example_key) ''x'') example_policy
     (receipt_key_commitment plain_crypto example_key) None [] Binding_Receipt_Key =
   Inr \<lparr>ga_cert_sha256 = [], ga_image_digest = ''sha256:1'', ga_image_reference = [],
        ga_nonce = Some (receipt_key_commitment plain_crypto example_key), ga_expires_at = 100, ga_issuer = gcp_issuer,
        ga_audience = ''quill-cloud'', ga_raw_claims = example_claims (receipt_key_commitment plain_crypto example_key) ''x''\<rparr>"
  by code_simp

lemma example_policy_of_release: "policy_from_trust_release [] [] example_release = Inr example_policy"
  by code_simp

lemma example_key_document: "verify_key_document example_env example_key example_document = Inr ()"
proof -
  have ac: "env_attestation_crypto example_env = example_ac"
    by (simp add: env_attestation_crypto_def example_env_def example_ac_def)
  show ?thesis
    unfolding verify_key_document_def verify_receipt_key_attestation_def ac example_document_def
    by (simp add: example_env_def example_policy_of_release example_token_claims [OF example_document_json] example_document_claims)
qed

lemma example_pin_ok: "receipt_b64url_decode (example_hash body) check = Inr (cr_sha256 plain_crypto body)"
proof -
  have "cr_sha256 plain_crypto body \<noteq> []" by (cases body) (simp_all add: plain_crypto_def)
  then show ?thesis by (simp add: example_hash_def)
qed

definition example_envelope :: receipt_envelope where
  "example_envelope = \<lparr>en_protected = b64_encode example_receipt_header_text, en_payload = b64_encode example_receipt_claims_text,
     en_signature = b64_encode example_signature, en_flattened_json = None\<rparr>"

lemma example_texts_nonempty: "example_receipt_header_text \<noteq> []" "example_receipt_claims_text \<noteq> []"
  by (simp_all add: example_receipt_header_text_def example_receipt_claims_text_def dq_def)

lemma example_signature_length: "length example_signature = 64" "example_signature \<noteq> []"
proof -
  show "length example_signature = 64" by (simp add: example_signature_def)
  then show "example_signature \<noteq> []" by auto
qed

lemma example_envelope_ok: "parse_receipt_envelope (ReceiptText example_receipt) = Inr example_envelope"
  by (simp add: example_receipt_def compact_receipt example_texts_nonempty example_signature_length example_envelope_def)

lemma example_public_key: "receipt_public_key example_receipt_header = Inr example_key"
  by code_simp

lemma example_header_ok: "parse_receipt_header plain_crypto example_envelope = Inr (example_receipt_header, example_key)"
proof -
  have "cr_sha256 plain_crypto example_key = example_key" by code_simp
  then show ?thesis
    by (simp add: parse_receipt_header_def example_envelope_def example_texts_nonempty example_receipt_header_json as_map_def from_option_def
        require_def example_public_key)
      (simp add: example_receipt_header_def obj_get_def receipt_type_def as_string_def)
qed

lemma example_signature_ok: "verify_receipt_signature plain_crypto example_envelope example_key = Inr example_receipt_claims_text"
proof -
  have "cr_ed25519_verify plain_crypto example_key (b64_encode example_receipt_header_text @ ''.'' @ b64_encode example_receipt_claims_text)
      example_signature"
    by (simp only: example_signature_def plain_crypto_def receipt_crypto.select_convs)
  then show ?thesis
    by (simp add: verify_receipt_signature_def example_envelope_def example_texts_nonempty example_signature_length change_error_def
        require_def)
qed

text \<open>The claims, group by group.\<close>

lemma example_version: "check_receipt_version example_receipt_claims = Inr 1"
  by code_simp

lemma example_issuer: "check_receipt_issuer example_receipt_claims ''https://a.io'' = Inr ''https://a.io''"
  by code_simp

lemma example_time: "check_receipt_time example_env (example_options d) example_receipt_claims = Inr 50"
proof -
  have iat: "receipt_integer (obj_get example_receipt_claims ''iat'') = Some 50" by code_simp
  have r: "round64 50 = Fin 50" "round64 110 = Fin 110" using round64_of_int [of 50] round64_of_int [of 110] by simp_all
  show ?thesis
    by (simp add: check_receipt_time_def iat from_option_def receipt_now_def example_options_def is_nan_def is_inf_def i64_to_f64_def r
        require_def)
qed

lemma example_nonce: "check_receipt_nonce (example_options d) example_receipt_claims = Inr []"
  by code_simp

lemma example_upstream: "check_receipt_upstream example_receipt_claims 50 = Inr ([(''tier'', GString ''tls-webpki'')], ''tls-webpki'', None)"
  by code_simp

lemma example_request: "check_receipt_request plain_crypto (example_options d) example_receipt_claims =
     Inr \<lparr>hc_alg = ''sha256'', hc_hash = example_hash ''q'', hc_of = ''body'', hc_events = None\<rparr>"
  by code_simp

lemma example_response: "check_receipt_response plain_crypto (example_options d) None example_receipt_claims =
     Inr \<lparr>hc_alg = ''sha256'', hc_hash = example_hash ''r'', hc_of = ''body'', hc_events = None\<rparr>"
  by code_simp

lemma example_route: "check_receipt_route example_receipt_claims = Inr ''responses''"
  by code_simp

lemma example_model: "check_receipt_model example_receipt_claims =
     Inr \<lparr>mc_requested = ''a'', mc_selected = ''b'', mc_provider = ''c'', mc_endpoint = ''d''\<rparr>"
  by code_simp

lemma example_pin: "check_receipt_pin False example_receipt_claims = Inr (example_hash (b64_encode example_header_text))"
  by code_simp

lemma example_jti: "required_receipt_string example_receipt_claims ''jti'' ''claims'' = Inr ''j''"
  by code_simp

lemma example_gen: "optional_receipt_string example_receipt_claims ''gen'' ''claims'' = Inr []"
  by code_simp

lemma example_upstream_policy: "optional_receipt_string [(''tier'', GString ''tls-webpki'')] ''policy'' ''upstream'' = Inr []"
  by code_simp

lemma example_upstream_cert: "optional_receipt_string [(''tier'', GString ''tls-webpki'')] ''cert_sha256'' ''upstream'' = Inr []"
  by code_simp

lemma example_origin: "canonical_receipt_https_origin ''https://a.io'' check = Inr ''https://a.io''"
  by code_simp

lemma example_option_fields: "vo_attestation (example_options d) = Some d" "vo_require_attestation (example_options d) = None"
    "vo_require_bindings (example_options d) = None" "vo_request_body (example_options d) = Some ''q''"
  by (simp_all add: example_options_def)

lemma example_env_crypto: "ev_crypto example_env = plain_crypto"
  by (simp add: example_env_def)

lemma example_receipt_verifies:
  "\<exists>claims. verify_receipt example_env (ReceiptText example_receipt) ''https://a.io'' (example_options example_document) = Inr claims \<and>
     rc_jti claims = ''j''"
proof -
  have b: "require_receipt_traffic_bindings (example_options example_document) = Inr ()"
    by (simp add: require_receipt_traffic_bindings_def example_options_def)
  have p: "example_hash (b64_encode example_header_text) \<noteq> []" by code_simp
  have att: "verify_receipt_attestation example_env False example_receipt_header example_key (Some example_document)
      (example_hash (b64_encode example_header_text)) True = Inr ''verified''"
    using example_document_hash [unfolded example_hash_def b64_encode_inj] p
    by (simp add: verify_receipt_attestation_def compact_attestation_def example_env_crypto require_def change_error_def
        example_pin_ok example_key_document receipt_attestation_verified_def)
  have en: "en_flattened_json example_envelope = None" by (simp add: example_envelope_def)
  show ?thesis
    by (simp add: verify_receipt_def example_env_crypto b example_origin example_envelope_ok example_header_ok
        example_signature_ok example_receipt_claims_json from_option_def as_map_def example_version example_issuer example_time
        example_nonce example_upstream example_request example_response example_jti example_gen example_route example_model
        example_upstream_policy example_upstream_cert example_pin en example_option_fields att require_def)
qed


end
