(* ===== verification/Receipt_Tamper.thy ===== *)
theory Receipt_Tamper
  imports Receipt_Examples
begin

text \<open>
  Two consequences of the verification: the release that a verified key is attested under,
  and what happens to a receipt when it is checked against another request body.
\<close>

section \<open>The release behind a key\<close>

definition published_image :: "trust_release \<Rightarrow> object \<Rightarrow> bool" where
  "published_image release claims \<longleftrightarrow>
     (let digests = accepted_or_single (tr_accepted_image_digests release) (tr_image_digest release);
          references = accepted_or_single (tr_accepted_image_references release) (tr_image_reference release)
      in (digests \<noteq> [] \<or> references \<noteq> []) \<and>
         (digests \<noteq> [] \<longrightarrow> image_claim claims ''image_digest'' \<in> set digests) \<and>
         (references \<noteq> [] \<longrightarrow> image_claim claims ''image_reference'' \<in> set references))"

lemma accepted_or_single_idem: "accepted_or_single (accepted_or_single xs x) x = accepted_or_single xs x"
  by (simp add: accepted_or_single_def)

lemma release_policy_published:
  assumes "policy_from_trust_release audience cert release = Inr policy" "genuine_image claims policy"
  shows "published_image release claims"
proof -
  have "ap_expected_image_digests policy = accepted_or_single (tr_accepted_image_digests release) (tr_image_digest release)"
    "ap_expected_image_digest policy = tr_image_digest release"
    "ap_expected_image_references policy = accepted_or_single (tr_accepted_image_references release) (tr_image_reference release)"
    "ap_expected_image_reference policy = tr_image_reference release"
    using assms(1) by (auto simp: policy_from_trust_release_def Let_def if_check_iff)
  with assms(2) show ?thesis by (simp add: genuine_image_def published_image_def Let_def accepted_or_single_idem)
qed

text \<open>
  A document accepted for a receipt key names a published image: it is signed by the key
  set's key, its image is among those of the trust release (which publishes at least one),
  its platform is genuine and not expired, never in debug mode, and its nonces commit to the
  domain-separated hash of exactly this key.
\<close>
theorem key_document_published:
  assumes "verify_key_document env key doc = Inr ()"
  shows "\<exists>release keys claims expiry. ev_release env = Inr release \<and> ev_jwks env = Inr keys \<and>
    signed_token (env_attestation_crypto env) doc keys claims \<and> published_image release claims \<and>
    int_claim (obj_get claims ''exp'') = Some expiry \<and> ev_unix env < expiry \<and>
    equal_fold (string_or_empty (obj_get claims ''dbgstat'')) ''disabled-since-boot'' \<and>
    to_lower (receipt_key_commitment (ev_crypto env) key) \<in> to_lower ` set (string_list_claim (obj_get claims ''eat_nonce''))"
proof -
  let ?ac = "env_attestation_crypto env" and ?commit = "receipt_key_commitment (ev_crypto env) key"
  obtain release policy claims g where h: "ev_release env = Inr release" "policy_from_trust_release [] [] release = Inr policy"
    "verified_claims ?ac doc (ev_jwks env) = Inr claims"
    "check_attestation_claims ?ac (ev_unix env) claims policy ?commit None [] Binding_Receipt_Key = Inr g"
    using assms by (auto simp: verify_key_document_def verify_receipt_key_attestation_def check_iff)
  obtain expiry d r where c: "check_platform (ev_unix env) claims policy = Inr expiry" "check_image claims policy = Inr (d, r)"
    "contains_folded_safe_string (string_list_claim (obj_get claims ''eat_nonce'')) ?commit"
    using h(4) by (auto simp: check_attestation_claims_def check_iff split_paired_Ex simp del: split_paired_Ex)
  have "\<not> ap_allow_debug policy" using h(2) by (auto simp: policy_from_trust_release_def Let_def split: if_splits)
  with c(1) have p: "int_claim (obj_get claims ''exp'') = Some expiry" "ev_unix env < expiry"
    "equal_fold (string_or_empty (obj_get claims ''dbgstat'')) ''disabled-since-boot''"
    by (auto simp: check_platform_iff genuine_platform_def)
  have "published_image release claims" using release_policy_published [OF h(2)] c(2) by (simp add: check_image_iff)
  with h(1) p c(3) verified_claims_signed [OF h(3)] show ?thesis
    by (auto simp: contains_folded_safe_string_def)
qed

lemma key_document_published_witness:
  "\<exists>keys claims. signed_token example_ac example_document keys claims \<and> published_image example_release claims"
proof -
  have e: "env_attestation_crypto example_env = example_ac" "ev_release example_env = Inr example_release"
    by (simp_all add: env_attestation_crypto_def example_env_def example_ac_def)
  from key_document_published [OF example_key_document] show ?thesis unfolding e by auto
qed

section \<open>Another request body\<close>

lemma request_body_frame:
  "check_receipt_time env (opts\<lparr>vo_request_body := b\<rparr>) p = check_receipt_time env opts p"
  "check_receipt_nonce (opts\<lparr>vo_request_body := b\<rparr>) p = check_receipt_nonce opts p"
  "check_receipt_response crypto (opts\<lparr>vo_request_body := b\<rparr>) flattened p = check_receipt_response crypto opts flattened p"
  by (simp_all add: check_receipt_time_def receipt_now_def check_receipt_nonce_def check_receipt_response_def cong: option.case_cong)

lemma other_request_body:
  assumes "check_receipt_request crypto opts p = Inr hc" "vo_request_body opts = Some body"
  shows "check_receipt_request crypto (opts\<lparr>vo_request_body := Some body'\<rparr>) p =
    (if cr_sha256 crypto body' = cr_sha256 crypto body then Inr hc else Inl (ReceiptError ReceiptHash ''request body hash''))"
  using assms by (auto simp: check_receipt_request_def check_iff require_def hash_error_def)

text \<open>
  A receipt verifies for the request it was issued for and for no other: when it has
  verified with one body, then with another body in its place it still verifies, with the
  same claims, if both bodies have the same SHA-256, and otherwise it is rejected with the
  request-hash error.
\<close>
theorem other_request_rejected:
  assumes "verify_receipt env receipt expected_issuer opts = Inr claims" "vo_request_body opts = Some body"
  shows "verify_receipt env receipt expected_issuer (opts\<lparr>vo_request_body := Some body'\<rparr>) =
    (if cr_sha256 (ev_crypto env) body' = cr_sha256 (ev_crypto env) body then Inr claims
     else Inl (ReceiptError ReceiptHash ''request body hash''))"
proof -
  have b: "require_receipt_traffic_bindings (opts\<lparr>vo_request_body := Some body'\<rparr>) = require_receipt_traffic_bindings opts"
    using assms(2) by (simp add: require_receipt_traffic_bindings_def)
  obtain expected en header key octets p rv issuer iat nonce up tier window req resp jti gen route model policy cert pin status where
    h: "require_receipt_traffic_bindings opts = Inr ()"
    "canonical_receipt_https_origin expected_issuer ''expected_issuer'' = Inr expected" "parse_receipt_envelope receipt = Inr en"
    "parse_receipt_header (ev_crypto env) en = Inr (header, key)" "verify_receipt_signature (ev_crypto env) en key = Inr octets"
    "decode_receipt_json octets ''receipt claims'' = Inr (GMap p)" "check_receipt_version p = Inr rv"
    "check_receipt_issuer p expected = Inr issuer" "check_receipt_time env opts p = Inr iat" "check_receipt_nonce opts p = Inr nonce"
    "check_receipt_upstream p iat = Inr (up, tier, window)"
    and r: "check_receipt_request (ev_crypto env) opts p = Inr req"
    and t: "check_receipt_response (ev_crypto env) opts (en_flattened_json en) p = Inr resp"
    "required_receipt_string p ''jti'' ''claims'' = Inr jti" "optional_receipt_string p ''gen'' ''claims'' = Inr gen"
    "check_receipt_route p = Inr route" "check_receipt_model p = Inr model" "optional_receipt_string up ''policy'' ''upstream'' = Inr policy"
    "tier \<noteq> ''tee-verified'' \<or> policy \<noteq> []" "optional_receipt_string up ''cert_sha256'' ''upstream'' = Inr cert"
    "check_receipt_pin (en_flattened en) p = Inr pin"
    "verify_receipt_attestation env (en_flattened en) header key (vo_attestation opts) pin (vo_require_attestation opts \<noteq> Some False) = Inr status"
    using assms(1) by (auto simp: verify_receipt_def and_then_iff from_option_iff require_iff as_map_iff)
  have m: "from_option e (as_map (GMap p)) = Inr p" for e :: receipt_error by (simp add: from_option_def as_map_def)
  show ?thesis
    using assms(1) by (simp add: verify_receipt_def b request_body_frame other_request_body [OF r assms(2)] h t m r require_def)
qed

theorem other_request_rejected_witness:
  "verify_receipt example_env (ReceiptText example_receipt) ''https://a.io''
     ((example_options example_document)\<lparr>vo_request_body := Some ''x''\<rparr>) =
   Inl (ReceiptError ReceiptHash ''request body hash'')"
proof -
  obtain claims where c: "verify_receipt example_env (ReceiptText example_receipt) ''https://a.io'' (example_options example_document) = Inr claims"
    using example_receipt_verifies by (elim exE conjE) (rule that)
  have "cr_sha256 plain_crypto ''x'' \<noteq> cr_sha256 plain_crypto ''q''" by code_simp
  with other_request_rejected [OF c, of "''q''" "''x''"] show ?thesis
    by (simp add: example_option_fields example_env_crypto)
qed

end
