(* ===== verification/Recorder_Facts.thy ===== *)
theory Recorder_Facts
  imports Telemetry_Recorder
begin

text \<open>
  The recorder as a state machine over its callbacks, its invariant, and what follows for
  the sink and for the header: the counters are exact, a call is delivered at most once,
  the event is bounded and every header sent is inside the wire grammar.
\<close>

datatype recorder_op =
    Op_Begin instant string
  | Op_Response instant int headers
  | Op_TransportError instant go_error bool bool bool
  | Op_Moved
  | Op_FirstEvent instant
  | Op_Aborted instant
  | Op_MarkExhausted bool
  | Op_Finish instant

fun recorder_step :: "recorder_op \<Rightarrow> recorder \<times> delivery list \<Rightarrow> recorder \<times> delivery list" where
  "recorder_step (Op_Begin now base) (r, out) = (begin_attempt now base r, out)"
| "recorder_step (Op_Response now status hs) (r, out) = (on_response now status hs r, out)"
| "recorder_step (Op_TransportError now e t ro bs) (r, out) = (on_transport_error now e t ro bs r, out)"
| "recorder_step Op_Moved (r, out) = (on_moved r, out)"
| "recorder_step (Op_FirstEvent now) (r, out) = (on_first_event now r, out)"
| "recorder_step (Op_Aborted now) (r, out) = (on_aborted now r, out)"
| "recorder_step (Op_MarkExhausted b) (r, out) = (mark_exhausted b r, out)"
| "recorder_step (Op_Finish now) (r, out) =
     (fst (finish now r), out @ (case snd (finish now r) of None \<Rightarrow> [] | Some d \<Rightarrow> [d]))"

abbreviation run_recorder :: "recorder_op list \<Rightarrow> recorder \<times> delivery list \<Rightarrow> recorder \<times> delivery list" where
  "run_recorder ops s \<equiv> fold recorder_step ops s"

section \<open>The invariant\<close>

definition attempt_in_vocabulary :: "attempt_record \<Rightarrow> bool" where
  "attempt_in_vocabulary a \<longleftrightarrow>
     at_host a \<in> set telemetry_hosts \<and> at_outcome a \<in> set telemetry_outcomes \<and>
     (at_error_class a = [] \<or> at_error_class a \<in> set telemetry_error_classes) \<and>
     at_phase a \<in> set telemetry_timeout_phases \<and>
     0 \<le> at_elapsed a \<and> at_elapsed a \<le> telemetry_max_duration_ms"

text \<open>The last record when no counter holds it yet: neither in the event nor folded.\<close>

definition pending :: "recorder \<Rightarrow> nat" where
  "pending r = (case rc_last r of None \<Rightarrow> 0
     | Some a \<Rightarrow> (if at_index a \<notin> at_index ` set (rc_attempts r) \<and> rc_folded r \<noteq> Some (at_index a) then 1 else 0))"

definition overflow_total :: "recorder \<Rightarrow> int" where
  "overflow_total r = sum_list (map oe_attempts (rc_overflow r))"

definition counts_exact :: "recorder \<Rightarrow> bool" where
  "counts_exact r \<longleftrightarrow>
     int (rc_recorded r) = int (length (rc_attempts r)) + overflow_total r + int (pending r) \<and>
     length (rc_attempts r) = min telemetry_max_event_attempts (rc_recorded r)"

definition indices_ok :: "recorder \<Rightarrow> bool" where
  "indices_ok r \<longleftrightarrow>
     (rc_begun r \<longleftrightarrow> 0 < rc_next_index r) \<and> rc_current_index r = rc_next_index r - 1 \<and>
     (\<forall>a. rc_last r = Some a \<longrightarrow> at_index a < rc_next_index r) \<and>
     (\<forall>b \<in> set (rc_attempts r). \<exists>a. rc_last r = Some a \<and> at_index b \<le> at_index a) \<and>
     (\<forall>i. rc_folded r = Some i \<longrightarrow> (\<exists>a. rc_last r = Some a \<and> i \<le> at_index a)) \<and>
     (\<forall>a. rc_last r = Some a \<and> at_index a < rc_current_index r \<longrightarrow> pending r = 0)"

definition vocabulary_ok :: "recorder \<Rightarrow> bool" where
  "vocabulary_ok r \<longleftrightarrow>
     list_all attempt_in_vocabulary (rc_attempts r) \<and> (\<forall>a. rc_last r = Some a \<longrightarrow> attempt_in_vocabulary a) \<and>
     (rc_begun r \<longrightarrow> rc_current_host r \<in> set telemetry_hosts)"

definition recorder_inv :: "recorder \<times> delivery list \<Rightarrow> bool" where
  "recorder_inv s \<longleftrightarrow> counts_exact (fst s) \<and> indices_ok (fst s) \<and> vocabulary_ok (fst s) \<and>
     length (snd s) \<le> 1 \<and> (snd s \<noteq> [] \<longrightarrow> rc_finished (fst s))"

lemma recorder_invI:
  "counts_exact r \<Longrightarrow> indices_ok r \<Longrightarrow> vocabulary_ok r \<Longrightarrow> length out \<le> 1 \<Longrightarrow>
   (out \<noteq> [] \<longrightarrow> rc_finished r) \<Longrightarrow> recorder_inv (r, out)"
  by (simp add: recorder_inv_def)

section \<open>Folding\<close>

lemma add_overflow_total:
  "sum_list (map oe_attempts (add_overflow k m es)) = sum_list (map oe_attempts es) + 1"
  by (induction k m es rule: add_overflow.induct) auto

lemma fold_overflow_fields [simp]:
  "rc_attempts (fold_overflow r) = rc_attempts r" "rc_last (fold_overflow r) = rc_last r"
  "rc_recorded (fold_overflow r) = rc_recorded r" "rc_next_index (fold_overflow r) = rc_next_index r"
  "rc_current_index (fold_overflow r) = rc_current_index r" "rc_begun (fold_overflow r) = rc_begun r"
  "rc_current_host (fold_overflow r) = rc_current_host r" "rc_finished (fold_overflow r) = rc_finished r"
  "rc_recordable (fold_overflow r) = rc_recordable r" "rc_sink (fold_overflow r) = rc_sink r"
  "rc_exhausted (fold_overflow r) = rc_exhausted r" "rc_streaming (fold_overflow r) = rc_streaming r"
  "rc_failover_used (fold_overflow r) = rc_failover_used r"
  by (simp_all add: fold_overflow_def split: option.split)

lemma fold_overflow_pending [simp]: "pending (fold_overflow r) = 0"
  by (auto simp: fold_overflow_def pending_def split: option.split)

lemma fold_overflow_total:
  "overflow_total (fold_overflow r) + int (pending (fold_overflow r)) = overflow_total r + int (pending r)"
  by (auto simp: fold_overflow_def pending_def overflow_total_def add_overflow_total split: option.split)

lemma fold_overflow_folded:
  "rc_folded (fold_overflow r) = Some i \<Longrightarrow>
     rc_folded r = Some i \<or> (\<exists>a. rc_last r = Some a \<and> at_index a = i)"
  by (auto simp: fold_overflow_def split: option.splits if_splits)

lemma fold_overflow_exact: "counts_exact r \<Longrightarrow> counts_exact (fold_overflow r)"
  using fold_overflow_total [of r] by (simp add: counts_exact_def)

lemma fold_overflow_indices: "indices_ok r \<Longrightarrow> indices_ok (fold_overflow r)"
  unfolding indices_ok_def by (auto dest: fold_overflow_folded)

lemma fold_overflow_vocabulary: "vocabulary_ok r \<Longrightarrow> vocabulary_ok (fold_overflow r)"
  by (simp add: vocabulary_ok_def)

section \<open>Storing a record\<close>

definition storable :: "attempt_record \<Rightarrow> recorder \<Rightarrow> bool" where
  "storable a r \<longleftrightarrow> rc_begun r \<and> at_index a = rc_current_index r"

lemma replace_attempt_length [simp]: "length (replace_attempt a as) = length as"
  by (simp add: replace_attempt_def)

lemma replace_attempt_indices [simp]: "at_index ` set (replace_attempt a as) = at_index ` set as"
proof -
  have "map at_index (replace_attempt a as) = map at_index as" by (simp add: replace_attempt_def)
  then show ?thesis by (metis list.set_map)
qed

lemma store_attempt_fields [simp]:
  "rc_next_index (store_attempt a r) = rc_next_index r" "rc_begun (store_attempt a r) = rc_begun r"
  "rc_current_index (store_attempt a r) = rc_current_index r" "rc_folded (store_attempt a r) = rc_folded r"
  "rc_overflow (store_attempt a r) = rc_overflow r" "rc_current_host (store_attempt a r) = rc_current_host r"
  "rc_finished (store_attempt a r) = rc_finished r"
  by (simp_all add: store_attempt_def Let_def)

lemma normal_record_index [simp]: "at_index (normal_record a) = at_index a"
  by (simp add: normal_record_def)

lemma replaces_last_normal [simp]: "replaces_last (normal_record a) r = replaces_last a r"
  by (cases "rc_last r") (simp_all add: replaces_last_def)

lemma store_attempt_last [simp]: "rc_last (store_attempt a r) = Some (normal_record a)"
  by (simp add: store_attempt_def Let_def)

lemma store_attempt_recorded:
  "rc_recorded (store_attempt a r) = (if replaces_last a r then rc_recorded r else Suc (rc_recorded r))"
  by (simp add: store_attempt_def Let_def)

lemma store_attempt_stored:
  "at_index a \<in> at_index ` set (rc_attempts r) \<Longrightarrow>
     rc_attempts (store_attempt a r) = replace_attempt (normal_record a) (rc_attempts r)"
  by (simp add: store_attempt_def Let_def)

lemma store_attempt_new:
  "at_index a \<notin> at_index ` set (rc_attempts r) \<Longrightarrow> rc_attempts (store_attempt a r) =
     (if \<not> replaces_last a r \<and> length (rc_attempts r) < telemetry_max_event_attempts
      then rc_attempts r @ [normal_record a] else rc_attempts r)"
  by (simp add: store_attempt_def Let_def)

lemma store_attempt_set:
  "set (rc_attempts (store_attempt a r)) \<subseteq> insert (normal_record a) (set (rc_attempts r))"
  by (cases "at_index a \<in> at_index ` set (rc_attempts r)")
    (auto simp: store_attempt_stored store_attempt_new replace_attempt_def)

text \<open>
  A record either replaces the one of the attempt in flight, or it is the first of its
  attempt: then every older record is already counted.
\<close>

lemma store_cases:
  assumes "indices_ok r" "storable a r"
  obtains (replaced) b where "rc_last r = Some b" "at_index b = at_index a" "replaces_last a r"
    | (fresh) "\<not> replaces_last a r" "pending r = 0"
        "at_index a \<notin> at_index ` set (rc_attempts r)" "rc_folded r \<noteq> Some (at_index a)"
proof (cases "replaces_last a r")
  case True
  then show ?thesis using replaced by (auto simp: replaces_last_def split: option.splits)
next
  case False
  have cur: "at_index a = rc_next_index r - 1" "0 < rc_next_index r"
    using assms by (auto simp: indices_ok_def storable_def)
  have less: "at_index b < at_index a" if "rc_last r = Some b" for b
    using that assms(1) False cur by (force simp: indices_ok_def replaces_last_def)
  have "pending r = 0"
  proof (cases "rc_last r")
    case (Some b)
    with less assms cur show ?thesis by (auto simp: indices_ok_def)
  qed (simp add: pending_def)
  moreover have "at_index a \<notin> at_index ` set (rc_attempts r)" "rc_folded r \<noteq> Some (at_index a)"
    using assms(1) less by (fastforce simp: indices_ok_def)+
  ultimately show ?thesis using fresh False by blast
qed

lemma store_attempt_exact:
  assumes ok: "counts_exact r" "indices_ok r" "storable a r"
  shows "counts_exact (store_attempt a r)"
  using ok(2,3)
proof (cases rule: store_cases)
  case (replaced b)
  have idx: "at_index ` set (rc_attempts (store_attempt a r)) = at_index ` set (rc_attempts r)"
    "length (rc_attempts (store_attempt a r)) = length (rc_attempts r)"
    using replaced(3)
    by (cases "at_index a \<in> at_index ` set (rc_attempts r)"; simp add: store_attempt_stored store_attempt_new)+
  then have "pending (store_attempt a r) = pending r" using replaced by (simp add: pending_def)
  with replaced ok(1) idx show ?thesis
    by (simp add: counts_exact_def overflow_total_def store_attempt_recorded)
next
  case fresh
  from ok(1) have len: "length (rc_attempts r) = min telemetry_max_event_attempts (rc_recorded r)"
    and sum: "int (rc_recorded r) = int (length (rc_attempts r)) + overflow_total r"
    using fresh(2) by (simp_all add: counts_exact_def)
  show ?thesis
  proof (cases "length (rc_attempts r) < telemetry_max_event_attempts")
    case True
    then have "pending (store_attempt a r) = 0"
      using fresh by (simp add: pending_def store_attempt_new)
    with True fresh len sum show ?thesis
      by (simp add: counts_exact_def overflow_total_def store_attempt_recorded store_attempt_new)
  next
    case False
    then have "pending (store_attempt a r) = 1"
      using fresh by (simp add: pending_def store_attempt_new)
    with False fresh len sum show ?thesis
      by (simp add: counts_exact_def overflow_total_def store_attempt_recorded store_attempt_new)
  qed
qed

lemma store_attempt_indices:
  assumes ok: "indices_ok r" "storable a r"
  shows "indices_ok (store_attempt a r)"
proof -
  have cur: "at_index a = rc_current_index r" "rc_begun r" "0 < rc_next_index r"
    using ok by (auto simp: storable_def indices_ok_def)
  have older: "at_index c \<le> at_index a" if "rc_last r = Some c" for c
    using that ok(1) cur by (force simp: indices_ok_def)
  have old: "at_index c \<le> at_index a" if "c \<in> set (rc_attempts r)" for c
    using that ok(1) older by (fastforce simp: indices_ok_def)
  have atts: "at_index c \<le> at_index a" if "c \<in> set (rc_attempts (store_attempt a r))" for c
    using that store_attempt_set [of a r] old by auto
  have fold: "i \<le> at_index a" if "rc_folded r = Some i" for i
    using that ok(1) older by (fastforce simp: indices_ok_def)
  show ?thesis
    unfolding indices_ok_def using ok(1) cur atts fold by (auto simp: indices_ok_def)
qed

lemma store_attempt_vocabulary:
  assumes "vocabulary_ok r" "attempt_in_vocabulary (normal_record a)"
  shows "vocabulary_ok (store_attempt a r)"
  using assms store_attempt_set [of a r] by (auto simp: vocabulary_ok_def list_all_iff)

section \<open>Every callback keeps the invariant\<close>

definition recorder_ok :: "recorder \<Rightarrow> bool" where
  "recorder_ok r \<longleftrightarrow> counts_exact r \<and> indices_ok r \<and> vocabulary_ok r"

lemma store_attempt_ok:
  "recorder_ok r \<Longrightarrow> storable a r \<Longrightarrow> attempt_in_vocabulary (normal_record a) \<Longrightarrow> recorder_ok (store_attempt a r)"
  by (simp add: recorder_ok_def store_attempt_exact store_attempt_indices store_attempt_vocabulary)

lemma pending_cong:
  "rc_last r' = rc_last r \<Longrightarrow> rc_attempts r' = rc_attempts r \<Longrightarrow> rc_folded r' = rc_folded r \<Longrightarrow>
     pending r' = pending r"
  by (cases "rc_last r") (simp_all add: pending_def)

text \<open>The record of the attempt in flight may always be stored.\<close>

lemma store_in_flight:
  assumes "recorder_ok r" "rc_begun r" "at_index a = rc_current_index r" "at_host a = rc_current_host r"
    "at_outcome a \<in> set telemetry_outcomes" "at_error_class a = [] \<or> at_error_class a \<in> set telemetry_error_classes"
    "at_phase a \<in> set telemetry_timeout_phases" "at_elapsed a = clamp_duration_ms d"
  shows "recorder_ok (store_attempt a r)"
  using assms
  by (intro store_attempt_ok)
    (simp_all add: storable_def attempt_in_vocabulary_def normal_record_def clamp_duration_bounds
      recorder_ok_def vocabulary_ok_def telemetry_timeout_phases_def)

lemma current_record_vocabulary:
  "recorder_ok r \<Longrightarrow> current_record r = Some p \<Longrightarrow> attempt_in_vocabulary p \<and> at_index p = rc_current_index r"
  by (auto simp: current_record_def recorder_ok_def vocabulary_ok_def split: option.splits if_splits)

lemma new_recorder_ok: "recorder_ok (new_request_recorder sink facts streaming timeout)"
  by (simp add: recorder_ok_def counts_exact_def indices_ok_def vocabulary_ok_def new_request_recorder_def
      overflow_total_def pending_def)

lemma fold_overflow_ok: "recorder_ok r \<Longrightarrow> recorder_ok (fold_overflow r)"
  by (simp add: recorder_ok_def fold_overflow_exact fold_overflow_indices fold_overflow_vocabulary)

lemma begin_attempt_fields [simp]:
  "rc_attempts (begin_attempt now base r) = rc_attempts r" "rc_last (begin_attempt now base r) = rc_last r"
  "rc_recorded (begin_attempt now base r) = rc_recorded r" "rc_begun (begin_attempt now base r)"
  "rc_next_index (begin_attempt now base r) = Suc (rc_next_index r)"
  "rc_current_index (begin_attempt now base r) = rc_next_index r"
  "rc_current_host (begin_attempt now base r) = host_enum base"
  "rc_attempt_start (begin_attempt now base r) = now"
  "rc_finished (begin_attempt now base r) = rc_finished r"
  by (simp_all add: begin_attempt_def Let_def)

lemma begin_attempt_ok:
  assumes "recorder_ok r"
  shows "recorder_ok (begin_attempt now base r)"
proof -
  let ?r = "r\<lparr>rc_current_index := rc_next_index r, rc_next_index := Suc (rc_next_index r),
               rc_current_host := telemetry_host_custom\<rparr>"
  have p: "pending (begin_attempt now base r) = 0"
    using pending_cong [of "begin_attempt now base r" "fold_overflow ?r"]
    by (simp add: begin_attempt_def Let_def)
  have f: "rc_folded (begin_attempt now base r) = rc_folded (fold_overflow ?r)"
    "overflow_total (begin_attempt now base r) = overflow_total (fold_overflow ?r)"
    by (simp_all add: begin_attempt_def Let_def overflow_total_def)
  have "overflow_total (fold_overflow ?r) = overflow_total r + int (pending r)"
    using fold_overflow_total [of ?r] pending_cong [of ?r r] by (simp add: overflow_total_def)
  with assms p f have "counts_exact (begin_attempt now base r)"
    by (simp add: recorder_ok_def counts_exact_def)
  moreover have "indices_ok (begin_attempt now base r)"
    unfolding indices_ok_def
  proof (intro conjI allI ballI impI)
    have ok: "indices_ok r" using assms by (simp add: recorder_ok_def)
    show "\<exists>a. rc_last (begin_attempt now base r) = Some a \<and> at_index b \<le> at_index a"
      if "b \<in> set (rc_attempts (begin_attempt now base r))" for b
      using ok that by (simp add: indices_ok_def)
    show "\<exists>a. rc_last (begin_attempt now base r) = Some a \<and> i \<le> at_index a"
      if "rc_folded (begin_attempt now base r) = Some i" for i
      using ok that f(1) fold_overflow_folded [of ?r i] by (auto simp: indices_ok_def)
    show "at_index a < rc_next_index (begin_attempt now base r)"
      if "rc_last (begin_attempt now base r) = Some a" for a
      using ok that by (simp add: indices_ok_def less_Suc_eq)
  qed (simp_all add: p)
  moreover have "vocabulary_ok (begin_attempt now base r)"
    using assms by (simp add: recorder_ok_def vocabulary_ok_def host_enum_closed)
  ultimately show ?thesis by (simp add: recorder_ok_def)
qed

lemma on_response_ok: "recorder_ok r \<Longrightarrow> recorder_ok (on_response now status hs r)"
  by (cases "rc_begun r")
    (auto intro!: store_in_flight simp: on_response_def Let_def telemetry_outcomes_def
      telemetry_timeout_phases_def)

lemma transport_facts_closed:
  assumes "transport_facts err t = Some (cls, phase, timed_out)"
  shows "cls \<in> set telemetry_error_classes \<and> phase \<in> set telemetry_timeout_phases"
proof -
  have phases: "''connect'' \<in> set telemetry_timeout_phases" "''first_byte'' \<in> set telemetry_timeout_phases"
    "''none'' \<in> set telemetry_timeout_phases" by (simp_all add: telemetry_timeout_phases_def)
  have classes: "''connect_timeout'' \<in> set telemetry_error_classes" "''read_timeout'' \<in> set telemetry_error_classes"
    by (simp_all add: telemetry_error_classes_def)
  from assms phases classes show ?thesis
    by (auto simp: transport_facts_def branch_def classify_closed split: if_splits option.splits bool.splits)
qed

lemma failure_outcome_closed:
  assumes "cls \<in> set telemetry_error_classes" "phase \<in> set telemetry_timeout_phases"
    "failure_outcome (cls, phase, timed_out) body_started = (outcome, cls', phase')"
  shows "outcome \<in> set telemetry_outcomes \<and> cls' \<in> set telemetry_error_classes \<and>
    phase' \<in> set telemetry_timeout_phases"
  using assms
  by (auto simp: failure_outcome_def telemetry_outcomes_def telemetry_timeout_phases_def telemetry_error_classes_def
      split: if_splits)

lemma on_transport_error_ok:
  assumes "recorder_ok r"
  shows "recorder_ok (on_transport_error now err t ro bs r)"
proof (cases "rc_begun r \<and> transport_facts err t \<noteq> None")
  case True
  then obtain cls phase timed_out where f: "transport_facts err t = Some (cls, phase, timed_out)" by auto
  obtain outcome cls' phase' where o: "failure_outcome (cls, phase, timed_out) bs = (outcome, cls', phase')"
    by (metis prod_cases3)
  note v = failure_outcome_closed [OF conjunct1 conjunct2 o, OF transport_facts_closed [OF f]
      transport_facts_closed [OF f]]
  show ?thesis
    using assms True f o v
    by (auto simp: on_transport_error_def Let_def intro!: store_in_flight split: option.split)
qed (use assms in \<open>auto simp: on_transport_error_def split: option.split\<close>)


lemma on_moved_ok:
  assumes "recorder_ok r"
  shows "recorder_ok (on_moved r)"
proof (cases "current_record r")
  case None
  with assms show ?thesis
    by (simp add: on_moved_def recorder_ok_def counts_exact_def indices_ok_def vocabulary_ok_def
        overflow_total_def pending_def cong: option.case_cong)
next
  case (Some p)
  let ?as = "map (\<lambda>b. if at_index b = at_index p then mark_moved b else b) (rc_attempts r)"
  have last: "rc_last r = Some p" using Some by (auto simp: current_record_def split: option.splits if_splits)
  have m: "at_index (mark_moved b) = at_index b" "attempt_in_vocabulary (mark_moved b) = attempt_in_vocabulary b" for b
    by (simp_all add: mark_moved_def attempt_in_vocabulary_def)
  have "map at_index ?as = map at_index (rc_attempts r)" using m(1) by simp
  then have idx: "at_index ` set ?as = at_index ` set (rc_attempts r)" by (metis list.set_map)
  have r: "rc_last (on_moved r) = Some (mark_moved p)" "rc_attempts (on_moved r) = ?as"
    "rc_folded (on_moved r) = rc_folded r" "rc_overflow (on_moved r) = rc_overflow r"
    "rc_recorded (on_moved r) = rc_recorded r" "rc_next_index (on_moved r) = rc_next_index r"
    "rc_current_index (on_moved r) = rc_current_index r" "rc_begun (on_moved r) = rc_begun r"
    "rc_current_host (on_moved r) = rc_current_host r"
    using Some by (simp_all add: on_moved_def Let_def)
  have p: "pending (on_moved r) = pending r"
    using last r idx m by (simp add: pending_def)
  show ?thesis
    using assms r p last m idx
    by (auto simp: recorder_ok_def counts_exact_def indices_ok_def vocabulary_ok_def overflow_total_def list_all_iff)
qed

lemma on_aborted_ok: "recorder_ok r \<Longrightarrow> recorder_ok (on_aborted now r)"
proof (cases "rc_begun r")
  case True
  assume ok: "recorder_ok r"
  have o: "''aborted'' \<in> set telemetry_outcomes" by (simp add: telemetry_outcomes_def)
  have n: "''none'' \<in> set telemetry_timeout_phases" by (simp add: telemetry_timeout_phases_def)
  show ?thesis
  proof (cases "current_record r")
    case None
    with True ok o n show ?thesis
      unfolding on_aborted_def Let_def
      by (simp, intro store_in_flight [where d = "now - rc_attempt_start r"]) simp_all
  next
    case (Some p)
    with current_record_vocabulary [OF ok Some] True ok o show ?thesis
      unfolding on_aborted_def Let_def
      by (simp, intro store_in_flight [where d = "now - rc_attempt_start r"]) (simp_all add: attempt_in_vocabulary_def)
  qed
qed (simp add: on_aborted_def)

lemma recorder_ok_cong:
  "rc_last r' = rc_last r \<Longrightarrow> rc_attempts r' = rc_attempts r \<Longrightarrow> rc_folded r' = rc_folded r \<Longrightarrow>
   rc_overflow r' = rc_overflow r \<Longrightarrow> rc_recorded r' = rc_recorded r \<Longrightarrow> rc_next_index r' = rc_next_index r \<Longrightarrow>
   rc_current_index r' = rc_current_index r \<Longrightarrow> rc_begun r' = rc_begun r \<Longrightarrow>
   rc_current_host r' = rc_current_host r \<Longrightarrow> recorder_ok r \<Longrightarrow> recorder_ok r'"
  by (simp add: recorder_ok_def counts_exact_def indices_ok_def vocabulary_ok_def overflow_total_def
      pending_cong [of r' r])

lemma on_first_event_ok: "recorder_ok r \<Longrightarrow> recorder_ok (on_first_event now r)"
  by (auto simp: on_first_event_def intro: recorder_ok_cong [rotated -1])

lemma mark_exhausted_ok: "recorder_ok r \<Longrightarrow> recorder_ok (mark_exhausted b r)"
  by (rule recorder_ok_cong [rotated -1]) (simp_all add: mark_exhausted_def)

lemma set_finished_ok: "recorder_ok r \<Longrightarrow> recorder_ok (r\<lparr>rc_finished := True\<rparr>)"
  by (rule recorder_ok_cong [rotated -1]) simp_all

lemma finish_ok: "recorder_ok r \<Longrightarrow> recorder_ok (fst (finish now r))"
  by (auto simp: finish_def Let_def fold_overflow_ok set_finished_ok split: option.split)

lemma finish_finished [simp]: "rc_finished (fst (finish now r))"
  by (auto simp: finish_def Let_def split: option.split)

lemma finish_again: "rc_finished r \<Longrightarrow> finish now r = (r, None)"
  by (simp add: finish_def)

lemma callbacks_keep_finished [simp]:
  "rc_finished (on_response now status hs r) = rc_finished r"
  "rc_finished (on_transport_error now err t ro bs r) = rc_finished r"
  "rc_finished (on_moved r) = rc_finished r" "rc_finished (on_aborted now r) = rc_finished r"
  "rc_finished (on_first_event now r) = rc_finished r" "rc_finished (mark_exhausted b r) = rc_finished r"
  by (auto simp: on_response_def on_transport_error_def on_moved_def on_aborted_def on_first_event_def
      mark_exhausted_def Let_def split: option.split prod.split)

lemma recorder_inv_step:
  assumes "recorder_inv s"
  shows "recorder_inv (recorder_step op s)"
proof -
  obtain r out where s: "s = (r, out)" by (cases s)
  with assms have ok: "recorder_ok r" and out: "length out \<le> 1" "out \<noteq> [] \<longrightarrow> rc_finished r"
    by (simp_all add: recorder_inv_def recorder_ok_def)
  have inv: "recorder_ok q \<Longrightarrow> rc_finished q = rc_finished r \<Longrightarrow> recorder_inv (q, out)" for q
    using out by (simp add: recorder_inv_def recorder_ok_def)
  show ?thesis
  proof (cases op)
    case (Op_Finish now)
    have "recorder_ok (fst (finish now r))" using ok by (rule finish_ok)
    moreover have "length (snd (recorder_step op s)) \<le> 1"
      using out s Op_Finish by (cases "rc_finished r") (auto simp: finish_again split: option.split)
    ultimately show ?thesis using s Op_Finish by (simp add: recorder_inv_def recorder_ok_def)
  qed (simp_all add: s inv ok begin_attempt_ok on_response_ok on_transport_error_ok on_moved_ok
      on_first_event_ok on_aborted_ok mark_exhausted_ok)
qed

lemma recorder_finished_step: "rc_finished (fst s) \<Longrightarrow> rc_finished (fst (recorder_step op s))"
  by (cases s; cases op) simp_all

interpretation call_recorder: absorbing recorder_step recorder_inv "\<lambda>s. rc_finished (fst s)"
  by unfold_locales (auto simp: recorder_inv_step recorder_finished_step)

lemma new_recorder_inv: "recorder_inv (new_request_recorder sink facts streaming timeout, [])"
  using new_recorder_ok by (simp add: recorder_inv_def recorder_ok_def)

section \<open>Exact counters\<close>

text \<open>
  The specification of the attempt count, independent of the recorder: an attempt counts
  once, when its first fact is observed.  The state is whether an attempt has begun,
  whether the one in flight already counts, and the count.
\<close>

definition observe :: "bool \<times> bool \<times> nat \<Rightarrow> bool \<times> bool \<times> nat" where
  "observe t = (case t of (begun, counted, n) \<Rightarrow> if begun \<and> \<not> counted then (begun, True, Suc n) else t)"

fun tally_step :: "recorder_op \<Rightarrow> bool \<times> bool \<times> nat \<Rightarrow> bool \<times> bool \<times> nat" where
  "tally_step (Op_Begin _ _) (b, c, n) = (True, False, n)"
| "tally_step (Op_Response _ _ _) t = observe t"
| "tally_step (Op_Aborted _) t = observe t"
| "tally_step (Op_TransportError _ e timed_out _ _) t = (if transport_facts e timed_out = None then t else observe t)"
| "tally_step _ t = t"

definition observed_attempts :: "recorder_op list \<Rightarrow> nat" where
  "observed_attempts ops = snd (snd (fold tally_step ops (False, False, 0)))"

definition tally_agrees :: "bool \<times> bool \<times> nat \<Rightarrow> recorder \<Rightarrow> bool" where
  "tally_agrees t r = (case t of (b, c, n) \<Rightarrow>
     rc_begun r = b \<and> rc_recorded r = n \<and>
     (c \<longleftrightarrow> (\<exists>a. rc_last r = Some a \<and> at_index a = rc_current_index r \<and> b)))"

lemma tally_store:
  assumes "tally_agrees t r" "rc_begun r" "at_index a = rc_current_index r"
  shows "tally_agrees (observe t) (store_attempt a r)"
  using assms
  by (cases "rc_last r")
    (auto simp: tally_agrees_def observe_def store_attempt_recorded replaces_last_def split: prod.splits)

lemma tally_idle: "tally_agrees t r \<Longrightarrow> \<not> rc_begun r \<Longrightarrow> observe t = t"
  by (auto simp: tally_agrees_def observe_def split: prod.splits)

lemma tally_cong:
  "rc_begun r' = rc_begun r \<Longrightarrow> rc_recorded r' = rc_recorded r \<Longrightarrow>
   map_option at_index (rc_last r') = map_option at_index (rc_last r) \<Longrightarrow>
   rc_current_index r' = rc_current_index r \<Longrightarrow> tally_agrees t r \<Longrightarrow> tally_agrees t r'"
  by (cases "rc_last r"; cases "rc_last r'") (auto simp: tally_agrees_def split: prod.splits)

lemma tally_begin:
  assumes "tally_agrees (b, c, n) r" "indices_ok r"
  shows "tally_agrees (True, False, n) (begin_attempt now base r)"
proof -
  have "at_index a \<noteq> rc_next_index r" if "rc_last r = Some a" for a
    using that assms(2) by (auto simp: indices_ok_def)
  with assms(1) show ?thesis by (auto simp: tally_agrees_def)
qed

lemma tally_step_agrees:
  assumes "tally_agrees t (fst s)" "recorder_inv s"
  shows "tally_agrees (tally_step op t) (fst (recorder_step op s))"
proof -
  obtain r out where s: "s = (r, out)" by (cases s)
  obtain b c n where t: "t = (b, c, n)" by (cases t)
  note a = assms(1) [unfolded s fst_conv]
  show ?thesis
  proof (cases op)
    case (Op_Begin now base)
    with assms s t show ?thesis by (simp add: tally_begin recorder_inv_def)
  next
    case (Op_Response now status hs)
    with a s show ?thesis
      by (cases "rc_begun r") (auto simp: on_response_def Let_def tally_store tally_idle)
  next
    case (Op_TransportError now e to ro bs)
    with a s show ?thesis
      by (cases "rc_begun r")
        (auto simp: on_transport_error_def Let_def tally_idle intro!: tally_store split: option.split prod.split)
  next
    case Op_Moved
    from a show ?thesis unfolding s Op_Moved
      by (auto intro!: tally_cong [OF _ _ _ _ a] simp: on_moved_def Let_def current_record_def mark_moved_def
          split: option.split)
  next
    case (Op_FirstEvent now)
    with a s show ?thesis by (auto intro!: tally_cong [OF _ _ _ _ a] simp: on_first_event_def)
  next
    case (Op_Aborted now)
    with a s show ?thesis
      by (cases "rc_begun r") (auto simp: on_aborted_def Let_def tally_idle intro!: tally_store split: option.split)
  next
    case (Op_MarkExhausted f)
    with a s show ?thesis by (auto intro!: tally_cong [OF _ _ _ _ a] simp: mark_exhausted_def)
  next
    case (Op_Finish now)
    with a s show ?thesis
      by (auto intro!: tally_cong [OF _ _ _ _ a] simp: finish_def Let_def split: option.split)
  qed
qed

lemma run_agrees:
  assumes "recorder_inv s" "tally_agrees t (fst s)"
  shows "tally_agrees (fold tally_step ops t) (fst (run_recorder ops s))"
  using assms
proof (induction ops arbitrary: s t)
  case (Cons op ops)
  then show ?case using tally_step_agrees recorder_inv_step by simp
qed simp

lemma recorded_is_observed:
  "rc_recorded (fst (run_recorder ops (new_request_recorder sink facts streaming timeout, []))) = observed_attempts ops"
proof -
  have "tally_agrees (False, False, 0) (new_request_recorder sink facts streaming timeout)"
    by (simp add: tally_agrees_def new_request_recorder_def)
  from run_agrees [OF new_recorder_inv, of "(False, False, 0)" sink facts streaming timeout ops] this
  show ?thesis by (simp add: tally_agrees_def observed_attempts_def split: prod.splits)
qed

lemma finish_delivery:
  assumes "recorder_ok r" "snd (finish now r) = Some (ev, cs)"
  shows "\<exists>req rest. cs = req # rest \<and> ck_level (ci_key req) = ''request'' \<and>
    ci_attempts req = int (rc_recorded r) \<and> sum_list (map ci_attempts rest) = int (rc_recorded r) \<and>
    length (ev_attempts ev) = min telemetry_max_event_attempts (rc_recorded r)"
proof -
  let ?r = "fold_overflow (r\<lparr>rc_finished := True\<rparr>)"
  obtain final where cs: "cs = final_counters now ?r final" and ev: "ev = final_event now ?r final"
    using assms(2) by (auto simp: finish_def Let_def split: if_splits option.splits)
  have exact: "counts_exact ?r"
    using fold_overflow_ok [OF set_finished_ok [OF assms(1)]] by (simp add: recorder_ok_def)
  have "sum_list (map ci_attempts (map (attempt_counter ?r) as)) = int (length as)" for as
    by (induction as) (simp_all add: attempt_counter_def)
  moreover have "sum_list (map ci_attempts (map overflow_counter es)) = sum_list (map oe_attempts es)" for es
    by (induction es) (simp_all add: overflow_counter_def)
  ultimately show ?thesis
    using exact
    by (auto simp: cs ev final_counters_def request_counter_def final_event_def Let_def counts_exact_def
        overflow_total_def)
qed

text \<open>
  C5. Whatever callbacks a call's recorder receives, when the call is finished and
  delivered the sink gets the request's own counter first and then attempt counters
  whose attempts add up to the number of attempts of which anything was observed, and so
  does the request's count, although the event itself carries at most 16 attempts.
\<close>

theorem recorder_counters_exact:
  assumes "snd (finish now (fst (run_recorder ops (new_request_recorder sink facts streaming timeout, [])))) =
    Some (ev, cs)"
  shows "\<exists>req rest. cs = req # rest \<and> ck_level (ci_key req) = ''request'' \<and>
    ci_attempts req = int (observed_attempts ops) \<and>
    sum_list (map ci_attempts rest) = int (observed_attempts ops) \<and>
    length (ev_attempts ev) = min 16 (observed_attempts ops)"
proof -
  have "recorder_ok (fst (run_recorder ops (new_request_recorder sink facts streaming timeout, [])))"
    using call_recorder.run_keeps [OF new_recorder_inv] by (simp add: recorder_inv_def recorder_ok_def)
  from finish_delivery [OF this assms] show ?thesis
    by (simp add: recorded_is_observed telemetry_max_event_attempts_def)
qed

definition sample_facts :: request_facts where
  "sample_facts = \<lparr>rf_endpoint = ''chat_completions'', rf_method = ''POST'', rf_model = [], rf_provider_pinned = False\<rparr>"

text \<open>A call of 18 attempts, each refused: two fall past the event's cap.\<close>

definition refused_call :: "recorder_op list" where
  "refused_call = concat (replicate 18 [Op_Begin 0 ''https://api.trustedrouter.com/v1'',
     Op_TransportError 5000000 (OpError ''dial'' (Some (Errno ECONNREFUSED))) False False False])"

theorem recorder_counters_exact_witness:
  "\<exists>ev req rest. snd (finish 9000000 (fst (run_recorder refused_call
       (new_request_recorder True sample_facts False None, [])))) = Some (ev, req # rest) \<and>
     ci_attempts req = 18 \<and> sum_list (map ci_attempts rest) = 18 \<and> length (ev_attempts ev) = 16"
proof -
  have "snd (finish 9000000 (fst (run_recorder refused_call
       (new_request_recorder True sample_facts False None, [])))) \<noteq> None" by code_simp
  then obtain ev cs where d: "snd (finish 9000000 (fst (run_recorder refused_call
       (new_request_recorder True sample_facts False None, [])))) = Some (ev, cs)" by auto
  have "observed_attempts refused_call = 18" by code_simp
  with recorder_counters_exact [OF d] d show ?thesis by auto
qed

text \<open>
  A logical call reaches the sink at most once, whatever the order of its callbacks:
  a second finish, or a close after an abort, delivers nothing.
\<close>

theorem recorder_delivers_once:
  "length (snd (run_recorder ops (new_request_recorder sink facts streaming timeout, []))) \<le> 1"
  using call_recorder.run_keeps [OF new_recorder_inv] by (simp add: recorder_inv_def)

end
