(* ===== verification/Transport.thy ===== *)
theory Transport
  imports Request Recorder_Facts
begin

text \<open>
  The transport engine of \<open>transport.go\<close>: \<open>do\<close>, the one retry and failover loop.  Its
  environment is a script: for each attempt, what the context says, the clock, what the
  HTTP client answers, the jitter and how the pause ends.  The loop returns its result and
  the trace of what it did: requests sent, hops of the candidate index, pauses, and the
  recorder's state.  It terminates because every repetition spends one retry.
\<close>

section \<open>Environment, state and results\<close>

text \<open>\<open>Failed\<close>: the client's error, \<open>ctx.Err()\<close> after it, and whether the open timer was the cause.\<close>

datatype exchange = Failed go_error "go_error option" bool | Answered int headers

record attempt_env =
  ae_ctx_err :: "go_error option" \<comment> \<open>\<open>ctx.Err()\<close> at the top of the loop\<close>
  ae_begin :: instant
  ae_exchange :: exchange
  ae_done :: instant
  ae_jitter :: float64
  ae_sleep_err :: "go_error option" \<comment> \<open>what \<open>sleepContext\<close> returns\<close>
  ae_end :: instant

datatype body_wrapper = Bare_Body | Cancel_On_Close | Cancel_Cause_On_Close | Idle_Timeout duration

text \<open>A response keeps its status and headers; its body is wrapped, last by the telemetry wrapper.\<close>

datatype call_result =
    Call_Error go_error
  | Call_Response int headers body_wrapper bool
  | Call_Panicked \<comment> \<open>index out of range: no candidate\<close>

record engine_state =
  es_recorder :: "(recorder \<times> delivery list) option" \<comment> \<open>nil without telemetry\<close>
  es_sent :: "(nat \<times> http_request) list"
  es_hops :: "(nat \<times> (int \<times> headers) option \<times> nat) list"
  es_sleeps :: "duration option list"

record engine_config =
  ec_client :: client
  ec_spec :: request_spec
  ec_agent :: string
  ec_render :: "go_error \<Rightarrow> string option"

datatype step_result = Stop call_result engine_state | Again nat engine_state

text \<open>Every recorder method is safe on a nil recorder.\<close>

definition record_op :: "recorder_op \<Rightarrow> engine_state \<Rightarrow> engine_state" where
  "record_op op st = st\<lparr>es_recorder := map_option (recorder_step op) (es_recorder st)\<rparr>"

definition telemetry_header :: "engine_state \<Rightarrow> string" where
  "telemetry_header st = (case es_recorder st of None \<Rightarrow> [] | Some (r, _) \<Rightarrow> header_value r)"

section \<open>One attempt\<close>

definition pause :: "engine_config \<Rightarrow> attempt_env \<Rightarrow> nat \<Rightarrow> nat \<Rightarrow> float64 option \<Rightarrow> engine_state \<Rightarrow> step_result" where
  "pause cfg e attempt base retry_after st0 =
     (let st = st0\<lparr>es_sleeps := es_sleeps st0 @ [retry_sleep_duration (ae_jitter e) attempt retry_after]\<rparr> in
      case ae_sleep_err e of
        Some err \<Rightarrow> Stop (Call_Error err) (record_op (Op_Finish (ae_end e)) (record_op (Op_Aborted (ae_end e)) st))
      | None \<Rightarrow> Again base st)"

text \<open>The candidate index after a failed attempt, and the hop that is recorded.\<close>

definition advance :: "nat \<Rightarrow> bool \<Rightarrow> (int \<times> headers) option \<Rightarrow> engine_state \<Rightarrow> nat \<times> engine_state" where
  "advance base move response st0 =
     (let base' = (if move then Suc base else base);
          st = st0\<lparr>es_hops := es_hops st0 @ [(base, response, base')]\<rparr>
      in (base', if move then record_op Op_Moved st else st))"

definition after_failure ::
    "engine_config \<Rightarrow> attempt_env \<Rightarrow> nat \<Rightarrow> nat \<Rightarrow> engine_state \<Rightarrow> go_error \<Rightarrow> go_error option \<Rightarrow> bool \<Rightarrow> step_result" where
  "after_failure cfg e attempt base st err ctx_err cause =
     (case ctx_err of
        Some ce \<Rightarrow> Stop (Call_Error ce) (record_op (Op_Finish (ae_end e)) (record_op (Op_Aborted (ae_done e)) st))
      | None \<Rightarrow>
         (let spec = ec_spec cfg;
              open_timed_out = (rs_stream_open spec \<and> cause);
              st1 = record_op (Op_TransportError (ae_done e) err open_timed_out False False) st;
              surfaced = (if open_timed_out then Sentinel Open_Timeout else err);
              replay_safe = request_replay_safe (rs_method spec) (rs_opts spec)
          in if cl_max_retries (ec_client cfg) \<le> attempt \<or> \<not> replay_safe
             then Stop (Call_Error (transport_retry_error (ec_render cfg) (Some surfaced)))
                    (record_op (Op_Finish (ae_end e)) (record_op (Op_MarkExhausted (0 < attempt \<and> replay_safe)) st1))
             else let (base', st2) = advance base (rs_failover spec \<and> base < length (rs_candidates spec) - 1) None st1
                  in pause cfg e attempt base' None st2))"

definition response_wrapper :: "request_spec \<Rightarrow> duration option \<Rightarrow> body_wrapper" where
  "response_wrapper spec timeout =
     (if rs_stream_open spec
      then (case timeout of Some d \<Rightarrow> Idle_Timeout d | None \<Rightarrow> Cancel_Cause_On_Close)
      else (case timeout of Some _ \<Rightarrow> Cancel_On_Close | None \<Rightarrow> Bare_Body))"

definition after_response ::
    "engine_config \<Rightarrow> attempt_env \<Rightarrow> nat \<Rightarrow> nat \<Rightarrow> engine_state \<Rightarrow> int \<Rightarrow> headers \<Rightarrow> step_result" where
  "after_response cfg e attempt base st status hs =
     (let spec = ec_spec cfg;
          st1 = record_op (Op_Response (ae_done e) status hs) st;
          can_retry = (retryable status hs \<and> request_replay_safe (rs_method spec) (rs_opts spec))
      in if cl_max_retries (ec_client cfg) \<le> attempt \<or> \<not> can_retry
         then Stop (Call_Response status hs
                      (response_wrapper spec (effective_timeout (ec_client cfg) (rs_opts spec)))
                      (es_recorder st1 \<noteq> None))
                (record_op (Op_MarkExhausted (0 < attempt \<and> can_retry)) st1)
         else let (base', st2) = advance base
                    (rs_failover spec \<and> regional_failoverable status hs \<and> base < length (rs_candidates spec) - 1)
                    (Some (status, hs)) st1
              in pause cfg e attempt base' (retry_after_seconds hs) st2)"

definition attempt_step ::
    "engine_config \<Rightarrow> (nat \<Rightarrow> attempt_env) \<Rightarrow> nat \<Rightarrow> nat \<Rightarrow> engine_state \<Rightarrow> step_result" where
  "attempt_step cfg env attempt base st =
     (let e = env attempt; spec = ec_spec cfg in
      case ae_ctx_err e of
        Some err \<Rightarrow> Stop (Call_Error err) (record_op (Op_Finish (ae_end e)) (record_op (Op_Aborted (ae_begin e)) st))
      | None \<Rightarrow>
         (if length (rs_candidates spec) \<le> base then Stop Call_Panicked st
          else let candidate = rs_candidates spec ! base;
                   st1 = record_op (Op_Begin (ae_begin e) candidate) st
            in case new_http_request (ec_agent cfg) (ec_client cfg) (rs_method spec) (join_url candidate (rs_path spec))
                      (rs_body spec) (rs_has_body spec) (rs_opts spec) (telemetry_header st1) (rs_credential_free spec) of
                 Inl err \<Rightarrow> Stop (Call_Error err) (record_op (Op_Finish (ae_end e)) st1)
               | Inr req \<Rightarrow>
                  (let st2 = st1\<lparr>es_sent := es_sent st1 @ [(base, req)]\<rparr> in
                   case ae_exchange e of
                     Failed err ctx_err cause \<Rightarrow> after_failure cfg e attempt base st2 err ctx_err cause
                   | Answered status hs \<Rightarrow> after_response cfg e attempt base st2 status hs)))"

lemma attempt_step_again: "attempt_step cfg env attempt base st = Again base' st' \<Longrightarrow> attempt < cl_max_retries (ec_client cfg)"
  by (auto simp: attempt_step_def after_failure_def after_response_def Let_def not_le
      split: option.splits sum.splits exchange.splits if_splits)

section \<open>The loop\<close>

function engine_loop ::
    "engine_config \<Rightarrow> (nat \<Rightarrow> attempt_env) \<Rightarrow> nat \<Rightarrow> nat \<Rightarrow> engine_state \<Rightarrow> call_result \<times> engine_state" where
  "engine_loop cfg env attempt base st =
     (case attempt_step cfg env attempt base st of
        Stop r s \<Rightarrow> (r, s)
      | Again base' s \<Rightarrow> engine_loop cfg env (Suc attempt) base' s)"
  by pat_completeness auto
termination
  by (relation "measure (\<lambda>(cfg, env, attempt, base, st). cl_max_retries (ec_client cfg) - attempt)")
    (auto dest: attempt_step_again)

declare engine_loop.simps [simp del]

text \<open>The key is minted once, before the first attempt; \<open>fresh_key\<close> is the key the call would mint.\<close>

definition mint_key :: "string \<Rightarrow> request_spec \<Rightarrow> request_spec" where
  "mint_key fresh_key spec =
     (if rs_auto_idempotency spec
      then spec\<lparr>rs_opts := Some (ensure_idempotency_options fresh_key (rs_opts spec))\<rparr>
      else spec)"

definition call_recorder_state :: "client \<Rightarrow> request_spec \<Rightarrow> (recorder \<times> delivery list) option" where
  "call_recorder_state c spec =
     (if cl_telemetry c \<and> \<not> rs_control_plane spec
      then Some (new_request_recorder True (rs_telemetry spec) (rs_stream_open spec)
                   (effective_timeout c (rs_opts spec)), [])
      else None)"

definition initial_state :: "client \<Rightarrow> request_spec \<Rightarrow> engine_state" where
  "initial_state c spec = \<lparr>es_recorder = call_recorder_state c spec, es_sent = [], es_hops = [], es_sleeps = []\<rparr>"

definition transport_do ::
    "(go_error \<Rightarrow> string option) \<Rightarrow> string \<Rightarrow> string \<Rightarrow> client \<Rightarrow> request_spec \<Rightarrow> (nat \<Rightarrow> attempt_env)
     \<Rightarrow> call_result \<times> engine_state" where
  "transport_do render agent fresh_key c spec0 env =
     (let spec = mint_key fresh_key spec0;
          cfg = \<lparr>ec_client = c, ec_spec = spec, ec_agent = agent, ec_render = render\<rparr>
      in engine_loop cfg env 0 0 (initial_state c spec))"

section \<open>The one-shot path\<close>

text \<open>\<open>absoluteRequest\<close>: public metadata at an absolute URL, no retry, no credential.\<close>

definition absolute_request ::
    "(go_error \<Rightarrow> string option) \<Rightarrow> string \<Rightarrow> client \<Rightarrow> string \<Rightarrow> string \<Rightarrow> exchange \<Rightarrow> call_result \<times> http_request option" where
  "absolute_request render agent c http_method url exch =
     (case new_request_error http_method url of
        Some e \<Rightarrow> (Call_Error e, None)
      | None \<Rightarrow>
         (let req = \<lparr>rq_method = (if http_method = [] then ''GET'' else http_method), rq_url = url,
                 rq_headers = strip_credential_headers
                    (header_set ''user-agent'' agent (set_all (cl_headers c) no_headers)),
                 rq_body = None\<rparr>
          in case exch of
               Failed err (Some ce) cause \<Rightarrow> (Call_Error ce, Some req)
             | Failed err None cause \<Rightarrow> (Call_Error (transport_retry_error render (Some err)), Some req)
             | Answered status hs \<Rightarrow> (Call_Response status hs
                 (case effective_timeout c None of Some _ \<Rightarrow> Cancel_On_Close | None \<Rightarrow> Bare_Body) False, Some req)))"

end
