(* ===== verification/Metadata.thy ===== *)
theory Metadata
  imports Attestation Transport
begin

text \<open>
  The public documents an attestation is judged against (\<open>attestation.go\<close>): the attestation
  document itself, the trust release and the JWKS.  Their requests carry no credential; the
  HTTP client's answer is the environment's, everything done with it is modelled.  The decoder of
  the release is an argument here; \<open>Trust_Release\<close> gives it.
\<close>

section \<open>Requests\<close>

definition default_trust_release_url :: string where
  "default_trust_release_url = ''https://trust.trustedrouter.com/trust/gcp-release.json''"

definition gcp_jwks_uri :: string where
  "gcp_jwks_uri =
     ''https://www.googleapis.com/service_accounts/v1/metadata/jwk/signer@confidentialspace-sign.iam.gserviceaccount.com''"

text \<open>The deadline a fetch runs under: the caller's, else the default timeout from now.\<close>

definition context_with_default_timeout :: "instant option \<Rightarrow> instant \<Rightarrow> duration \<Rightarrow> bool \<Rightarrow> instant option" where
  "context_with_default_timeout deadline now timeout enabled =
     (if \<not> enabled then deadline
      else case deadline of Some d \<Rightarrow> Some d | None \<Rightarrow> Some (now + timeout))"

definition metadata_request :: "string \<Rightarrow> string \<Rightarrow> http_request" where
  "metadata_request agent url =
     \<lparr>rq_method = ''GET'', rq_url = url,
      rq_headers = strip_credential_headers (header_set ''user-agent'' agent no_headers), rq_body = None\<rparr>"

text \<open>
  What an HTTP client answers: its error with the context's after it, or a status, headers,
  the read of the body and the context's error after that read.
\<close>

datatype metadata_answer =
    Exchange_Failed go_error "go_error option"
  | Exchange_Answered int headers "bytes + go_error" "go_error option"

type_synonym metadata_transport = "http_client \<Rightarrow> http_request \<Rightarrow> metadata_answer"

section \<open>Fetches\<close>

definition fetch_trust_release ::
    "(go_error \<Rightarrow> string option) \<Rightarrow> (gvalue \<Rightarrow> string) \<Rightarrow> (bytes \<Rightarrow> go_error + 'a) \<Rightarrow> metadata_transport
     \<Rightarrow> string \<Rightarrow> http_client option \<Rightarrow> string \<Rightarrow> 'a decode_result" where
  "fetch_trust_release render fmt_other unmarshal do_request agent http_client trust_url =
     (let url = (if trust_url = [] then default_trust_release_url else trust_url) in
      case new_request_error ''GET'' url of
        Some e \<Rightarrow> Decode_Failed e
      | None \<Rightarrow>
          (case do_request (clone_credential_free http_client) (metadata_request agent url) of
             Exchange_Failed err (Some ce) \<Rightarrow> Decode_Failed ce
           | Exchange_Failed err None \<Rightarrow> Decode_Failed (transport_retry_error render (Some err))
           | Exchange_Answered status hs body ctx_err \<Rightarrow>
               decode_response render fmt_other ctx_err body status hs (Some unmarshal)))"

definition fetch_jwks ::
    "metadata_transport \<Rightarrow> string \<Rightarrow> http_client option \<Rightarrow> string \<Rightarrow> attestation_error + object" where
  "fetch_jwks do_request agent http_client jwks_url =
     (let url = (if jwks_url = [] then gcp_jwks_uri else jwks_url) in
      case new_request_error ''GET'' url of
        Some e \<Rightarrow> Inl (AttestationError ''Invalid JWKS URL'')
      | None \<Rightarrow>
          (case do_request (clone_credential_free http_client) (metadata_request agent url) of
             Exchange_Failed err (Some ce) \<Rightarrow> Inl (FetchError ce)
           | Exchange_Failed err None \<Rightarrow> Inl (FetchError err)
           | Exchange_Answered status hs body ctx_err \<Rightarrow>
               jwks_of_response status (case body of Inl b \<Rightarrow> Some b | Inr e \<Rightarrow> None)))"

text \<open>A release at hand is used as it is; otherwise it is fetched.  \<open>None\<close>: the decoder panicked.\<close>

definition release_result :: "trust_release decode_result \<Rightarrow> (attestation_error + trust_release) option" where
  "release_result r =
     (case r of Decoded v \<Rightarrow> Some (Inr v) | Decode_Failed e \<Rightarrow> Some (Inl (FetchError e)) | Decode_Panicked \<Rightarrow> None | No_Output \<Rightarrow> None)"

definition policy_of_options ::
    "trust_release option \<Rightarrow> trust_release decode_result \<Rightarrow> string \<Rightarrow> string \<Rightarrow> (attestation_error + attestation_policy) option" where
  "policy_of_options release fetched audience cert_sha256 =
     map_option (\<lambda>r. and_then r (policy_from_trust_release audience cert_sha256))
       (case release of Some r \<Rightarrow> Some (Inr r) | None \<Rightarrow> release_result fetched)"

text \<open>
  \<open>Client.Attestation\<close> after its request: the raw body, or the typed error of the status.
  \<open>absolute_request\<close> never panics; the last branch only makes the case total.
\<close>

definition attestation_of_response ::
    "(gvalue \<Rightarrow> string) \<Rightarrow> go_error option \<Rightarrow> bytes + go_error \<Rightarrow> int \<Rightarrow> headers \<Rightarrow> go_error + bytes" where
  "attestation_of_response fmt_other ctx_err read_all status hs =
     (case read_all of
        Inr err \<Rightarrow> Inl (case ctx_err of Some ce \<Rightarrow> ce | None \<Rightarrow> err)
      | Inl body \<Rightarrow>
          (if status < 200 \<or> 300 \<le> status then Inl (response_failure fmt_other status hs body) else Inr body))"

definition client_attestation ::
    "(go_error \<Rightarrow> string option) \<Rightarrow> (gvalue \<Rightarrow> string) \<Rightarrow> string \<Rightarrow> client \<Rightarrow> exchange \<Rightarrow> bytes + go_error \<Rightarrow> go_error option
     \<Rightarrow> go_error + bytes" where
  "client_attestation render fmt_other agent c exch read_all ctx_err =
     (case fst (absolute_request render agent c ''GET'' (attestation_url (cl_base_url c)) exch) of
        Call_Error e \<Rightarrow> Inl e
      | Call_Response status hs w tele \<Rightarrow> attestation_of_response fmt_other ctx_err read_all status hs
      | Call_Panicked \<Rightarrow> Inl (Sentinel Io_EOF))"

definition gateway_as_map :: "gateway_attestation \<Rightarrow> object" where
  "gateway_as_map g =
     [(''cert_sha256'', GString (ga_cert_sha256 g)), (''image_digest'', GString (ga_image_digest g)),
      (''image_reference'', GString (ga_image_reference g)),
      (''nonce'', case ga_nonce g of None \<Rightarrow> GNil | Some n \<Rightarrow> GString n),
      (''expires_at'', GInt KInt (ga_expires_at g)), (''issuer'', GString (ga_issuer g)), (''audience'', GString (ga_audience g))]"

section \<open>Properties\<close>

text \<open>A request without credentials, through a client without cookies or redirects.\<close>

definition bare_exchange :: "http_client \<Rightarrow> http_request \<Rightarrow> bool" where
  "bare_exchange h rq \<longleftrightarrow> hc_jar h = None \<and> \<not> hc_follow_redirects h \<and> rq_method rq = ''GET'' \<and> rq_body rq = None \<and>
     (\<forall>n \<in> {''authorization'', ''proxy-authorization'', ''cookie'', ''cookie2'', ''x-api-key'',
        ''x-trustedrouter-workspace'', ''idempotency-key'', ''x-tr-client''}. header_values (rq_headers rq) n = [])"

lemma metadata_request_bare: "bare_exchange (clone_credential_free h) (metadata_request agent url)"
proof -
  have "header_values (strip_credential_headers (header_set ''user-agent'' agent no_headers)) n = []"
    if "n \<in> set credential_header_names" for n using that by (rule header_values_strip_credentials)
  then show ?thesis
    by (simp add: bare_exchange_def metadata_request_def clone_credential_free_def clone_with_redirect_protection_def
        credential_header_names_def)
qed

text \<open>
  The documents an attestation is judged against are fetched as a stranger would: the
  release and the key set depend on the HTTP client only through exchanges that carry no
  credential header, have no body and run without a cookie jar and without redirects,
  whatever client the caller supplied.
\<close>
theorem metadata_fetched_bare:
  assumes "\<And>h rq. bare_exchange h rq \<Longrightarrow> do1 h rq = do2 h rq"
  shows "fetch_jwks do1 agent http_client jwks_url = fetch_jwks do2 agent http_client jwks_url \<and>
    fetch_trust_release render fmt_other unmarshal do1 agent http_client trust_url =
    fetch_trust_release render fmt_other unmarshal do2 agent http_client trust_url"
proof -
  have e: "do1 (clone_credential_free http_client) (metadata_request agent url) = do2 (clone_credential_free http_client) (metadata_request agent url)"
    for url by (rule assms [OF metadata_request_bare])
  show ?thesis by (simp only: fetch_jwks_def fetch_trust_release_def e simp_thms)
qed

text \<open>A transport that answers only credential-free requests, against one that answers all.\<close>

definition refuse_credentials :: metadata_transport where
  "refuse_credentials h rq =
     (if bare_exchange h rq then Exchange_Answered 404 no_headers (Inl []) None else Exchange_Failed (Sentinel Io_EOF) None)"

lemma metadata_fetched_bare_witness:
  "fetch_jwks refuse_credentials ''a'' None [] = fetch_jwks (\<lambda>h rq. Exchange_Answered 404 no_headers (Inl []) None) ''a'' None []"
proof -
  have "refuse_credentials h rq = Exchange_Answered 404 no_headers (Inl []) None" if "bare_exchange h rq" for h rq
    using that by (simp add: refuse_credentials_def)
  from metadata_fetched_bare [of refuse_credentials, OF this] show ?thesis by blast
qed

end
