(* ===== verification/Go_Strconv.thy ===== *)
theory Go_Strconv
  imports Go_Float
begin

text \<open>\<open>strconv.ParseInt(s, 10, 64)\<close>, also \<open>strconv.Atoi\<close>: an optional sign, decimal digits, and the range of int64.\<close>

definition parse_decimal :: "string \<Rightarrow> int option" where
  "parse_decimal s =
     (let (neg, ds) = strip_sign s; n = int (foldl (\<lambda>n c. n * 10 + digit_val c) 0 ds); i = (if neg then - n else n)
      in if ds = [] \<or> \<not> list_all is_digit ds \<or> i < - (2 ^ 63) \<or> 2 ^ 63 \<le> i then None else Some i)"

end
