(* ===== verification/Completion.thy ===== *)
theory Completion
  imports Go_Value Go_Strconv
begin

text \<open>
  The stream collector of \<open>chat_types.go\<close>: \<open>CollectCompletion\<close> rebuilds one completion from the
  chunks of a stream.  The chunks are values decoded from JSON, so no map is shared between
  two places and merging is pure here; what it does to the chunks themselves is the subject
  of \<open>Completion_Store\<close>.
\<close>

section \<open>Data\<close>

record chat_usage =
  us_prompt_tokens :: int
  us_completion_tokens :: int
  us_total_tokens :: int
  us_extra :: object

record chat_choice_delta =
  cd_role :: "string option"
  cd_content :: "string option"
  cd_tool_calls :: "object list"
  cd_extra :: object

record chat_choice_chunk =
  cc_index :: int
  cc_delta :: chat_choice_delta
  cc_finish_reason :: "string option"
  cc_extra :: object

record chat_completion_chunk =
  ck_id :: string
  ck_object :: string
  ck_created :: int
  ck_model :: string
  ck_choices :: "chat_choice_chunk list"
  ck_usage :: "chat_usage option"
  ck_extra :: object

record chat_message =
  cm_role :: string
  cm_content :: "string option"
  cm_name :: "string option"
  cm_tool_calls :: "object list option"
  cm_tool_call_id :: "string option"
  cm_extra :: object

record chat_choice =
  ch_index :: int
  ch_message :: chat_message
  ch_finish_reason :: "string option"
  ch_logprobs :: "object option"
  ch_extra :: object

record chat_completion =
  cp_id :: string
  cp_object :: string
  cp_created :: int
  cp_model :: string
  cp_choices :: "chat_choice list"
  cp_usage :: "chat_usage option"
  cp_extra :: "object option"

section \<open>Merging a field\<close>

text \<open>Strings and lists are appended, objects merged member by member, anything else replaced; null is skipped.\<close>

function merge_completion_field :: "object \<Rightarrow> string \<Rightarrow> gvalue \<Rightarrow> object"
  and merge_completion_fields :: "object \<Rightarrow> object \<Rightarrow> object" where
  "merge_completion_field target key v =
     (if v = GNil then target
      else case map_of target key of
          None \<Rightarrow> obj_put key v target
        | Some existing \<Rightarrow>
            (case (v, existing) of
               (GString next, GString prior) \<Rightarrow> obj_put key (GString (prior @ next)) target
             | (GSlice next, GSlice prior) \<Rightarrow> obj_put key (GSlice (prior @ next)) target
             | (GMap next, GMap prior) \<Rightarrow> obj_put key (GMap (merge_completion_fields prior next)) target
             | _ \<Rightarrow> obj_put key v target))"
| "merge_completion_fields target [] = target"
| "merge_completion_fields target ((k, v) # rest) =
     merge_completion_fields (merge_completion_field target k v) rest"
  by pat_completeness auto
termination
  by (relation "measure (case_sum (\<lambda>(t, k, v). Suc (size v)) (\<lambda>(t, m). size_list (size_prod (\<lambda>x. 0) size) m))") auto

declare merge_completion_field.simps [simp del]

section \<open>The state of one choice\<close>

record completion_choice_state =
  cs_role :: string
  cs_text_parts :: "string list"
  cs_finish_reason :: "string option"
  cs_tool_calls :: "(int \<times> object) list"
  cs_message_extra :: object
  cs_choice_extra :: object

definition fresh_choice_state :: completion_choice_state where
  "fresh_choice_state = \<lparr>cs_role = ''assistant'', cs_text_parts = [], cs_finish_reason = None, cs_tool_calls = [],
     cs_message_extra = [], cs_choice_extra = []\<rparr>"

text \<open>
  The conversion of a float to an int truncates; out of range its value is the
  implementation's (here that of amd64).
\<close>

definition float_to_int :: "float64 \<Rightarrow> int" where
  "float_to_int f = (case f64_to_i64 f of Some i \<Rightarrow> i | None \<Rightarrow> - (2 ^ 63))"

definition tool_call_index :: "object \<Rightarrow> int" where
  "tool_call_index tc =
     (case obj_get tc ''index'' of
        GInt kind i \<Rightarrow> (if kind = KInt \<or> kind = KInt64 then i else 0)
      | GFloat f \<Rightarrow> float_to_int f
      | GNumber n \<Rightarrow> (case parse_decimal n of Some i \<Rightarrow> i | None \<Rightarrow> 0)
      | _ \<Rightarrow> 0)"

definition non_empty_string :: "gvalue \<Rightarrow> string option" where
  "non_empty_string v = (case v of GString s \<Rightarrow> (if s = [] then None else Some s) | _ \<Rightarrow> None)"

definition put_non_empty :: "string \<Rightarrow> gvalue \<Rightarrow> object \<Rightarrow> object" where
  "put_non_empty key v slot = (case non_empty_string v of Some s \<Rightarrow> obj_put key (GString s) slot | None \<Rightarrow> slot)"

definition new_tool_slot :: "int \<Rightarrow> object" where
  "new_tool_slot idx = [(''index'', GInt KInt idx), (''type'', GString ''function''),
     (''function'', GMap [(''name'', GString []), (''arguments'', GString [])])]"

definition merge_tool_function :: "gvalue \<Rightarrow> object \<Rightarrow> object" where
  "merge_tool_function v slot =
     (case v of
        GMap fn \<Rightarrow>
          (let slot_fn = map_or_empty (obj_get slot ''function'');
               f1 = put_non_empty ''name'' (obj_get fn ''name'') slot_fn;
               f2 = (case obj_get fn ''arguments'' of
                       GString args \<Rightarrow> obj_put ''arguments'' (GString (string_or_empty (obj_get f1 ''arguments'') @ args)) f1
                     | _ \<Rightarrow> f1)
           in obj_put ''function'' (GMap f2) slot)
      | _ \<Rightarrow> slot)"

definition merge_tool_call :: "object \<Rightarrow> (int \<times> object) list \<Rightarrow> (int \<times> object) list" where
  "merge_tool_call tc slots =
     (let idx = tool_call_index tc;
          slot = (case map_of slots idx of Some s \<Rightarrow> s | None \<Rightarrow> new_tool_slot idx);
          s1 = put_non_empty ''id'' (obj_get tc ''id'') slot;
          s2 = put_non_empty ''type'' (obj_get tc ''type'') s1
      in AList.update idx (merge_tool_function (obj_get tc ''function'') s2) slots)"

definition apply_choice :: "chat_choice_chunk \<Rightarrow> completion_choice_state \<Rightarrow> completion_choice_state" where
  "apply_choice c st =
     (let d = cc_delta c in
      \<lparr>cs_role = (case cd_role d of Some r \<Rightarrow> r | None \<Rightarrow> cs_role st),
       cs_text_parts = (case cd_content d of Some t \<Rightarrow> cs_text_parts st @ [t] | None \<Rightarrow> cs_text_parts st),
       cs_finish_reason = (case cc_finish_reason c of
           Some r \<Rightarrow> (if r = [] then cs_finish_reason st else Some r) | None \<Rightarrow> cs_finish_reason st),
       cs_tool_calls = fold merge_tool_call (cd_tool_calls d) (cs_tool_calls st),
       cs_message_extra = merge_completion_fields (cs_message_extra st) (cd_extra d),
       cs_choice_extra = merge_completion_fields (cs_choice_extra st) (cc_extra c)\<rparr>)"

type_synonym choice_states = "(int \<times> completion_choice_state) list"

definition collect_choice :: "chat_choice_chunk \<Rightarrow> choice_states \<Rightarrow> choice_states" where
  "collect_choice c states =
     (let st = (case map_of states (cc_index c) of Some s \<Rightarrow> s | None \<Rightarrow> fresh_choice_state)
      in AList.update (cc_index c) (apply_choice c st) states)"

section \<open>Routing metadata\<close>

definition trusted_router_synth_event_detail :: "object \<Rightarrow> object option" where
  "trusted_router_synth_event_detail event =
     map_option (\<lambda>detail. fold (\<lambda>key out. if \<not> obj_has out key \<and> obj_has event key then obj_put key (obj_get event key) out else out)
        [''stage'', ''index'', ''model''] (clone_map detail))
       (as_map (obj_get event ''detail''))"

definition chunk_synth :: "chat_completion_chunk \<Rightarrow> object option" where
  "chunk_synth ck =
     (case obj_get (ck_extra ck) ''trustedrouter'' of
        GMap trusted \<Rightarrow> (case obj_get trusted ''synth'' of GMap synth \<Rightarrow> Some (clone_map synth) | _ \<Rightarrow> None)
      | _ \<Rightarrow> None)"

definition event_details :: "string \<Rightarrow> object list \<Rightarrow> gvalue list" where
  "event_details name events =
     map GMap (List.map_filter (\<lambda>e. if obj_get e ''event'' = GString name then trusted_router_synth_event_detail e else None) events)"

definition put_absent :: "string \<Rightarrow> gvalue \<Rightarrow> object \<Rightarrow> object" where
  "put_absent key v m = (if obj_has m key then m else obj_put key v m)"

definition collect_trusted_router_metadata :: "chat_completion_chunk list \<Rightarrow> object option" where
  "collect_trusted_router_metadata chunks =
     (let synths = List.map_filter chunk_synth chunks;
          events = filter (\<lambda>m. obj_has m ''event'') synths;
          details = foldl obj_merge [] (filter (\<lambda>m. \<not> obj_has m ''event'') synths)
      in if events = [] \<and> details = [] then None
         else
           let out1 = (if events = [] then clone_map details else obj_put ''events'' (GSlice (map GMap events)) (clone_map details));
               panel = event_details ''panel.done'' events;
               judge = event_details ''judge.done'' events;
               finals = event_details ''final.done'' events;
               out2 = (if panel = [] then out1 else put_absent ''panel'' (GSlice panel) out1);
               out3 = (if judge = [] then out2
                       else put_absent ''judge'' (last judge) (put_absent ''judge_attempts'' (GSlice judge) out2));
               out4 = (if finals = [] then out3 else put_absent ''final_attempts'' (GSlice finals) out3)
           in Some [(''synth'', GMap out4)])"

section \<open>The completion\<close>

definition empty_completion :: chat_completion where
  "empty_completion = \<lparr>cp_id = [], cp_object = ''chat.completion'', cp_created = 0, cp_model = [],
     cp_choices = [\<lparr>ch_index = 0,
        ch_message = \<lparr>cm_role = ''assistant'', cm_content = Some [], cm_name = None, cm_tool_calls = None,
          cm_tool_call_id = None, cm_extra = []\<rparr>,
        ch_finish_reason = Some ''stop'', ch_logprobs = None, ch_extra = []\<rparr>],
     cp_usage = None, cp_extra = None\<rparr>"

text \<open>The last value that is set.\<close>

definition last_set :: "('a \<Rightarrow> 'b) \<Rightarrow> ('b \<Rightarrow> bool) \<Rightarrow> 'b \<Rightarrow> 'a list \<Rightarrow> 'b" where
  "last_set field present start xs = foldl (\<lambda>v x. if present (field x) then field x else v) start xs"

definition build_choice :: "int \<times> completion_choice_state \<Rightarrow> chat_choice" where
  "build_choice p =
     (let (index, st) = p;
          content = concat (cs_text_parts st);
          calls = cs_tool_calls st;
          logprobs = as_map (obj_get (cs_choice_extra st) ''logprobs'')
      in \<lparr>ch_index = index,
          ch_message = \<lparr>cm_role = cs_role st,
             cm_content = (if content \<noteq> [] \<or> calls = [] then Some content else None), cm_name = None,
             cm_tool_calls = (if calls = [] then None else Some (map snd (sort_key fst calls))),
             cm_tool_call_id = None, cm_extra = cs_message_extra st\<rparr>,
          ch_finish_reason = Some (case cs_finish_reason st of Some r \<Rightarrow> r | None \<Rightarrow> ''stop''),
          ch_logprobs = logprobs,
          ch_extra = (if logprobs = None then cs_choice_extra st else obj_del ''logprobs'' (cs_choice_extra st))\<rparr>)"

definition collect_completion :: "chat_completion_chunk list \<Rightarrow> chat_completion" where
  "collect_completion chunks =
     (if chunks = [] then empty_completion
      else
        let states = fold collect_choice (concat (map ck_choices chunks)) [];
            states' = (if states = [] then [(0, fresh_choice_state)] else states);
            extra = foldl obj_merge [] (map ck_extra chunks);
            extra' = (case collect_trusted_router_metadata chunks of
                Some m \<Rightarrow> obj_put ''trustedrouter'' (GMap m) extra | None \<Rightarrow> extra)
        in \<lparr>cp_id = last_set ck_id (\<lambda>s. s \<noteq> []) [] chunks, cp_object = ''chat.completion'',
            cp_created = last_set ck_created (\<lambda>i. i \<noteq> 0) 0 chunks,
            cp_model = last_set ck_model (\<lambda>s. s \<noteq> []) [] chunks,
            cp_choices = map build_choice (sort_key fst states'),
            cp_usage = last_set ck_usage (\<lambda>u. u \<noteq> None) None chunks,
            cp_extra = (if extra' = [] then None else Some extra')\<rparr>)"

section \<open>One choice at a time\<close>

text \<open>
  The reference: a choice depends only on the choice chunks that carry its index, in the
  order in which they arrived.
\<close>

definition choice_deltas :: "int \<Rightarrow> chat_completion_chunk list \<Rightarrow> chat_choice_chunk list" where
  "choice_deltas i chunks = filter (\<lambda>c. cc_index c = i) (concat (map ck_choices chunks))"

definition choice_of_stream :: "int \<Rightarrow> chat_completion_chunk list \<Rightarrow> chat_choice" where
  "choice_of_stream i chunks = build_choice (i, fold apply_choice (choice_deltas i chunks) fresh_choice_state)"

definition stream_indices :: "chat_completion_chunk list \<Rightarrow> int set" where
  "stream_indices chunks = cc_index ` set (concat (map ck_choices chunks))"

lemma collect_choices_lookup:
  "map_of (fold collect_choice cs states) i =
     (case filter (\<lambda>c. cc_index c = i) cs of
        [] \<Rightarrow> map_of states i
      | ds \<Rightarrow> Some (fold apply_choice ds (case map_of states i of Some s \<Rightarrow> s | None \<Rightarrow> fresh_choice_state)))"
proof (induction cs arbitrary: states)
  case (Cons c cs)
  have l: "map_of (collect_choice c states) i =
      (if i = cc_index c then Some (apply_choice c (case map_of states i of Some s \<Rightarrow> s | None \<Rightarrow> fresh_choice_state))
       else map_of states i)"
    by (simp add: collect_choice_def Let_def update_conv')
  show ?case
    unfolding fold.simps comp_def Cons.IH [of "collect_choice c states"] l
    by (cases "cc_index c = i"; cases "filter (\<lambda>c. cc_index c = i) cs") simp_all
qed simp

lemma collect_choices_keys:
  "set (map fst (fold collect_choice cs states)) = cc_index ` set cs \<union> set (map fst states)"
  by (induction cs arbitrary: states) (auto simp: collect_choice_def Let_def dom_update)

lemma collect_choices_distinct:
  "distinct (map fst states) \<Longrightarrow> distinct (map fst (fold collect_choice cs states))"
  by (induction cs arbitrary: states) (auto simp: collect_choice_def Let_def distinct_update)

text \<open>A table with distinct keys, sorted by its keys, is its lookup function over the sorted key set.\<close>

lemma sorted_table:
  assumes "distinct (map fst t)"
  shows "sort_key fst t = map (\<lambda>i. (i, the (map_of t i))) (sorted_list_of_set (fst ` set t))"
proof -
  have "map fst (sort_key fst t) = sorted_list_of_set (fst ` set t)"
    using assms by (intro sorted_distinct_set_unique) (simp_all add: distinct_map)
  moreover have "sort_key fst t = map (\<lambda>p. (fst p, the (map_of t (fst p)))) (sort_key fst t)"
    using assms by (intro map_idI [symmetric]) (auto simp: map_of_eq_Some_iff)
  ultimately show ?thesis by (metis (no_types, lifting) map_map comp_apply map_cong)
qed

lemma collected_states:
  "sort_key fst (fold collect_choice cs []) =
     map (\<lambda>i. (i, fold apply_choice (filter (\<lambda>c. cc_index c = i) cs) fresh_choice_state)) (sorted_list_of_set (cc_index ` set cs))"
proof -
  let ?t = "fold collect_choice cs []"
  have keys: "fst ` set ?t = cc_index ` set cs" using collect_choices_keys [of cs "[]"] by simp
  have "the (map_of ?t i) = fold apply_choice (filter (\<lambda>c. cc_index c = i) cs) fresh_choice_state" if "i \<in> cc_index ` set cs" for i
  proof -
    have "filter (\<lambda>c. cc_index c = i) cs \<noteq> []" using that by (auto simp: filter_empty_conv)
    then show ?thesis by (simp add: collect_choices_lookup split: list.split)
  qed
  then show ?thesis
    using sorted_table [OF collect_choices_distinct [of "[]" cs]] keys by simp
qed

text \<open>The text of a choice and the arguments of a tool call.\<close>

definition delta_text :: "chat_choice_chunk list \<Rightarrow> string" where
  "delta_text ds = concat (List.map_filter (\<lambda>d. cd_content (cc_delta d)) ds)"

lemma apply_choices_text: "concat (cs_text_parts (fold apply_choice ds st)) = concat (cs_text_parts st) @ delta_text ds"
proof (induction ds arbitrary: st)
  case (Cons d ds)
  then show ?case
    by (cases "cd_content (cc_delta d)") (simp_all add: apply_choice_def Let_def delta_text_def List.map_filter_simps)
qed (simp add: delta_text_def List.map_filter_simps)

lemma fresh_choice_fields [simp]: "cs_text_parts fresh_choice_state = []" "cs_tool_calls fresh_choice_state = []"
  by (simp_all add: fresh_choice_state_def)

lemma apply_choices_calls:
  "cs_tool_calls (fold apply_choice ds st) = fold merge_tool_call (concat (map (\<lambda>d. cd_tool_calls (cc_delta d)) ds)) (cs_tool_calls st)"
  by (induction ds arbitrary: st) (simp_all add: apply_choice_def Let_def)

lemma merge_tool_calls_empty: "fold merge_tool_call tcs slots = [] \<longleftrightarrow> tcs = [] \<and> slots = []"
proof (induction tcs arbitrary: slots)
  case (Cons tc tcs)
  have "AList.update k v m \<noteq> []" for k v and m :: "(int \<times> object) list" by (cases m) auto
  with Cons show ?case by (simp add: merge_tool_call_def Let_def)
qed simp

text \<open>What the deltas of one tool call add up to.\<close>

definition call_arguments :: "int \<Rightarrow> object list \<Rightarrow> string" where
  "call_arguments j tcs =
     concat (map (\<lambda>tc. string_or_empty (obj_get (map_or_empty (obj_get tc ''function'')) ''arguments'')) (filter (\<lambda>tc. tool_call_index tc = j) tcs))"

definition slot_arguments :: "int \<Rightarrow> (int \<times> object) list \<Rightarrow> string" where
  "slot_arguments j slots =
     (case map_of slots j of None \<Rightarrow> []
      | Some slot \<Rightarrow> string_or_empty (obj_get (map_or_empty (obj_get slot ''function'')) ''arguments''))"

lemma put_non_empty_other: "k' \<noteq> k \<Longrightarrow> obj_get (put_non_empty k v m) k' = obj_get m k'"
  by (simp add: put_non_empty_def split: option.split)

lemma merge_tool_function_arguments:
  "string_or_empty (obj_get (map_or_empty (obj_get (merge_tool_function v slot) ''function'')) ''arguments'') =
     string_or_empty (obj_get (map_or_empty (obj_get slot ''function'')) ''arguments'') @
     string_or_empty (obj_get (map_or_empty v) ''arguments'')"
proof (cases v)
  case (GMap fn)
  then show ?thesis
    by (cases "obj_get fn ''arguments''") (simp_all add: merge_tool_function_def Let_def map_or_empty_def string_or_empty_def put_non_empty_other)
qed (simp_all add: merge_tool_function_def map_or_empty_def string_or_empty_def obj_get_def)

lemma merge_tool_call_arguments:
  "slot_arguments j (merge_tool_call tc slots) = slot_arguments j slots @ call_arguments j [tc]"
proof (cases "tool_call_index tc = j")
  case True
  have "string_or_empty (obj_get (map_or_empty (obj_get (new_tool_slot j) ''function'')) ''arguments'') = []"
    by (simp add: new_tool_slot_def obj_get_def map_or_empty_def string_or_empty_def)
  with True show ?thesis
    by (simp add: slot_arguments_def merge_tool_call_def Let_def update_conv' merge_tool_function_arguments put_non_empty_other
        call_arguments_def split: option.split)
next
  case False
  then show ?thesis by (simp add: slot_arguments_def merge_tool_call_def Let_def update_conv' call_arguments_def)
qed

lemma merged_tool_arguments: "slot_arguments j (fold merge_tool_call tcs slots) = slot_arguments j slots @ call_arguments j tcs"
proof (induction tcs arbitrary: slots)
  case (Cons tc tcs)
  then show ?case by (simp add: merge_tool_call_arguments) (simp add: call_arguments_def)
qed (simp add: call_arguments_def)

text \<open>
  C29. The collector rebuilds every choice from its own deltas.  The completion has exactly
  one choice per index that occurs in the stream (choice 0 if none does), in increasing
  order; each is what its deltas alone give, whatever other choices they are interleaved
  with and however chunks group them; and its content is the concatenation of its text
  deltas, absent only when there is no text but there are tool calls.
\<close>
theorem collector_choices:
  "cp_choices (collect_completion chunks) =
     map (\<lambda>i. choice_of_stream i chunks)
       (sorted_list_of_set (if stream_indices chunks = {} then {0} else stream_indices chunks)) \<and>
   cm_content (ch_message (choice_of_stream i chunks)) =
     (let ds = choice_deltas i chunks in
      if delta_text ds = [] \<and> \<not> list_all (\<lambda>d. cd_tool_calls (cc_delta d) = []) ds then None else Some (delta_text ds))"
proof
  let ?cs = "concat (map ck_choices chunks)"
  have none: "fold collect_choice ?cs [] = [] \<longleftrightarrow> stream_indices chunks = {}"
    using collect_choices_keys [of ?cs "[]"] by (auto simp: stream_indices_def)
  have fresh: "choice_of_stream 0 chunks = build_choice (0, fresh_choice_state)" if "?cs = []"
    unfolding choice_of_stream_def choice_deltas_def that by simp
  show "cp_choices (collect_completion chunks) = map (\<lambda>i. choice_of_stream i chunks)
       (sorted_list_of_set (if stream_indices chunks = {} then {0} else stream_indices chunks))"
  proof (cases "stream_indices chunks = {}")
    case True
    then have cs: "?cs = []" by (simp add: stream_indices_def)
    have "cp_choices (collect_completion chunks) = [build_choice (0, fresh_choice_state)]"
      using True none
      by (simp add: collect_completion_def Let_def empty_completion_def build_choice_def fresh_choice_state_def as_map_def obj_get_def)
    then show ?thesis using True fresh [OF cs] by simp
  next
    case False
    then have "chunks \<noteq> []" by (auto simp: stream_indices_def)
    with False none have "cp_choices (collect_completion chunks) = map build_choice (sort_key fst (fold collect_choice ?cs []))"
      by (simp add: collect_completion_def Let_def)
    then show ?thesis
      using False by (simp add: collected_states stream_indices_def choice_of_stream_def choice_deltas_def)
  qed
  let ?ds = "choice_deltas i chunks"
  have calls: "cs_tool_calls (fold apply_choice ?ds fresh_choice_state) = [] \<longleftrightarrow> list_all (\<lambda>d. cd_tool_calls (cc_delta d) = []) ?ds"
    by (simp add: apply_choices_calls merge_tool_calls_empty list_all_iff)
  show "cm_content (ch_message (choice_of_stream i chunks)) =
     (let ds = ?ds in
      if delta_text ds = [] \<and> \<not> list_all (\<lambda>d. cd_tool_calls (cc_delta d) = []) ds then None else Some (delta_text ds))"
    using apply_choices_text [of ?ds fresh_choice_state] calls
    by (simp add: choice_of_stream_def build_choice_def Let_def del: concat_eq_Nil_conv Nil_eq_concat_conv)
qed

end
