(* ===== verification/Completion_Store.thy ===== *)
theory Completion_Store
  imports Completion
begin

text \<open>
  The merge of the collector with the maps as the code has them: shared, and changed in
  place.  A store maps addresses to the entries of a map; a value that is a map is its
  address.  Storing a value in the result shares the chunk's own map.
\<close>

datatype stored = SNil | SString string | SSlice "stored list" | SMap nat | SOther gvalue

type_synonym store = "nat \<Rightarrow> (string \<times> stored) list"

text \<open>
  \<open>mergeCompletionField(target, key, value)\<close> on the map at address \<open>a\<close>; \<open>None\<close> only when the
  fuel, a bound on the nesting of maps, runs out.
\<close>

fun store_merge :: "nat \<Rightarrow> nat \<Rightarrow> string \<Rightarrow> stored \<Rightarrow> store \<Rightarrow> store option"
  and store_merge_all :: "nat \<Rightarrow> nat \<Rightarrow> (string \<times> stored) list \<Rightarrow> store \<Rightarrow> store option" where
  "store_merge 0 a key v h = None"
| "store_merge (Suc n) a key v h =
     (if v = SNil then Some h
      else case map_of (h a) key of
          None \<Rightarrow> Some (h(a := AList.update key v (h a)))
        | Some existing \<Rightarrow>
            (case (v, existing) of
               (SString next, SString prior) \<Rightarrow> Some (h(a := AList.update key (SString (prior @ next)) (h a)))
             | (SSlice next, SSlice prior) \<Rightarrow> Some (h(a := AList.update key (SSlice (prior @ next)) (h a)))
             | (SMap next, SMap prior) \<Rightarrow> store_merge_all n prior (h next) h
             | _ \<Rightarrow> Some (h(a := AList.update key v (h a)))))"
| "store_merge_all n a [] h = Some h"
| "store_merge_all n a ((k, v) # rest) h = Option.bind (store_merge n a k v h) (store_merge_all n a rest)"

text \<open>Collecting the extra members of a list of deltas (given by address) into a fresh map.\<close>

fun collect_extras :: "nat \<Rightarrow> nat \<Rightarrow> nat list \<Rightarrow> store \<Rightarrow> store option" where
  "collect_extras n a [] h = Some h"
| "collect_extras n a (d # ds) h = Option.bind (store_merge_all n a (h d) h) (collect_extras n a ds)"

text \<open>Two chunks whose deltas (1 and 2) each carry an object (3 and 4); 0 and 5 are fresh maps.\<close>

definition two_chunks :: "string \<Rightarrow> string \<Rightarrow> store" where
  "two_chunks x y = (\<lambda>_. [])(1 := [(''reasoning'', SMap 3)], 2 := [(''reasoning'', SMap 4)],
     3 := [(''text'', SString x)], 4 := [(''text'', SString y)])"

text \<open>
  Collecting a stream changes the chunks it is collected from: after the first collection the
  object of the first chunk holds the merged text, so that collecting the same chunks a
  second time repeats the text of the second one.
\<close>

lemma collecting_changes_chunks:
  "\<exists>h1 h2. collect_extras 2 0 [1, 2] (two_chunks x y) = Some h1 \<and>
     h1 0 = [(''reasoning'', SMap 3)] \<and> h1 3 = [(''text'', SString (x @ y))] \<and>
     collect_extras 2 5 [1, 2] h1 = Some h2 \<and> h2 5 = [(''reasoning'', SMap 3)] \<and> h2 3 = [(''text'', SString (x @ y @ y))]"
  by (simp add: two_chunks_def numeral_2_eq_2)

end
