(* ===== verification/Sse.thy ===== *)
theory Sse
  imports Go_Json Go_Error
begin

text \<open>
  Server-sent events (\<open>sse.go\<close>): the two iterators over a response body, which differ only in
  how they parse a frame.  A body is the bytes it delivers and the error it ends with (\<open>None\<close>
  is a clean end); a consumer is the function that says, for each event handed to it and its
  number, whether it goes on.  The result is everything the iterator does, in order.
\<close>

section \<open>Frames\<close>

datatype sse_failure = Unexpected_End | Invalid_Json | Not_An_Object | Error_Event gvalue | Source_Failed go_error

datatype sse_output =
    Sse_Event object
  | Sse_Error sse_failure
  | First_Event_Mark \<comment> \<open>\<open>onFirstEvent\<close>\<close>
  | Aborted_Mark \<comment> \<open>\<open>onAborted\<close>\<close>

text \<open>An event or none, and whether the frame is the last of its stream.\<close>

type_synonym frame_parser = "string list \<Rightarrow> sse_failure + object option \<times> bool"

definition field_values :: "string \<Rightarrow> string list \<Rightarrow> string list" where
  "field_values name ls = map (\<lambda>l. trim_space (drop (length name) l)) (filter (\<lambda>l. has_prefix l name) ls)"

definition frame_data :: "string list \<Rightarrow> string" where
  "frame_data ls = trim_space (join [CHR 0x0A] (field_values ''data:'' ls))"

text \<open>The last event field names the event; a line is an event field before it is a data field.\<close>

definition event_name :: "string list \<Rightarrow> string option" where
  "event_name ls = (case field_values ''event:'' ls of [] \<Rightarrow> None | ns \<Rightarrow> Some (last ns))"

definition is_terminal_response_event :: "string \<Rightarrow> object \<Rightarrow> bool" where
  "is_terminal_response_event name obj =
     (let n = (case obj_get obj ''type'' of GString t \<Rightarrow> (if t \<noteq> [] then t else name) | _ \<Rightarrow> name)
      in n \<in> {''response.completed'', ''response.failed'', ''response.incomplete'', ''error''})"

definition parse_sse_frame :: frame_parser where
  "parse_sse_frame ls =
     (if ls = [] then Inr (None, False)
      else let data = frame_data ls; name = event_name ls in
        if data = [] then Inr (None, False)
        else if data = ''[DONE]'' then Inr (None, True)
        else case json_unmarshal data of
            None \<Rightarrow> Inl Invalid_Json
          | Some (GMap obj) \<Rightarrow>
              (case name of
                 Some n \<Rightarrow>
                   (if n \<noteq> [] \<and> \<not> obj_has obj ''event''
                    then let e = obj_merge [(''event'', GString n)] obj in Inr (Some e, is_terminal_response_event n e)
                    else Inr (Some obj, is_terminal_response_event n obj))
               | None \<Rightarrow> Inr (Some obj, is_terminal_response_event [] obj))
          | Some v \<Rightarrow>
              Inr (Some [(''event'', case name of None \<Rightarrow> GNil | Some n \<Rightarrow> GString n), (''data'', v)], False))"

definition event_from_sse_frame :: "string list \<Rightarrow> object option" where
  "event_from_sse_frame ls = (case parse_sse_frame ls of Inl e \<Rightarrow> None | Inr (ev, terminal) \<Rightarrow> ev)"

text \<open>Decoding into a map fails for every other JSON value than an object; null gives a nil map.\<close>

definition parse_chat_sse_frame :: frame_parser where
  "parse_chat_sse_frame ls =
     (let data = frame_data ls in
      if data = [] then Inr (None, False)
      else if data = ''[DONE]'' then Inr (None, True)
      else case json_unmarshal data of
          Some (GMap chunk) \<Rightarrow>
            (if obj_has chunk ''error'' then Inl (Error_Event (obj_get chunk ''error'')) else Inr (Some chunk, False))
        | Some GNil \<Rightarrow> Inl Not_An_Object
        | _ \<Rightarrow> Inl Invalid_Json)"

section \<open>The iterator\<close>

text \<open>
  One frame handed on: what is done, and the number of events delivered so far if the
  iteration goes on (\<open>None\<close>: it returns).
\<close>

definition deliver :: "frame_parser \<Rightarrow> (nat \<Rightarrow> object \<Rightarrow> bool) \<Rightarrow> string list \<Rightarrow> nat \<Rightarrow> sse_output list \<times> nat option" where
  "deliver parse accept frame n =
     (case parse frame of
        Inl e \<Rightarrow> ([Sse_Error e], None)
      | Inr (None, terminal) \<Rightarrow> ([], if terminal then None else Some n)
      | Inr (Some ev, terminal) \<Rightarrow>
          (let marks = (if n = 0 then [First_Event_Mark] else []) in
           if accept n ev then (marks @ [Sse_Event ev], if terminal then None else Some (Suc n))
           else (marks @ [Sse_Event ev, Aborted_Mark], None)))"

definition and_go_on :: "sse_output list \<times> nat option \<Rightarrow> (nat \<Rightarrow> sse_output list) \<Rightarrow> sse_output list" where
  "and_go_on d k = fst d @ (case snd d of None \<Rightarrow> [] | Some n \<Rightarrow> k n)"

text \<open>The read failed or the body ended: the last frame needs no blank line.\<close>

definition sse_end :: "frame_parser \<Rightarrow> go_error option \<Rightarrow> (nat \<Rightarrow> object \<Rightarrow> bool) \<Rightarrow> string list \<Rightarrow> nat \<Rightarrow> sse_output list" where
  "sse_end parse body_err accept frame n =
     (case body_err of
        Some e \<Rightarrow> [Sse_Error (Source_Failed e)]
      | None \<Rightarrow> and_go_on (deliver parse accept frame n) (\<lambda>n'. [Sse_Error Unexpected_End]))"

definition trim_line :: "string \<Rightarrow> string" where
  "trim_line l = trim_right_in [CHR 0x0D, CHR 0x0A] l"

definition sse_tail :: "frame_parser \<Rightarrow> go_error option \<Rightarrow> (nat \<Rightarrow> object \<Rightarrow> bool) \<Rightarrow> bytes \<Rightarrow> nat \<Rightarrow> string list \<Rightarrow> sse_output list" where
  "sse_tail parse body_err accept line n frame =
     (if line = [] then sse_end parse body_err accept frame n
      else if trim_line line \<noteq> [] then sse_end parse body_err accept (frame @ [trim_line line]) n
      else and_go_on (deliver parse accept frame n) (sse_end parse body_err accept []))"

lemma cut_at_shrinks: "cut_at c s = Some (a, b) \<Longrightarrow> length b < length s"
  by (induction s arbitrary: a) (auto split: if_splits)

function sse_loop :: "frame_parser \<Rightarrow> go_error option \<Rightarrow> (nat \<Rightarrow> object \<Rightarrow> bool) \<Rightarrow> bytes \<Rightarrow> nat \<Rightarrow> string list \<Rightarrow> sse_output list" where
  "sse_loop parse body_err accept data n frame =
     (case cut_at (CHR 0x0A) data of
        Some (line, rest) \<Rightarrow>
          (if trim_line line \<noteq> [] then sse_loop parse body_err accept rest n (frame @ [trim_line line])
           else case deliver parse accept frame n of
               (out, None) \<Rightarrow> out
             | (out, Some n') \<Rightarrow> out @ sse_loop parse body_err accept rest n' [])
      | None \<Rightarrow> sse_tail parse body_err accept data n frame)"
  by auto
termination
  by (relation "measure (\<lambda>(parse, body_err, accept, data, n, frame). length data)") (auto dest: cut_at_shrinks)

declare sse_loop.simps [simp del]

definition iter_sse_events :: "bytes \<Rightarrow> go_error option \<Rightarrow> (nat \<Rightarrow> object \<Rightarrow> bool) \<Rightarrow> sse_output list" where
  "iter_sse_events data body_err accept = sse_loop parse_sse_frame body_err accept data 0 []"

definition iter_sse_chunks :: "bytes \<Rightarrow> go_error option \<Rightarrow> (nat \<Rightarrow> object \<Rightarrow> bool) \<Rightarrow> sse_output list" where
  "iter_sse_chunks data body_err accept = sse_loop parse_chat_sse_frame body_err accept data 0 []"

text \<open>A stream that was refused: the status decides the error; a body that cannot be read is a transport error.\<close>

definition raise_for_stream_response ::
    "(go_error \<Rightarrow> string option) \<Rightarrow> int \<Rightarrow> headers \<Rightarrow> bytes + go_error \<Rightarrow> go_error" where
  "raise_for_stream_response render status hs body =
     (case body of
        Inr e \<Rightarrow> transport_retry_error render (Some e)
      | Inl b \<Rightarrow> classify_error status (truncate_string b 240) GNil hs)"

section \<open>The stream as a list of frames\<close>

text \<open>
  The reference: the lines of the body without their line ends, cut into frames at the empty
  lines; the last frame is the open one.
\<close>

definition sse_lines :: "bytes \<Rightarrow> string list" where
  "sse_lines data = (let ls = split_on (CHR 0x0A) data in map trim_line (if last ls = [] then butlast ls else ls))"

fun sse_frames :: "string list \<Rightarrow> string list list" where
  "sse_frames [] = [[]]"
| "sse_frames (l # ls) =
     (if l = [] then [] # sse_frames ls else (l # hd (sse_frames ls)) # tl (sse_frames ls))"

fun run_frames :: "frame_parser \<Rightarrow> go_error option \<Rightarrow> (nat \<Rightarrow> object \<Rightarrow> bool) \<Rightarrow> string list list \<Rightarrow> nat \<Rightarrow> sse_output list" where
  "run_frames parse body_err accept [] n = []"
| "run_frames parse body_err accept [f] n = sse_end parse body_err accept f n"
| "run_frames parse body_err accept (f # g # fs) n =
     and_go_on (deliver parse accept f n) (run_frames parse body_err accept (g # fs))"

lemma sse_frames_nonempty [simp]: "sse_frames ls \<noteq> []"
  by (cases ls) auto

lemma cut_split_none: "cut_at c s = None \<Longrightarrow> split_on c s = [s]"
  by (induction s) (auto split: if_splits)

lemma cut_split_some: "cut_at c s = Some (a, b) \<Longrightarrow> split_on c s = a # split_on c b"
  by (induction s arbitrary: a) (auto split: if_splits)

lemma sse_lines_cut:
  "cut_at (CHR 0x0A) data = Some (line, rest) \<Longrightarrow> sse_lines data = trim_line line # sse_lines rest"
  by (simp add: sse_lines_def cut_split_some Let_def)

lemma sse_lines_tail:
  "cut_at (CHR 0x0A) data = None \<Longrightarrow> sse_lines data = (if data = [] then [] else [trim_line data])"
  by (simp add: sse_lines_def cut_split_none Let_def)

lemma sse_loop_frames:
  "sse_loop parse body_err accept data n frame =
     run_frames parse body_err accept ((frame @ hd (sse_frames (sse_lines data))) # tl (sse_frames (sse_lines data))) n"
proof (induction parse body_err accept data n frame rule: sse_loop.induct)
  case (1 parse body_err accept data n frame)
  show ?case
  proof (cases "cut_at (CHR 0x0A) data")
    case None
    then show ?thesis
      by (subst sse_loop.simps) (simp add: sse_tail_def sse_lines_tail and_go_on_def split: option.split)
  next
    case (Some p)
    obtain line rest where p: "p = (line, rest)" by (cases p)
    obtain g gs where g: "sse_frames (sse_lines rest) = g # gs" by (cases "sse_frames (sse_lines rest)") auto
    show ?thesis
    proof (cases "trim_line line = []")
      case True
      obtain out k where d: "deliver parse accept frame n = (out, k)" by (cases "deliver parse accept frame n")
      have "sse_loop parse body_err accept data n frame =
          (case k of None \<Rightarrow> out | Some n' \<Rightarrow> out @ sse_loop parse body_err accept rest n' [])"
        by (subst sse_loop.simps) (simp add: Some p True d split: option.split)
      moreover have "sse_loop parse body_err accept rest n' [] = run_frames parse body_err accept (g # gs) n'"
        if "k = Some n'" for n'
        using 1(2) [OF Some p [symmetric] _ d [symmetric] that] True g by simp
      ultimately show ?thesis
        by (simp add: sse_lines_cut [OF Some [unfolded p]] True g d and_go_on_def split: option.split)
    next
      case False
      have "sse_loop parse body_err accept data n frame = sse_loop parse body_err accept rest n (frame @ [trim_line line])"
        by (subst sse_loop.simps) (simp add: Some p False)
      also have "\<dots> = run_frames parse body_err accept ((frame @ [trim_line line] @ g) # gs) n"
        using 1(1) [OF Some p [symmetric] False] g by simp
      finally show ?thesis by (simp add: sse_lines_cut [OF Some [unfolded p]] False g)
    qed
  qed
qed

section \<open>What a consumer sees\<close>

definition frame_events :: "frame_parser \<Rightarrow> string list list \<Rightarrow> object list" where
  "frame_events parse fs = concat (map (\<lambda>f. case parse f of Inr (Some ev, terminal) \<Rightarrow> [ev] | _ \<Rightarrow> []) fs)"

text \<open>Why an iteration that consumed \<open>k\<close> frames and delivered the events \<open>evs\<close>, from the \<open>n\<close>-th on, ended.\<close>

definition sse_ending ::
    "frame_parser \<Rightarrow> go_error option \<Rightarrow> (nat \<Rightarrow> object \<Rightarrow> bool) \<Rightarrow> string list list \<Rightarrow> nat \<Rightarrow> nat \<Rightarrow> object list \<Rightarrow> sse_output list \<Rightarrow> bool" where
  "sse_ending parse body_err accept fs n k evs tail \<longleftrightarrow>
     tail = [] \<and> 0 < k \<and> (\<exists>ev. parse (fs ! (k - 1)) = Inr (ev, True)) \<or>
     tail = [Aborted_Mark] \<and> evs \<noteq> [] \<and> \<not> accept (n + length evs - 1) (last evs) \<or>
     (\<exists>e. tail = [Sse_Error e] \<and>
        (k < length fs \<and> parse (fs ! k) = Inl e \<or>
         e = Unexpected_End \<and> k = length fs \<and> body_err = None \<or>
         (\<exists>x. body_err = Some x \<and> e = Source_Failed x \<and> Suc k = length fs)))"

definition sse_run ::
    "frame_parser \<Rightarrow> go_error option \<Rightarrow> (nat \<Rightarrow> object \<Rightarrow> bool) \<Rightarrow> string list list \<Rightarrow> nat \<Rightarrow> nat \<Rightarrow> sse_output list \<Rightarrow> bool" where
  "sse_run parse body_err accept fs n k out \<longleftrightarrow>
     (\<exists>evs tail. out = (if evs \<noteq> [] \<and> n = 0 then [First_Event_Mark] else []) @ map Sse_Event evs @ tail \<and> k \<le> length fs \<and>
        evs = frame_events parse (take k fs) \<and> (\<forall>i. Suc i < length evs \<longrightarrow> accept (n + i) (evs ! i)) \<and>
        (\<forall>i. Suc i < k \<longrightarrow> (\<exists>ev. parse (fs ! i) = Inr (ev, False))) \<and>
        sse_ending parse body_err accept fs n k evs tail)"

lemma frame_events_Cons:
  "frame_events parse (f # fs) = (case parse f of Inr (Some ev, terminal) \<Rightarrow> [ev] | _ \<Rightarrow> []) @ frame_events parse fs"
  by (simp add: frame_events_def)

text \<open>One more frame in front that delivers nothing, or an accepted event.\<close>

lemma sse_run_step:
  assumes "parse f = Inr (ev, False)" "\<And>x. ev = Some x \<Longrightarrow> accept n x"
    "sse_run parse body_err accept fs (n + (if ev = None then 0 else 1)) k out"
  shows "sse_run parse body_err accept (f # fs) n (Suc k)
    ((case ev of None \<Rightarrow> [] | Some x \<Rightarrow> (if n = 0 then [First_Event_Mark] else []) @ [Sse_Event x]) @ out)"
proof -
  let ?n = "n + (if ev = None then 0 else 1)" and ?new = "case ev of None \<Rightarrow> [] | Some x \<Rightarrow> [x]"
  obtain evs tail where h: "out = (if evs \<noteq> [] \<and> ?n = 0 then [First_Event_Mark] else []) @ map Sse_Event evs @ tail" "k \<le> length fs"
    "evs = frame_events parse (take k fs)" "\<forall>i. Suc i < length evs \<longrightarrow> accept (?n + i) (evs ! i)"
    "\<forall>i. Suc i < k \<longrightarrow> (\<exists>ev. parse (fs ! i) = Inr (ev, False))" "sse_ending parse body_err accept fs ?n k evs tail"
    using assms(3) by (auto simp: sse_run_def)
  have old: "\<forall>i. Suc i < Suc k \<longrightarrow> (\<exists>ev. parse ((f # fs) ! i) = Inr (ev, False))"
    using h(5) assms(1) by (auto simp: nth_Cons split: nat.split)
  have evs: "?new @ evs = frame_events parse (take (Suc k) (f # fs))"
    using h(3) assms(1) by (cases ev) (simp_all add: frame_events_Cons)
  have acc: "\<forall>i. Suc i < length (?new @ evs) \<longrightarrow> accept (n + i) ((?new @ evs) ! i)"
  proof (intro allI impI)
    fix i assume i: "Suc i < length (?new @ evs)"
    show "accept (n + i) ((?new @ evs) ! i)"
    proof (cases ev)
      case (Some x)
      with i h(4) assms(2) show ?thesis by (cases i) auto
    qed (use i h(4) in simp)
  qed
  have ending: "sse_ending parse body_err accept (f # fs) n (Suc k) (?new @ evs) tail"
    using h(6) unfolding sse_ending_def by (cases ev) (auto simp: nth_Cons' dest: gr0_implies_Suc)
  have "(case ev of None \<Rightarrow> [] | Some x \<Rightarrow> (if n = 0 then [First_Event_Mark] else []) @ [Sse_Event x]) @ out =
      (if ?new @ evs \<noteq> [] \<and> n = 0 then [First_Event_Mark] else []) @ map Sse_Event (?new @ evs) @ tail"
    using h(1) by (cases ev) simp_all
  with h(2) old evs acc ending show ?thesis
    unfolding sse_run_def by (intro exI [of _ "?new @ evs"] exI [of _ tail] conjI) simp_all
qed

text \<open>A run of one frame that ends the iteration.\<close>

lemma sse_run_last:
  assumes "sse_ending parse body_err accept (f # fs) n k (frame_events parse (take k [f])) tail" "k \<le> 1"
  shows "sse_run parse body_err accept (f # fs) n k
    ((if frame_events parse (take k [f]) \<noteq> [] \<and> n = 0 then [First_Event_Mark] else []) @
     map Sse_Event (frame_events parse (take k [f])) @ tail)"
proof -
  have t: "take k (f # fs) = take k [f]" using assms(2) by (cases k) auto
  have "length (frame_events parse (take k [f])) \<le> 1"
    using assms(2) by (cases k) (auto simp: frame_events_def split: sum.split option.split prod.split)
  then show ?thesis
    unfolding sse_run_def using assms t by (intro exI [of _ "frame_events parse (take k [f])"] exI [of _ tail]) auto
qed

lemma deliver_run:
  assumes "\<And>n'. \<exists>k. sse_run parse body_err accept fs n' k (K n')"
  shows "\<exists>k. sse_run parse body_err accept (f # fs) n k (and_go_on (deliver parse accept f n) K)"
proof (cases "parse f")
  case (Inl e)
  then have "sse_ending parse body_err accept (f # fs) n 0 [] [Sse_Error e]" by (simp add: sse_ending_def)
  with sse_run_last [of parse body_err accept f fs n 0] Inl show ?thesis
    by (auto simp: deliver_def and_go_on_def frame_events_def)
next
  case (Inr r)
  obtain ev terminal where r: "parse f = Inr (ev, terminal)" using Inr by (cases r) auto
  have stop: "\<exists>k. sse_run parse body_err accept (f # fs) n k (and_go_on (deliver parse accept f n) K)"
    if "terminal \<or> (\<exists>x. ev = Some x \<and> \<not> accept n x)"
  proof -
    let ?tail = "if \<exists>x. ev = Some x \<and> \<not> accept n x then [Aborted_Mark] else []"
    let ?evs = "frame_events parse (take 1 [f])"
    have "?evs = (case ev of None \<Rightarrow> [] | Some x \<Rightarrow> [x])" using r by (simp add: frame_events_def)
    moreover from this that have "sse_ending parse body_err accept (f # fs) n 1 ?evs ?tail"
      using r by (auto simp: sse_ending_def split: option.split)
    moreover note sse_run_last [OF this]
    moreover have "and_go_on (deliver parse accept f n) K =
        (if ?evs \<noteq> [] \<and> n = 0 then [First_Event_Mark] else []) @ map Sse_Event ?evs @ ?tail"
      using that r calculation(1) by (auto simp: deliver_def and_go_on_def split: option.split)
    ultimately show ?thesis by (intro exI [of _ 1]) simp
  qed
  have go_on: "\<exists>k. sse_run parse body_err accept (f # fs) n k (and_go_on (deliver parse accept f n) K)"
    if "\<not> terminal" "\<And>x. ev = Some x \<Longrightarrow> accept n x"
  proof -
    let ?n = "n + (if ev = None then 0 else 1)"
    obtain k where "sse_run parse body_err accept fs ?n k (K ?n)" using assms [of ?n] by blast
    from sse_run_step [OF _ that(2) this, of f] r that(1)
    have "sse_run parse body_err accept (f # fs) n (Suc k)
        ((case ev of None \<Rightarrow> [] | Some x \<Rightarrow> (if n = 0 then [First_Event_Mark] else []) @ [Sse_Event x]) @ K ?n)" by simp
    moreover have "and_go_on (deliver parse accept f n) K =
        (case ev of None \<Rightarrow> [] | Some x \<Rightarrow> (if n = 0 then [First_Event_Mark] else []) @ [Sse_Event x]) @ K ?n"
      using r that by (auto simp: deliver_def and_go_on_def split: option.split)
    ultimately show ?thesis by metis
  qed
  from stop go_on show ?thesis by (cases "terminal \<or> (\<exists>x. ev = Some x \<and> \<not> accept n x)") auto
qed

lemma run_frames_run: "fs \<noteq> [] \<Longrightarrow> \<exists>k. sse_run parse body_err accept fs n k (run_frames parse body_err accept fs n)"
proof (induction parse body_err accept fs n rule: run_frames.induct)
  case (2 parse body_err accept f n)
  show ?case
  proof (cases body_err)
    case None
    have "sse_run parse body_err accept [] n' 0 [Sse_Error Unexpected_End]" for n'
      by (simp add: sse_run_def sse_ending_def frame_events_def None)
    then show ?thesis using None by (simp add: sse_end_def) (intro deliver_run, blast)
  next
    case (Some x)
    then have "sse_ending parse body_err accept [f] n 0 [] [Sse_Error (Source_Failed x)]" by (simp add: sse_ending_def)
    with sse_run_last [of parse body_err accept f "[]" n 0] Some show ?thesis
      by (auto simp: sse_end_def frame_events_def)
  qed
next
  case (3 parse body_err accept f g fs n)
  have "\<exists>k. sse_run parse body_err accept (g # fs) n' k (run_frames parse body_err accept (g # fs) n')" for n'
    using 3 by simp
  then show ?case unfolding run_frames.simps by (rule deliver_run)
qed simp

lemma iter_events_run: "\<exists>k. sse_run parse_sse_frame body_err accept (sse_frames (sse_lines data)) 0 k (iter_sse_events data body_err accept)"
  unfolding iter_sse_events_def sse_loop_frames by (simp add: run_frames_run)

lemma iter_chunks_run:
  "\<exists>k. sse_run parse_chat_sse_frame body_err accept (sse_frames (sse_lines data)) 0 k (iter_sse_chunks data body_err accept)"
  unfolding iter_sse_chunks_def sse_loop_frames by (simp add: run_frames_run)

text \<open>
  C28. A stream is never cut short unnoticed.  However the body is split into lines (with line
  feeds, with carriage returns, without a last line end), both iterators hand over exactly
  the events of the first \<open>k\<close> frames, in order, the first-event mark once before the first,
  and then stop for one of three visible reasons: the \<open>k\<close>-th frame is terminal; the consumer
  refused the last event, which is marked as an abort; or an error is yielded, which is that
  of the next frame, the unexpected end when all frames were read, or the body's own.
\<close>
theorem sse_reads_frames:
  "let frames = sse_frames (sse_lines data) in
   (\<exists>k. sse_run parse_sse_frame body_err accept frames 0 k (iter_sse_events data body_err accept)) \<and>
   (\<exists>k. sse_run parse_chat_sse_frame body_err accept frames 0 k (iter_sse_chunks data body_err accept))"
  unfolding Let_def using iter_events_run iter_chunks_run by blast

end
