(* ===== verification/Json_Struct.thy ===== *)
theory Json_Struct
  imports Go_Json Completion
begin

text \<open>
  The codecs of the response types.  Every one of them has the same two methods: \<open>UnmarshalJSON\<close>
  decodes the known members by the struct's tags and keeps the others in \<open>Extra\<close>
  (\<open>extraFields\<close> of \<open>models.go\<close>); \<open>MarshalJSON\<close> writes the known members over \<open>Extra\<close>
  (\<open>marshalObject\<close> of \<open>chat_types.go\<close>).  A type is therefore a schema, the list of its fields.

  A document is a value: a number is its literal (\<open>GNumber\<close>), or an integer or float as the
  encoder writes it.  \<open>encoding/json\<close> matches a member to a field by its exact name, else
  ignoring case; a document spells every known name at most once.
\<close>

section \<open>Schemas and values\<close>

datatype field_kind =
    FString | FOptString | FInt | FOptInt | FBool | FOptBool
  | FAny
  | FMap \<comment> \<open>\<open>map[string]any\<close>\<close>
  | FMaps \<comment> \<open>\<open>[]map[string]any\<close>\<close>
  | FStringMap
  | FTexts \<comment> \<open>\<open>[]string\<close>\<close>
  | FStruct schema | FOptStruct schema | FStructs schema
  | FEmbedding \<comment> \<open>\<open>EmbeddingValue\<close>\<close>
and schema = Schema "(string \<times> bool \<times> field_kind) list" \<comment> \<open>name, left out when nil, kind\<close>

primrec schema_fields :: "schema \<Rightarrow> (string \<times> bool \<times> field_kind) list" where
  "schema_fields (Schema fs) = fs"

datatype svalue =
    VNil
  | VString string
  | VInt int
  | VBool bool
  | VAny gvalue
  | VMap object
  | VMaps "object list"
  | VStrings "(string \<times> string) list"
  | VTexts "string list"
  | VFloats "float64 list"
  | VBase64 string
  | VStruct "svalue list" object \<comment> \<open>the fields, and \<open>Extra\<close>\<close>
  | VList "svalue list"

fun zero_value :: "field_kind \<Rightarrow> svalue" where
  "zero_value FString = VString []"
| "zero_value FInt = VInt 0"
| "zero_value FBool = VBool False"
| "zero_value FAny = VAny GNil"
| "zero_value FEmbedding = VFloats []"
| "zero_value (FStruct (Schema fs)) = VStruct (map (\<lambda>(n, om, k). zero_value k) fs) []"
| "zero_value _ = VNil"

section \<open>Reading a document\<close>

text \<open>What decoding into \<open>any\<close> gives; \<open>None\<close>: a number out of range.\<close>

fun of_document :: "gvalue \<Rightarrow> gvalue option" where
  "of_document (GNumber n) = map_option GFloat (parse_float n)"
| "of_document (GInt kind i) = Some (GFloat (i64_to_f64 i))"
| "of_document (GSlice xs) = map_option GSlice (those (map of_document xs))"
| "of_document (GMap m) = map_option GMap (those (map (\<lambda>(k, v). map_option (Pair k) (of_document v)) m))"
| "of_document v = Some v"

definition struct_member :: "object \<Rightarrow> string \<Rightarrow> gvalue" where
  "struct_member m name =
     (case map_of m name of
        Some v \<Rightarrow> v
      | None \<Rightarrow> (case find (\<lambda>p. equal_fold (fst p) name) m of Some p \<Rightarrow> snd p | None \<Rightarrow> GNil))"

text \<open>\<open>extraFields\<close>: nothing at all when the document does not decode into a map.\<close>

definition extra_fields :: "gvalue \<Rightarrow> string list \<Rightarrow> object" where
  "extra_fields doc known =
     (case of_document doc of Some (GMap m) \<Rightarrow> fold obj_del known m | _ \<Rightarrow> [])"

definition decode_int :: "gvalue \<Rightarrow> int option" where
  "decode_int v =
     (case v of
        GNumber n \<Rightarrow> parse_decimal n
      | GInt kind i \<Rightarrow> (if - (2 ^ 63) \<le> i \<and> i < 2 ^ 63 then Some i else None)
      | GFloat f \<Rightarrow> (case f of Fin q \<Rightarrow> (if q = of_int \<lfloor>q\<rfloor> \<and> \<bar>q\<bar> \<le> 2 ^ 53 then Some \<lfloor>q\<rfloor> else None) | _ \<Rightarrow> None)
      | _ \<Rightarrow> None)"

definition decode_maps :: "gvalue \<Rightarrow> object list option" where
  "decode_maps v =
     (case v of
        GSlice xs \<Rightarrow> those (map (\<lambda>x. if x = GNil then Some [] else Option.bind (of_document x) as_map) xs)
      | _ \<Rightarrow> None)"

definition decode_strings :: "gvalue \<Rightarrow> (string \<times> string) list option" where
  "decode_strings v =
     (case v of
        GMap m \<Rightarrow> those (map (\<lambda>(k, x). if x = GNil then Some (k, []) else map_option (Pair k) (as_string x)) m)
      | _ \<Rightarrow> None)"

definition decode_texts :: "gvalue \<Rightarrow> string list option" where
  "decode_texts v =
     (case v of
        GSlice xs \<Rightarrow> those (map (\<lambda>x. if x = GNil then Some [] else as_string x) xs)
      | _ \<Rightarrow> None)"

text \<open>\<open>EmbeddingValue.UnmarshalJSON\<close>: a list of numbers (null for 0), or else a string.\<close>

definition decode_float :: "gvalue \<Rightarrow> float64 option" where
  "decode_float v =
     (case of_document v of Some (GFloat f) \<Rightarrow> Some f | Some GNil \<Rightarrow> Some (Fin 0) | _ \<Rightarrow> None)"

definition decode_embedding :: "gvalue \<Rightarrow> svalue option" where
  "decode_embedding v =
     (case v of
        GSlice xs \<Rightarrow> map_option VFloats (those (map decode_float xs))
      | GString s \<Rightarrow> Some (VBase64 s)
      | _ \<Rightarrow> None)"

fun decode_field :: "field_kind \<Rightarrow> gvalue \<Rightarrow> svalue option"
  and decode_struct :: "schema \<Rightarrow> gvalue \<Rightarrow> svalue option" where
  "decode_field k v =
     (if v = GNil then Some (zero_value k)
      else case k of
          FString \<Rightarrow> map_option VString (as_string v)
        | FOptString \<Rightarrow> map_option VString (as_string v)
        | FInt \<Rightarrow> map_option VInt (decode_int v)
        | FOptInt \<Rightarrow> map_option VInt (decode_int v)
        | FBool \<Rightarrow> map_option VBool (as_bool v)
        | FOptBool \<Rightarrow> map_option VBool (as_bool v)
        | FAny \<Rightarrow> map_option VAny (of_document v)
        | FMap \<Rightarrow> map_option VMap (Option.bind (of_document v) as_map)
        | FMaps \<Rightarrow> map_option VMaps (decode_maps v)
        | FStringMap \<Rightarrow> map_option VStrings (decode_strings v)
        | FTexts \<Rightarrow> map_option VTexts (decode_texts v)
        | FStruct s \<Rightarrow> decode_struct s v
        | FOptStruct s \<Rightarrow> decode_struct s v
        | FStructs s \<Rightarrow> (case v of GSlice xs \<Rightarrow> map_option VList (those (map (decode_struct s) xs)) | _ \<Rightarrow> None)
        | FEmbedding \<Rightarrow> decode_embedding v)"
| "decode_struct (Schema fs) v =
     (case v of
        GNil \<Rightarrow> Some (VStruct (map (\<lambda>(n, om, k). zero_value k) fs) [])
      | GMap m \<Rightarrow>
          map_option (\<lambda>vals. VStruct vals (extra_fields v (map fst fs)))
            (those (map (\<lambda>(n, om, k). decode_field k (struct_member m n)) fs))
      | _ \<Rightarrow> None)"

declare decode_field.simps [simp del] decode_struct.simps [simp del]

section \<open>Writing a document\<close>

lemma field_smaller: "(n, om, k) \<in> set fs \<Longrightarrow> size k < size (Schema fs)"
  by (induction fs) auto

lemma zip_field_smaller: "((n, om, k), x) \<in> set (zip fs vals) \<Longrightarrow> size k < size (Schema fs)"
  by (rule field_smaller) (rule set_zip_leftD)

function encode_field :: "field_kind \<Rightarrow> svalue \<Rightarrow> gvalue"
  and encode_struct :: "schema \<Rightarrow> svalue \<Rightarrow> gvalue" where
  "encode_field k v =
     (case v of
        VNil \<Rightarrow> GNil
      | VString s \<Rightarrow> GString s
      | VInt i \<Rightarrow> GInt KInt i
      | VBool b \<Rightarrow> GBool b
      | VAny g \<Rightarrow> g
      | VMap m \<Rightarrow> GMap m
      | VMaps ms \<Rightarrow> GSlice (map GMap ms)
      | VStrings m \<Rightarrow> GMap (map (\<lambda>(n, s). (n, GString s)) m)
      | VTexts ts \<Rightarrow> GSlice (map GString ts)
      | VFloats fl \<Rightarrow> GSlice (map GFloat fl)
      | VBase64 s \<Rightarrow> GString s
      | VStruct vals extra \<Rightarrow> (case k of FStruct s \<Rightarrow> encode_struct s v | FOptStruct s \<Rightarrow> encode_struct s v | _ \<Rightarrow> GNil)
      | VList vs \<Rightarrow> (case k of FStructs s \<Rightarrow> GSlice (map (encode_struct s) vs) | _ \<Rightarrow> GNil))"
| "encode_struct (Schema fs) v =
     (case v of
        VStruct vals extra \<Rightarrow>
          GMap (obj_merge extra
            (concat (map (\<lambda>((n, om, k), x). if om \<and> x = VNil then [] else [(n, encode_field k x)]) (zip fs vals))))
      | _ \<Rightarrow> GNil)"
  by pat_completeness auto
termination
  by (relation "measure (case_sum (\<lambda>(k, v). size k) (\<lambda>(s, v). size s))") (auto dest: zip_field_smaller)

declare encode_field.simps [simp del] encode_struct.simps [simp del]

section \<open>Values of a schema\<close>

text \<open>What decoding into \<open>any\<close> produces.\<close>

fun plain :: "gvalue \<Rightarrow> bool" where
  "plain (GSlice xs) = list_all plain xs"
| "plain (GMap m) = (distinct (map fst m) \<and> list_all (\<lambda>(k, v). plain v) m)"
| "plain v = (case v of GNil \<Rightarrow> True | GBool b \<Rightarrow> True | GFloat f \<Rightarrow> True | GString s \<Rightarrow> True | _ \<Rightarrow> False)"

definition names_of :: "(string \<times> bool \<times> field_kind) list \<Rightarrow> string list" where
  "names_of fs = map fst fs"

definition extra_ok :: "(string \<times> bool \<times> field_kind) list \<Rightarrow> object \<Rightarrow> bool" where
  "extra_ok fs extra \<longleftrightarrow> plain (GMap extra) \<and>
     list_all (\<lambda>e. list_all (\<lambda>n. \<not> equal_fold e n) (names_of fs)) (map fst extra) \<and>
     distinct (map fold_ascii (names_of fs))"

function fits :: "field_kind \<Rightarrow> svalue \<Rightarrow> bool"
  and fits_struct :: "schema \<Rightarrow> svalue \<Rightarrow> bool" where
  "fits k v =
     (case v of
        VNil \<Rightarrow> zero_value k = VNil
      | VString s \<Rightarrow> k = FString \<or> k = FOptString
      | VInt i \<Rightarrow> (k = FInt \<or> k = FOptInt) \<and> - (2 ^ 63) \<le> i \<and> i < 2 ^ 63
      | VBool b \<Rightarrow> k = FBool \<or> k = FOptBool
      | VAny g \<Rightarrow> k = FAny \<and> plain g
      | VMap m \<Rightarrow> k = FMap \<and> plain (GMap m)
      | VMaps ms \<Rightarrow> k = FMaps \<and> list_all (\<lambda>m. plain (GMap m)) ms
      | VStrings m \<Rightarrow> k = FStringMap
      | VTexts ts \<Rightarrow> k = FTexts
      | VFloats fl \<Rightarrow> k = FEmbedding
      | VBase64 s \<Rightarrow> k = FEmbedding
      | VStruct vals extra \<Rightarrow> (case k of FStruct s \<Rightarrow> fits_struct s v | FOptStruct s \<Rightarrow> fits_struct s v | _ \<Rightarrow> False)
      | VList vs \<Rightarrow> (case k of FStructs s \<Rightarrow> list_all (fits_struct s) vs | _ \<Rightarrow> False))"
| "fits_struct (Schema fs) v =
     (case v of
        VStruct vals extra \<Rightarrow>
          length vals = length fs \<and> list_all (\<lambda>((n, om, k), x). fits k x) (zip fs vals) \<and> extra_ok fs extra
      | _ \<Rightarrow> False)"
  by pat_completeness auto
termination
  by (relation "measure (case_sum (\<lambda>(k, v). size k) (\<lambda>(s, v). size s))") (auto dest: zip_field_smaller)

declare fits.simps [simp del] fits_struct.simps [simp del]

section \<open>The round trip\<close>

lemma those_map_same: "(\<And>x. x \<in> set xs \<Longrightarrow> f x = Some x) \<Longrightarrow> those (map f xs) = Some xs"
  by (induction xs) auto

lemma those_map_some: "(\<And>x. x \<in> set xs \<Longrightarrow> \<exists>y. f x = Some y) \<Longrightarrow> \<exists>ys. those (map f xs) = Some ys"
  by (induction xs) fastforce+

lemma plain_of_document: "plain v \<Longrightarrow> of_document v = Some v"
proof (induction v rule: plain.induct)
  case (1 xs)
  then have "those (map of_document xs) = Some xs" by (intro those_map_same) (auto simp: list_all_iff)
  then show ?case by simp
next
  case (2 m)
  then have "those (map (\<lambda>(k, v). map_option (Pair k) (of_document v)) m) = Some m"
    by (intro those_map_same) (auto simp: list_all_iff)
  then show ?case by simp
qed simp_all

lemma merge_fresh:
  "distinct (map fst n) \<Longrightarrow> fst ` set m \<inter> fst ` set n = {} \<Longrightarrow> obj_merge m n = m @ n"
proof (induction n arbitrary: m)
  case (Cons p n)
  have "obj_put (fst p) (snd p) m = m @ [p]" using Cons.prems(2) by (induction m) auto
  then have "obj_merge m (p # n) = obj_merge (m @ [p]) n" by (simp add: obj_merge_def split_beta)
  also have "\<dots> = (m @ [p]) @ n" using Cons.prems by (intro Cons.IH) (auto simp: image_iff)
  finally show ?case by simp
qed (simp add: obj_merge_def)

lemma del_all: "fold obj_del ks m = filter (\<lambda>p. fst p \<notin> set ks) m"
  by (induction ks arbitrary: m) (auto simp: AList.delete_eq intro!: filter_cong)

definition written_fields :: "(string \<times> bool \<times> field_kind) list \<Rightarrow> svalue list \<Rightarrow> object" where
  "written_fields fs vals = concat (map (\<lambda>((n, om, k), x). if om \<and> x = VNil then [] else [(n, encode_field k x)]) (zip fs vals))"

lemma written_fields_Cons:
  "written_fields ((n, om, k) # fs) (x # vals) =
     (if om \<and> x = VNil then written_fields fs vals else (n, encode_field k x) # written_fields fs vals)"
  by (simp add: written_fields_def)

lemma written_names: "fst ` set (written_fields fs vals) \<subseteq> set (names_of fs)"
  by (auto simp: written_fields_def names_of_def image_iff dest!: set_zip_leftD split: if_splits) force+

lemma written_distinct: "length vals = length fs \<Longrightarrow> distinct (names_of fs) \<Longrightarrow> distinct (map fst (written_fields fs vals))"
proof (induction fs vals rule: list_induct2')
  case (4 f fs x vals)
  then show ?case using written_names [of fs vals] by (cases f) (auto simp: written_fields_Cons names_of_def)
qed (simp_all add: written_fields_def)

lemma distinct_fold_names: "distinct (map fold_ascii ns) \<Longrightarrow> distinct ns"
  by (induction ns) auto

lemma extra_names: "extra_ok fs extra \<Longrightarrow> fst ` set extra \<inter> set (names_of fs) = {}"
  by (auto simp: extra_ok_def list_all_iff equal_fold_def)

lemma written_doc:
  "extra_ok fs extra \<Longrightarrow> length vals = length fs \<Longrightarrow>
     encode_struct (Schema fs) (VStruct vals extra) = GMap (extra @ written_fields fs vals)"
proof -
  assume e: "extra_ok fs extra" and l: "length vals = length fs"
  have "fst ` set extra \<inter> fst ` set (written_fields fs vals) = {}"
    using extra_names [OF e] written_names [of fs vals] by blast
  moreover have "distinct (map fst (written_fields fs vals))"
    by (rule written_distinct [OF l distinct_fold_names]) (use e in \<open>simp add: extra_ok_def\<close>)
  ultimately have "obj_merge extra (written_fields fs vals) = extra @ written_fields fs vals" by (intro merge_fresh)
  then show ?thesis by (simp only: encode_struct.simps svalue.case written_fields_def [symmetric])
qed

text \<open>A field that was written is found; one that was left out is not mistaken for another member.\<close>

lemma struct_member_written:
  assumes "length vals = length fs" "distinct (map fold_ascii (names_of fs))"
    "\<And>e. e \<in> fst ` set extra \<Longrightarrow> e \<notin> set (names_of fs)"
    "\<And>e n. e \<in> fst ` set extra \<Longrightarrow> n \<in> set (names_of fs) \<Longrightarrow> \<not> equal_fold e n"
    "((n, om, k), x) \<in> set (zip fs vals)"
  shows "struct_member (extra @ written_fields fs vals) n = encode_field k x"
proof -
  have n: "n \<in> set (names_of fs)" using assms(5) by (auto simp: names_of_def image_iff dest!: set_zip_leftD) force
  then have e: "map_of extra n = None" using assms(3) by (auto simp: map_of_eq_None_iff)
  have w: "map_of (written_fields fs vals) n = (if om \<and> x = VNil then None else Some (encode_field k x)) \<and>
      (om \<and> x = VNil \<longrightarrow> (\<forall>p \<in> set (written_fields fs vals). \<not> equal_fold (fst p) n))"
    using assms(1,2,5)
  proof (induction fs vals rule: list_induct2')
    case (4 f fs y vals)
    obtain n' om' k' where f: "f = (n', om', k')" by (cases f)
    show ?case
    proof (cases "((n, om, k), x) = (f, y)")
      case True
      have "m \<notin> set (names_of fs)" if "equal_fold m n" for m
        using that True 4(3) by (auto simp: f names_of_def equal_fold_def image_iff)
      then have "\<forall>p \<in> set (written_fields fs vals). \<not> equal_fold (fst p) n" using written_names [of fs vals] by blast
      moreover from this have "map_of (written_fields fs vals) n = None"
        by (auto simp: map_of_eq_None_iff equal_fold_def)
      ultimately show ?thesis using True by (simp add: f written_fields_Cons)
    next
      case False
      then have z: "((n, om, k), x) \<in> set (zip fs vals)" using 4(4) by auto
      then have "n \<in> set (names_of fs)" by (auto simp: names_of_def image_iff dest!: set_zip_leftD) force
      then have "\<not> equal_fold n' n" using 4(3) by (auto simp: f names_of_def equal_fold_def image_iff)
      with 4 z show ?thesis by (auto simp: f written_fields_Cons names_of_def equal_fold_def)
    qed
  qed simp_all
  show ?thesis
  proof (cases "om \<and> x = VNil")
    case True
    with w have "find (\<lambda>p. equal_fold (fst p) n) (extra @ written_fields fs vals) = None"
      using assms(4) [OF imageI n] by (auto simp: find_None_iff)
    with True e w show ?thesis by (simp add: struct_member_def map_add_def encode_field.simps)
  next
    case False
    with e w have "map_of (extra @ written_fields fs vals) n = Some (encode_field k x)" by (simp add: map_add_def)
    then show ?thesis by (simp add: struct_member_def)
  qed
qed

lemma written_found:
  assumes "extra_ok fs extra" "length vals = length fs" "((n, om, k), x) \<in> set (zip fs vals)"
  shows "struct_member (extra @ written_fields fs vals) n = encode_field k x"
  using assms(1) extra_names [OF assms(1)] by (intro struct_member_written [OF assms(2) _ _ _ assms(3)])
    (auto simp: extra_ok_def list_all_iff)

lemma those_map_zip:
  "length xs = length ys \<Longrightarrow> (\<And>x y. (x, y) \<in> set (zip xs ys) \<Longrightarrow> f x = Some y) \<Longrightarrow> those (map f xs) = Some ys"
proof (induction xs ys rule: list_induct2)
  case (Cons x xs y ys)
  then have "f x = Some y" "those (map f xs) = Some ys" by (metis list.set_intros zip_Cons_Cons)+
  then show ?case by simp
qed simp

lemma those_append: "those (xs @ ys) = Option.bind (those xs) (\<lambda>a. map_option ((@) a) (those ys))"
proof (induction xs)
  case (Cons x xs)
  then show ?case by (cases x; cases "those xs"; cases "those ys") simp_all
qed (cases "those ys"; simp)

text \<open>Every document that is written decodes into a map or value.\<close>

lemma extra_document: "extra_ok fs extra \<Longrightarrow> (e, v) \<in> set extra \<Longrightarrow> of_document v = Some v"
  by (rule plain_of_document) (auto simp: extra_ok_def list_all_iff)

lemma document_members:
  assumes "extra_ok fs extra" "length vals = length fs"
    "\<And>n om k x. ((n, om, k), x) \<in> set (zip fs vals) \<Longrightarrow> \<exists>w. of_document (encode_field k x) = Some w"
  shows "\<exists>flds. fst ` set flds \<subseteq> set (names_of fs) \<and>
    of_document (GMap (extra @ written_fields fs vals)) = Some (GMap (extra @ flds))"
proof -
  let ?g = "\<lambda>(k, v). map_option (Pair k) (of_document v)"
  have 1: "those (map ?g extra) = Some extra"
    using extra_document [OF assms(1)] by (intro those_map_same) auto
  have "\<exists>y. ?g p = Some y" if p: "p \<in> set (written_fields fs vals)" for p
  proof -
    obtain n om k x where "((n, om, k), x) \<in> set (zip fs vals)" "p = (n, encode_field k x)"
      using p by (auto simp: written_fields_def split: if_splits)
    with assms(3) show ?thesis by fastforce
  qed
  then obtain flds where 2: "those (map ?g (written_fields fs vals)) = Some flds" using those_map_some by blast
  have "map fst ys = map fst xs" if "those (map ?g xs) = Some ys" for xs ys
    using that by (induction xs arbitrary: ys) (auto split: option.splits)
  from this [OF 2] have "fst ` set flds \<subseteq> set (names_of fs)" using written_names [of fs vals] by (metis list.set_map)
  then show ?thesis using 1 2 by (auto simp: those_append)
qed

lemma fits_cases:
  assumes "fits k v"
  obtains (scalar) "\<And>w. v \<noteq> VList w" "\<And>a b. v \<noteq> VStruct a b"
  | (struct) s vals extra where "v = VStruct vals extra" "k = FStruct s \<or> k = FOptStruct s" "fits_struct s v"
  | (structs) s vs where "v = VList vs" "k = FStructs s" "list_all (fits_struct s) vs"
proof (cases v)
  case (VStruct vals extra)
  with assms struct show ?thesis by (cases k) (simp_all add: fits.simps)
next
  case (VList vs)
  with assms structs show ?thesis by (cases k) (simp_all add: fits.simps)
qed (use scalar in simp_all)

lemma scalar_document:
  assumes "fits k v" "\<And>w. v \<noteq> VList w" "\<And>a b. v \<noteq> VStruct a b"
  shows "\<exists>w. of_document (encode_field k v) = Some w"
proof (cases v)
  case (VAny g)
  with assms(1) have "plain g" by (simp add: fits.simps)
  with VAny show ?thesis by (simp add: encode_field.simps plain_of_document)
next
  case (VMap m)
  with assms(1) have "plain (GMap m)" by (simp add: fits.simps)
  with VMap show ?thesis unfolding encode_field.simps by (simp only: svalue.case plain_of_document) simp
next
  case (VMaps ms)
  with assms(1) have "plain (GSlice (map GMap ms))" by (simp add: fits.simps list_all_iff)
  with VMaps show ?thesis unfolding encode_field.simps by (simp only: svalue.case plain_of_document) simp
next
  case (VStrings m)
  have "those (map ((\<lambda>(k, v). map_option (Pair k) (of_document v)) \<circ> (\<lambda>(n, s). (n, GString s))) m) =
      Some (map (\<lambda>(n, s). (n, GString s)) m)"
    by (induction m) auto
  then show ?thesis by (simp add: VStrings encode_field.simps)
next
  case (VTexts ts)
  have "plain (GSlice (map GString ts))" by (simp add: list_all_iff)
  with VTexts show ?thesis unfolding encode_field.simps by (simp only: svalue.case plain_of_document) simp
next
  case (VFloats fl)
  have "plain (GSlice (map GFloat fl))" by (simp add: list_all_iff)
  with VFloats show ?thesis unfolding encode_field.simps by (simp only: svalue.case plain_of_document) simp
qed (use assms in \<open>simp_all add: encode_field.simps\<close>)

lemma fits_struct_iff:
  "fits_struct (Schema fs) v \<longleftrightarrow>
     (\<exists>vals extra. v = VStruct vals extra \<and> length vals = length fs \<and>
        (\<forall>n om k x. ((n, om, k), x) \<in> set (zip fs vals) \<longrightarrow> fits k x) \<and> extra_ok fs extra)"
  by (subst fits_struct.simps) (auto simp: list_all_iff split: svalue.split)

lemma document_exists:
  "fits k v \<Longrightarrow> \<exists>w. of_document (encode_field k v) = Some w"
  "fits_struct s v \<Longrightarrow> \<exists>m. of_document (encode_struct s v) = Some (GMap m)"
proof (induction k v and s v rule: encode_field_encode_struct.induct)
  case (1 k v)
  from 1(4) show ?case
  proof (cases rule: fits_cases)
    case scalar
    then show ?thesis using scalar_document [OF 1(4)] by blast
  next
    case (struct s vals extra)
    from struct(2) have "\<exists>m. of_document (encode_struct s v) = Some (GMap m)"
      using 1(1) [OF struct(1) _ struct(3)] 1(2) [OF struct(1) _ struct(3)] by blast
    with struct(1,2) show ?thesis by (auto simp: encode_field.simps)
  next
    case (structs s vs)
    have "\<exists>ys. those (map (\<lambda>x. of_document (encode_struct s x)) vs) = Some ys"
      using 1(3) [OF structs(1,2)] structs(3) by (intro those_map_some) (auto simp: list_all_iff)
    then show ?thesis using structs by (auto simp: encode_field.simps comp_def)
  qed
next
  case (2 fs v)
  then obtain vals extra where v: "v = VStruct vals extra" "length vals = length fs" "extra_ok fs extra"
    and f: "\<And>n om k x. ((n, om, k), x) \<in> set (zip fs vals) \<Longrightarrow> fits k x" by (auto simp: fits_struct_iff)
  have "\<exists>w. of_document (encode_field k x) = Some w" if "((n, om, k), x) \<in> set (zip fs vals)" for n om k x
    using 2(1) [OF v(1) that] f [OF that] by (cases "om \<and> x = VNil") (auto simp: encode_field.simps)
  then have "\<exists>flds. fst ` set flds \<subseteq> set (names_of fs) \<and>
      of_document (GMap (extra @ written_fields fs vals)) = Some (GMap (extra @ flds))"
    by (rule document_members [OF v(3,2)])
  then show ?case by (auto simp: v(1) written_doc [OF v(3,2)] simp del: of_document.simps)
qed

text \<open>The written document reads back.\<close>

lemma scalar_read:
  assumes "fits k v" "\<And>w. v \<noteq> VList w" "\<And>a b. v \<noteq> VStruct a b"
  shows "decode_field k (encode_field k v) = Some v"
proof (cases v)
  case VNil
  with assms(1) show ?thesis by (simp add: fits.simps encode_field.simps decode_field.simps)
next
  case (VAny g)
  with assms(1) have "k = FAny" "plain g" by (simp_all add: fits.simps)
  with VAny show ?thesis by (auto simp: encode_field.simps decode_field.simps plain_of_document)
next
  case (VMap m)
  with assms(1) have k: "k = FMap" "plain (GMap m)" by (simp_all add: fits.simps)
  then have "of_document (GMap m) = Some (GMap m)" by (intro plain_of_document)
  with VMap k(1) show ?thesis by (simp add: encode_field.simps decode_field.simps as_map_def del: of_document.simps)
next
  case (VMaps ms)
  with assms(1) have k: "k = FMaps" "\<And>m. m \<in> set ms \<Longrightarrow> of_document (GMap m) = Some (GMap m)"
    by (auto simp: fits.simps list_all_iff simp del: of_document.simps plain.simps intro!: plain_of_document)
  then have "those (map (\<lambda>x. if x = GNil then Some [] else Option.bind (of_document x) as_map) (map GMap ms)) = Some ms"
    by (intro those_map_zip) (auto simp: as_map_def zip_map1 zip_same_conv_map simp del: of_document.simps)
  with VMaps k(1) show ?thesis by (simp add: encode_field.simps decode_field.simps decode_maps_def)
next
  case (VStrings m)
  then have k: "k = FStringMap" using assms(1) by (simp add: fits.simps)
  have "those (map (\<lambda>(k, x). if x = GNil then Some (k, []) else map_option (Pair k) (as_string x))
      (map (\<lambda>(n, s). (n, GString s)) m)) = Some m"
    by (intro those_map_zip) (auto simp: as_string_def zip_map1 zip_same_conv_map)
  then show ?thesis by (simp add: VStrings k encode_field.simps decode_field.simps decode_strings_def)
next
  case (VTexts ts)
  then have k: "k = FTexts" using assms(1) by (simp add: fits.simps)
  have "those (map (\<lambda>x. if x = GNil then Some [] else as_string x) (map GString ts)) = Some ts"
    by (intro those_map_zip) (auto simp: as_string_def zip_map1 zip_same_conv_map)
  then show ?thesis by (simp add: VTexts k encode_field.simps decode_field.simps decode_texts_def)
next
  case (VFloats fl)
  then have k: "k = FEmbedding" using assms(1) by (simp add: fits.simps)
  have "those (map decode_float (map GFloat fl)) = Some fl"
    by (intro those_map_zip) (auto simp: decode_float_def zip_map1 zip_same_conv_map)
  then show ?thesis by (simp add: VFloats k encode_field.simps decode_field.simps decode_embedding_def)
qed (use assms in \<open>auto simp: fits.simps encode_field.simps decode_field.simps as_string_def as_bool_def decode_int_def decode_embedding_def\<close>)

lemma struct_round_trip:
  "fits k v \<Longrightarrow> decode_field k (encode_field k v) = Some v"
  "fits_struct s v \<Longrightarrow> decode_struct s (encode_struct s v) = Some v"
proof (induction k v and s v rule: encode_field_encode_struct.induct)
  case (1 k v)
  from 1(4) show ?case
  proof (cases rule: fits_cases)
    case scalar
    then show ?thesis using scalar_read [OF 1(4)] by blast
  next
    case (struct s vals extra)
    have "encode_struct s v \<noteq> GNil" using document_exists(2) [OF struct(3)] by auto
    then show ?thesis using 1(1,2) struct by (auto simp: encode_field.simps decode_field.simps)
  next
    case (structs s vs)
    have "those (map (decode_struct s) (map (encode_struct s) vs)) = Some vs"
      using 1(3) [OF structs(1,2)] structs(3)
      by (intro those_map_zip) (auto simp: zip_map1 zip_same_conv_map list_all_iff)
    then show ?thesis using structs by (simp add: encode_field.simps decode_field.simps)
  qed
next
  case (2 fs v)
  then obtain vals extra where v: "v = VStruct vals extra" "length vals = length fs" "extra_ok fs extra"
    and f: "\<And>n om k x. ((n, om, k), x) \<in> set (zip fs vals) \<Longrightarrow> fits k x" by (auto simp: fits_struct_iff)
  let ?doc = "GMap (extra @ written_fields fs vals)"
  have "decode_field k (encode_field k x) = Some x" if "((n, om, k), x) \<in> set (zip fs vals)" for n om k x
    using 2(1) [OF v(1) that] f [OF that] scalar_read [OF f [OF that]] by (cases "om \<and> x = VNil") auto
  then have "those (map (\<lambda>(n, om, k). decode_field k (struct_member (extra @ written_fields fs vals) n)) fs) = Some vals"
    using written_found [OF v(3,2)] v(2) by (intro those_map_zip) auto
  moreover obtain flds where "of_document ?doc = Some (GMap (extra @ flds))" "fst ` set flds \<subseteq> set (names_of fs)"
    using document_members [OF v(3,2)] document_exists(1) [OF f] by blast
  then have "extra_fields ?doc (map fst fs) = extra"
  proof -
    assume d: "of_document ?doc = Some (GMap (extra @ flds))" and n: "fst ` set flds \<subseteq> set (names_of fs)"
    have "filter (\<lambda>p. fst p \<notin> set (names_of fs)) extra = extra"
      using extra_names [OF v(3)] by (intro filter_True) auto
    moreover have "filter (\<lambda>p. fst p \<notin> set (names_of fs)) flds = []" using n by (intro filter_False) auto
    ultimately show ?thesis by (simp add: extra_fields_def d del_all names_of_def [symmetric] del: of_document.simps)
  qed
  ultimately show ?case by (simp add: v(1) written_doc [OF v(3,2)] decode_struct.simps del: of_document.simps)
qed

section \<open>A number out of range\<close>

lemma round_half_even_lower: "x - 1 \<le> of_int (round_half_even x)"
proof -
  have "\<lfloor>x\<rfloor> \<le> round_half_even x" by (simp add: round_half_even_def Let_def)
  then have "of_int \<lfloor>x\<rfloor> \<le> (of_int (round_half_even x) :: rat)" by simp
  then show ?thesis by linarith
qed

lemma round64_overflow:
  assumes "two_pow 1025 \<le> x"
  shows "round64 x = Inf False"
proof -
  have x: "0 < x" using assms two_pow_pos [of 1025] by linarith
  define k where "k = max (binary_exponent \<bar>x\<bar> - 52) (- 1074)"
  have "two_pow k \<le> x / 2"
  proof (cases "binary_exponent x - 52 \<le> - 1074")
    case True
    then have "two_pow k \<le> two_pow 1024" using x by (intro two_pow_mono) (simp add: k_def)
    also have "two_pow 1024 = two_pow 1025 / 2" by (simp add: two_pow_def)
    finally show ?thesis using assms by simp
  next
    case False
    then have "two_pow k \<le> two_pow (binary_exponent x - 1)" using x by (intro two_pow_mono) (simp add: k_def)
    moreover have "two_pow (binary_exponent x) = two_pow (binary_exponent x - 1) * 2"
      using two_pow_add [of "binary_exponent x - 1" 1] by (simp add: two_pow_def)
    ultimately show ?thesis using binary_exponent_le [OF x] by linarith
  qed
  moreover have "x - two_pow k \<le> of_int (round_half_even (x / two_pow k)) * two_pow k"
  proof -
    have "(x / two_pow k - 1) * two_pow k \<le> of_int (round_half_even (x / two_pow k)) * two_pow k"
      using round_half_even_lower by (intro mult_right_mono) (simp_all add: less_imp_le)
    then show ?thesis by (simp add: left_diff_distrib order_less_imp_not_eq2 [OF two_pow_pos])
  qed
  moreover have "two_pow 1025 = two_pow 1024 * 2" by (simp add: two_pow_def)
  ultimately have "two_pow 1024 \<le> of_int (round_half_even (x / two_pow k)) * two_pow k" using assms by linarith
  then show ?thesis using x by (simp add: round64_def Let_def k_def)
qed

lemma number_out_of_range: "parse_float ''1e999'' = None"
proof -
  have "strip_sign ''1e999'' = (False, ''1e999'')" by code_simp
  moreover have "read_float ''1e999'' = Some (10 ^ 999)"
  proof -
    have "scan_mantissa False False 0 0 False False ''1e999'' = (1, 0, True, False, ''e999'')"
      "scan_exponent 0 False ''999'' = (999, False, [])" "base_prefix {CHR ''x''} ''1e999'' = False"
      "strip_sign ''1e999'' = (False, ''1e999'')" "strip_sign ''999'' = (False, ''999'')" "lower_byte (CHR ''e'') = CHR ''e''"
      "is_digit (CHR ''9'')"
      by code_simp+
    then show ?thesis unfolding read_float_def Let_def by (simp del: power_numeral)
  qed
  moreover have "two_pow 1025 \<le> 10 ^ 999"
  proof -
    have "two_pow 1025 = (2 :: rat) ^ 1025" by (simp add: two_pow_def del: power_numeral)
    also have "\<dots> \<le> 2 ^ (3 * 999)" by (rule power_increasing) simp_all
    also have "\<dots> = (2 ^ 3) ^ 999" by (rule power_mult)
    also have "\<dots> \<le> 10 ^ 999" by (rule power_mono) simp_all
    finally show ?thesis .
  qed
  ultimately show ?thesis
    by (simp add: parse_float_def round64_overflow lower_byte_def is_upper_def del: power_numeral)
qed

end
