(* ===== verification/Api_Types.thy ===== *)
theory Api_Types
  imports Json_Struct
begin

text \<open>
  The response types of the API as schemas: chat (\<open>chat_types.go\<close>), responses, messages,
  embeddings, the catalogs of \<open>models.go\<close>, account, billing, broadcast and OAuth.  A type with
  its own \<open>MarshalJSON\<close> leaves out exactly the members marked here; the others are only read.
\<close>

section \<open>Chat\<close>

definition chat_usage_schema :: schema where
  "chat_usage_schema = Schema [(''prompt_tokens'', False, FInt), (''completion_tokens'', False, FInt),
     (''total_tokens'', False, FInt)]"

definition chat_message_schema :: schema where
  "chat_message_schema = Schema [(''role'', False, FString), (''content'', False, FOptString),
     (''name'', True, FOptString), (''tool_calls'', True, FMaps), (''tool_call_id'', True, FOptString)]"

definition chat_choice_schema :: schema where
  "chat_choice_schema = Schema [(''index'', False, FInt), (''message'', False, FStruct chat_message_schema),
     (''finish_reason'', True, FOptString), (''logprobs'', True, FMap)]"

definition chat_completion_schema :: schema where
  "chat_completion_schema = Schema [(''id'', False, FString), (''object'', False, FString), (''created'', False, FInt),
     (''model'', False, FString), (''choices'', False, FStructs chat_choice_schema), (''usage'', True, FOptStruct chat_usage_schema)]"

definition chat_choice_delta_schema :: schema where
  "chat_choice_delta_schema = Schema [(''role'', True, FOptString), (''content'', True, FOptString), (''tool_calls'', True, FMaps)]"

definition chat_choice_chunk_schema :: schema where
  "chat_choice_chunk_schema = Schema [(''index'', False, FInt), (''delta'', False, FStruct chat_choice_delta_schema),
     (''finish_reason'', True, FOptString)]"

definition chat_completion_chunk_schema :: schema where
  "chat_completion_chunk_schema = Schema [(''id'', False, FString), (''object'', False, FString), (''created'', False, FInt),
     (''model'', False, FString), (''choices'', False, FStructs chat_choice_chunk_schema), (''usage'', True, FOptStruct chat_usage_schema)]"

section \<open>Responses, messages, embeddings\<close>

definition response_object_schema :: schema where
  "response_object_schema = Schema [(''id'', False, FString), (''object'', False, FString), (''created_at'', True, FOptInt),
     (''status'', True, FOptString), (''model'', True, FOptString), (''output'', True, FMaps), (''usage'', True, FMap)]"

definition response_input_tokens_schema :: schema where
  "response_input_tokens_schema = Schema [(''input_tokens'', False, FInt), (''total_tokens'', True, FOptInt)]"

definition message_content_block_schema :: schema where
  "message_content_block_schema = Schema [(''type'', False, FString), (''text'', True, FOptString)]"

definition messages_usage_schema :: schema where
  "messages_usage_schema = Schema [(''input_tokens'', False, FInt), (''output_tokens'', False, FInt)]"

definition message_response_schema :: schema where
  "message_response_schema = Schema [(''id'', False, FString), (''type'', True, FOptString), (''role'', False, FString),
     (''content'', False, FStructs message_content_block_schema), (''model'', False, FString),
     (''stop_reason'', True, FOptString), (''stop_sequence'', True, FOptString), (''usage'', True, FOptStruct messages_usage_schema)]"

definition embedding_schema :: schema where
  "embedding_schema = Schema [(''index'', False, FInt), (''object'', True, FOptString), (''embedding'', False, FEmbedding)]"

definition embeddings_response_schema :: schema where
  "embeddings_response_schema = Schema [(''object'', True, FOptString), (''data'', False, FStructs embedding_schema),
     (''model'', False, FString), (''usage'', True, FOptStruct chat_usage_schema)]"

text \<open>\<open>IsBase64\<close>, \<open>Float64s\<close> and \<open>Base64String\<close> of an embedding.\<close>

definition is_base64 :: "svalue \<Rightarrow> bool" where
  "is_base64 v = (case v of VBase64 s \<Rightarrow> True | _ \<Rightarrow> False)"

definition float64s :: "svalue \<Rightarrow> float64 list option" where
  "float64s v = (case v of VFloats fl \<Rightarrow> Some fl | _ \<Rightarrow> None)"

definition base64_string :: "svalue \<Rightarrow> string option" where
  "base64_string v = (case v of VBase64 s \<Rightarrow> Some s | _ \<Rightarrow> None)"

section \<open>Catalogs\<close>

definition model_trusted_router_metadata_schema :: schema where
  "model_trusted_router_metadata_schema = Schema [(''open_weights'', True, FOptBool),
     (''us_provider_available'', True, FOptBool), (''eu_focused_provider_available'', True, FOptBool)]"

definition model_pricing_schema :: schema where
  "model_pricing_schema = Schema [(''prompt'', True, FOptString), (''completion'', True, FOptString),
     (''prompt_max'', True, FOptString), (''completion_max'', True, FOptString)]"

definition model_architecture_schema :: schema where
  "model_architecture_schema = Schema [(''modality'', True, FString), (''tokenizer'', True, FString), (''instruct_type'', True, FOptString)]"

definition model_top_provider_schema :: schema where
  "model_top_provider_schema = Schema [(''context_length'', True, FOptInt), (''max_completion_tokens'', True, FOptInt),
     (''is_moderated'', True, FBool)]"

definition model_info_schema :: schema where
  "model_info_schema = Schema [(''id'', False, FString), (''object'', True, FString), (''created'', True, FInt),
     (''owned_by'', True, FString), (''name'', True, FString), (''description'', True, FString),
     (''context_length'', True, FOptInt), (''architecture'', True, FStruct model_architecture_schema),
     (''pricing'', True, FStruct model_pricing_schema), (''top_provider'', True, FStruct model_top_provider_schema),
     (''per_request_limits'', True, FMap), (''trustedrouter'', True, FOptStruct model_trusted_router_metadata_schema)]"

definition model_list_schema :: schema where
  "model_list_schema = Schema [(''data'', False, FStructs model_info_schema)]"

definition provider_info_schema :: schema where
  "provider_info_schema = Schema [(''id'', False, FString), (''name'', True, FString)]"

definition provider_list_schema :: schema where
  "provider_list_schema = Schema [(''data'', False, FStructs provider_info_schema)]"

definition region_info_schema :: schema where
  "region_info_schema = Schema [(''id'', False, FString), (''name'', True, FString)]"

definition region_list_schema :: schema where
  "region_list_schema = Schema [(''data'', False, FStructs region_info_schema)]"

definition credits_balance_schema :: schema where
  "credits_balance_schema = Schema [(''data'', False, FAny)]"

text \<open>A field of a decoded struct, nil in a nil struct.\<close>

definition struct_field :: "schema \<Rightarrow> string \<Rightarrow> svalue \<Rightarrow> svalue" where
  "struct_field s name v =
     (case v of
        VStruct vals extra \<Rightarrow> (case map_of (zip (map fst (schema_fields s)) vals) name of Some x \<Rightarrow> x | None \<Rightarrow> VNil)
      | _ \<Rightarrow> VNil)"

definition model_flag :: "string \<Rightarrow> svalue \<Rightarrow> bool" where
  "model_flag name m =
     (struct_field model_trusted_router_metadata_schema name (struct_field model_info_schema ''trustedrouter'' m) = VBool True)"

definition open_weights :: "svalue \<Rightarrow> bool" where
  "open_weights = model_flag ''open_weights''"

definition us_provider_available :: "svalue \<Rightarrow> bool" where
  "us_provider_available = model_flag ''us_provider_available''"

definition eu_focused_provider_available :: "svalue \<Rightarrow> bool" where
  "eu_focused_provider_available = model_flag ''eu_focused_provider_available''"

definition svalue_list :: "svalue \<Rightarrow> svalue list" where
  "svalue_list v = (case v of VList vs \<Rightarrow> vs | _ \<Rightarrow> [])"

definition model_by_id :: "svalue \<Rightarrow> string \<Rightarrow> svalue option" where
  "model_by_id models model_id =
     find (\<lambda>m. struct_field model_info_schema ''id'' m = VString model_id) (svalue_list (struct_field model_list_schema ''data'' models))"

section \<open>Account, billing, broadcast, OAuth\<close>

definition auth_session_user_schema :: schema where
  "auth_session_user_schema = Schema [(''id'', False, FString), (''email'', True, FOptString)]"

definition auth_session_response_schema :: schema where
  "auth_session_response_schema = Schema [(''authenticated'', False, FBool), (''user'', True, FOptStruct auth_session_user_schema)]"

definition user_info_data_schema :: schema where
  "user_info_data_schema = Schema [(''sub'', False, FOptString), (''email'', True, FOptString), (''email_verified'', True, FOptBool),
     (''wallet_address'', True, FOptString), (''workspace_id'', True, FOptString), (''created_at'', True, FOptString)]"

definition user_info_response_schema :: schema where
  "user_info_response_schema = Schema [(''data'', False, FStruct user_info_data_schema)]"

definition activity_schema :: schema where
  "activity_schema = Schema [(''id'', False, FString), (''created_at'', True, FOptInt), (''type'', True, FOptString),
     (''metadata'', True, FStringMap)]"

definition activity_response_schema :: schema where
  "activity_response_schema = Schema [(''activities'', False, FStructs activity_schema)]"

definition checkout_response_schema :: schema where
  "checkout_response_schema = Schema [(''url'', True, FOptString), (''status'', True, FOptString)]"

definition broadcast_destination_schema :: schema where
  "broadcast_destination_schema = Schema [(''id'', False, FString), (''type'', False, FString), (''name'', True, FOptString),
     (''endpoint'', True, FOptString), (''enabled'', True, FOptBool), (''include_content'', True, FOptBool), (''method'', True, FOptString)]"

definition broadcast_destination_list_schema :: schema where
  "broadcast_destination_list_schema = Schema [(''data'', False, FStructs broadcast_destination_schema)]"

definition oauth_identity_schema :: schema where
  "oauth_identity_schema = Schema [(''sub'', False, FString), (''email'', True, FOptString), (''email_verified'', True, FOptBool),
     (''wallet_address'', True, FOptString)]"

definition oauth_key_exchange_schema :: schema where
  "oauth_key_exchange_schema = Schema [(''key'', False, FString), (''user_id'', True, FOptString),
     (''identity'', True, FOptStruct oauth_identity_schema), (''data'', True, FMap)]"

text \<open>
  \<open>requireJSONField\<close> (\<open>boundary.go\<close>): the member must be there, under its exact name, and of the
  required shape before anything else is decoded; every failure is a \<open>ResponseShapeError\<close>.
\<close>

datatype json_shape = Shape_Object | Shape_Array | Shape_String

datatype decode_failure = Response_Shape_Error | Decode_Error

definition has_shape :: "json_shape \<Rightarrow> gvalue \<Rightarrow> bool" where
  "has_shape shape v = (case v of
       GMap m \<Rightarrow> shape = Shape_Object | GSlice xs \<Rightarrow> shape = Shape_Array | GString s \<Rightarrow> shape = Shape_String | _ \<Rightarrow> False)"

definition require_json_field :: "gvalue \<Rightarrow> string \<Rightarrow> json_shape \<Rightarrow> bool" where
  "require_json_field doc field shape =
     (case doc of GMap m \<Rightarrow> has_shape shape (obj_get m field) | _ \<Rightarrow> False)"

definition decode_required :: "schema \<Rightarrow> string \<Rightarrow> json_shape \<Rightarrow> gvalue \<Rightarrow> decode_failure + svalue" where
  "decode_required s field shape doc =
     (if require_json_field doc field shape
      then (case decode_struct s doc of Some v \<Rightarrow> Inr v | None \<Rightarrow> Inl Response_Shape_Error)
      else Inl Response_Shape_Error)"

definition decode_user_info :: "gvalue \<Rightarrow> decode_failure + svalue" where
  "decode_user_info = decode_required user_info_response_schema ''data'' Shape_Object"

definition decode_key_exchange :: "gvalue \<Rightarrow> decode_failure + svalue" where
  "decode_key_exchange = decode_required oauth_key_exchange_schema ''key'' Shape_String"

text \<open>\<open>LogoutResponse\<close> keeps the whole object.\<close>

definition decode_logout :: "gvalue \<Rightarrow> decode_failure + object" where
  "decode_logout doc =
     (case of_document doc of Some (GMap m) \<Rightarrow> Inr m | Some GNil \<Rightarrow> Inr [] | _ \<Rightarrow> Inl Decode_Error)"

section \<open>The chunks of a stream\<close>

text \<open>
  The event of a stream, encoded again and decoded into the struct; \<open>literal\<close> is the
  encoder's rendering of a float.
\<close>

fun as_document :: "(float64 \<Rightarrow> string) \<Rightarrow> gvalue \<Rightarrow> gvalue" where
  "as_document literal (GFloat f) = GNumber (literal f)"
| "as_document literal (GSlice xs) = GSlice (map (as_document literal) xs)"
| "as_document literal (GMap m) = GMap (map (\<lambda>(k, v). (k, as_document literal v)) m)"
| "as_document literal v = v"

definition opt_string :: "svalue \<Rightarrow> string option" where
  "opt_string v = (case v of VString s \<Rightarrow> Some s | _ \<Rightarrow> None)"

definition the_string :: "svalue \<Rightarrow> string" where
  "the_string v = (case v of VString s \<Rightarrow> s | _ \<Rightarrow> [])"

definition the_int :: "svalue \<Rightarrow> int" where
  "the_int v = (case v of VInt i \<Rightarrow> i | _ \<Rightarrow> 0)"

definition the_maps :: "svalue \<Rightarrow> object list" where
  "the_maps v = (case v of VMaps ms \<Rightarrow> ms | _ \<Rightarrow> [])"

definition extra_of :: "svalue \<Rightarrow> object" where
  "extra_of v = (case v of VStruct vals extra \<Rightarrow> extra | _ \<Rightarrow> [])"

definition usage_of :: "svalue \<Rightarrow> chat_usage option" where
  "usage_of v = (case v of
       VStruct vals extra \<Rightarrow> Some
         \<lparr>us_prompt_tokens = the_int (struct_field chat_usage_schema ''prompt_tokens'' v),
          us_completion_tokens = the_int (struct_field chat_usage_schema ''completion_tokens'' v),
          us_total_tokens = the_int (struct_field chat_usage_schema ''total_tokens'' v), us_extra = extra\<rparr>
     | _ \<Rightarrow> None)"

definition delta_of :: "svalue \<Rightarrow> chat_choice_delta" where
  "delta_of v =
     \<lparr>cd_role = opt_string (struct_field chat_choice_delta_schema ''role'' v),
      cd_content = opt_string (struct_field chat_choice_delta_schema ''content'' v),
      cd_tool_calls = the_maps (struct_field chat_choice_delta_schema ''tool_calls'' v), cd_extra = extra_of v\<rparr>"

definition choice_chunk_of :: "svalue \<Rightarrow> chat_choice_chunk" where
  "choice_chunk_of v =
     \<lparr>cc_index = the_int (struct_field chat_choice_chunk_schema ''index'' v),
      cc_delta = delta_of (struct_field chat_choice_chunk_schema ''delta'' v),
      cc_finish_reason = opt_string (struct_field chat_choice_chunk_schema ''finish_reason'' v), cc_extra = extra_of v\<rparr>"

definition chunk_of :: "svalue \<Rightarrow> chat_completion_chunk" where
  "chunk_of v =
     \<lparr>ck_id = the_string (struct_field chat_completion_chunk_schema ''id'' v),
      ck_object = the_string (struct_field chat_completion_chunk_schema ''object'' v),
      ck_created = the_int (struct_field chat_completion_chunk_schema ''created'' v),
      ck_model = the_string (struct_field chat_completion_chunk_schema ''model'' v),
      ck_choices = map choice_chunk_of (svalue_list (struct_field chat_completion_chunk_schema ''choices'' v)),
      ck_usage = usage_of (struct_field chat_completion_chunk_schema ''usage'' v), ck_extra = extra_of v\<rparr>"

definition decode_chunk :: "(float64 \<Rightarrow> string) \<Rightarrow> object \<Rightarrow> chat_completion_chunk option" where
  "decode_chunk literal event =
     map_option chunk_of (decode_struct chat_completion_chunk_schema (as_document literal (GMap event)))"

section \<open>Round trip and losses\<close>


definition sample_completion :: svalue where
  "sample_completion = VStruct
     [VString ''c1'', VString ''chat.completion'', VInt 1700000000, VString ''m'',
      VList [VStruct [VInt 0,
         VStruct [VString ''assistant'', VNil, VNil, VMaps [[(''id'', GString ''t'')]], VNil] [(''reasoning'', GString ''r'')],
         VString ''tool_calls'', VNil] []],
      VStruct [VInt 3, VInt 4, VInt 7] [(''cost'', GFloat (Fin (1 / 2)))]]
     [(''trustedrouter'', GMap [(''route'', GSlice [GString ''a'', GNil])])]"

lemma sample_completion_fits: "fits_struct chat_completion_schema sample_completion"
  by code_simp


text \<open>
  Two ways in which \<open>Extra\<close> is not the unknown members: one number that no float can hold makes
  it empty, although the document decodes; and a known name in another case is decoded as the
  field and kept as an unknown member as well.
\<close>

lemma extra_emptied_by_a_number:
  "decode_struct region_info_schema
     (GMap [(''id'', GString ''r1''), (''zone'', GString ''b''), (''weight'', GNumber ''1e999'')]) =
   Some (VStruct [VString ''r1'', VString []] [])"
proof -
  have doc: "of_document (GMap [(''id'', GString ''r1''), (''zone'', GString ''b''), (''weight'', GNumber ''1e999'')]) = None"
    by (simp add: number_out_of_range)
  have "equal_fold ''id'' ''name'' = False" "equal_fold ''zone'' ''name'' = False" "equal_fold ''weight'' ''name'' = False"
    by code_simp+
  then show ?thesis
    by (simp add: region_info_schema_def decode_struct.simps decode_field.simps struct_member_def extra_fields_def doc
        as_string_def del: of_document.simps)
qed

lemma known_member_kept_as_extra:
  "decode_struct region_info_schema (GMap [(''ID'', GString ''r1'')]) =
   Some (VStruct [VString ''r1'', VString []] [(''ID'', GString ''r1'')])"
  by code_simp

end
