(* ===== verification/Chat_Request.thy ===== *)
theory Chat_Request
  imports Request Completion
begin

text \<open>
  The chat request of the caller and the JSON body and call options built from it:
  \<open>extras.go\<close>, \<open>orchestration_tools.go\<close>, the builders of \<open>chat.go\<close> and the presets of
  \<open>provider.go\<close>.  A body is an object; a nil slice stored in it and an empty one of the same type
  are the same value here, the encoder is an argument of the request.
\<close>

section \<open>Requests\<close>

record chat_request =
  cq_model :: string
  cq_messages :: "object list"
  cq_tools :: "object list option"
  cq_provider :: "provider_preferences option"
  cq_depth :: "int option"
  cq_worker_models :: "string list option"
  cq_advisor_models :: "string list option"
  cq_max_get_advice_calls :: "int option"
  cq_advisor_max_tokens :: "int option"
  cq_worker_timeout_ms :: "int option"
  cq_advisor_timeout_ms :: "int option"
  cq_auto_initial_advice :: "bool option"
  cq_analysis_models :: "string list option"
  cq_judge_model :: "string option"
  cq_selection_strategy :: "string option"
  cq_fallback_judges :: "string list option"
  cq_fallback_final_models :: "string list option"
  cq_max_completion_tokens :: "int option"
  cq_max_tool_calls :: "int option"
  cq_preset :: "string option"
  cq_panel_prompt :: "string option"
  cq_synthesis_prompt :: "string option"
  cq_final_prompt :: "string option"
  cq_selector_models :: "string list option"
  cq_selector_model :: "string option"
  cq_selector_prompt :: "string option"
  cq_mapper_models :: "string list option"
  cq_mapper_model :: "string option"
  cq_mapper_prompt :: "string option"
  cq_parallel_models :: "string list option"
  cq_parallel_model :: "string option"
  cq_parallel_prompt :: "string option"
  cq_reducer_models :: "string list option"
  cq_reducer_model :: "string option"
  cq_reducer_prompt :: "string option"
  cq_extra :: object
  cq_options :: call_options

record fusion_request =
  fq_messages :: "object list"
  fq_tools :: "object list"
  fq_analysis_models :: "string list option"
  fq_model :: "string option"
  fq_selection_strategy :: "string option"
  fq_fallback_judges :: "string list option"
  fq_fallback_final_models :: "string list option"
  fq_max_completion_tokens :: "int option"
  fq_max_tool_calls :: "int option"
  fq_preset :: "string option"
  fq_extra :: object
  fq_options :: call_options

definition auto_model :: string where
  "auto_model = ''trustedrouter/auto''"

definition fusion_model :: string where
  "fusion_model = ''trustedrouter/fusion''"

definition advisor_model :: string where
  "advisor_model = ''trustedrouter/advisor''"

definition default_fusion_timeout :: duration where
  "default_fusion_timeout = 600 * 1000000000"

section \<open>Reserved members of Extra\<close>

definition string_extra :: "object \<Rightarrow> string \<Rightarrow> string option" where
  "string_extra extra key = (case map_of extra key of Some (GString s) \<Rightarrow> Some s | _ \<Rightarrow> None)"

text \<open>\<open>time.Duration(v) * time.Second\<close> wraps around; the float is converted as in \<open>toolCallIndex\<close>.\<close>

definition wrap_i64 :: "int \<Rightarrow> int" where
  "wrap_i64 i = (i + 2 ^ 63) mod 2 ^ 64 - 2 ^ 63"

definition timeout_extra :: "object \<Rightarrow> string \<Rightarrow> duration option" where
  "timeout_extra extra key =
     (case map_of extra key of
        Some (GInt kind v) \<Rightarrow> (if kind = KInt then Some (wrap_i64 (v * 1000000000)) else None)
      | Some (GFloat v) \<Rightarrow> Some (float_to_int (fmul v (Fin 1000000000)))
      | _ \<Rightarrow> None)"

type_synonym string_map = "(string \<times> string) list"

definition headers_extra :: "object \<Rightarrow> string \<Rightarrow> string_map" where
  "headers_extra extra key =
     (case map_of extra key of
        Some (GStringMap hs) \<Rightarrow> hs
      | Some (GMap hs) \<Rightarrow> List.map_filter (\<lambda>(k, v). map_option (Pair k) (as_string v)) hs
      | _ \<Rightarrow> [])"

text \<open>Later layers win, and within a layer the last of the sorted keys.\<close>

definition add_header_layer :: "string_map \<Rightarrow> string_map \<Rightarrow> string_map" where
  "add_header_layer hs out = fold (\<lambda>(k, v). AList.update (canonical_key k) v) (sort_keys hs) out"

definition merge_headers :: "string_map list \<Rightarrow> string_map" where
  "merge_headers layers = fold add_header_layer layers []"

definition option_or :: "'a option \<Rightarrow> 'a option \<Rightarrow> 'a option" where
  "option_or x y = (case x of Some v \<Rightarrow> Some v | None \<Rightarrow> y)"

definition lift_options :: "bool \<Rightarrow> object \<Rightarrow> call_options \<Rightarrow> call_options" where
  "lift_options all extra opts =
     (let hs = headers_extra extra ''extra_headers'' in
      \<lparr>co_api_key = (if all then option_or (co_api_key opts) (string_extra extra ''api_key'') else co_api_key opts),
       co_extra_headers = (if all \<and> hs \<noteq> [] then merge_headers [hs, co_extra_headers opts] else co_extra_headers opts),
       co_workspace_id = option_or (co_workspace_id opts) (string_extra extra ''workspace_id''),
       co_idempotency_key = (if all \<and> co_idempotency_key opts = []
          then (case string_extra extra ''idempotency_key'' of Some v \<Rightarrow> v | None \<Rightarrow> []) else co_idempotency_key opts),
       co_timeout = (if all then option_or (co_timeout opts) (timeout_extra extra ''timeout'') else co_timeout opts)\<rparr>)"

definition chat_call_options :: "chat_request \<Rightarrow> call_options" where
  "chat_call_options req = lift_options True (cq_extra req) (cq_options req)"

definition reserved_extra_keys :: "string list" where
  "reserved_extra_keys = [''api_key'', ''extra_headers'', ''idempotency_key'', ''timeout'', ''workspace_id'']"

section \<open>Orchestration tools\<close>

definition set_value :: "string \<Rightarrow> gvalue option \<Rightarrow> object \<Rightarrow> object" where
  "set_value key v params = (case v of Some x \<Rightarrow> obj_put key x params | None \<Rightarrow> params)"

abbreviation set_int :: "string \<Rightarrow> int option \<Rightarrow> object \<Rightarrow> object" where
  "set_int key v \<equiv> set_value key (map_option (GInt KInt) v)"

abbreviation set_string :: "string \<Rightarrow> string option \<Rightarrow> object \<Rightarrow> object" where
  "set_string key v \<equiv> set_value key (map_option GString v)"

abbreviation set_bool :: "string \<Rightarrow> bool option \<Rightarrow> object \<Rightarrow> object" where
  "set_bool key v \<equiv> set_value key (map_option GBool v)"

definition set_slice :: "string \<Rightarrow> string list option \<Rightarrow> object \<Rightarrow> object" where
  "set_slice key v = set_value key (map_option GStrings v)"

definition all_set :: "(object \<Rightarrow> object) list \<Rightarrow> object \<Rightarrow> object" where
  "all_set fs params = fold (\<lambda>f. f) fs params"

definition tool_spec :: "string \<Rightarrow> object \<Rightarrow> object" where
  "tool_spec kind parameters = [(''type'', GString kind), (''parameters'', GMap parameters)]"

record fusion_tool_options =
  fo_enabled :: "bool option"
  fo_analysis_models :: "string list option"
  fo_model :: "string option"
  fo_selection_strategy :: "string option"
  fo_fallback_judges :: "string list option"
  fo_fallback_final_models :: "string list option"
  fo_max_completion_tokens :: "int option"
  fo_max_tool_calls :: "int option"
  fo_preset :: "string option"
  fo_panel_prompt :: "string option"
  fo_synthesis_prompt :: "string option"

definition fusion_tool :: "fusion_tool_options \<Rightarrow> object" where
  "fusion_tool opts = tool_spec ''trustedrouter:fusion'' (all_set [
     set_bool ''enabled'' (fo_enabled opts),
     set_string ''preset'' (fo_preset opts),
     set_slice ''analysis_models'' (fo_analysis_models opts),
     set_string ''model'' (fo_model opts),
     set_string ''selection_strategy'' (fo_selection_strategy opts),
     set_slice ''fallback_judges'' (fo_fallback_judges opts),
     set_slice ''fallback_final_models'' (fo_fallback_final_models opts),
     set_int ''max_completion_tokens'' (fo_max_completion_tokens opts),
     set_int ''max_tool_calls'' (fo_max_tool_calls opts),
     set_string ''panel_prompt'' (fo_panel_prompt opts),
     set_string ''synthesis_prompt'' (fo_synthesis_prompt opts)] [])"

record advisor_tool_options =
  ao_enabled :: "bool option"
  ao_depth :: "int option"
  ao_worker_models :: "string list option"
  ao_advisor_models :: "string list option"
  ao_max_get_advice_calls :: "int option"
  ao_advisor_max_tokens :: "int option"
  ao_worker_timeout_ms :: "int option"
  ao_advisor_timeout_ms :: "int option"
  ao_auto_initial_advice :: "bool option"

definition advisor_tool :: "advisor_tool_options \<Rightarrow> object" where
  "advisor_tool opts = tool_spec ''trustedrouter:advisor'' (all_set [
     set_bool ''enabled'' (ao_enabled opts),
     set_int ''depth'' (ao_depth opts),
     set_slice ''worker_models'' (ao_worker_models opts),
     set_slice ''advisor_models'' (ao_advisor_models opts),
     set_int ''max_get_advice_calls'' (ao_max_get_advice_calls opts),
     set_int ''advisor_max_tokens'' (ao_advisor_max_tokens opts),
     set_int ''worker_timeout_ms'' (ao_worker_timeout_ms opts),
     set_int ''advisor_timeout_ms'' (ao_advisor_timeout_ms opts),
     set_bool ''auto_initial_advice'' (ao_auto_initial_advice opts)] [])"

record selector_tool_options =
  so_enabled :: "bool option"
  so_analysis_models :: "string list option"
  so_selector_models :: "string list option"
  so_selector_prompt :: "string option"
  so_max_completion_tokens :: "int option"

definition selector_tool :: "selector_tool_options \<Rightarrow> object" where
  "selector_tool opts = tool_spec ''trustedrouter:selector'' (all_set [
     set_bool ''enabled'' (so_enabled opts),
     set_slice ''analysis_models'' (so_analysis_models opts),
     set_slice ''selector_models'' (so_selector_models opts),
     set_string ''selector_prompt'' (so_selector_prompt opts),
     set_int ''max_completion_tokens'' (so_max_completion_tokens opts)] [])"

record map_reduce_tool_options =
  mo_enabled :: "bool option"
  mo_mapper_models :: "string list option"
  mo_parallel_models :: "string list option"
  mo_reducer_models :: "string list option"
  mo_max_parts :: "int option"
  mo_mapper_prompt :: "string option"
  mo_parallel_prompt :: "string option"
  mo_reducer_prompt :: "string option"
  mo_max_completion_tokens :: "int option"

definition map_reduce_tool :: "map_reduce_tool_options \<Rightarrow> object" where
  "map_reduce_tool opts = tool_spec ''trustedrouter:mapreduce'' (all_set [
     set_bool ''enabled'' (mo_enabled opts),
     set_slice ''mapper_models'' (mo_mapper_models opts),
     set_slice ''parallel_models'' (mo_parallel_models opts),
     set_slice ''reducer_models'' (mo_reducer_models opts),
     set_int ''max_parts'' (mo_max_parts opts),
     set_string ''mapper_prompt'' (mo_mapper_prompt opts),
     set_string ''parallel_prompt'' (mo_parallel_prompt opts),
     set_string ''reducer_prompt'' (mo_reducer_prompt opts),
     set_int ''max_completion_tokens'' (mo_max_completion_tokens opts)] [])"

record subagent_tool_options =
  sa_enabled :: "bool option"
  sa_controller_model :: "string option"
  sa_model :: "string option"
  sa_instructions :: "string option"
  sa_depth :: "int option"
  sa_max_subagent_calls :: "int option"
  sa_max_completion_tokens :: "int option"
  sa_temperature :: "float64 option"
  sa_reasoning :: gvalue
  sa_tools :: "object list option"

definition subagent_tool :: "subagent_tool_options \<Rightarrow> object" where
  "subagent_tool opts = tool_spec ''trustedrouter:subagent'' (all_set [
     set_bool ''enabled'' (sa_enabled opts),
     set_string ''controller_model'' (sa_controller_model opts),
     set_string ''model'' (sa_model opts),
     set_string ''instructions'' (sa_instructions opts),
     set_int ''depth'' (sa_depth opts),
     set_int ''max_subagent_calls'' (sa_max_subagent_calls opts),
     set_int ''max_completion_tokens'' (sa_max_completion_tokens opts),
     set_value ''temperature'' (map_option GFloat (sa_temperature opts)),
     set_value ''reasoning'' (if sa_reasoning opts = GNil then None else Some (sa_reasoning opts)),
     set_value ''tools'' (map_option GMaps (sa_tools opts))] [])"

definition tools_from_value :: "gvalue \<Rightarrow> gvalue list" where
  "tools_from_value v = (case v of GNil \<Rightarrow> [] | GSlice xs \<Rightarrow> xs | GMaps ms \<Rightarrow> map GMap ms | _ \<Rightarrow> [v])"

definition advisor_key_map :: "(string \<times> string) list" where
  "advisor_key_map = map (\<lambda>k. (k, k)) [''depth'', ''worker_models'', ''advisor_models'', ''max_get_advice_calls'',
     ''advisor_max_tokens'', ''worker_timeout_ms'', ''advisor_timeout_ms'', ''auto_initial_advice'']"

definition fusion_key_map :: "(string \<times> string) list" where
  "fusion_key_map = (''judge_model'', ''model'') # map (\<lambda>k. (k, k)) [''analysis_models'', ''selection_strategy'',
     ''fallback_judges'', ''fallback_final_models'', ''max_completion_tokens'', ''max_tool_calls'', ''preset'',
     ''panel_prompt'', ''synthesis_prompt'', ''final_prompt'', ''selector_models'', ''selector_model'',
     ''selector_prompt'', ''mapper_models'', ''mapper_model'', ''mapper_prompt'', ''parallel_models'',
     ''parallel_model'', ''parallel_prompt'', ''reducer_models'', ''reducer_model'', ''reducer_prompt'']"

text \<open>One option: it is taken out, and kept under the gateway's name unless it is nil.\<close>

definition lift_key :: "string \<times> string \<Rightarrow> object \<times> object \<Rightarrow> object \<times> object" where
  "lift_key keys st =
     (case map_of (fst st) (fst keys) of
        None \<Rightarrow> st
      | Some v \<Rightarrow> (obj_del (fst keys) (fst st), if v = GNil then snd st else obj_put (snd keys) v (snd st)))"

definition lift_keys :: "(string \<times> string) list \<Rightarrow> object \<Rightarrow> object \<times> object" where
  "lift_keys keys params = fold lift_key keys (params, [])"

definition fusion_primitive_models :: "string list" where
  "fusion_primitive_models = [''trustedrouter/fusion'', ''trustedrouter/fusion-code'', ''trustedrouter/synth'',
     ''trustedrouter/synth-code'', ''trustedrouter/selector'', ''trustedrouter/mapreduce'']"

definition move_orchestration_options_into_tools :: "string \<Rightarrow> object \<Rightarrow> object" where
  "move_orchestration_options_into_tools model params =
     (let tools0 = tools_from_value (obj_get params ''tools'');
          (out1, advisor_values) = lift_keys advisor_key_map (obj_del ''tools'' (clone_map params));
          tools1 = tools0 @ (if advisor_values = [] then [] else [GMap (tool_spec ''trustedrouter:advisor'' advisor_values)]);
          (out2, fusion_values) = lift_keys fusion_key_map out1;
          tools2 = tools1 @ (if fusion_values = [] then [] else [GMap (tool_spec ''trustedrouter:fusion'' fusion_values)]);
          normalized = to_lower (trim_space model)
      in if tools2 \<noteq> [] then obj_put ''tools'' (GSlice tools2) out2
         else if normalized = advisor_model \<or> normalized \<in> set fusion_primitive_models then obj_del ''tools'' out2
         else out2)"

section \<open>The chat body\<close>

definition chat_params :: "chat_request \<Rightarrow> object" where
  "chat_params req =
     (let tools = map GMap (case cq_tools req of Some ts \<Rightarrow> ts | None \<Rightarrow> []) @
            tools_from_value (obj_get (cq_extra req) ''tools'');
          typed = all_set [
            set_value ''tools'' (if tools \<noteq> [] \<or> cq_tools req \<noteq> None then Some (GSlice tools) else None),
            set_value ''provider'' (map_option (GProvider True) (cq_provider req)),
            set_slice ''worker_models'' (cq_worker_models req),
            set_slice ''advisor_models'' (cq_advisor_models req),
            set_int ''depth'' (cq_depth req),
            set_int ''max_get_advice_calls'' (cq_max_get_advice_calls req),
            set_int ''advisor_max_tokens'' (cq_advisor_max_tokens req),
            set_int ''worker_timeout_ms'' (cq_worker_timeout_ms req),
            set_int ''advisor_timeout_ms'' (cq_advisor_timeout_ms req),
            set_bool ''auto_initial_advice'' (cq_auto_initial_advice req),
            set_slice ''analysis_models'' (cq_analysis_models req),
            set_string ''judge_model'' (cq_judge_model req),
            set_string ''selection_strategy'' (cq_selection_strategy req),
            set_slice ''fallback_judges'' (cq_fallback_judges req),
            set_slice ''fallback_final_models'' (cq_fallback_final_models req),
            set_int ''max_completion_tokens'' (cq_max_completion_tokens req),
            set_int ''max_tool_calls'' (cq_max_tool_calls req),
            set_string ''preset'' (cq_preset req),
            set_string ''panel_prompt'' (cq_panel_prompt req),
            set_string ''synthesis_prompt'' (cq_synthesis_prompt req),
            set_string ''final_prompt'' (cq_final_prompt req),
            set_slice ''selector_models'' (cq_selector_models req),
            set_string ''selector_model'' (cq_selector_model req),
            set_string ''selector_prompt'' (cq_selector_prompt req),
            set_slice ''mapper_models'' (cq_mapper_models req),
            set_string ''mapper_model'' (cq_mapper_model req),
            set_string ''mapper_prompt'' (cq_mapper_prompt req),
            set_slice ''parallel_models'' (cq_parallel_models req),
            set_string ''parallel_model'' (cq_parallel_model req),
            set_string ''parallel_prompt'' (cq_parallel_prompt req),
            set_slice ''reducer_models'' (cq_reducer_models req),
            set_string ''reducer_model'' (cq_reducer_model req),
            set_string ''reducer_prompt'' (cq_reducer_prompt req)] [];
          params = obj_merge typed (filter (\<lambda>(k, v). k \<noteq> ''tools'') (cq_extra req))
      in fold obj_del reserved_extra_keys params)"

definition with_usage :: "object \<Rightarrow> object" where
  "with_usage params =
     (let merged = clone_map params;
          stream_options = clone_map (map_or_empty (obj_get merged ''stream_options''));
          stream_options' = (if obj_has stream_options ''include_usage'' then stream_options
                             else obj_put ''include_usage'' (GBool True) stream_options)
      in obj_put ''stream_options'' (GMap stream_options') merged)"

definition chat_model :: "chat_request \<Rightarrow> string" where
  "chat_model req = (if cq_model req = [] then auto_model else cq_model req)"

definition build_chat_body :: "chat_request \<Rightarrow> bool \<Rightarrow> object" where
  "build_chat_body req include_usage =
     (let params = (if include_usage then with_usage (chat_params req) else chat_params req)
      in obj_merge [(''model'', GString (chat_model req)), (''messages'', GMaps (cq_messages req)), (''stream'', GBool True)]
           (move_orchestration_options_into_tools (chat_model req) params))"

text \<open>\<open>Fusion\<close>: the request it turns into.\<close>

definition empty_chat_request :: chat_request where
  "empty_chat_request = \<lparr>cq_model = [], cq_messages = [], cq_tools = None, cq_provider = None, cq_depth = None,
     cq_worker_models = None, cq_advisor_models = None, cq_max_get_advice_calls = None, cq_advisor_max_tokens = None,
     cq_worker_timeout_ms = None, cq_advisor_timeout_ms = None, cq_auto_initial_advice = None, cq_analysis_models = None,
     cq_judge_model = None, cq_selection_strategy = None, cq_fallback_judges = None, cq_fallback_final_models = None,
     cq_max_completion_tokens = None, cq_max_tool_calls = None, cq_preset = None, cq_panel_prompt = None,
     cq_synthesis_prompt = None, cq_final_prompt = None, cq_selector_models = None, cq_selector_model = None,
     cq_selector_prompt = None, cq_mapper_models = None, cq_mapper_model = None, cq_mapper_prompt = None,
     cq_parallel_models = None, cq_parallel_model = None, cq_parallel_prompt = None, cq_reducer_models = None,
     cq_reducer_model = None, cq_reducer_prompt = None, cq_extra = [], cq_options = empty_call_options\<rparr>"

definition fusion_chat_request :: "fusion_request \<Rightarrow> chat_request" where
  "fusion_chat_request req =
     (let extra = clone_map (fq_extra req);
          tool = fusion_tool \<lparr>fo_enabled = None, fo_analysis_models = fq_analysis_models req, fo_model = fq_model req,
             fo_selection_strategy = fq_selection_strategy req, fo_fallback_judges = fq_fallback_judges req,
             fo_fallback_final_models = fq_fallback_final_models req, fo_max_completion_tokens = fq_max_completion_tokens req,
             fo_max_tool_calls = fq_max_tool_calls req, fo_preset = fq_preset req, fo_panel_prompt = None,
             fo_synthesis_prompt = None\<rparr>;
          tools = map GMap (fq_tools req) @ tools_from_value (obj_get extra ''tools'') @ [GMap tool];
          timeout = option_or (co_timeout (fq_options req))
             (option_or (timeout_extra extra ''timeout'') (Some default_fusion_timeout))
      in empty_chat_request\<lparr>cq_model := fusion_model, cq_messages := fq_messages req,
           cq_extra := obj_put ''tools'' (GSlice tools) extra, cq_options := (fq_options req)\<lparr>co_timeout := timeout\<rparr>\<rparr>)"

section \<open>Provider presets\<close>

definition zdr_provider :: provider_preferences where
  "zdr_provider = ProviderPreferences None None None [] None None ''deny'' ''zdr'' [] [] None None"

definition confidential_provider :: provider_preferences where
  "confidential_provider = ProviderPreferences None None None [] None None ''deny'' ''confidential'' [] [] None None"

definition us_provider :: provider_preferences where
  "us_provider = ProviderPreferences None None None [] None None [] [] ''us'' [] None None"

section \<open>Event streams\<close>

definition event_stream_headers :: "string_map \<Rightarrow> string_map" where
  "event_stream_headers hs = merge_headers [[(''accept'', ''text/event-stream'')], hs]"

text \<open>\<open>openEventStream\<close>: the request it hands to the engine; \<open>None\<close> is an encoding error.\<close>

definition event_stream_spec ::
    "(gvalue \<Rightarrow> bytes option) \<Rightarrow> client \<Rightarrow> string \<Rightarrow> string \<Rightarrow> gvalue \<Rightarrow> call_options \<Rightarrow> request_spec option" where
  "event_stream_spec marshal c http_method path body opts =
     (case marshal body of None \<Rightarrow> None
      | Some bs \<Rightarrow> Some
          \<lparr>rs_method = http_method, rs_path = path, rs_body = bs, rs_has_body = True,
           rs_opts = Some (opts\<lparr>co_extra_headers := event_stream_headers (co_extra_headers opts)\<rparr>),
           rs_candidates = cl_base_urls c, rs_failover = cl_regional_failover c, rs_stream_open = True,
           rs_auto_idempotency = True, rs_credential_free = False, rs_control_plane = False,
           rs_telemetry = telemetry_request_facts_for http_method path body\<rparr>)"

definition chat_stream_spec :: "(gvalue \<Rightarrow> bytes option) \<Rightarrow> client \<Rightarrow> chat_request \<Rightarrow> bool \<Rightarrow> request_spec option" where
  "chat_stream_spec marshal c req include_usage =
     event_stream_spec marshal c ''POST'' ''/chat/completions'' (GMap (build_chat_body req include_usage)) (chat_call_options req)"

section \<open>What a body holds\<close>

lemma map_of_put [simp]: "map_of (obj_put k v m) k' = (if k' = k then Some v else map_of m k')"
  by (simp add: update_conv')

lemma map_of_del [simp]: "map_of (obj_del k m) k' = (if k' = k then None else map_of m k')"
  by (simp add: delete_conv')

lemma map_of_del_all: "map_of (fold obj_del ks m) k = (if k \<in> set ks then None else map_of m k)"
  by (induction ks arbitrary: m) auto

lemma lift_keys_out:
  "map_of (fst (fold lift_key keys (m, vals))) k = (if k \<in> fst ` set keys then None else map_of m k)"
proof (induction keys arbitrary: m vals)
  case (Cons p keys)
  show ?case
  proof (cases "map_of m (fst p)")
    case None
    then have "lift_key p (m, vals) = (m, vals)" by (simp add: lift_key_def)
    with None Cons show ?thesis by auto
  next
    case (Some v)
    then have "lift_key p (m, vals) = (obj_del (fst p) m, if v = GNil then vals else obj_put (snd p) v vals)"
      by (simp add: lift_key_def)
    with Cons show ?thesis by auto
  qed
qed simp

lemma lift_keys_other: "g \<notin> snd ` set keys \<Longrightarrow> map_of (snd (fold lift_key keys (m, vals))) g = map_of vals g"
proof (induction keys arbitrary: m vals)
  case (Cons p keys)
  obtain m' vals' where l: "lift_key p (m, vals) = (m', vals')" by fastforce
  then have "map_of vals' g = map_of vals g" using Cons.prems by (auto simp: lift_key_def split: option.splits if_splits)
  with Cons l show ?case by simp
qed simp

lemma lift_keys_value:
  assumes "distinct (map fst keys)" "distinct (map snd keys)" "(k, g) \<in> set keys" "map_of vals g = None"
  shows "obj_get (snd (fold lift_key keys (m, vals))) g = obj_get m k"
  using assms
proof (induction keys arbitrary: m vals)
  case (Cons p keys)
  obtain m' vals' where l: "lift_key p (m, vals) = (m', vals')" by fastforce
  show ?case
  proof (cases "p = (k, g)")
    case True
    then have "g \<notin> snd ` set keys" using Cons.prems(2) by (auto simp: image_iff)
    then have "map_of (snd (fold lift_key keys (m', vals'))) g = map_of vals' g" by (rule lift_keys_other)
    moreover have "(case map_of vals' g of None \<Rightarrow> GNil | Some v \<Rightarrow> v) = obj_get m k"
      using l True Cons.prems(4) by (auto simp: lift_key_def obj_get_def split: option.splits if_splits)
    ultimately show ?thesis by (simp add: l obj_get_def)
  next
    case False
    with Cons.prems have p: "fst p \<noteq> k" "snd p \<noteq> g" "(k, g) \<in> set keys" by (force simp: image_iff)+
    then have "map_of vals' g = None" "obj_get m' k = obj_get m k"
      using l Cons.prems(4) by (auto simp: lift_key_def obj_get_def split: option.splits if_splits)
    with Cons p l show ?thesis by simp
  qed
qed simp

lemma lift_keys_distinct: "distinct (map fst m) \<Longrightarrow> distinct (map fst (fst (fold lift_key keys (m, vals))))"
proof (induction keys arbitrary: m vals)
  case (Cons p keys)
  obtain m' vals' where l: "lift_key p (m, vals) = (m', vals')" by fastforce
  then have "distinct (map fst m')"
    using Cons.prems by (auto simp: lift_key_def distinct_delete split: option.splits)
  with Cons l show ?case by simp
qed simp

lemma key_maps:
  "distinct (map fst advisor_key_map)" "distinct (map snd advisor_key_map)"
  "distinct (map fst fusion_key_map)" "distinct (map snd fusion_key_map)"
  "fst ` set advisor_key_map \<inter> fst ` set fusion_key_map = {}"
  "''tools'' \<notin> fst ` set advisor_key_map \<union> fst ` set fusion_key_map"
  by (simp_all add: advisor_key_map_def fusion_key_map_def)

definition moved_keys :: "string list" where
  "moved_keys = map fst advisor_key_map @ map fst fusion_key_map"

lemma moved_keys_set: "set moved_keys = fst ` set advisor_key_map \<union> fst ` set fusion_key_map"
  by (simp add: moved_keys_def)

text \<open>The move as two independent lifts of the caller's parameters.\<close>

lemma move_options:
  assumes "distinct (map fst params)"
  shows "\<exists>adv fus. list_all (\<lambda>(k, g). obj_get adv g = obj_get params k) advisor_key_map \<and>
       list_all (\<lambda>(k, g). obj_get fus g = obj_get params k) fusion_key_map \<and>
       (let out = move_orchestration_options_into_tools model params;
            tools = tools_from_value (obj_get params ''tools'') @
              (if adv = [] then [] else [GMap (tool_spec ''trustedrouter:advisor'' adv)]) @
              (if fus = [] then [] else [GMap (tool_spec ''trustedrouter:fusion'' fus)])
        in distinct (map fst out) \<and>
          map_of out = (\<lambda>k. if k \<in> set moved_keys then None
             else if k = ''tools'' then (if tools = [] then None else Some (GSlice tools)) else map_of params k))"
proof -
  let ?m = "obj_del ''tools'' (clone_map params)"
  obtain out1 adv where a: "lift_keys advisor_key_map ?m = (out1, adv)" by fastforce
  obtain out2 fus where f: "lift_keys fusion_key_map out1 = (out2, fus)" by fastforce
  have a': "out1 = fst (fold lift_key advisor_key_map (?m, []))" "adv = snd (fold lift_key advisor_key_map (?m, []))"
    using a by (simp_all add: lift_keys_def)
  have f': "out2 = fst (fold lift_key fusion_key_map (out1, []))" "fus = snd (fold lift_key fusion_key_map (out1, []))"
    using f by (simp_all add: lift_keys_def)
  have m: "map_of ?m k = (if k = ''tools'' then None else map_of params k)" for k using assms by simp
  have out1: "map_of out1 k = (if k \<in> fst ` set advisor_key_map \<or> k = ''tools'' then None else map_of params k)" for k
    by (simp add: a' lift_keys_out map_of_clone [OF assms])
  have out2: "map_of out2 k = (if k \<in> set moved_keys \<or> k = ''tools'' then None else map_of params k)" for k
    by (auto simp: f' lift_keys_out out1 moved_keys_set)
  have "obj_get adv g = obj_get params k" if "(k, g) \<in> set advisor_key_map" for k g
  proof -
    have "k \<in> fst ` set advisor_key_map" using that by force
    with key_maps(6) have "k \<noteq> ''tools''" by blast
    then show ?thesis using lift_keys_value [OF key_maps(1,2) that, of "[]" ?m] by (simp add: a' obj_get_def map_of_clone [OF assms])
  qed
  moreover have "obj_get fus g = obj_get params k" if "(k, g) \<in> set fusion_key_map" for k g
  proof -
    have "k \<in> fst ` set fusion_key_map" using that by force
    with key_maps(5,6) have "k \<noteq> ''tools''" "k \<notin> fst ` set advisor_key_map" by blast+
    then show ?thesis using lift_keys_value [OF key_maps(3,4) that, of "[]" out1] by (simp add: f' obj_get_def out1)
  qed
  moreover have "let out = move_orchestration_options_into_tools model params;
            tools = tools_from_value (obj_get params ''tools'') @
              (if adv = [] then [] else [GMap (tool_spec ''trustedrouter:advisor'' adv)]) @
              (if fus = [] then [] else [GMap (tool_spec ''trustedrouter:fusion'' fus)])
        in distinct (map fst out) \<and>
          map_of out = (\<lambda>k. if k \<in> set moved_keys then None
             else if k = ''tools'' then (if tools = [] then None else Some (GSlice tools)) else map_of params k)"
  proof -
    have d: "distinct (map fst out2)" by (simp add: f' a' lift_keys_distinct distinct_delete)
    have t: "''tools'' \<notin> set moved_keys" using key_maps(6) by (simp add: moved_keys_set)
    define tools where "tools = tools_from_value (obj_get params ''tools'') @
              (if adv = [] then [] else [GMap (tool_spec ''trustedrouter:advisor'' adv)]) @
              (if fus = [] then [] else [GMap (tool_spec ''trustedrouter:fusion'' fus)])"
    define P where "P \<longleftrightarrow> to_lower (trim_space model) = advisor_model \<or> to_lower (trim_space model) \<in> set fusion_primitive_models"
    have "move_orchestration_options_into_tools model params =
        (if tools \<noteq> [] then obj_put ''tools'' (GSlice tools) out2 else if P then obj_del ''tools'' out2 else out2)"
      unfolding move_orchestration_options_into_tools_def Let_def a f prod.case tools_def append_assoc P_def by (rule refl)
    then show ?thesis
      unfolding Let_def tools_def [symmetric] using d t
      by (cases "tools = []"; cases P) (simp_all add: distinct_update distinct_delete out2 fun_eq_iff)
  qed
  ultimately show ?thesis
    by (intro exI [of _ adv] exI [of _ fus]) (simp add: list_all_iff split_beta)
qed

lemma distinct_fold_del: "distinct (map fst m) \<Longrightarrow> distinct (map fst (fold obj_del ks m))"
  by (induction ks arbitrary: m) (auto simp: distinct_delete)

lemma all_set_distinct:
  "distinct (map fst m) \<Longrightarrow> list_all (\<lambda>f. \<forall>m. distinct (map fst m) \<longrightarrow> distinct (map fst (f m))) fs \<Longrightarrow> distinct (map fst (all_set fs m))"
  by (induction fs arbitrary: m) (auto simp: all_set_def)

lemma set_value_distinct: "distinct (map fst m) \<Longrightarrow> distinct (map fst (set_value k v m))"
  by (simp add: set_value_def distinct_update split: option.split)

lemma chat_params_distinct: "distinct (map fst (chat_params req))"
  unfolding chat_params_def Let_def
  by (intro distinct_fold_del distinct_obj_merge all_set_distinct) (simp_all add: set_value_distinct set_slice_def)

lemma chat_params_reserved: "k \<in> set reserved_extra_keys \<Longrightarrow> map_of (chat_params req) k = None"
  by (simp add: chat_params_def Let_def map_of_del_all)

definition body_params :: "chat_request \<Rightarrow> bool \<Rightarrow> object" where
  "body_params req include_usage = (if include_usage then with_usage (chat_params req) else chat_params req)"

lemma body_params_distinct: "distinct (map fst (body_params req u))"
  by (simp add: body_params_def with_usage_def Let_def chat_params_distinct distinct_update)

lemma with_usage_map: "distinct (map fst m) \<Longrightarrow> k \<noteq> ''stream_options'' \<Longrightarrow> map_of (with_usage m) k = map_of m k"
  by (simp add: with_usage_def Let_def)

lemma body_params_reserved: "k \<in> set reserved_extra_keys \<Longrightarrow> map_of (body_params req u) k = None"
  using chat_params_reserved [of k req] chat_params_distinct [of req]
  by (auto simp: body_params_def with_usage_map reserved_extra_keys_def)

lemma map_of_merge_distinct:
  "distinct (map fst n) \<Longrightarrow> map_of (obj_merge m n) k = (case map_of n k of None \<Rightarrow> map_of m k | Some v \<Rightarrow> Some v)"
  by (simp add: map_of_obj_merge map_of_rev_distinct)


end
