(* ===== verification/Telemetry_Header.thy ===== *)
theory Telemetry_Header
  imports Recorder_Facts
begin

text \<open>
  The \<open>x-tr-client\<close> header over the reachable states of the recorder: it is sent for every
  attempt the grammar can describe, and what is sent is inside the grammar and its bound.
\<close>

lemma digit_char: "(m::nat) < 10 \<Longrightarrow> is_digit (char_of (48 + m))"
  by (simp add: is_digit_def)

lemma nat_digits_digits: "list_all is_digit (nat_digits n)"
proof (induction n rule: nat_digits.induct)
  case (1 n)
  show ?case
  proof (cases "n < 10")
    case True
    with digit_char show ?thesis by (subst nat_digits.simps) simp
  next
    case False
    have "is_digit (char_of (48 + n mod 10))" by (rule digit_char) simp
    with False "1.IH" [OF False] show ?thesis by (subst nat_digits.simps) simp
  qed
qed

lemma nat_digits_length: "n < 10 ^ Suc k \<Longrightarrow> length (nat_digits n) \<le> Suc k"
proof (induction k arbitrary: n)
  case 0
  then show ?case by (subst nat_digits.simps) simp
next
  case (Suc k)
  then have "n div 10 < 10 ^ Suc k" by auto
  from Suc.IH [OF this] show ?case by (subst nat_digits.simps) simp
qed

lemma nat_digits_nonempty [simp]: "nat_digits n \<noteq> []"
  by (subst nat_digits.simps) simp

lemma itoa_value_ok:
  assumes "0 \<le> i" "i < 10 ^ Suc k" "Suc k \<le> 24"
  shows "header_value_ok (itoa i) \<and> length (itoa i) \<le> Suc k"
proof -
  have "nat i < 10 ^ Suc k" using assms by (simp add: nat_less_iff)
  from nat_digits_length [OF this] have l: "length (itoa i) \<le> Suc k" using assms by (simp add: itoa_def)
  have "list_all is_digit (itoa i)" using assms nat_digits_digits by (simp add: itoa_def)
  then have "list_all (\<lambda>c. is_lower c \<or> is_digit c \<or> c = CHR ''_'') (itoa i)"
    by (auto simp: list_all_iff)
  moreover have "1 \<le> length (itoa i)" using assms by (simp add: itoa_def Suc_le_eq)
  ultimately show ?thesis using l assms by (simp add: header_value_ok_def)
qed

lemma vocabulary_values_ok:
  "\<forall>v \<in> set telemetry_hosts. header_value_ok v \<and> length v \<le> 12"
  "\<forall>v \<in> set telemetry_outcomes. header_value_ok v \<and> length v \<le> 15"
  "\<forall>v \<in> set telemetry_error_classes. header_value_ok v \<and> length v \<le> 15"
  "header_value_ok ''none''" "header_value_ok ''0''" "header_value_ok ''1''"
  by code_simp+

lemma join_length: "length (join s ws) \<le> sum_list (map (\<lambda>w. length w + length s) ws)"
  by (induction s ws rule: join.induct) auto

definition header_keys :: "recorder \<Rightarrow> string list" where
  "header_keys r = (if rc_current_index r = 0 then [''v'', ''a'', ''s'']
     else [''v'', ''a'', ''po'', ''pc'', ''ph'', ''pm'', ''sm'', ''s'', ''fo''])"

lemma header_keys_hd: "header_keys r = ''v'' # tl (header_keys r)"
  by (simp add: header_keys_def)

text \<open>The facts of the previous attempt, within their bounds.\<close>

lemma previous_facts_ok:
  assumes "attempt_in_vocabulary p"
  shows "list_all (\<lambda>q. header_value_ok (snd q)) (previous_facts r p) \<and>
    sum_list (map (\<lambda>q. length (render_part q) + 1) (previous_facts r p)) \<le> 76"
proof -
  note v = assms [unfolded attempt_in_vocabulary_def telemetry_max_duration_ms_def]
  have e: "header_value_ok (itoa (at_elapsed p)) \<and> length (itoa (at_elapsed p)) \<le> 7"
    using itoa_value_ok [of "at_elapsed p" 6] v by simp
  have s: "header_value_ok (itoa (clamp_duration_ms d)) \<and> length (itoa (clamp_duration_ms d)) \<le> 7" for d
    using itoa_value_ok [of "clamp_duration_ms d" 6] clamp_duration_bounds [of d]
    by (simp add: telemetry_max_duration_ms_def)
  have h: "header_value_ok (at_host p) \<and> length (at_host p) \<le> 12"
    using v vocabulary_values_ok(1) by blast
  have o: "header_value_ok (at_outcome p) \<and> length (at_outcome p) \<le> 15"
    using v vocabulary_values_ok(2) by blast
  have c: "at_error_class p \<noteq> [] \<Longrightarrow> header_value_ok (at_error_class p) \<and> length (at_error_class p) \<le> 15"
    using v vocabulary_values_ok(3) by blast
  show ?thesis
    using e s [of "rc_attempt_start r - rc_first_started r"] h o c vocabulary_values_ok(4)
    by (auto simp: previous_facts_def Let_def render_part_def)
qed

text \<open>When the grammar admits the attempt at all, the header is sent.\<close>

definition describable :: "recorder \<Rightarrow> bool" where
  "describable r \<longleftrightarrow> rc_begun r \<and> rc_current_host r \<noteq> telemetry_host_custom \<and> rc_current_index r \<le> 99 \<and>
     (0 < rc_current_index r \<longrightarrow> (\<exists>p. rc_last r = Some p \<and> Suc (at_index p) = rc_current_index r))"

lemma header_parts_describable:
  "rc_begun r \<Longrightarrow> rc_current_host r \<noteq> telemetry_host_custom \<Longrightarrow> rc_current_index r \<le> 99 \<Longrightarrow>
     (header_parts r \<noteq> None \<longleftrightarrow> describable r)"
  by (auto simp: header_parts_def describable_def Let_def split: option.splits)

lemma header_parts_ok:
  assumes "recorder_ok r" "describable r" "header_parts r = Some parts"
  shows "list_all (\<lambda>q. header_value_ok (snd q)) parts \<and> length (join '';'' (map render_part parts)) \<le> 160 \<and>
    map fst parts = header_keys r"
proof -
  have a: "header_value_ok (itoa (int (rc_current_index r))) \<and> length (itoa (int (rc_current_index r))) \<le> 2"
    using itoa_value_ok [of "int (rc_current_index r)" 1] assms(2) by (simp add: describable_def)
  have j: "length (join '';'' (map render_part parts)) \<le> sum_list (map (\<lambda>q. length (render_part q) + 1) parts)"
    using join_length [of "'';''" "map render_part parts"] by (simp add: comp_def)
  show ?thesis
  proof (cases "rc_current_index r = 0")
    case True
    with assms(3) a j vocabulary_values_ok(5,6) show ?thesis
      by (auto simp: header_parts_def header_keys_def Let_def render_part_def)
  next
    case False
    with assms(3) obtain p where p: "rc_last r = Some p"
      by (auto simp: header_parts_def Let_def split: option.splits)
    with assms(1) have "attempt_in_vocabulary p" by (auto simp: recorder_ok_def vocabulary_ok_def)
    from previous_facts_ok [OF this, of r] False assms(3) p a j vocabulary_values_ok(5,6) show ?thesis
      by (auto simp: header_parts_def header_keys_def Let_def render_part_def previous_facts_def split: if_splits)
  qed
qed

lemma render_join_nonempty: "map fst parts = k # ks \<Longrightarrow> k \<noteq> [] \<Longrightarrow> join '';'' (map render_part parts) \<noteq> []"
  by (cases parts; cases "tl parts") (auto simp: render_part_def)

lemma header_value_describable:
  assumes "recorder_ok r"
  shows "if describable r
    then \<exists>parts. header_value r = join '';'' (map render_part parts) \<and> header_value r \<noteq> [] \<and>
           length (header_value r) \<le> 160 \<and> list_all (\<lambda>q. header_value_ok (snd q)) parts \<and>
           map fst parts = header_keys r
    else header_value r = []"
proof (cases "describable r")
  case True
  then have g: "rc_begun r" "rc_current_host r \<noteq> telemetry_host_custom" "rc_current_index r \<le> 99"
    by (auto simp: describable_def)
  with True obtain parts where p: "header_parts r = Some parts" using header_parts_describable by blast
  note ok = header_parts_ok [OF assms True p]
  have j: "header_value r = join '';'' (map render_part parts)"
    using g p ok by (simp add: header_value_def Let_def telemetry_max_header_bytes_def)
  have "map fst parts = ''v'' # tl (map fst parts)" using ok header_keys_hd [of r] by simp
  then have "join '';'' (map render_part parts) \<noteq> []" by (rule render_join_nonempty) simp
  with j ok show ?thesis unfolding if_P [OF True] by metis
next
  case False
  then show ?thesis
    using header_parts_describable [of r] by (auto simp: header_value_def)
qed

lemma header_value_bound: "recorder_inv (r, out) \<Longrightarrow> length (header_value r) \<le> 160"
  using header_value_describable [of r]
  by (cases "describable r") (auto simp: recorder_inv_def recorder_ok_def)

text \<open>
  C9. In every state a call's recorder can reach, the header is sent exactly when the
  attempt can be described: it has begun, its host is a named one, its number is at most
  99, and for a retry the record of the attempt just before it exists.  A header that is
  sent has at most 160 bytes, the keys v, a, s of a first attempt or v, a, po, pc, ph,
  pm, sm, s, fo of a retry in that order, and every value matches [a-z0-9_]{1,24}.
\<close>

theorem header_sent_iff_describable:
  "let r = fst (run_recorder ops (new_request_recorder sink facts streaming timeout, [])) in
   if describable r
   then \<exists>parts. header_value r = join '';'' (map render_part parts) \<and> header_value r \<noteq> [] \<and>
          length (header_value r) \<le> 160 \<and> list_all (\<lambda>q. header_value_ok (snd q)) parts \<and>
          map fst parts = header_keys r
   else header_value r = []"
proof -
  have "recorder_ok (fst (run_recorder ops (new_request_recorder sink facts streaming timeout, [])))"
    using call_recorder.run_keeps [OF new_recorder_inv] by (simp add: recorder_inv_def recorder_ok_def)
  from header_value_describable [OF this] show ?thesis by (simp add: Let_def)
qed

text \<open>A retry after a refused connection, on the first alias.\<close>

definition retried_call :: "recorder_op list" where
  "retried_call = [Op_Begin 0 ''https://api.trustedrouter.com/v1'',
     Op_TransportError 5000000 (OpError ''dial'' (Some (Errno ECONNREFUSED))) False False False, Op_Moved,
     Op_Begin 505000000 ''https://api.allyrouter.com/v1'']"

lemma retried_call_header:
  "header_value (fst (run_recorder retried_call (new_request_recorder True sample_facts False None, []))) =
     ''v=1;a=1;po=transport_error;pc=connect_refused;ph=apex;pm=5;sm=505;s=0;fo=1''"
  by code_simp

end
