(* ===== verification/Transport_Facts.thy ===== *)
theory Transport_Facts
  imports Transport Telemetry_Header
begin

text \<open>
  The invariant of the transport engine's loop and the properties of a whole call: bounded
  attempts, justified moves, one idempotency key, and no retry or move that the policy or
  replay safety forbids.
\<close>

section \<open>The trace invariant\<close>

definition may_move :: "engine_config \<Rightarrow> bool" where
  "may_move cfg \<longleftrightarrow> rs_failover (ec_spec cfg) \<and> 1 < length (rs_candidates (ec_spec cfg))"

definition replayable :: "engine_config \<Rightarrow> bool" where
  "replayable cfg \<longleftrightarrow> request_replay_safe (rs_method (ec_spec cfg)) (rs_opts (ec_spec cfg))"

definition recorder_reachable :: "engine_config \<Rightarrow> engine_state \<Rightarrow> bool" where
  "recorder_reachable cfg st \<longleftrightarrow>
     (\<exists>ops. es_recorder st = map_option (run_recorder ops) (call_recorder_state (ec_client cfg) (ec_spec cfg)))"

text \<open>A request of the trace was assembled from the call and a reachable recorder's header.\<close>

definition sent_ok :: "engine_config \<Rightarrow> nat \<times> http_request \<Rightarrow> bool" where
  "sent_ok cfg p \<longleftrightarrow>
     (let spec = ec_spec cfg in fst p < length (rs_candidates spec) \<and>
      (\<exists>s. recorder_reachable cfg s \<and>
         new_http_request (ec_agent cfg) (ec_client cfg) (rs_method spec)
             (join_url (rs_candidates spec ! fst p) (rs_path spec)) (rs_body spec) (rs_has_body spec)
             (rs_opts spec) (telemetry_header s) (rs_credential_free spec) = Inr (snd p)))"

text \<open>\<open>base\<close> is the candidate index after the last hop.\<close>

definition trace_ok :: "engine_config \<Rightarrow> nat \<Rightarrow> engine_state \<Rightarrow> bool" where
  "trace_ok cfg base st \<longleftrightarrow>
     list_all (sent_ok cfg) (es_sent st) \<and> sdk_policy.chained 0 (es_hops st) base \<and>
     list_all (\<lambda>p. fst p \<le> base) (es_sent st) \<and>
     (base = 0 \<or> base < length (rs_candidates (ec_spec cfg)) \<and> may_move cfg) \<and>
     (es_hops st \<noteq> [] \<longrightarrow> replayable cfg) \<and> recorder_reachable cfg st"

definition loop_inv :: "engine_config \<Rightarrow> nat \<Rightarrow> nat \<Rightarrow> engine_state \<Rightarrow> bool" where
  "loop_inv cfg attempt base st \<longleftrightarrow>
     trace_ok cfg base st \<and> length (es_sent st) = attempt \<and> length (es_hops st) = attempt \<and>
     attempt \<le> cl_max_retries (ec_client cfg)"

text \<open>What holds when the call returns.\<close>

definition returned_ok :: "engine_config \<Rightarrow> call_result \<Rightarrow> engine_state \<Rightarrow> bool" where
  "returned_ok cfg res st \<longleftrightarrow>
     (\<exists>base. trace_ok cfg base st) \<and> length (es_sent st) \<le> Suc (length (es_hops st)) \<and>
     length (es_sent st) \<le> Suc (cl_max_retries (ec_client cfg)) \<and>
     (\<forall>status hs w t. res = Call_Response status hs w t \<and> retryable status hs \<and> replayable cfg \<longrightarrow>
        length (es_sent st) = Suc (cl_max_retries (ec_client cfg))) \<and>
     (res = Call_Panicked \<longrightarrow> rs_candidates (ec_spec cfg) = [])"

lemma record_op_fields [simp]:
  "es_sent (record_op op st) = es_sent st" "es_hops (record_op op st) = es_hops st"
  "es_sleeps (record_op op st) = es_sleeps st"
  by (simp_all add: record_op_def)

lemma record_op_reachable: "recorder_reachable cfg st \<Longrightarrow> recorder_reachable cfg (record_op op st)"
  unfolding recorder_reachable_def
proof (elim exE)
  fix ops
  assume "es_recorder st = map_option (run_recorder ops) (call_recorder_state (ec_client cfg) (ec_spec cfg))"
  then show "\<exists>ops. es_recorder (record_op op st) =
      map_option (run_recorder ops) (call_recorder_state (ec_client cfg) (ec_spec cfg))"
    by (intro exI [of _ "ops @ [op]"])
      (simp add: record_op_def option.map_comp comp_def)
qed

lemma record_op_trace: "trace_ok cfg base st \<Longrightarrow> trace_ok cfg base (record_op op st)"
  by (simp add: trace_ok_def record_op_reachable)

lemma pause_fields:
  "pause cfg e attempt base ra st = Stop r s \<Longrightarrow>
     es_sent s = es_sent st \<and> es_hops s = es_hops st \<and> (trace_ok cfg b st \<longrightarrow> trace_ok cfg b s) \<and>
     (\<exists>err. r = Call_Error err)"
  "pause cfg e attempt base ra st = Again base' s \<Longrightarrow>
     base' = base \<and> es_sent s = es_sent st \<and> es_hops s = es_hops st \<and> (trace_ok cfg b st \<longrightarrow> trace_ok cfg b s)"
proof -
  let ?s = "st\<lparr>es_sleeps := es_sleeps st @ [retry_sleep_duration (ae_jitter e) attempt ra]\<rparr>"
  have t: "trace_ok cfg b ?s = trace_ok cfg b st" by (simp add: trace_ok_def recorder_reachable_def)
  show "pause cfg e attempt base ra st = Stop r s \<Longrightarrow>
     es_sent s = es_sent st \<and> es_hops s = es_hops st \<and> (trace_ok cfg b st \<longrightarrow> trace_ok cfg b s) \<and>
     (\<exists>err. r = Call_Error err)"
    using t by (auto simp: pause_def Let_def record_op_trace split: option.splits)
  show "pause cfg e attempt base ra st = Again base' s \<Longrightarrow>
     base' = base \<and> es_sent s = es_sent st \<and> es_hops s = es_hops st \<and> (trace_ok cfg b st \<longrightarrow> trace_ok cfg b s)"
    using t by (auto simp: pause_def Let_def split: option.splits)
qed

text \<open>One hop, by a failure or by a response that allows what it does.\<close>

lemma advance_trace:
  assumes "trace_ok cfg base st" "advance base move response st = (base', s)"
    "sdk_policy.justified_hop (base, response, if move then Suc base else base)"
    "move \<Longrightarrow> rs_failover (ec_spec cfg) \<and> base < length (rs_candidates (ec_spec cfg)) - 1"
    "replayable cfg"
  shows "trace_ok cfg base' s \<and> es_sent s = es_sent st \<and> length (es_hops s) = Suc (length (es_hops st))"
proof -
  let ?s = "st\<lparr>es_hops := es_hops st @ [(base, response, if move then Suc base else base)]\<rparr>"
  have b: "base' = (if move then Suc base else base)" and s: "s = (if move then record_op Op_Moved ?s else ?s)"
    using assms(2) by (auto simp: advance_def Let_def)
  have "sdk_policy.chained 0 (es_hops ?s) base'"
    using assms(1,3) b sdk_policy.chained_append by (simp add: trace_ok_def)
  with assms b have "trace_ok cfg base' ?s"
    by (auto simp: trace_ok_def recorder_reachable_def may_move_def list_all_iff le_SucI)
  then show ?thesis using s by (auto simp: record_op_trace)
qed

section \<open>One attempt keeps the invariant\<close>

text \<open>The request of the attempt has been sent.\<close>

definition sending_inv :: "engine_config \<Rightarrow> nat \<Rightarrow> nat \<Rightarrow> engine_state \<Rightarrow> bool" where
  "sending_inv cfg attempt base st \<longleftrightarrow>
     trace_ok cfg base st \<and> length (es_sent st) = Suc attempt \<and> length (es_hops st) = attempt \<and>
     attempt \<le> cl_max_retries (ec_client cfg)"

definition step_ok :: "engine_config \<Rightarrow> nat \<Rightarrow> step_result \<Rightarrow> bool" where
  "step_ok cfg attempt r = (case r of
       Stop res s \<Rightarrow> returned_ok cfg res s
     | Again base s \<Rightarrow> loop_inv cfg (Suc attempt) base s)"

lemma stop_ok:
  assumes "sending_inv cfg attempt base st" "trace_ok cfg base s" "es_sent s = es_sent st" "es_hops s = es_hops st"
    "\<And>status hs w t. res = Call_Response status hs w t \<Longrightarrow> retryable status hs \<Longrightarrow> replayable cfg \<Longrightarrow>
       cl_max_retries (ec_client cfg) \<le> attempt" "res \<noteq> Call_Panicked"
  shows "step_ok cfg attempt (Stop res s)"
  using assms by (fastforce simp: step_ok_def returned_ok_def sending_inv_def)

lemma pause_ok:
  assumes "trace_ok cfg base st" "length (es_sent st) = Suc attempt" "length (es_hops st) = Suc attempt"
    "attempt < cl_max_retries (ec_client cfg)"
  shows "step_ok cfg attempt (pause cfg e attempt base ra st)"
proof (cases "pause cfg e attempt base ra st")
  case (Stop r s)
  from pause_fields(1) [OF Stop, of base] assms show ?thesis
    unfolding Stop by (auto simp: step_ok_def returned_ok_def)
next
  case (Again b s)
  from pause_fields(2) [OF Again, of base] assms show ?thesis
    unfolding Again by (auto simp: step_ok_def loop_inv_def)
qed

lemma hop_and_pause_ok:
  assumes "sending_inv cfg attempt base st" "attempt < cl_max_retries (ec_client cfg)" "replayable cfg"
    "sdk_policy.justified_hop (base, response, if move then Suc base else base)"
    "move \<Longrightarrow> rs_failover (ec_spec cfg) \<and> base < length (rs_candidates (ec_spec cfg)) - 1"
  shows "step_ok cfg attempt (case advance base move response st of (b, s) \<Rightarrow> pause cfg e attempt b ra s)"
proof -
  obtain b s where a: "advance base move response st = (b, s)" by (cases "advance base move response st")
  from advance_trace [OF _ a assms(4,5,3)] assms(1) show ?thesis
    unfolding a using assms(2) by (auto simp: sending_inv_def intro!: pause_ok)
qed

lemma sending_record_op: "sending_inv cfg attempt base st \<Longrightarrow> sending_inv cfg attempt base (record_op op st)"
  by (simp add: sending_inv_def record_op_trace)

lemma after_failure_ok:
  assumes "sending_inv cfg attempt base st"
  shows "step_ok cfg attempt (after_failure cfg e attempt base st err ctx_err cause)"
proof (cases ctx_err)
  case (Some ce)
  show ?thesis
    unfolding after_failure_def Some option.case
    by (rule stop_ok [OF assms]) (use assms in \<open>simp_all add: sending_inv_def record_op_trace\<close>)
next
  case None
  let ?st = "record_op (Op_TransportError (ae_done e) err (rs_stream_open (ec_spec cfg) \<and> cause) False False) st"
  have st: "sending_inv cfg attempt base ?st" by (rule sending_record_op [OF assms])
  show ?thesis
  proof (cases "cl_max_retries (ec_client cfg) \<le> attempt \<or> \<not> replayable cfg")
    case True
    then have "after_failure cfg e attempt base st err ctx_err cause =
      Stop (Call_Error (transport_retry_error (ec_render cfg)
              (Some (if rs_stream_open (ec_spec cfg) \<and> cause then Sentinel Open_Timeout else err))))
        (record_op (Op_Finish (ae_end e)) (record_op (Op_MarkExhausted (0 < attempt \<and> replayable cfg)) ?st))"
      using None by (simp add: after_failure_def Let_def replayable_def)
    then show ?thesis
      by (simp only:, intro stop_ok [OF st]) (use st in \<open>simp_all add: sending_inv_def record_op_trace\<close>)
  next
    case False
    then show ?thesis
      using st None
      by (auto simp: after_failure_def Let_def replayable_def intro!: hop_and_pause_ok)
  qed
qed

lemma after_response_ok:
  assumes "sending_inv cfg attempt base st"
  shows "step_ok cfg attempt (after_response cfg e attempt base st status hs)"
proof -
  let ?st = "record_op (Op_Response (ae_done e) status hs) st"
  have st: "sending_inv cfg attempt base ?st" by (rule sending_record_op [OF assms])
  show ?thesis
  proof (cases "cl_max_retries (ec_client cfg) \<le> attempt \<or> \<not> (retryable status hs \<and> replayable cfg)")
    case True
    then have "after_response cfg e attempt base st status hs =
      Stop (Call_Response status hs
          (response_wrapper (ec_spec cfg) (effective_timeout (ec_client cfg) (rs_opts (ec_spec cfg))))
          (es_recorder ?st \<noteq> None))
        (record_op (Op_MarkExhausted (0 < attempt \<and> retryable status hs \<and> replayable cfg)) ?st)"
      by (simp add: after_response_def Let_def replayable_def)
    with True show ?thesis
      by (simp only:, intro stop_ok [OF st]) (use st in \<open>simp_all add: sending_inv_def record_op_trace\<close>)
  next
    case False
    then show ?thesis
      using st
      by (auto simp: after_response_def Let_def replayable_def intro!: hop_and_pause_ok)
  qed
qed

lemma attempt_step_ok:
  assumes "loop_inv cfg attempt base st"
  shows "step_ok cfg attempt (attempt_step cfg env attempt base st)"
proof -
  let ?e = "env attempt" and ?spec = "ec_spec cfg"
  let ?cand = "rs_candidates ?spec ! base"
  let ?st = "record_op (Op_Begin (ae_begin ?e) ?cand) st"
  have inv: "trace_ok cfg base st" "length (es_sent st) = attempt" "length (es_hops st) = attempt"
    "attempt \<le> cl_max_retries (ec_client cfg)"
    using assms by (simp_all add: loop_inv_def)
  show ?thesis
  proof (cases "ae_ctx_err ?e = None \<and> base < length (rs_candidates ?spec)")
    case False
    have "returned_ok cfg (Call_Error err) s" if "trace_ok cfg base s" "es_sent s = es_sent st" "es_hops s = es_hops st" for err s
      using inv that by (auto simp: returned_ok_def)
    moreover have "returned_ok cfg Call_Panicked st" if "length (rs_candidates ?spec) \<le> base"
      using inv that by (auto simp: returned_ok_def trace_ok_def)
    ultimately show ?thesis
      using False inv(1) by (auto simp: attempt_step_def Let_def step_ok_def record_op_trace split: option.split)
  next
    case True
    then have idx: "base < length (rs_candidates ?spec)" and ctx: "ae_ctx_err ?e = None" by auto
    let ?new = "new_http_request (ec_agent cfg) (ec_client cfg) (rs_method ?spec) (join_url ?cand (rs_path ?spec))
        (rs_body ?spec) (rs_has_body ?spec) (rs_opts ?spec) (telemetry_header ?st) (rs_credential_free ?spec)"
    show ?thesis
    proof (cases ?new)
      case (Inl err)
      have "returned_ok cfg (Call_Error err) (record_op (Op_Finish (ae_end ?e)) ?st)"
        using inv record_op_trace [OF record_op_trace [OF inv(1)]] by (auto simp: returned_ok_def)
      with Inl idx ctx show ?thesis by (simp add: attempt_step_def Let_def step_ok_def)
    next
      case (Inr req)
      let ?st2 = "?st\<lparr>es_sent := es_sent ?st @ [(base, req)]\<rparr>"
      have "recorder_reachable cfg ?st" using record_op_trace [OF inv(1)] by (simp add: trace_ok_def)
      then have "sent_ok cfg (base, req)" using Inr idx by (auto simp: sent_ok_def Let_def)
      with inv record_op_trace [OF inv(1), of "Op_Begin (ae_begin ?e) ?cand"]
      have "sending_inv cfg attempt base ?st2"
        by (auto simp: sending_inv_def trace_ok_def recorder_reachable_def)
      with idx ctx Inr after_failure_ok after_response_ok show ?thesis
        by (auto simp: attempt_step_def Let_def split: exchange.split)
    qed
  qed
qed

lemma engine_loop_ok: "loop_inv cfg attempt base st \<Longrightarrow> case engine_loop cfg env attempt base st of (r, s) \<Rightarrow> returned_ok cfg r s"
proof (induction cfg env attempt base st rule: engine_loop.induct)
  case (1 cfg env attempt base st)
  note step = attempt_step_ok [OF "1.prems", of env]
  show ?case
  proof (cases "attempt_step cfg env attempt base st")
    case (Stop r s)
    with step show ?thesis by (subst engine_loop.simps) (simp add: step_ok_def)
  next
    case (Again b s)
    with step "1.IH" show ?thesis by (subst engine_loop.simps) (simp add: step_ok_def)
  qed
qed

section \<open>A whole call\<close>

lemma chained_steps: "sdk_policy.chained k xs l \<Longrightarrow> (i, r, j) \<in> set xs \<Longrightarrow> j = i \<or> j = Suc i"
  by (induction k xs l rule: sdk_policy.chained.induct; cases r) auto

lemma transport_do_ok:
  assumes "transport_do render agent fresh c spec env = (res, st)"
  shows "returned_ok \<lparr>ec_client = c, ec_spec = mint_key fresh spec, ec_agent = agent, ec_render = render\<rparr> res st"
proof -
  let ?cfg = "\<lparr>ec_client = c, ec_spec = mint_key fresh spec, ec_agent = agent, ec_render = render\<rparr>"
  have "recorder_reachable ?cfg (initial_state c (mint_key fresh spec))"
    unfolding recorder_reachable_def
    by (rule exI [of _ "[]"]) (simp add: initial_state_def option.map_id)
  then have "loop_inv ?cfg 0 0 (initial_state c (mint_key fresh spec))"
    by (simp add: loop_inv_def trace_ok_def initial_state_def)
  from engine_loop_ok [OF this, of env] assms show ?thesis by (simp add: transport_do_def Let_def)
qed

lemma mint_key_fields [simp]:
  "rs_method (mint_key k s) = rs_method s" "rs_path (mint_key k s) = rs_path s"
  "rs_candidates (mint_key k s) = rs_candidates s" "rs_failover (mint_key k s) = rs_failover s"
  "rs_credential_free (mint_key k s) = rs_credential_free s" "rs_body (mint_key k s) = rs_body s"
  "rs_has_body (mint_key k s) = rs_has_body s" "rs_control_plane (mint_key k s) = rs_control_plane s"
  by (simp_all add: mint_key_def)

text \<open>
  C1. A call never sends more than its retry budget plus one requests.  It moves to another
  candidate only with failover on and a second candidate there, and never more than the
  list allows; after a response it tries again only if the policy allows a retry, and it
  moves only on a 502, 503 or 504, so a 500 never moves; and a request that is not safe to
  replay (an unsafe method without an idempotency key) is sent at most once.
\<close>

theorem engine_attempts_justified:
  assumes "transport_do render agent fresh c spec env = (res, st)"
  shows "length (es_sent st) \<le> Suc (cl_max_retries c) \<and>
    (\<forall>i req. (i, req) \<in> set (es_sent st) \<longrightarrow> i < length (rs_candidates spec) \<and>
       (i = 0 \<or> rs_failover spec \<and> 1 < length (rs_candidates spec)) \<and>
       rq_url req = join_url (rs_candidates spec ! i) (rs_path spec)) \<and>
    (\<forall>i status hs j. (i, Some (status, hs), j) \<in> set (es_hops st) \<longrightarrow>
       retryable status hs \<and> (j \<noteq> i \<longrightarrow> j = Suc i \<and> status \<in> {502, 503, 504})) \<and>
    (\<not> request_replay_safe (rs_method spec) (rs_opts (mint_key fresh spec)) \<longrightarrow> length (es_sent st) \<le> 1)"
proof -
  let ?cfg = "\<lparr>ec_client = c, ec_spec = mint_key fresh spec, ec_agent = agent, ec_render = render\<rparr>"
  note ok = transport_do_ok [OF assms, unfolded returned_ok_def]
  obtain base where t: "trace_ok ?cfg base st" using ok by blast
  have sent: "i < length (rs_candidates spec) \<and> (i = 0 \<or> rs_failover spec \<and> 1 < length (rs_candidates spec)) \<and>
      rq_url req = join_url (rs_candidates spec ! i) (rs_path spec)" if "(i, req) \<in> set (es_sent st)" for i req
  proof -
    have "sent_ok ?cfg (i, req)" "i \<le> base" using t that by (auto simp: trace_ok_def list_all_iff)
    moreover have "base = 0 \<or> rs_failover spec \<and> 1 < length (rs_candidates spec)"
      using t by (auto simp: trace_ok_def may_move_def)
    ultimately show ?thesis by (auto simp: sent_ok_def Let_def new_http_request_def split: option.splits)
  qed
  have chain: "sdk_policy.chained 0 (es_hops st) base" using t by (simp add: trace_ok_def)
  have hops: "retryable status hs \<and> (j \<noteq> i \<longrightarrow> j = Suc i \<and> status \<in> {502, 503, 504})"
    if "(i, Some (status, hs), j) \<in> set (es_hops st)" for i status hs j
    using that sdk_policy.chained_retries [OF chain that] sdk_policy.chained_moves [OF chain]
      chained_steps [OF chain that] by blast
  have "\<not> replayable ?cfg \<Longrightarrow> length (es_sent st) \<le> 1"
    using t ok by (auto simp: trace_ok_def)
  with sent hops ok show ?thesis by (simp add: replayable_def)
qed

text \<open>Facts about every request of a call, from its assembly.\<close>

lemma sent_request:
  assumes "transport_do render agent fresh c spec env = (res, st)" "(i, req) \<in> set (es_sent st)"
  obtains s where "recorder_reachable \<lparr>ec_client = c, ec_spec = mint_key fresh spec, ec_agent = agent, ec_render = render\<rparr> s"
    "new_http_request agent c (rs_method spec) (join_url (rs_candidates spec ! i) (rs_path spec)) (rs_body spec)
       (rs_has_body spec) (rs_opts (mint_key fresh spec)) (telemetry_header s) (rs_credential_free spec) = Inr req"
  using transport_do_ok [OF assms(1)] assms(2)
  by (fastforce simp: returned_ok_def trace_ok_def list_all_iff sent_ok_def Let_def)

definition call_key :: "string \<Rightarrow> request_spec \<Rightarrow> string" where
  "call_key fresh spec = (case rs_opts spec of
       Some o' \<Rightarrow> (if co_idempotency_key o' = [] then fresh else co_idempotency_key o')
     | None \<Rightarrow> fresh)"

lemma minted_key:
  "rs_auto_idempotency spec \<Longrightarrow>
     \<exists>o'. rs_opts (mint_key fresh spec) = Some o' \<and> co_idempotency_key o' = call_key fresh spec"
  by (auto simp: mint_key_def call_key_def ensure_idempotency_options_def ensure_idempotency_key_def
      empty_call_options_def split: option.split)

text \<open>
  C3. One logical call has one idempotency key.  With automatic keys every request of the
  call, on every retry and every candidate, carries the caller's key if there is one and
  otherwise the single key minted before the first attempt.
\<close>

theorem engine_one_idempotency_key:
  assumes "transport_do render agent fresh c spec env = (res, st)" "rs_auto_idempotency spec"
    "fresh \<noteq> []" "\<not> rs_credential_free spec" "(i, req) \<in> set (es_sent st)"
  shows "header_values (rq_headers req) ''idempotency-key'' = [call_key fresh spec]"
proof -
  obtain s where s: "new_http_request agent c (rs_method spec) (join_url (rs_candidates spec ! i) (rs_path spec)) (rs_body spec)
       (rs_has_body spec) (rs_opts (mint_key fresh spec)) (telemetry_header s) (rs_credential_free spec) = Inr req"
    using sent_request [OF assms(1,5)] by blast
  obtain o' where o: "rs_opts (mint_key fresh spec) = Some o'" "co_idempotency_key o' = call_key fresh spec"
    using minted_key [OF assms(2)] by blast
  have k: "co_idempotency_key o' \<noteq> []" using o(2) assms(3) by (auto simp: call_key_def split: option.splits if_splits)
  have "rq_headers req = owned_headers c (Some o') (telemetry_header s) (rs_credential_free spec)
      (caller_headers agent c (rs_has_body spec) (Some o'))"
    using s o by (auto simp: new_http_request_def split: option.splits)
  then show ?thesis using assms(4) k o(2) by (simp add: owned_idempotency caller_idempotency)
qed

text \<open>
  C8. The engine gives up on a retryable response only when the budget is spent: if it
  returns a response that the policy would retry, on a call that is safe to replay, then it
  has sent exactly the budget plus one requests.
\<close>

theorem engine_exhausts_budget:
  assumes "transport_do render agent fresh c spec env = (res, st)" "res = Call_Response status hs w t"
    "retryable status hs" "request_replay_safe (rs_method spec) (rs_opts (mint_key fresh spec))"
  shows "length (es_sent st) = Suc (cl_max_retries c)"
  using transport_do_ok [OF assms(1)] assms(2-4) by (auto simp: returned_ok_def replayable_def)


section \<open>The pause\<close>

lemma retry_base_bounds: "0 \<le> retry_base n \<and> retry_base n \<le> 30000000000"
  by (simp add: retry_base_def Let_def)

lemma retry_floor_bounds:
  assumes "bounded_retry_after s = Some b"
  shows "\<exists>fl. retry_floor (Some s) = Some fl \<and> 0 \<le> fl \<and> fl \<le> 60000000000"
proof -
  obtain r where r: "0 \<le> r" "b = Fin (min r 60)" using assms by (auto simp: bounded_retry_after_cases)
  have "\<exists>i. f64_to_i64 (round64 (min r 60 * 1000000000)) = Some i \<and> 0 \<le> i \<and> i \<le> 60000000000"
    using r(1) by (intro f64_to_i64_small) (auto simp: min_def)
  with assms r(2) show ?thesis by (simp add: retry_floor_def)
qed

text \<open>
  C12. Whatever the jitter, the attempt number and the server's hint, the engine sleeps
  between 0 and 60 seconds; without a usable hint at most 30 seconds and at most half a
  second doubled per attempt, and with one at least as long as the hint asks.
\<close>

theorem retry_sleep_bounded:
  assumes "0 \<le> j" "j < 1"
  shows "\<exists>d. retry_sleep_duration (Fin j) n hint = Some d \<and> 0 \<le> d \<and> d \<le> 60 * 1000000000 \<and>
    (retry_floor hint = None \<longrightarrow> d \<le> retry_base n) \<and> (\<forall>fl. retry_floor hint = Some fl \<longrightarrow> fl \<le> d)"
proof -
  note b = retry_base_bounds [of n]
  have "i64_to_f64 (retry_base n) = Fin (of_int (retry_base n))"
    unfolding i64_to_f64_def using b by (intro round64_of_int) simp
  moreover have "0 \<le> j * of_int (retry_base n)" "j * of_int (retry_base n) \<le> of_int (retry_base n)"
    using assms b by (simp_all add: mult_left_le_one_le)
  ultimately obtain delay where d: "f64_to_i64 (fmul (Fin j) (i64_to_f64 (retry_base n))) = Some delay"
    "0 \<le> delay" "delay \<le> retry_base n"
    using f64_to_i64_small [of "j * of_int (retry_base n)" "retry_base n"] b by auto
  have fl: "0 \<le> fl \<and> fl \<le> 60000000000" if "retry_floor hint = Some fl" for fl
    using that retry_floor_bounds by (fastforce simp: retry_floor_def split: option.splits)
  show ?thesis
    using d fl b by (auto simp: retry_sleep_duration_def Let_def split: option.split)
qed

section \<open>A concrete call\<close>

text \<open>
  A default client with one retry whose first host answers 503: the second request goes to
  the first alias, and its 503 is returned.
\<close>

definition demo_client :: client where
  "demo_client = \<lparr>cl_api_key = ''sk-1'', cl_base_url = default_api_base_url,
     cl_control_base_url = default_control_base_url,
     cl_http_client = zero_http_client, cl_credential_free_client = zero_http_client,
     cl_timeout = Some default_request_timeout, cl_headers = [], cl_workspace_id = [], cl_max_retries = 1,
     cl_regional_failover = True, cl_telemetry = False, cl_telemetry_sample_rate = NaN,
     cl_base_urls = default_api_base_url # alias_api_base_urls\<rparr>"

definition demo_spec :: request_spec where
  "demo_spec = \<lparr>rs_method = ''POST'', rs_path = ''/chat/completions'', rs_body = ''{}'', rs_has_body = True,
     rs_opts = None, rs_candidates = default_api_base_url # alias_api_base_urls, rs_failover = True,
     rs_stream_open = False, rs_auto_idempotency = True, rs_credential_free = False,
     rs_control_plane = False, rs_telemetry = sample_facts\<rparr>"

definition demo_env :: "nat \<Rightarrow> attempt_env" where
  "demo_env n = \<lparr>ae_ctx_err = None, ae_begin = 0, ae_exchange = Answered 503 no_headers, ae_done = 1,
     ae_jitter = Fin 0, ae_sleep_err = None, ae_end = 2\<rparr>"

abbreviation demo_call :: "call_result \<times> engine_state" where
  "demo_call \<equiv> transport_do (\<lambda>_. None) ''agent'' ''key-1'' demo_client demo_spec demo_env"

lemma demo_503: "retryable 503 no_headers" "regional_failoverable 503 no_headers"
  by code_simp+

lemma demo_urls:
  "new_request_error ''POST'' (join_url default_api_base_url ''/chat/completions'') = None"
  "new_request_error ''POST'' (join_url (alias_api_base_urls ! 0) ''/chat/completions'') = None"
  "length (default_api_base_url # alias_api_base_urls) = 3" "alias_api_base_urls \<noteq> []"
  by code_simp+

lemma demo_replay: "request_replay_safe ''POST'' (Some (ensure_idempotency_options ''key-1'' None))"
  by code_simp

lemma demo_call_result:
  "\<exists>w st. demo_call = (Call_Response 503 no_headers w False, st) \<and> map fst (es_sent st) = [0, 1] \<and>
     es_hops st = [(0, Some (503, no_headers), 1)]"
  by (simp add: transport_do_def mint_key_def initial_state_def call_recorder_state_def demo_spec_def
      demo_client_def engine_loop.simps attempt_step_def demo_env_def record_op_def new_http_request_def
      demo_urls after_response_def demo_503 demo_replay advance_def pause_def Let_def nth_Cons')

theorem engine_attempts_justified_witness:
  "\<exists>st. snd demo_call = st \<and> length (es_sent st) = 2 \<and> length (es_sent st) \<le> Suc 1 \<and>
     (\<exists>req. (1, req) \<in> set (es_sent st) \<and> rq_url req = join_url ''https://api.allyrouter.com/v1'' ''/chat/completions'')"
proof -
  obtain w st where c: "demo_call = (Call_Response 503 no_headers w False, st)" "map fst (es_sent st) = [0, 1]"
    using demo_call_result by (elim exE conjE)
  then have l: "length (es_sent st) = 2" by (metis length_Cons length_map list.size(3) numeral_2_eq_2)
  from c(2) obtain req where r: "(1, req) \<in> set (es_sent st)" by auto
  with engine_attempts_justified [OF c(1)]
  have "rq_url req = join_url (rs_candidates demo_spec ! 1) (rs_path demo_spec)" "length (es_sent st) \<le> Suc 1"
    by (auto simp: demo_client_def)
  with c l r show ?thesis by (auto simp: demo_spec_def alias_api_base_urls_def)
qed

theorem engine_one_idempotency_key_witness:
  "\<exists>req1 req2. {(0, req1), (1, req2)} \<subseteq> set (es_sent (snd demo_call)) \<and>
     header_values (rq_headers req1) ''idempotency-key'' = [''key-1''] \<and>
     header_values (rq_headers req2) ''idempotency-key'' = [''key-1'']"
proof -
  obtain w st where c: "demo_call = (Call_Response 503 no_headers w False, st)" "map fst (es_sent st) = [0, 1]"
    using demo_call_result by (elim exE conjE)
  then obtain req1 req2 where r: "(0, req1) \<in> set (es_sent st)" "(1, req2) \<in> set (es_sent st)" by auto
  have "call_key ''key-1'' demo_spec = ''key-1''" by (simp add: call_key_def demo_spec_def)
  with engine_one_idempotency_key [OF c(1) _ _ _ r(1)] engine_one_idempotency_key [OF c(1) _ _ _ r(2)] c(1) r
  show ?thesis by (auto simp: demo_spec_def)
qed

theorem engine_exhausts_budget_witness:
  "length (es_sent (snd demo_call)) = Suc (cl_max_retries demo_client)"
proof -
  obtain w st where c: "demo_call = (Call_Response 503 no_headers w False, st)"
    using demo_call_result by (elim exE conjE)
  have "request_replay_safe (rs_method demo_spec) (rs_opts (mint_key ''key-1'' demo_spec))"
    using demo_replay by (simp add: demo_spec_def mint_key_def)
  from engine_exhausts_budget [OF c refl demo_503(1) this] c show ?thesis by simp
qed


theorem retry_sleep_bounded_witness:
  "\<exists>d. retry_sleep_duration (Fin (1 / 2)) 9 (Some (Fin 45)) = Some d \<and> d \<le> 60 * 1000000000 \<and>
     (\<forall>fl. retry_floor (Some (Fin 45)) = Some fl \<longrightarrow> fl \<le> d)"
  using retry_sleep_bounded [of "1 / 2" 9 "Some (Fin 45)"] by auto

end
