(* ===== verification/Chat.thy ===== *)
theory Chat
  imports Sse Api_Types Chat_Request Transport_Facts
begin

text \<open>
  The chat calls of \<open>chat.go\<close>, from the request through the engine, the event stream and the
  decoder to the collector.  What the call meets is a record: the attempts of the engine, the
  body of the response with the error it ends with, the error of the caller's context when the
  stream fails, the fresh idempotency key and the encoder.
\<close>

record stream_env =
  se_attempts :: "nat \<Rightarrow> attempt_env"
  se_body :: bytes
  se_body_err :: "go_error option"
  se_ctx_err :: "go_error option"
  se_key :: string
  se_agent :: string
  se_marshal :: "gvalue \<Rightarrow> bytes option"
  se_literal :: "float64 \<Rightarrow> string"
  se_render :: "go_error \<Rightarrow> string option"

datatype stream_failure =
    Encode_Failed
  | Open_Failed go_error
  | Open_Panicked
  | Context_Failed go_error
  | Transport_Failed sse_failure \<comment> \<open>\<open>transportRetryError\<close> of the failure\<close>
  | Undecodable_Chunk

section \<open>Opening a stream\<close>

definition open_event_stream :: "client \<Rightarrow> stream_env \<Rightarrow> request_spec option \<Rightarrow> stream_failure option" where
  "open_event_stream c env spec =
     (case spec of
        None \<Rightarrow> Some Encode_Failed
      | Some s \<Rightarrow>
          (case fst (transport_do (se_render env) (se_agent env) (se_key env) c s (se_attempts env)) of
             Call_Error e \<Rightarrow> Some (Open_Failed e)
           | Call_Panicked \<Rightarrow> Some Open_Panicked
           | Call_Response status hs wrapper telemetry \<Rightarrow>
               (if status < 200 \<or> 300 \<le> status
                then Some (Open_Failed (raise_for_stream_response (se_render env) status hs
                       (case se_body_err env of None \<Rightarrow> Inl (se_body env) | Some e \<Rightarrow> Inr e)))
                else None)))"

definition stream_error :: "stream_env \<Rightarrow> sse_failure \<Rightarrow> stream_failure" where
  "stream_error env e = (case se_ctx_err env of Some x \<Rightarrow> Context_Failed x | None \<Rightarrow> Transport_Failed e)"

section \<open>Chunks\<close>

datatype 'a stream_output = Stream_Item 'a | Stream_Failure stream_failure

definition open_chat_stream :: "client \<Rightarrow> stream_env \<Rightarrow> chat_request \<Rightarrow> bool \<Rightarrow> stream_failure option" where
  "open_chat_stream c env req include_usage =
     open_event_stream c env (chat_stream_spec (se_marshal env) c req include_usage)"

text \<open>A chunk that does not decode ends the iteration over the events.\<close>

definition chunk_accept :: "stream_env \<Rightarrow> (nat \<Rightarrow> chat_completion_chunk \<Rightarrow> bool) \<Rightarrow> nat \<Rightarrow> object \<Rightarrow> bool" where
  "chunk_accept env accept n ev =
     (case decode_chunk (se_literal env) ev of None \<Rightarrow> False | Some ck \<Rightarrow> accept n ck)"

definition chunk_output :: "stream_env \<Rightarrow> sse_output \<Rightarrow> chat_completion_chunk stream_output list" where
  "chunk_output env out =
     (case out of
        Sse_Event ev \<Rightarrow>
          (case decode_chunk (se_literal env) ev of
             None \<Rightarrow> [Stream_Failure Undecodable_Chunk] | Some ck \<Rightarrow> [Stream_Item ck])
      | Sse_Error e \<Rightarrow> [Stream_Failure (stream_error env e)]
      | _ \<Rightarrow> [])"

definition chat_completions_chunks ::
    "client \<Rightarrow> stream_env \<Rightarrow> chat_request \<Rightarrow> bool \<Rightarrow> (nat \<Rightarrow> chat_completion_chunk \<Rightarrow> bool) \<Rightarrow>
     chat_completion_chunk stream_output list" where
  "chat_completions_chunks c env req include_usage accept =
     (case open_chat_stream c env req include_usage of
        Some e \<Rightarrow> [Stream_Failure e]
      | None \<Rightarrow> concat (map (chunk_output env) (iter_sse_chunks (se_body env) (se_body_err env) (chunk_accept env accept))))"

text \<open>\<open>ChatCompletions\<close>: the first error is the result, whatever was received before it.\<close>

fun gather :: "'a stream_output list \<Rightarrow> 'a list \<Rightarrow> stream_failure + 'a list" where
  "gather [] acc = Inr acc"
| "gather (Stream_Failure e # out) acc = Inl e"
| "gather (Stream_Item x # out) acc = gather out (acc @ [x])"

definition chat_completions :: "client \<Rightarrow> stream_env \<Rightarrow> chat_request \<Rightarrow> stream_failure + chat_completion" where
  "chat_completions c env req =
     (case gather (chat_completions_chunks c env req True (\<lambda>n ck. True)) [] of
        Inl e \<Rightarrow> Inl e
      | Inr chunks \<Rightarrow> Inr (collect_completion chunks))"

definition fusion :: "client \<Rightarrow> stream_env \<Rightarrow> fusion_request \<Rightarrow> stream_failure + chat_completion" where
  "fusion c env req = chat_completions c env (fusion_chat_request req)"

text \<open>\<open>ChatCompletionsText\<close>: the text of the first choice; a consumer sees the chunk's number.\<close>

definition chunk_text :: "chat_completion_chunk \<Rightarrow> string" where
  "chunk_text ck =
     (case ck_choices ck of [] \<Rightarrow> [] | ch # _ \<Rightarrow> (case cd_content (cc_delta ch) of None \<Rightarrow> [] | Some t \<Rightarrow> t))"

definition chat_completions_text ::
    "client \<Rightarrow> stream_env \<Rightarrow> chat_request \<Rightarrow> (nat \<Rightarrow> string \<Rightarrow> bool) \<Rightarrow> string stream_output list" where
  "chat_completions_text c env req accept =
     concat (map (\<lambda>out. case out of
         Stream_Failure e \<Rightarrow> [Stream_Failure e]
       | Stream_Item ck \<Rightarrow> (if chunk_text ck = [] then [] else [Stream_Item (chunk_text ck)]))
       (chat_completions_chunks c env req False (\<lambda>n ck. chunk_text ck = [] \<or> accept n (chunk_text ck))))"

section \<open>A completion comes from a complete stream\<close>

lemma gather_all:
  "gather out acc = Inr items \<longleftrightarrow> (\<exists>xs. out = map Stream_Item xs \<and> items = acc @ xs)"
proof (induction out acc rule: gather.induct)
  case (3 x out acc)
  then show ?case by (auto simp: Cons_eq_map_conv)
qed auto

lemma chunk_output_event:
  "chunk_output env (Sse_Event ev) =
     (case decode_chunk (se_literal env) ev of None \<Rightarrow> [Stream_Failure Undecodable_Chunk] | Some ck \<Rightarrow> [Stream_Item ck])"
  by (simp add: chunk_output_def)

lemma chunk_outputs_decoded:
  "concat (map (chunk_output env) (map Sse_Event evs @ tail)) = map Stream_Item xs \<Longrightarrow>
     \<exists>chunks rest. those (map (decode_chunk (se_literal env)) evs) = Some chunks \<and>
       concat (map (chunk_output env) tail) = map Stream_Item rest \<and> xs = chunks @ rest"
proof (induction evs arbitrary: xs)
  case (Cons ev evs)
  then have o: "chunk_output env (Sse_Event ev) @ concat (map (chunk_output env) (map Sse_Event evs @ tail)) = map Stream_Item xs"
    by simp
  then obtain ck where d: "decode_chunk (se_literal env) ev = Some ck"
    by (cases xs; cases "decode_chunk (se_literal env) ev") (auto simp: chunk_output_event)
  with o obtain ys where "xs = ck # ys"
    "concat (map (chunk_output env) (map Sse_Event evs @ tail)) = map Stream_Item ys"
    by (cases xs) (auto simp: chunk_output_event)
  with Cons.IH [of ys] d show ?case by auto
qed simp

lemma complete_stream:
  assumes "chat_completions c env req = Inr completion"
  shows "open_chat_stream c env req True = None \<and>
    (let frames = sse_frames (sse_lines (se_body env)) in
     \<exists>k chunks ev. 0 < k \<and> k \<le> length frames \<and> parse_chat_sse_frame (frames ! (k - 1)) = Inr (ev, True) \<and>
       (\<forall>i < k - 1. \<exists>ev. parse_chat_sse_frame (frames ! i) = Inr (ev, False)) \<and>
       those (map (decode_chunk (se_literal env)) (frame_events parse_chat_sse_frame (take k frames))) = Some chunks \<and>
       completion = collect_completion chunks)"
proof -
  let ?acc = "chunk_accept env (\<lambda>n ck. True)" and ?frames = "sse_frames (sse_lines (se_body env))"
  have op: "open_chat_stream c env req True = None"
    using assms by (cases "open_chat_stream c env req True") (auto simp: chat_completions_def chat_completions_chunks_def)
  with assms obtain chunks where out:
    "concat (map (chunk_output env) (iter_sse_chunks (se_body env) (se_body_err env) ?acc)) = map Stream_Item chunks"
    and c: "completion = collect_completion chunks"
    by (auto simp: chat_completions_def chat_completions_chunks_def gather_all split: sum.splits)
  obtain k evs tail where it: "iter_sse_chunks (se_body env) (se_body_err env) ?acc =
      (if evs \<noteq> [] then [First_Event_Mark] else []) @ map Sse_Event evs @ tail"
    and evs: "evs = frame_events parse_chat_sse_frame (take k ?frames)"
    and k: "k \<le> length ?frames" "\<forall>i. Suc i < k \<longrightarrow> (\<exists>ev. parse_chat_sse_frame (?frames ! i) = Inr (ev, False))"
    and e: "sse_ending parse_chat_sse_frame (se_body_err env) ?acc ?frames 0 k evs tail"
    using iter_chunks_run [of "se_body_err env" ?acc "se_body env"] unfolding sse_run_def by auto
  have "concat (map (chunk_output env) (map Sse_Event evs @ tail)) = map Stream_Item chunks"
    using out unfolding it by (simp add: chunk_output_def split: if_splits)
  from chunk_outputs_decoded [OF this] obtain cks rest
    where d: "those (map (decode_chunk (se_literal env)) evs) = Some cks"
    and t: "concat (map (chunk_output env) tail) = map Stream_Item rest" "chunks = cks @ rest" by blast
  have "evs \<noteq> [] \<longrightarrow> decode_chunk (se_literal env) (last evs) \<noteq> None"
    using d by (induction evs arbitrary: cks) (auto split: option.splits if_splits)
  then have "\<not> (evs \<noteq> [] \<and> \<not> ?acc (0 + length evs - 1) (last evs))" by (auto simp: chunk_accept_def split: option.split)
  moreover have "tail \<noteq> [Sse_Error x]" for x using t(1) by (auto simp: chunk_output_def)
  ultimately obtain ev where "tail = []" "0 < k" "parse_chat_sse_frame (?frames ! (k - 1)) = Inr (ev, True)"
    using e unfolding sse_ending_def by blast
  with t k d c evs op show ?thesis unfolding Let_def by (intro conjI exI [of _ k] exI [of _ cks] exI [of _ ev]) auto
qed

lemma opened_stream:
  assumes "open_event_stream c env spec = None"
  shows "\<exists>s status hs wrapper telemetry. spec = Some s \<and>
    fst (transport_do (se_render env) (se_agent env) (se_key env) c s (se_attempts env)) = Call_Response status hs wrapper telemetry \<and>
    200 \<le> status \<and> status < 300"
  using assms by (auto simp: open_event_stream_def split: option.splits call_result.splits if_splits)

text \<open>
  C22. \<open>ChatCompletions\<close> never passes a truncated stream off as an answer.  When it returns a
  completion, the engine delivered a 2xx response to the chat request, the frames of its body
  up to the first \<open>[DONE]\<close> were all read without an error event, every event among them decoded
  into a chunk, and the completion is the collection of exactly these chunks; a stream that
  ends before \<open>[DONE]\<close>, a frame that is no JSON object and a chunk that does not decode are errors.
\<close>
theorem completion_from_complete_stream:
  assumes "chat_completions c env req = Inr completion"
  shows "(\<exists>s status hs wrapper telemetry. chat_stream_spec (se_marshal env) c req True = Some s \<and>
      fst (transport_do (se_render env) (se_agent env) (se_key env) c s (se_attempts env)) = Call_Response status hs wrapper telemetry \<and>
      200 \<le> status \<and> status < 300) \<and>
    (let frames = sse_frames (sse_lines (se_body env)) in
     \<exists>k chunks ev. 0 < k \<and> k \<le> length frames \<and> parse_chat_sse_frame (frames ! (k - 1)) = Inr (ev, True) \<and>
       (\<forall>i < k - 1. \<exists>ev. parse_chat_sse_frame (frames ! i) = Inr (ev, False)) \<and>
       those (map (decode_chunk (se_literal env)) (frame_events parse_chat_sse_frame (take k frames))) = Some chunks \<and>
       completion = collect_completion chunks)"
proof
  show "\<exists>s status hs wrapper telemetry. chat_stream_spec (se_marshal env) c req True = Some s \<and>
      fst (transport_do (se_render env) (se_agent env) (se_key env) c s (se_attempts env)) = Call_Response status hs wrapper telemetry \<and>
      200 \<le> status \<and> status < 300"
    using complete_stream [OF assms] by (intro opened_stream) (simp add: open_chat_stream_def)
qed (use complete_stream [OF assms] in blast)

text \<open>A stream of one chunk and its end.\<close>

definition demo_stream :: stream_env where
  "demo_stream = \<lparr>se_attempts = (\<lambda>n. (demo_env n)\<lparr>ae_exchange := Answered 200 no_headers\<rparr>),
     se_body = ''data: {\"id\":\"c1\",\"choices\":[{\"delta\":{\"content\":\"Hi\"}}]}'' @ [CHR 0x0A, CHR 0x0A] @ ''data: [DONE]'',
     se_body_err = None, se_ctx_err = None, se_key = ''key-1'', se_agent = ''agent'', se_marshal = (\<lambda>v. Some ''{}''),
     se_literal = (\<lambda>f. []), se_render = (\<lambda>e. None)\<rparr>"

definition demo_chunk :: chat_completion_chunk where
  "demo_chunk = \<lparr>ck_id = ''c1'', ck_object = [], ck_created = 0, ck_model = [],
     ck_choices = [\<lparr>cc_index = 0, cc_delta = \<lparr>cd_role = None, cd_content = Some ''Hi'', cd_tool_calls = [], cd_extra = []\<rparr>,
        cc_finish_reason = None, cc_extra = []\<rparr>], ck_usage = None, ck_extra = []\<rparr>"

lemma demo_opened: "open_chat_stream demo_client demo_stream empty_chat_request True = None"
proof -
  obtain s where s: "chat_stream_spec (\<lambda>v. Some ''{}'') demo_client empty_chat_request True = Some s" "rs_method s = ''POST''"
    "rs_path s = ''/chat/completions''" "rs_candidates s = default_api_base_url # alias_api_base_urls"
    by (simp add: chat_stream_spec_def event_stream_spec_def demo_client_def)
  have "\<not> retryable 200 no_headers" by code_simp
  with s show ?thesis
    by (simp add: open_chat_stream_def open_event_stream_def demo_stream_def transport_do_def mint_key_def initial_state_def
        call_recorder_state_def demo_client_def engine_loop.simps attempt_step_def demo_env_def record_op_def
        new_http_request_def demo_urls after_response_def Let_def)
qed

lemma demo_events:
  "iter_sse_chunks (se_body demo_stream) None (chunk_accept demo_stream (\<lambda>n ck. True)) =
     [First_Event_Mark, Sse_Event [(''id'', GString ''c1''),
        (''choices'', GSlice [GMap [(''delta'', GMap [(''content'', GString ''Hi'')])]])]]"
  by code_simp

lemma demo_completion: "chat_completions demo_client demo_stream empty_chat_request = Inr (collect_completion [demo_chunk])"
proof -
  have "decode_chunk (\<lambda>f. []) [(''id'', GString ''c1''), (''choices'', GSlice [GMap [(''delta'', GMap [(''content'', GString ''Hi'')])]])] =
      Some demo_chunk" by code_simp
  then show ?thesis
    using demo_events by (simp add: chat_completions_def chat_completions_chunks_def demo_opened chunk_output_def)
      (simp add: demo_stream_def chunk_output_def)
qed

theorem completion_from_complete_stream_witness:
  "let frames = sse_frames (sse_lines (se_body demo_stream)) in
   \<exists>k chunks ev. 0 < k \<and> k \<le> length frames \<and> parse_chat_sse_frame (frames ! (k - 1)) = Inr (ev, True) \<and>
     collect_completion [demo_chunk] = collect_completion chunks"
  using completion_from_complete_stream [OF demo_completion] unfolding Let_def by blast

end
