(* ===== verification/Api_Calls.thy ===== *)
theory Api_Calls
  imports Chat
begin

text \<open>
  The other API calls: the bodies and call options of \<open>responses.go\<close>, \<open>messages.go\<close>,
  \<open>embeddings.go\<close>, \<open>billing.go\<close> and \<open>broadcast.go\<close>, the query paths of \<open>models.go\<close> and
  \<open>account.go\<close>, the request each endpoint hands to its plane, and the call as a whole.  \<open>key\<close> is
  the fresh idempotency key of the call.
\<close>

section \<open>Requests\<close>

record responses_request =
  rr_model :: string
  rr_input :: gvalue
  rr_provider :: "provider_preferences option"
  rr_instructions :: "string option"
  rr_extra :: object
  rr_options :: call_options

record messages_request =
  mq_model :: string
  mq_messages :: "object list"
  mq_provider :: "provider_preferences option"
  mq_max_tokens :: "int option"
  mq_extra :: object
  mq_options :: call_options

record embeddings_request =
  eq_model :: string
  eq_input :: gvalue
  eq_provider :: "provider_preferences option"
  eq_encoding_format :: "string option"
  eq_dimensions :: "int option"
  eq_user :: "string option"
  eq_extra :: object
  eq_options :: call_options

record billing_checkout_request =
  bq_amount :: gvalue
  bq_payment_method :: "string option"
  bq_workspace_id :: "string option"
  bq_success_url :: "string option"
  bq_cancel_url :: "string option"
  bq_options :: call_options

record broadcast_destination_request =
  dq_type :: string
  dq_name :: string
  dq_endpoint :: "string option"
  dq_enabled :: "bool option"
  dq_include_content :: "bool option"
  dq_method :: string
  dq_headers :: "string_map option"
  dq_api_key :: "string option"
  dq_workspace_id :: "string option"
  dq_options :: call_options

record model_list_options =
  ml_open_weights :: "bool option"
  ml_provider_jurisdiction :: string
  ml_provider_region :: string

text \<open>\<open>CreditsOptions\<close> and \<open>BroadcastDestinationOptions\<close>: a workspace beside the call options.\<close>

record workspace_options =
  wo_workspace_id :: "string option"
  wo_options :: call_options

section \<open>Bodies\<close>

definition build_responses_body :: "responses_request \<Rightarrow> bool \<Rightarrow> object" where
  "build_responses_body req stream =
     (let params = fold obj_del (reserved_extra_keys @ [''stream'']) (clone_map (rr_extra req));
          body = obj_merge [(''model'', GString (if rr_model req = [] then auto_model else rr_model req)),
             (''input'', rr_input req), (''stream'', GBool stream)] params
      in set_value ''provider'' (map_option (GProvider True) (rr_provider req))
           (set_string ''instructions'' (rr_instructions req) body))"

definition build_messages_body :: "messages_request \<Rightarrow> object" where
  "build_messages_body req =
     obj_merge (set_value ''provider'' (map_option (GProvider True) (mq_provider req))
        [(''model'', GString (mq_model req)), (''messages'', GMaps (mq_messages req)),
         (''max_tokens'', GInt KInt (case mq_max_tokens req of Some n \<Rightarrow> n | None \<Rightarrow> 1024))])
       (mq_extra req)"

definition build_embeddings_body :: "embeddings_request \<Rightarrow> object" where
  "build_embeddings_body req =
     obj_merge (all_set [
         set_value ''provider'' (map_option (GProvider True) (eq_provider req)),
         set_string ''encoding_format'' (eq_encoding_format req),
         set_int ''dimensions'' (eq_dimensions req),
         set_string ''user'' (eq_user req)]
        [(''model'', GString (eq_model req)), (''input'', eq_input req)])
       (eq_extra req)"

definition billing_checkout_body :: "billing_checkout_request \<Rightarrow> object" where
  "billing_checkout_body req = all_set [
     set_string ''payment_method'' (bq_payment_method req),
     set_string ''workspace_id'' (bq_workspace_id req),
     set_string ''success_url'' (bq_success_url req),
     set_string ''cancel_url'' (bq_cancel_url req)] [(''amount'', bq_amount req)]"

definition broadcast_destination_body :: "broadcast_destination_request \<Rightarrow> object" where
  "broadcast_destination_body req = all_set [
     set_string ''endpoint'' (dq_endpoint req),
     set_value ''headers'' (map_option GStringMap (dq_headers req)),
     set_string ''api_key'' (dq_api_key req)]
    [(''type'', GString (dq_type req)),
     (''name'', GString (if dq_name req = [] then ''Broadcast destination'' else dq_name req)),
     (''enabled'', GBool (case dq_enabled req of Some b \<Rightarrow> b | None \<Rightarrow> True)),
     (''include_content'', GBool (case dq_include_content req of Some b \<Rightarrow> b | None \<Rightarrow> False)),
     (''method'', GString (if dq_method req = [] then ''POST'' else dq_method req))]"

text \<open>The loop over a patch; the list is the map in the order of its iteration.\<close>

definition patch_step :: "string \<times> gvalue \<Rightarrow> object \<times> string option \<Rightarrow> object \<times> string option" where
  "patch_step p st =
     (let (key, v) = p; (body, ws) = st in
      if key = ''workspace_id'' \<or> key = ''workspaceId''
      then (body, case v of GString s \<Rightarrow> Some s | _ \<Rightarrow> ws)
      else (if v = GNil then body else obj_put key v body, ws))"

definition broadcast_destination_patch :: "object \<Rightarrow> object \<times> call_options option" where
  "broadcast_destination_patch patch =
     (let (body, ws) = fold patch_step patch ([], None)
      in (body, case ws of None \<Rightarrow> None | Some w \<Rightarrow> Some (empty_call_options\<lparr>co_workspace_id := Some w\<rparr>)))"

section \<open>Options and paths\<close>

definition responses_call_options :: "responses_request \<Rightarrow> bool \<Rightarrow> call_options" where
  "responses_call_options req route_all_reserved = lift_options route_all_reserved (rr_extra req) (rr_options req)"

definition with_workspace :: "string option \<Rightarrow> call_options \<Rightarrow> call_options" where
  "with_workspace ws opts = opts\<lparr>co_workspace_id := option_or (co_workspace_id opts) ws\<rparr>"

definition workspace_call_options :: "workspace_options option \<Rightarrow> call_options option" where
  "workspace_call_options opts = map_option (\<lambda>o'. with_workspace (wo_workspace_id o') (wo_options o')) opts"

definition query_path :: "string \<Rightarrow> url_values \<Rightarrow> string" where
  "query_path path vs = (let encoded = encode_values vs in if encoded = [] then path else path @ ''?'' @ encoded)"

definition models_path :: "model_list_options option \<Rightarrow> string" where
  "models_path opts =
     (case opts of None \<Rightarrow> ''/models''
      | Some o' \<Rightarrow>
          (let v1 = (case ml_open_weights o' of None \<Rightarrow> []
                | Some b \<Rightarrow> values_set ''open_weights'' (if b then ''true'' else ''false'') []);
               v2 = (if ml_provider_jurisdiction o' = [] then v1
                     else values_set ''provider[jurisdiction]'' (ml_provider_jurisdiction o') v1);
               v3 = (if ml_provider_region o' = [] then v2 else values_set ''provider[region]'' (ml_provider_region o') v2)
           in query_path ''/models'' v3))"

definition activity_path :: "string_map \<Rightarrow> string" where
  "activity_path params =
     (if params = [] then ''/activity'' else query_path ''/activity'' (fold (\<lambda>(k, v). values_set k v) params []))"

section \<open>Endpoints\<close>

type_synonym encoder = "gvalue \<Rightarrow> bytes option"

definition responses_spec :: "encoder \<Rightarrow> client \<Rightarrow> string \<Rightarrow> responses_request \<Rightarrow> request_spec option" where
  "responses_spec marshal c key req =
     inference_spec marshal c ''POST'' ''/responses'' (Any_Body (GMap (build_responses_body req False)))
       (Some (ensure_idempotency_key key (responses_call_options req True)))"

definition responses_input_tokens_spec :: "encoder \<Rightarrow> client \<Rightarrow> string \<Rightarrow> responses_request \<Rightarrow> request_spec option" where
  "responses_input_tokens_spec marshal c key req =
     inference_spec marshal c ''POST'' ''/responses/input_tokens'' (Any_Body (GMap (build_responses_body req False)))
       (Some (ensure_idempotency_key key (responses_call_options req False)))"

definition responses_stream_spec :: "encoder \<Rightarrow> client \<Rightarrow> responses_request \<Rightarrow> request_spec option" where
  "responses_stream_spec marshal c req =
     event_stream_spec marshal c ''POST'' ''/responses'' (GMap (build_responses_body req True)) (responses_call_options req True)"

definition messages_spec :: "encoder \<Rightarrow> client \<Rightarrow> string \<Rightarrow> messages_request \<Rightarrow> request_spec option" where
  "messages_spec marshal c key req =
     inference_spec marshal c ''POST'' ''/messages'' (Any_Body (GMap (build_messages_body req)))
       (Some (ensure_idempotency_key key (mq_options req)))"

definition embeddings_spec :: "encoder \<Rightarrow> client \<Rightarrow> string \<Rightarrow> embeddings_request \<Rightarrow> request_spec option" where
  "embeddings_spec marshal c key req =
     inference_spec marshal c ''POST'' ''/embeddings'' (Any_Body (GMap (build_embeddings_body req)))
       (Some (ensure_idempotency_key key (eq_options req)))"

definition control_call ::
    "encoder \<Rightarrow> client \<Rightarrow> string \<Rightarrow> string \<Rightarrow> request_body \<Rightarrow> call_options option \<Rightarrow> request_spec option" where
  "control_call marshal c http_method path body opts = control_spec marshal c http_method path body opts False"

definition billing_checkout_spec :: "encoder \<Rightarrow> client \<Rightarrow> string \<Rightarrow> billing_checkout_request \<Rightarrow> request_spec option" where
  "billing_checkout_spec marshal c key req =
     control_call marshal c ''POST'' ''/billing/checkout'' (Any_Body (GMap (billing_checkout_body req)))
       (Some (ensure_idempotency_key key (with_workspace (bq_workspace_id req) (bq_options req))))"

definition stablecoin_checkout_spec :: "encoder \<Rightarrow> client \<Rightarrow> string \<Rightarrow> billing_checkout_request \<Rightarrow> request_spec option" where
  "stablecoin_checkout_spec marshal c key req =
     billing_checkout_spec marshal c key (req\<lparr>bq_payment_method := Some ''stablecoin''\<rparr>)"

definition broadcast_list_spec :: "encoder \<Rightarrow> client \<Rightarrow> workspace_options option \<Rightarrow> request_spec option" where
  "broadcast_list_spec marshal c opts =
     control_call marshal c ''GET'' ''/broadcast/destinations'' No_Body (workspace_call_options opts)"

definition broadcast_create_spec :: "encoder \<Rightarrow> client \<Rightarrow> string \<Rightarrow> broadcast_destination_request \<Rightarrow> request_spec option" where
  "broadcast_create_spec marshal c key req =
     control_call marshal c ''POST'' ''/broadcast/destinations'' (Any_Body (GMap (broadcast_destination_body req)))
       (Some (ensure_idempotency_key key (with_workspace (dq_workspace_id req) (dq_options req))))"

definition broadcast_get_spec :: "encoder \<Rightarrow> client \<Rightarrow> string \<Rightarrow> workspace_options option \<Rightarrow> request_spec option" where
  "broadcast_get_spec marshal c dest opts =
     control_call marshal c ''GET'' (''/broadcast/destinations/'' @ dest) No_Body (workspace_call_options opts)"

definition broadcast_update_spec :: "encoder \<Rightarrow> client \<Rightarrow> string \<Rightarrow> string \<Rightarrow> object \<Rightarrow> request_spec option" where
  "broadcast_update_spec marshal c key dest patch =
     (let (body, opts) = broadcast_destination_patch patch in
      control_call marshal c ''PATCH'' (''/broadcast/destinations/'' @ dest) (Any_Body (GMap body))
        (Some (ensure_idempotency_options key opts)))"

definition broadcast_delete_spec :: "encoder \<Rightarrow> client \<Rightarrow> string \<Rightarrow> string \<Rightarrow> workspace_options option \<Rightarrow> request_spec option" where
  "broadcast_delete_spec marshal c key dest opts =
     control_call marshal c ''DELETE'' (''/broadcast/destinations/'' @ dest) No_Body
       (Some (ensure_idempotency_options key (workspace_call_options opts)))"

definition broadcast_test_spec :: "encoder \<Rightarrow> client \<Rightarrow> string \<Rightarrow> string \<Rightarrow> workspace_options option \<Rightarrow> request_spec option" where
  "broadcast_test_spec marshal c key dest opts =
     control_call marshal c ''POST'' (''/broadcast/destinations/'' @ dest @ ''/test'') No_Body
       (Some (ensure_idempotency_options key (workspace_call_options opts)))"

definition models_spec :: "encoder \<Rightarrow> client \<Rightarrow> model_list_options option \<Rightarrow> request_spec option" where
  "models_spec marshal c opts = control_call marshal c ''GET'' (models_path opts) No_Body None"

definition providers_spec :: "encoder \<Rightarrow> client \<Rightarrow> request_spec option" where
  "providers_spec marshal c = control_call marshal c ''GET'' ''/providers'' No_Body None"

definition regions_spec :: "encoder \<Rightarrow> client \<Rightarrow> request_spec option" where
  "regions_spec marshal c = control_call marshal c ''GET'' ''/regions'' No_Body None"

definition credits_spec :: "encoder \<Rightarrow> client \<Rightarrow> workspace_options option \<Rightarrow> request_spec option" where
  "credits_spec marshal c opts = control_call marshal c ''GET'' ''/credits'' No_Body (workspace_call_options opts)"

definition auth_session_spec :: "encoder \<Rightarrow> client \<Rightarrow> request_spec option" where
  "auth_session_spec marshal c = control_call marshal c ''GET'' ''/auth/session'' No_Body None"

definition logout_spec :: "encoder \<Rightarrow> client \<Rightarrow> string \<Rightarrow> request_spec option" where
  "logout_spec marshal c key =
     control_call marshal c ''POST'' ''/auth/logout'' No_Body (Some (ensure_idempotency_key key empty_call_options))"

definition user_info_spec :: "encoder \<Rightarrow> client \<Rightarrow> request_spec option" where
  "user_info_spec marshal c = control_call marshal c ''GET'' ''/auth/userinfo'' No_Body None"

definition activity_spec :: "encoder \<Rightarrow> client \<Rightarrow> string_map \<Rightarrow> request_spec option" where
  "activity_spec marshal c params = control_call marshal c ''GET'' (activity_path params) No_Body None"

text \<open>All endpoints with their arguments; the streams take their key from the engine.\<close>

datatype endpoint =
    Ep_Responses responses_request
  | Ep_Input_Tokens responses_request
  | Ep_Messages messages_request
  | Ep_Embeddings embeddings_request
  | Ep_Billing billing_checkout_request
  | Ep_Stablecoin billing_checkout_request
  | Ep_Broadcast_List "workspace_options option"
  | Ep_Broadcast_Create broadcast_destination_request
  | Ep_Broadcast_Get string "workspace_options option"
  | Ep_Broadcast_Update string object
  | Ep_Broadcast_Delete string "workspace_options option"
  | Ep_Broadcast_Test string "workspace_options option"
  | Ep_Models "model_list_options option"
  | Ep_Providers
  | Ep_Regions
  | Ep_Credits "workspace_options option"
  | Ep_Auth_Session
  | Ep_Logout
  | Ep_User_Info
  | Ep_Activity string_map

definition endpoint_spec :: "encoder \<Rightarrow> client \<Rightarrow> string \<Rightarrow> endpoint \<Rightarrow> request_spec option" where
  "endpoint_spec marshal c key ep =
     (case ep of
        Ep_Responses req \<Rightarrow> responses_spec marshal c key req
      | Ep_Input_Tokens req \<Rightarrow> responses_input_tokens_spec marshal c key req
      | Ep_Messages req \<Rightarrow> messages_spec marshal c key req
      | Ep_Embeddings req \<Rightarrow> embeddings_spec marshal c key req
      | Ep_Billing req \<Rightarrow> billing_checkout_spec marshal c key req
      | Ep_Stablecoin req \<Rightarrow> stablecoin_checkout_spec marshal c key req
      | Ep_Broadcast_List opts \<Rightarrow> broadcast_list_spec marshal c opts
      | Ep_Broadcast_Create req \<Rightarrow> broadcast_create_spec marshal c key req
      | Ep_Broadcast_Get dest opts \<Rightarrow> broadcast_get_spec marshal c dest opts
      | Ep_Broadcast_Update dest patch \<Rightarrow> broadcast_update_spec marshal c key dest patch
      | Ep_Broadcast_Delete dest opts \<Rightarrow> broadcast_delete_spec marshal c key dest opts
      | Ep_Broadcast_Test dest opts \<Rightarrow> broadcast_test_spec marshal c key dest opts
      | Ep_Models opts \<Rightarrow> models_spec marshal c opts
      | Ep_Providers \<Rightarrow> providers_spec marshal c
      | Ep_Regions \<Rightarrow> regions_spec marshal c
      | Ep_Credits opts \<Rightarrow> credits_spec marshal c opts
      | Ep_Auth_Session \<Rightarrow> auth_session_spec marshal c
      | Ep_Logout \<Rightarrow> logout_spec marshal c key
      | Ep_User_Info \<Rightarrow> user_info_spec marshal c
      | Ep_Activity params \<Rightarrow> activity_spec marshal c params)"

definition on_inference_plane :: "endpoint \<Rightarrow> bool" where
  "on_inference_plane ep =
     (case ep of Ep_Responses req \<Rightarrow> True | Ep_Input_Tokens req \<Rightarrow> True | Ep_Messages req \<Rightarrow> True | Ep_Embeddings req \<Rightarrow> True
      | _ \<Rightarrow> False)"

text \<open>The key the caller chose for the call, in its options; empty for none.\<close>

definition chosen_key :: "endpoint \<Rightarrow> string" where
  "chosen_key ep =
     (let of_workspace = (\<lambda>opts. case opts of None \<Rightarrow> [] | Some o' \<Rightarrow> co_idempotency_key (wo_options o')) in
      case ep of
        Ep_Responses req \<Rightarrow> co_idempotency_key (rr_options req)
      | Ep_Input_Tokens req \<Rightarrow> co_idempotency_key (rr_options req)
      | Ep_Messages req \<Rightarrow> co_idempotency_key (mq_options req)
      | Ep_Embeddings req \<Rightarrow> co_idempotency_key (eq_options req)
      | Ep_Billing req \<Rightarrow> co_idempotency_key (bq_options req)
      | Ep_Stablecoin req \<Rightarrow> co_idempotency_key (bq_options req)
      | Ep_Broadcast_List opts \<Rightarrow> of_workspace opts
      | Ep_Broadcast_Create req \<Rightarrow> co_idempotency_key (dq_options req)
      | Ep_Broadcast_Get dest opts \<Rightarrow> of_workspace opts
      | Ep_Broadcast_Delete dest opts \<Rightarrow> of_workspace opts
      | Ep_Broadcast_Test dest opts \<Rightarrow> of_workspace opts
      | Ep_Credits opts \<Rightarrow> of_workspace opts
      | _ \<Rightarrow> [])"

section \<open>The call\<close>

record call_env =
  ca_attempts :: "nat \<Rightarrow> attempt_env"
  ca_body :: "bytes + go_error"
  ca_ctx_err :: "go_error option"
  ca_key :: string
  ca_agent :: string
  ca_marshal :: encoder
  ca_render :: "go_error \<Rightarrow> string option"
  ca_fmt_other :: "gvalue \<Rightarrow> string"
  ca_json_error :: go_error \<comment> \<open>of the decoder\<close>

datatype 'a call_outcome = Call_Encode_Failed | Call_Failed go_error | Call_Panic | Call_Ok 'a

definition document_rules :: json_rules where
  "document_rules = \<lparr>reject_duplicates = False, number_value = (\<lambda>n. Some (GNumber n)), max_depth = Some 10000\<rparr>"

definition struct_decoder :: "go_error \<Rightarrow> schema \<Rightarrow> bytes \<Rightarrow> go_error + svalue" where
  "struct_decoder json_error s data =
     (case parse_json document_rules data of
        None \<Rightarrow> Inl json_error
      | Some doc \<Rightarrow> (case decode_struct s doc of None \<Rightarrow> Inl json_error | Some v \<Rightarrow> Inr v))"

text \<open>\<open>Request\<close> and \<open>controlRequest\<close>: the engine's response is decoded into the result.\<close>

definition call_outcome :: "call_env \<Rightarrow> call_result \<Rightarrow> (bytes \<Rightarrow> go_error + 'a) \<Rightarrow> 'a call_outcome" where
  "call_outcome env result decode =
     (case result of
        Call_Error e \<Rightarrow> Call_Failed e
      | Call_Panicked \<Rightarrow> Call_Panic
      | Call_Response status hs wrapper telemetry \<Rightarrow>
          (case decode_response (ca_render env) (ca_fmt_other env) (ca_ctx_err env) (ca_body env) status hs (Some decode) of
             Decoded v \<Rightarrow> Call_Ok v
           | Decode_Failed e \<Rightarrow> Call_Failed e
           | _ \<Rightarrow> Call_Panic))"

definition api_call :: "client \<Rightarrow> call_env \<Rightarrow> endpoint \<Rightarrow> (bytes \<Rightarrow> go_error + 'a) \<Rightarrow> 'a call_outcome" where
  "api_call c env ep decode =
     (case endpoint_spec (ca_marshal env) c (ca_key env) ep of
        None \<Rightarrow> Call_Encode_Failed
      | Some s \<Rightarrow>
          call_outcome env (fst (transport_do (ca_render env) (ca_agent env) (ca_key env) c s (ca_attempts env))) decode)"

definition default_status_url :: string where
  "default_status_url = ''https://status.trustedrouter.com/status.json''"

definition status_call :: "client \<Rightarrow> call_env \<Rightarrow> string \<Rightarrow> exchange \<Rightarrow> object call_outcome" where
  "status_call c env status_url exch =
     call_outcome env
       (fst (absolute_request (ca_render env) (ca_agent env) c ''GET'' (if status_url = [] then default_status_url else status_url) exch))
       (\<lambda>data. case json_unmarshal data of Some (GMap m) \<Rightarrow> Inr m | Some GNil \<Rightarrow> Inr [] | _ \<Rightarrow> Inl (ca_json_error env))"

text \<open>\<open>ResponsesEvents\<close>: the consumer is asked after every event.\<close>

definition responses_events ::
    "client \<Rightarrow> stream_env \<Rightarrow> responses_request \<Rightarrow> (nat \<Rightarrow> object \<Rightarrow> bool) \<Rightarrow> object stream_output list" where
  "responses_events c env req accept =
     (case open_event_stream c env (responses_stream_spec (se_marshal env) c req) of
        Some e \<Rightarrow> [Stream_Failure e]
      | None \<Rightarrow>
          List.map_filter (\<lambda>out. case out of
              Sse_Event ev \<Rightarrow> Some (Stream_Item ev)
            | Sse_Error e \<Rightarrow> Some (Stream_Failure (stream_error env e))
            | _ \<Rightarrow> None)
            (iter_sse_events (se_body env) (se_body_err env) accept))"

section \<open>Every call can be repeated safely\<close>

lemma new_key_nonempty [simp]: "new_idempotency_key entropy now_ns pid sequence_number \<noteq> []"
  by (simp add: new_idempotency_key_def)

lemma ensured_key [simp]:
  "key \<noteq> [] \<Longrightarrow> co_idempotency_key (ensure_idempotency_key key opts) =
     (if co_idempotency_key opts = [] then key else co_idempotency_key opts)"
  by (simp add: ensure_idempotency_key_def)

lemma spec_members:
  "inference_spec marshal c m p b opts = Some s \<Longrightarrow>
     rs_method s = m \<and> rs_opts s = opts \<and> rs_candidates s = cl_base_urls c \<and> \<not> rs_control_plane s \<and> \<not> rs_credential_free s"
  "control_call marshal c m p b opts = Some s \<Longrightarrow>
     rs_method s = m \<and> rs_opts s = opts \<and> rs_candidates s = [cl_control_base_url c] \<and> rs_control_plane s \<and> \<not> rs_credential_free s"
  by (auto simp: inference_spec_def control_call_def control_spec_def dispatch_spec_def split: option.splits)

lemmas endpoint_specs = responses_spec_def responses_input_tokens_spec_def messages_spec_def embeddings_spec_def
  billing_checkout_spec_def stablecoin_checkout_spec_def broadcast_list_spec_def broadcast_create_spec_def
  broadcast_get_spec_def broadcast_update_spec_def broadcast_delete_spec_def broadcast_test_spec_def models_spec_def
  providers_spec_def regions_spec_def credits_spec_def auth_session_spec_def logout_spec_def user_info_spec_def activity_spec_def

lemma get_is_safe: "request_replay_safe ''GET'' opts"
proof -
  have "to_upper ''GET'' = ''GET''" by code_simp
  then show ?thesis by (simp add: request_replay_safe_def)
qed

lemma keyed_is_safe: "co_idempotency_key opts \<noteq> [] \<Longrightarrow> request_replay_safe m (Some opts)"
  by (simp add: request_replay_safe_def)

lemma lifted_key:
  "co_idempotency_key opts \<noteq> [] \<Longrightarrow> co_idempotency_key (lift_options all_keys extra opts) = co_idempotency_key opts"
  by (simp add: lift_options_def Let_def)

lemma patch_options_key: "snd (broadcast_destination_patch patch) = None \<or>
    (\<exists>o'. snd (broadcast_destination_patch patch) = Some o' \<and> co_idempotency_key o' = [])"
  by (auto simp: broadcast_destination_patch_def empty_call_options_def split: prod.split option.split)


text \<open>
  A patch that spells the workspace both ways: Go iterates its map in an unspecified order, and
  the workspace of the request is that of the spelling met last.
\<close>

lemma patch_depends_on_order:
  "map_option co_workspace_id (snd (broadcast_destination_patch
     [(''workspace_id'', GString ''ws-1''), (''workspaceId'', GString ''ws-2'')])) = Some (Some ''ws-2'')"
  "map_option co_workspace_id (snd (broadcast_destination_patch
     [(''workspaceId'', GString ''ws-2''), (''workspace_id'', GString ''ws-1'')])) = Some (Some ''ws-1'')"
  by code_simp+

end
