(* ===== verification/Go_Url_Text.thy ===== *)
theory Go_Url_Text
  imports Go_Url
begin

text \<open>Writing URLs (package net/url): \<open>EscapedPath\<close>, \<open>EscapedFragment\<close>, \<open>String\<close>, and \<open>net.JoinHostPort\<close>.\<close>

definition valid_encoded :: "escape_mode \<Rightarrow> string \<Rightarrow> bool" where
  "valid_encoded mode s =
     list_all (\<lambda>c. c \<in> set ''!$&()*+,;=:@[]%'' \<or> c = apostrophe \<or> \<not> should_escape mode c) s"

text \<open>The text that was parsed, if it is a valid encoding of the decoded one.\<close>

definition kept_encoding :: "escape_mode \<Rightarrow> string \<Rightarrow> string \<Rightarrow> bool" where
  "kept_encoding mode raw decoded \<longleftrightarrow> raw \<noteq> [] \<and> valid_encoded mode raw \<and> url_unescape mode raw = Some decoded"

definition escaped_path :: "url \<Rightarrow> string" where
  "escaped_path u =
     (if kept_encoding Esc_Path (url_raw_path u) (url_path u) then url_raw_path u
      else if url_path u = ''*'' then ''*'' else url_escape Esc_Path (url_path u))"

definition escaped_fragment :: "url \<Rightarrow> string" where
  "escaped_fragment u =
     (if kept_encoding Esc_Fragment (url_raw_fragment u) (url_fragment u) then url_raw_fragment u
      else url_escape Esc_Fragment (url_fragment u))"

definition userinfo_string :: "string \<times> string option \<Rightarrow> string" where
  "userinfo_string ui =
     (case ui of (name, password) \<Rightarrow>
        if name = [] \<and> password = None then []
        else url_escape Esc_UserPassword name @
          (case password of None \<Rightarrow> [] | Some p \<Rightarrow> '':'' @ url_escape Esc_UserPassword p))"

definition authority_string :: "url \<Rightarrow> string" where
  "authority_string u =
     (if url_scheme u = [] \<and> url_host u = [] \<and> url_user u = None then []
      else if url_omit_host u \<and> url_host u = [] \<and> url_user u = None then []
      else (if url_host u \<noteq> [] \<or> url_path u \<noteq> [] \<or> url_user u \<noteq> None then ''//'' else []) @
        (case url_user u of None \<Rightarrow> [] | Some ui \<Rightarrow> userinfo_string ui @ ''@'') @ url_escape Esc_Host (url_host u))"

definition hierarchical_string :: "url \<Rightarrow> string" where
  "hierarchical_string u =
     (let before = (if url_scheme u = [] then [] else url_scheme u @ '':'');
          auth = authority_string u;
          path = escaped_path u;
          slash = (if path \<noteq> [] \<and> hd path \<noteq> CHR ''/'' \<and> url_host u \<noteq> [] then ''/'' else []);
          dot = (if before @ auth @ slash = [] \<and> CHR '':'' \<in> set (fst (cut_or_all (CHR ''/'') path)) then ''./'' else [])
      in before @ auth @ slash @ dot @ path)"

definition url_string :: "url \<Rightarrow> string" where
  "url_string u =
     (if url_opaque u \<noteq> [] then (if url_scheme u = [] then [] else url_scheme u @ '':'') @ url_opaque u
      else hierarchical_string u) @
     (if url_force_query u \<or> url_raw_query u \<noteq> [] then ''?'' @ url_raw_query u else []) @
     (if url_fragment u = [] then [] else ''#'' @ escaped_fragment u)"

definition join_host_port :: "string \<Rightarrow> string \<Rightarrow> string" where
  "join_host_port host port =
     (if CHR '':'' \<in> set host then ''['' @ host @ '']:'' @ port else host @ '':'' @ port)"

end
