(* ===== verification/Go_Textproto.thy ===== *)
theory Go_Textproto
  imports Go_Prelude
begin

text \<open>
  Reading a text protocol from a buffered connection (packages bufio and net/textproto).  A
  connection is the list of the bytes it still delivers; after them every read fails.
\<close>

text \<open>\<open>ReadLine\<close>: the line without its end; \<open>None\<close> when nothing is left to read.\<close>

definition read_line :: "bytes \<Rightarrow> (string \<times> bytes) option" where
  "read_line data =
     (case cut_at (CHR 0x0A) data of
        Some (line, rest) \<Rightarrow> Some (if line \<noteq> [] \<and> last line = CHR 0x0D then butlast line else line, rest)
      | None \<Rightarrow> (if data = [] then None else Some (data, [])))"

definition is_blank :: "char \<Rightarrow> bool" where
  "is_blank c \<longleftrightarrow> c = CHR '' '' \<or> c = CHR 0x09"

definition trim_blanks :: "string \<Rightarrow> string" where
  "trim_blanks s = rev (dropWhile is_blank (rev (dropWhile is_blank s)))"

lemma cut_at_append: "cut_at c s = Some (a, b) \<Longrightarrow> s = a @ c # b"
  by (induction s arbitrary: a) (auto split: if_splits)

lemma read_line_suffix: "read_line data = Some (line, rest) \<Longrightarrow> \<exists>used. used \<noteq> [] \<and> data = used @ rest"
  by (auto simp: read_line_def dest!: cut_at_append split: option.splits if_splits)

lemma read_line_shrinks: "read_line data = Some (line, rest) \<Longrightarrow> length rest < length data"
  using read_line_suffix by fastforce

lemma drop_blanks_length: "length (dropWhile is_blank data) \<le> length data"
  by (rule length_dropWhile_le)

text \<open>The continuation lines of a header: each begins with a blank.\<close>

function continued_line :: "string \<Rightarrow> bytes \<Rightarrow> string \<times> bytes" where
  "continued_line kv data =
     (if data \<noteq> [] \<and> is_blank (hd data)
      then (case read_line (dropWhile is_blank data) of
              None \<Rightarrow> (kv @ '' '', [])
            | Some (line, rest) \<Rightarrow> continued_line (kv @ '' '' @ trim_blanks line) rest)
      else (kv, data))"
  by auto
termination
proof (relation "measure (\<lambda>(kv, data). length data)")
  fix kv data x line rest
  assume "read_line (dropWhile is_blank data) = Some x" "(line, rest) = x"
  then show "((kv @ '' '' @ trim_blanks line, rest), kv, data) \<in> measure (\<lambda>(kv, data). length data)"
    using less_le_trans [OF read_line_shrinks drop_blanks_length] by auto
qed auto

declare continued_line.simps [simp del]

lemma continued_line_suffix: "continued_line kv data = (kv', rest) \<Longrightarrow> \<exists>used. data = used @ rest"
proof (induction kv data arbitrary: kv' rest rule: continued_line.induct)
  case (1 kv data)
  show ?case
  proof (cases "data \<noteq> [] \<and> is_blank (hd data)")
    case True
    show ?thesis
    proof (cases "read_line (dropWhile is_blank data)")
      case None
      with 1(2) True have "rest = []" by (simp add: continued_line.simps [of kv data])
      then show ?thesis by simp
    next
      case (Some p)
      obtain line r where p: "p = (line, r)" by (cases p)
      from 1(2) True Some p have "continued_line (kv @ '' '' @ trim_blanks line) r = (kv', rest)"
        by (simp add: continued_line.simps [of kv data])
      from 1(1) [OF True Some p [symmetric] this] obtain used where "r = used @ rest" by blast
      moreover obtain u where "dropWhile is_blank data = u @ r" using read_line_suffix [OF Some [unfolded p]] by blast
      ultimately have "data = (takeWhile is_blank data @ u @ used) @ rest"
        by (metis append_assoc takeWhile_dropWhile_id)
      then show ?thesis by blast
    qed
  next
    case False
    with 1(2) show ?thesis by (simp add: continued_line.simps [of kv data])
  qed
qed

lemma continued_line_length: "continued_line kv data = (kv', rest) \<Longrightarrow> length rest \<le> length data"
  using continued_line_suffix by fastforce

text \<open>\<open>canonicalMIMEHeaderKey\<close>: a space is accepted in a name, which is then kept as it is.\<close>

definition mime_key :: "string \<Rightarrow> string option" where
  "mime_key k =
     (if k = [] \<or> \<not> list_all (\<lambda>c. valid_header_byte c \<or> c = CHR '' '') k then None
      else if CHR '' '' \<in> set k then Some k else Some (canonical_from True k))"

definition valid_value_byte :: "char \<Rightarrow> bool" where
  "valid_value_byte c \<longleftrightarrow> 32 \<le> byte_val c \<and> byte_val c \<noteq> 127 \<or> c = CHR 0x09"

definition header_entry :: "string \<Rightarrow> (string \<times> string) option" where
  "header_entry kv =
     (case cut_at (CHR '':'') kv of
        None \<Rightarrow> None
      | Some (k, v) \<Rightarrow>
          (case mime_key k of
             None \<Rightarrow> None
           | Some key \<Rightarrow> (if list_all valid_value_byte v then Some (key, dropWhile is_blank v) else None)))"

definition header_add :: "string \<Rightarrow> string \<Rightarrow> headers \<Rightarrow> headers" where
  "header_add key v h = h(key := h key @ [v])"

datatype mime_error = Mime_Read \<comment> \<open>the connection failed or ended\<close> | Mime_Malformed

function mime_loop :: "bytes \<Rightarrow> headers \<Rightarrow> mime_error + headers \<times> bytes" where
  "mime_loop data h =
     (case read_line data of
        None \<Rightarrow> Inl Mime_Read
      | Some (line, rest) \<Rightarrow>
          (if line = [] then Inr (h, rest)
           else if CHR '':'' \<notin> set line then Inl Mime_Malformed
           else case continued_line (trim_blanks line) rest of
               (kv, rest') \<Rightarrow>
                 (case header_entry kv of
                    None \<Rightarrow> Inl Mime_Malformed
                  | Some (key, v) \<Rightarrow> mime_loop rest' (header_add key v h))))"
  by auto
termination
  by (relation "measure (\<lambda>(data, h). length data)")
    (auto dest!: read_line_shrinks continued_line_length [OF sym])

declare mime_loop.simps [simp del]

definition read_mime_header :: "bytes \<Rightarrow> mime_error + headers \<times> bytes" where
  "read_mime_header data =
     (if data \<noteq> [] \<and> is_blank (hd data) then Inl Mime_Malformed else mime_loop data no_headers)"

lemma mime_loop_suffix: "mime_loop data h = Inr (h', rest) \<Longrightarrow> \<exists>used. data = used @ rest"
proof (induction data h rule: mime_loop.induct)
  case (1 data h)
  from 1(2) obtain line r where l: "read_line data = Some (line, r)"
    by (subst (asm) mime_loop.simps) (auto split: option.splits)
  obtain u where u: "data = u @ r" using read_line_suffix [OF l] by blast
  show ?case
  proof (cases "line = []")
    case True
    with 1(2) l u show ?thesis by (subst (asm) mime_loop.simps) auto
  next
    case False
    obtain kv r' where c: "continued_line (trim_blanks line) r = (kv, r')" by fastforce
    from 1(2) False l c obtain key v where e: "CHR '':'' \<in> set line" "header_entry kv = Some (key, v)"
      "mime_loop r' (header_add key v h) = Inr (h', rest)"
      by (subst (asm) mime_loop.simps) (auto split: option.splits if_splits)
    from 1(1) [OF l refl False _ c [symmetric] e(2) refl e(3)] e(1) obtain w where "r' = w @ rest" by blast
    moreover obtain w' where "r = w' @ r'" using continued_line_suffix [OF c] by blast
    ultimately show ?thesis using u by simp
  qed
qed

lemma read_mime_suffix: "read_mime_header data = Inr (h, rest) \<Longrightarrow> \<exists>used. data = used @ rest"
  by (auto simp: read_mime_header_def dest: mime_loop_suffix split: if_splits)

section \<open>Reading what was written\<close>

definition crlf :: string where
  "crlf = [CHR 0x0D, CHR 0x0A]"

lemma cut_at_found: "c \<notin> set a \<Longrightarrow> cut_at c (a @ c # b) = Some (a, b)"
  by (induction a) auto

lemma read_line_crlf: "CHR 0x0A \<notin> set l \<Longrightarrow> read_line (l @ crlf @ rest) = Some (l, rest)"
  using cut_at_found [of "CHR 0x0A" "l @ [CHR 0x0D]" rest] by (simp add: read_line_def crlf_def)

lemma mime_header_line:
  assumes "CHR 0x0A \<notin> set l" "CHR '':'' \<in> set l" "rest \<noteq> [] \<Longrightarrow> \<not> is_blank (hd rest)" "header_entry (trim_blanks l) = Some (key, v)"
  shows "mime_loop (l @ crlf @ rest) h = mime_loop rest (header_add key v h)"
proof -
  have "l \<noteq> []" using assms(2) by auto
  moreover have "continued_line (trim_blanks l) rest = (trim_blanks l, rest)"
    using assms(3) by (subst continued_line.simps) auto
  ultimately show ?thesis using assms by (subst mime_loop.simps) (simp add: read_line_crlf)
qed

lemma mime_end: "mime_loop (crlf @ rest) h = Inr (h, rest)"
  using read_line_crlf [of "[]" rest] by (subst mime_loop.simps) simp

end
