(* ===== verification/Session.thy ===== *)
theory Session
  imports Go_Strconv Go_Url_Text Go_Textproto Receipt_Sound Go_Error
begin

text \<open>
  The attested session (\<open>session.go\<close>): one TLS connection over which the attestation document is
  fetched and to which it is bound.  What the connection does is an environment: the outcome
  of dialling, the peer's certificate, the TLS exporter, the random nonce, the bytes the peer
  sends, and the errors of the context, of the write and of the read.
\<close>

datatype session_error =
    Target_Error string
  | Context_Error go_error
  | Dial_Error go_error
  | No_Peer_Certificate
  | Exporter_Error go_error
  | Nonce_Error go_error
  | Nil_Session
  | Write_Error go_error
  | Short_Write
  | Read_Error go_error \<comment> \<open>the error of the connection, at its end\<close>
  | Short_Body
  | Malformed_Response string
  | Unpinnable string
  | Status_Error int string
  | Attestation_Failed attestation_error
  | Allocation_Panic \<comment> \<open>\<open>make([]byte, n)\<close> with a length out of range\<close>

section \<open>The target\<close>

record gateway_session_target =
  gt_server_name :: string
  gt_host_header :: string
  gt_dial_address :: string
  gt_attestation_path :: string

definition session_root :: "string \<Rightarrow> string" where
  "session_root base_url =
     trim_suffix (trim_right (CHR ''/'') (if base_url = [] then ''https://api.trustedrouter.com/v1'' else base_url)) ''/v1''"

definition parse_gateway_session_target :: "string \<Rightarrow> string \<Rightarrow> session_error + gateway_session_target" where
  "parse_gateway_session_target base_url connect_ip =
     and_then (from_option (Target_Error ''parse'') (url_parse (session_root base_url))) (\<lambda>u.
     and_then (require (url_scheme u = ''https'') (Target_Error ''gateway session requires https base URL'')) (\<lambda>_.
     and_then (require (url_user u = None) (Target_Error ''gateway session base URL must not contain userinfo'')) (\<lambda>_.
     and_then (require (url_hostname u \<noteq> []) (Target_Error ''missing host in base URL'')) (\<lambda>_.
     Inr \<lparr>gt_server_name = url_hostname u,
          gt_host_header = (if url_host u = [] then url_hostname u else url_host u),
          gt_dial_address = join_host_port (if connect_ip = [] then url_hostname u else connect_ip)
             (if url_port u = [] then ''443'' else url_port u),
          gt_attestation_path = (let path = escaped_path u in
             if path = [] \<or> path = ''/'' then ''/attestation''
             else trim_right (CHR ''/'') path @ ''/attestation'')\<rparr>))))"

section \<open>The response\<close>

record gateway_session_http_response =
  gr_proto :: string
  gr_major :: int
  gr_minor :: int
  gr_status :: int
  gr_header :: headers
  gr_body :: bytes

text \<open>\<open>http.ParseHTTPVersion\<close>.\<close>

definition parse_http_version :: "string \<Rightarrow> (int \<times> int) option" where
  "parse_http_version v =
     (if has_prefix v ''HTTP/'' \<and> length v = 8 \<and> v ! 6 = CHR ''.'' \<and> is_digit (v ! 5) \<and> is_digit (v ! 7)
      then Some (int (digit_val (v ! 5)), int (digit_val (v ! 7))) else None)"

definition length_parts :: "headers \<Rightarrow> string list" where
  "length_parts h = map trim_space (concat (map (split_on (CHR '','')) (header_values h ''Content-Length'')))"

fun agree_lengths :: "string list \<Rightarrow> int \<Rightarrow> session_error + int" where
  "agree_lengths [] n = Inr n"
| "agree_lengths (part # parts) n =
     (case parse_decimal part of
        None \<Rightarrow> Inl (Malformed_Response ''invalid attestation Content-Length'')
      | Some i \<Rightarrow>
          (if i < 0 then Inl (Malformed_Response ''invalid attestation Content-Length'')
           else if 0 \<le> n \<and> n \<noteq> i then Inl (Malformed_Response ''conflicting attestation Content-Length values'')
           else agree_lengths parts i))"

definition max_int64 :: int where
  "max_int64 = 2 ^ 63 - 1"

definition gateway_session_content_length :: "headers \<Rightarrow> session_error + int" where
  "gateway_session_content_length h =
     and_then (require (header_values h ''Content-Length'' \<noteq> []) (Malformed_Response ''attestation response missing Content-Length'')) (\<lambda>_.
     and_then (agree_lengths (length_parts h) (- 1)) (\<lambda>n.
     and_then (require (0 \<le> n) (Malformed_Response ''attestation response missing Content-Length'')) (\<lambda>_.
     and_then (require (n \<le> max_int64) (Malformed_Response ''attestation response too large'')) (\<lambda>_.
     Inr n))))"

definition transfer_encoding_ok :: "headers \<Rightarrow> bool" where
  "transfer_encoding_ok h =
     (let te = trim_space (header_get h ''Transfer-Encoding'') in te = [] \<or> equal_fold te ''identity'')"

text \<open>
  \<open>max_alloc\<close> is the longest slice the runtime can allocate; \<open>read_err\<close> is the error of the
  connection after its last byte, \<open>None\<close> for a clean end.
\<close>

definition read_failed :: "go_error option \<Rightarrow> session_error" where
  "read_failed read_err = Read_Error (case read_err of None \<Rightarrow> Sentinel Io_EOF | Some e \<Rightarrow> e)"

definition read_body :: "int \<Rightarrow> go_error option \<Rightarrow> int \<Rightarrow> bytes \<Rightarrow> session_error + bytes \<times> bytes" where
  "read_body max_alloc read_err n data =
     (if max_alloc < n then Inl Allocation_Panic
      else if nat n \<le> length data then Inr (take (nat n) data, drop (nat n) data)
      else Inl (if data = [] \<or> read_err \<noteq> None then read_failed read_err else Short_Body))"

definition read_gateway_session_http_response ::
    "int \<Rightarrow> go_error option \<Rightarrow> bytes \<Rightarrow> session_error + gateway_session_http_response \<times> bytes" where
  "read_gateway_session_http_response max_alloc read_err data =
     and_then (from_option (read_failed read_err) (read_line data)) (\<lambda>(line, rest).
     and_then (from_option (Malformed_Response ''status line'') (cut_at (CHR '' '') line)) (\<lambda>(proto, status).
     and_then (from_option (Malformed_Response ''HTTP version'') (parse_http_version proto)) (\<lambda>(major, minor).
     and_then (require (major = 1 \<and> minor \<le> 1) (Malformed_Response ''HTTP version'')) (\<lambda>_.
     and_then (require (length (fst (cut_or_all (CHR '' '') status)) = 3) (Malformed_Response ''status code'')) (\<lambda>_.
     and_then (from_option (Malformed_Response ''status code'') (parse_decimal (fst (cut_or_all (CHR '' '') status)))) (\<lambda>code.
     and_then (change_error (\<lambda>e. case e of Mime_Read \<Rightarrow> read_failed read_err | Mime_Malformed \<Rightarrow> Malformed_Response ''header'')
       (read_mime_header rest)) (\<lambda>(h, rest').
     and_then (gateway_session_content_length h) (\<lambda>n.
     and_then (require (transfer_encoding_ok h) (Malformed_Response ''Transfer-Encoding'')) (\<lambda>_.
     and_then (read_body max_alloc read_err n rest') (\<lambda>(body, left).
     Inr (\<lparr>gr_proto = proto, gr_major = major, gr_minor = minor, gr_status = code, gr_header = h, gr_body = body\<rparr>, left)))))))))))"

definition gateway_session_connection_tokens :: "headers \<Rightarrow> bool \<times> bool" where
  "gateway_session_connection_tokens h =
     (let tokens = map (\<lambda>t. to_lower (trim_space t)) (concat (map (split_on (CHR '','')) (header_values h ''Connection'')))
      in (''close'' \<in> set tokens, ''keep-alive'' \<in> set tokens))"

definition require_gateway_session_keep_alive :: "gateway_session_http_response \<Rightarrow> session_error + unit" where
  "require_gateway_session_keep_alive resp =
     (let (close, keep) = gateway_session_connection_tokens (gr_header resp) in
      and_then (require (\<not> close) (Unpinnable ''server sent Connection: close'')) (\<lambda>_.
      require (\<not> (gr_major resp = 1 \<and> gr_minor resp = 0 \<and> \<not> keep)) (Unpinnable ''HTTP/1.0 response without Connection: keep-alive'')))"

section \<open>Fetching the document\<close>

record conn_env =
  ce_max_alloc :: int
  ce_ctx_before :: "go_error option" \<comment> \<open>\<open>ctx.Err()\<close> before the request\<close>
  ce_ctx_after :: "go_error option" \<comment> \<open>\<open>ctx.Err()\<close> when the exchange fails\<close>
  ce_written :: "nat + go_error" \<comment> \<open>bytes that were written\<close>
  ce_read_err :: "go_error option"

definition attestation_request :: "string \<Rightarrow> string \<Rightarrow> string \<Rightarrow> string \<Rightarrow> string" where
  "attestation_request agent host_header path nonce_hex =
     ''GET '' @ path @ (if nonce_hex = [] then [] else ''?nonce='' @ url_escape Esc_Query nonce_hex) @ '' HTTP/1.1'' @ crlf @
     ''Host: '' @ host_header @ crlf @ ''User-Agent: '' @ agent @ crlf @ ''Connection: keep-alive'' @ crlf @ crlf"

definition or_context :: "conn_env \<Rightarrow> session_error \<Rightarrow> session_error" where
  "or_context env e =
     (if e = Allocation_Panic then e else case ce_ctx_after env of Some x \<Rightarrow> Context_Error x | None \<Rightarrow> e)"

text \<open>The document and what is left on the connection.\<close>

definition fetch_attestation_on_conn ::
    "conn_env \<Rightarrow> string \<Rightarrow> string \<Rightarrow> string \<Rightarrow> string \<Rightarrow> bytes \<Rightarrow> session_error + bytes \<times> bytes" where
  "fetch_attestation_on_conn env agent host_header path nonce_hex data =
     and_then (case ce_ctx_before env of Some e \<Rightarrow> Inl (Context_Error e) | None \<Rightarrow> Inr ()) (\<lambda>_.
     and_then (case ce_written env of
         Inr e \<Rightarrow> Inl (or_context env (Write_Error e))
       | Inl n \<Rightarrow> require (n = length (attestation_request agent host_header path nonce_hex)) Short_Write) (\<lambda>_.
     and_then (change_error (or_context env) (read_gateway_session_http_response (ce_max_alloc env) (ce_read_err env) data))
       (\<lambda>(resp, left).
     and_then (require_gateway_session_keep_alive resp) (\<lambda>_.
     and_then (require (gr_status resp = 200) (Status_Error (gr_status resp) (truncate_string (gr_body resp) 240))) (\<lambda>_.
     Inr (gr_body resp, left))))))"

section \<open>The session\<close>

record session_env =
  sv_agent :: string
  sv_dial :: "go_error option" \<comment> \<open>\<open>None\<close>: connected\<close>
  sv_ctx_dial :: "go_error option" \<comment> \<open>\<open>ctx.Err()\<close> when dialling fails\<close>
  sv_leaf :: "bytes option"
  sv_exporter :: "bytes + go_error"
  sv_entropy :: "bytes + go_error"
  sv_conn :: conn_env
  sv_data :: bytes
  sv_now :: int
  sv_jwks :: "attestation_error + object"
  sv_crypto :: attestation_crypto

record session_options =
  sp_base_url :: string
  sp_policy :: attestation_policy
  sp_connect_ip :: string

record gateway_session =
  gs_attestation :: gateway_attestation
  gs_exporter :: bytes
  gs_leaf :: bytes
  gs_unread :: bytes \<comment> \<open>behind \<open>Reader\<close>\<close>
  gs_host_header :: string
  gs_attestation_path :: string

definition from_env :: "('e \<Rightarrow> session_error) \<Rightarrow> 'a + 'e \<Rightarrow> session_error + 'a" where
  "from_env f m = (case m of Inl x \<Rightarrow> Inr x | Inr e \<Rightarrow> Inl (f e))"

lemma from_env_iff [check_iff]: "from_env f m = Inr x \<longleftrightarrow> m = Inl x"
  by (cases m) (simp_all add: from_env_def)

definition verify_gateway_session :: "session_options \<Rightarrow> session_env \<Rightarrow> session_error + gateway_session" where
  "verify_gateway_session opts env =
     and_then (parse_gateway_session_target (sp_base_url opts) (sp_connect_ip opts)) (\<lambda>target.
     and_then (case sv_dial env of None \<Rightarrow> Inr ()
       | Some e \<Rightarrow> Inl (case sv_ctx_dial env of Some x \<Rightarrow> Context_Error x | None \<Rightarrow> Dial_Error e)) (\<lambda>_.
     and_then (from_option No_Peer_Certificate (sv_leaf env)) (\<lambda>leaf.
     and_then (from_env Exporter_Error (sv_exporter env)) (\<lambda>exporter.
     and_then (from_env Nonce_Error (sv_entropy env)) (\<lambda>entropy.
     and_then (fetch_attestation_on_conn (sv_conn env) (sv_agent env) (gt_host_header target) (gt_attestation_path target)
         (hex_encode entropy) (sv_data env)) (\<lambda>(document, left).
     and_then (change_error Attestation_Failed
         (verify_gateway_attestation (sv_crypto env) (sv_now env) document (sv_jwks env) (sp_policy opts)
            (hex_encode entropy) (Some leaf) exporter)) (\<lambda>attestation.
     Inr \<lparr>gs_attestation = attestation, gs_exporter = exporter, gs_leaf = leaf, gs_unread = left,
          gs_host_header = gt_host_header target, gs_attestation_path = gt_attestation_path target\<rparr>)))))))"

text \<open>\<open>FetchAttestationAgain\<close>: on the same connection, without a nonce.\<close>

definition fetch_attestation_again :: "conn_env \<Rightarrow> string \<Rightarrow> gateway_session option \<Rightarrow> session_error + bytes \<times> gateway_session" where
  "fetch_attestation_again env agent session =
     and_then (from_option Nil_Session session) (\<lambda>s.
     and_then (fetch_attestation_on_conn env agent (gs_host_header s) (gs_attestation_path s) [] (gs_unread s)) (\<lambda>(document, left).
     Inr (document, s\<lparr>gs_unread := left\<rparr>)))"

end
