(* ===== verification/Session_Facts.thy ===== *)
theory Session_Facts
  imports Session Receipt_Examples
begin

text \<open>What a response that was read, and a session that was verified, guarantee.\<close>

section \<open>Framing\<close>

lemma agree_lengths_iff:
  "agree_lengths parts n = Inr m \<Longrightarrow>
     (\<forall>p \<in> set parts. parse_decimal p = Some m \<and> 0 \<le> m) \<and> (parts = [] \<longrightarrow> m = n) \<and> (0 \<le> n \<longrightarrow> m = n)"
  by (induction parts n rule: agree_lengths.induct) (auto split: option.splits if_splits)

lemma content_length_agreed:
  assumes "gateway_session_content_length h = Inr n"
  shows "0 \<le> n \<and> n \<le> max_int64 \<and> length_parts h \<noteq> [] \<and> (\<forall>p \<in> set (length_parts h). parse_decimal p = Some n)"
  using assms agree_lengths_iff [of "length_parts h" "- 1" n]
  by (auto simp: gateway_session_content_length_def check_iff)

lemma read_body_split:
  "read_body max_alloc read_err n data = Inr (body, left) \<Longrightarrow> 0 \<le> n \<Longrightarrow>
     data = body @ left \<and> int (length body) = n \<and> n \<le> max_alloc"
  by (auto simp: read_body_def split: if_splits)

lemma response_framed:
  assumes "read_gateway_session_http_response max_alloc read_err data = Inr (resp, left)"
  shows "(\<exists>head. data = head @ gr_body resp @ left) \<and> int (length (gr_body resp)) \<le> max_alloc \<and>
    length_parts (gr_header resp) \<noteq> [] \<and>
    (\<forall>p \<in> set (length_parts (gr_header resp)). parse_decimal p = Some (int (length (gr_body resp)))) \<and>
    transfer_encoding_ok (gr_header resp) \<and> gr_major resp = 1 \<and> gr_minor resp \<le> 1"
proof -
  obtain line rest major minor h rest' n where
    l: "read_line data = Some (line, rest)" and m: "major = 1" "minor \<le> 1" and
    h: "read_mime_header rest = Inr (h, rest')" and n: "gateway_session_content_length h = Inr n" and
    t: "transfer_encoding_ok h" and b: "read_body max_alloc read_err n rest' = Inr (gr_body resp, left)" and
    r: "gr_header resp = h" "gr_major resp = major" "gr_minor resp = minor"
    using assms by (auto simp: read_gateway_session_http_response_def check_iff split_beta)
  obtain u where "data = u @ rest" using read_line_suffix [OF l] by blast
  moreover obtain w where "rest = w @ rest'" using read_mime_suffix [OF h] by blast
  moreover note read_body_split [OF b] content_length_agreed [OF n]
  ultimately have "data = (u @ w) @ gr_body resp @ left" by simp
  then show ?thesis using m t r content_length_agreed [OF n] read_body_split [OF b] by (intro conjI exI) simp_all
qed


section \<open>Binding\<close>

lemma fetched_on_conn:
  assumes "fetch_attestation_on_conn env agent host path nonce data = Inr (document, left)"
  shows "\<exists>resp. read_gateway_session_http_response (ce_max_alloc env) (ce_read_err env) data = Inr (resp, left) \<and>
    gr_status resp = 200 \<and> gr_body resp = document \<and> require_gateway_session_keep_alive resp = Inr () \<and>
    ce_written env = Inl (length (attestation_request agent host path nonce))"
  using assms by (auto simp: fetch_attestation_on_conn_def check_iff split: option.splits sum.splits)

lemma target_facts:
  assumes "parse_gateway_session_target base_url connect_ip = Inr target"
  shows "\<exists>u. url_parse (session_root base_url) = Some u \<and> url_scheme u = ''https'' \<and> url_user u = None \<and>
    gt_server_name target = url_hostname u \<and> gt_server_name target \<noteq> [] \<and>
    gt_host_header target = (if url_host u = [] then url_hostname u else url_host u)"
  using assms by (auto simp: parse_gateway_session_target_def check_iff)

lemma session_steps:
  assumes "verify_gateway_session opts env = Inr s"
  shows "\<exists>target leaf entropy document.
    parse_gateway_session_target (sp_base_url opts) (sp_connect_ip opts) = Inr target \<and> sv_dial env = None \<and>
    sv_leaf env = Some leaf \<and> sv_exporter env = Inl (gs_exporter s) \<and> sv_entropy env = Inl entropy \<and>
    fetch_attestation_on_conn (sv_conn env) (sv_agent env) (gt_host_header target) (gt_attestation_path target)
      (hex_encode entropy) (sv_data env) = Inr (document, gs_unread s) \<and>
    verify_gateway_attestation (sv_crypto env) (sv_now env) document (sv_jwks env) (sp_policy opts)
      (hex_encode entropy) (Some leaf) (gs_exporter s) = Inr (gs_attestation s) \<and> gs_leaf s = leaf"
  using assms by (auto simp: verify_gateway_session_def check_iff split: option.splits)

text \<open>
  C24. A verified session is bound to its own connection.  The host is https without user
  information; the document is the body of a 200 keep-alive response read from this connection,
  in answer to a request with a nonce drawn for it; the document is signed by the key set and
  its claims carry that nonce and, different from it, the TLS exporter of this connection, the
  certificate hash of this connection's peer, a genuine platform and a pinned image.
\<close>
theorem verified_session_bound:
  assumes "verify_gateway_session opts env = Inr s" "sv_exporter env \<noteq> Inl []"
  shows "\<exists>target entropy resp keys.
    parse_gateway_session_target (sp_base_url opts) (sp_connect_ip opts) = Inr target \<and> gt_server_name target \<noteq> [] \<and>
    sv_dial env = None \<and> sv_leaf env = Some (gs_leaf s) \<and> sv_exporter env = Inl (gs_exporter s) \<and> sv_entropy env = Inl entropy \<and>
    read_gateway_session_http_response (ce_max_alloc (sv_conn env)) (ce_read_err (sv_conn env)) (sv_data env) = Inr (resp, gs_unread s) \<and>
    gr_status resp = 200 \<and> require_gateway_session_keep_alive resp = Inr () \<and>
    sv_jwks env = Inr keys \<and> signed_token (sv_crypto env) (gr_body resp) keys (ga_raw_claims (gs_attestation s)) \<and>
    genuine_platform (sv_now env) (ga_raw_claims (gs_attestation s)) (sp_policy opts) (ga_expires_at (gs_attestation s)) \<and>
    genuine_image (ga_raw_claims (gs_attestation s)) (sp_policy opts) \<and>
    {hex_encode entropy, hex_encode (gs_exporter s)} \<subseteq> set (nonce_list (ga_raw_claims (gs_attestation s))) \<and>
    hex_encode entropy \<noteq> hex_encode (gs_exporter s) \<and> ga_nonce (gs_attestation s) = Some (hex_encode entropy) \<and>
    ga_cert_sha256 (gs_attestation s) = sha256_hex (sv_crypto env) (gs_leaf s)"
proof -
  obtain target entropy document where
    t: "parse_gateway_session_target (sp_base_url opts) (sp_connect_ip opts) = Inr target" and d: "sv_dial env = None" and
    e: "sv_leaf env = Some (gs_leaf s)" "sv_exporter env = Inl (gs_exporter s)" "sv_entropy env = Inl entropy" and
    f: "fetch_attestation_on_conn (sv_conn env) (sv_agent env) (gt_host_header target) (gt_attestation_path target)
      (hex_encode entropy) (sv_data env) = Inr (document, gs_unread s)" and
    v: "verify_gateway_attestation (sv_crypto env) (sv_now env) document (sv_jwks env) (sp_policy opts)
      (hex_encode entropy) (Some (gs_leaf s)) (gs_exporter s) = Inr (gs_attestation s)"
    using session_steps [OF assms(1)] by blast
  from assms(2) e(2) have "gs_exporter s \<noteq> []" by auto
  moreover obtain resp where "read_gateway_session_http_response (ce_max_alloc (sv_conn env)) (ce_read_err (sv_conn env)) (sv_data env) = Inr (resp, gs_unread s)"
    "gr_status resp = 200" "gr_body resp = document" "require_gateway_session_keep_alive resp = Inr ()"
    using fetched_on_conn [OF f] by blast
  moreover have "gt_server_name target \<noteq> []" using target_facts [OF t] by blast
  ultimately show ?thesis
    using gateway_attestation_facts [OF v] t d e
    by (intro exI [of _ target] exI [of _ entropy] exI [of _ resp]) auto
qed

section \<open>A concrete session\<close>

definition session_claims_text :: string where
  "session_claims_text = example_claims_text (hex_encode ''AB'' @ ''~,~'' @ hex_encode ''XY'') example_cert"

definition session_claims :: object where
  "session_claims = (example_claims [] example_cert)
     [8 := (''eat_nonce'', GSlice [GString (hex_encode ''AB''), GString (hex_encode ''XY'')])]"

definition session_response :: bytes where
  "session_response = ''HTTP/1.1 200 OK'' @ crlf @ ''Content-Type: text/plain'' @ crlf @
     ''Content-Length: '' @ itoa (int (length (signed_example session_claims_text))) @ crlf @ crlf @
     signed_example session_claims_text"

definition example_max_alloc :: int where
  "example_max_alloc = 2 ^ 40"

definition session_env_example :: session_env where
  "session_env_example = \<lparr>sv_agent = ''agent'', sv_dial = None, sv_ctx_dial = None, sv_leaf = Some ''der'',
     sv_exporter = Inl ''XY'', sv_entropy = Inl ''AB'',
     sv_conn = \<lparr>ce_max_alloc = example_max_alloc, ce_ctx_before = None, ce_ctx_after = None,
        ce_written = Inl (length (attestation_request ''agent'' ''api.trustedrouter.com'' ''/attestation'' (hex_encode ''AB''))),
        ce_read_err = None\<rparr>,
     sv_data = session_response @ ''more'', sv_now = 7, sv_jwks = Inr example_jwks, sv_crypto = example_ac\<rparr>"

definition session_options_example :: session_options where
  "session_options_example = \<lparr>sp_base_url = [], sp_policy = example_policy, sp_connect_ip = []\<rparr>"

lemma session_target:
  "parse_gateway_session_target [] [] = Inr \<lparr>gt_server_name = ''api.trustedrouter.com'', gt_host_header = ''api.trustedrouter.com'',
     gt_dial_address = ''api.trustedrouter.com:443'', gt_attestation_path = ''/attestation''\<rparr>"
  by code_simp

lemma session_json: "decode_json_object session_claims_text = Some session_claims"
  by code_simp

lemma session_checked:
  "\<exists>g. check_attestation_claims example_ac 7 session_claims example_policy (hex_encode ''AB'') (Some ''der'') ''XY'' Binding_Live_Channel = Inr g"
proof -
  have "case check_attestation_claims example_ac 7 session_claims example_policy (hex_encode ''AB'') (Some ''der'') ''XY'' Binding_Live_Channel
      of Inr g \<Rightarrow> True | Inl e \<Rightarrow> False" by code_simp
  then show ?thesis by (auto split: sum.splits)
qed

definition session_header :: headers where
  "session_header = header_add ''Content-Length'' ''546'' (header_add ''Content-Type'' ''text/plain'' no_headers)"

lemma session_response_text:
  "session_response @ ''more'' = ''HTTP/1.1 200 OK'' @ crlf @ ''Content-Type: text/plain'' @ crlf @ ''Content-Length: 546'' @ crlf @
     crlf @ signed_example session_claims_text @ ''more''"
proof -
  have "itoa (int (length (signed_example session_claims_text))) = ''546''" by code_simp
  then show ?thesis by (simp add: session_response_def)
qed

lemma session_mime: "read_mime_header (''Content-Type: text/plain'' @ crlf @ ''Content-Length: 546'' @ crlf @ crlf @ rest) = Inr (session_header, rest)"
proof -
  have e: "header_entry (trim_blanks ''Content-Type: text/plain'') = Some (''Content-Type'', ''text/plain'')"
    "header_entry (trim_blanks ''Content-Length: 546'') = Some (''Content-Length'', ''546'')" by code_simp+
  have "mime_loop (''Content-Length: 546'' @ crlf @ crlf @ rest) h = Inr (header_add ''Content-Length'' ''546'' h, rest)" for h
    by (subst mime_header_line [OF _ _ _ e(2)]) (simp_all add: mime_end, simp add: crlf_def is_blank_def)
  moreover have "mime_loop (''Content-Type: text/plain'' @ crlf @ ''Content-Length: 546'' @ crlf @ crlf @ rest) no_headers =
      mime_loop (''Content-Length: 546'' @ crlf @ crlf @ rest) (header_add ''Content-Type'' ''text/plain'' no_headers)"
    by (subst mime_header_line [OF _ _ _ e(1)]) (simp_all add: is_blank_def)
  ultimately show ?thesis by (simp add: read_mime_header_def is_blank_def session_header_def)
qed

lemma ok_response:
  assumes "read_line data = Some (''HTTP/1.1 200 OK'', rest)" "read_mime_header rest = Inr (h, rest')"
    "gateway_session_content_length h = Inr n" "transfer_encoding_ok h"
  shows "read_gateway_session_http_response max_alloc read_err data =
    and_then (read_body max_alloc read_err n rest') (\<lambda>(body, left).
      Inr (\<lparr>gr_proto = ''HTTP/1.1'', gr_major = 1, gr_minor = 1, gr_status = 200, gr_header = h, gr_body = body\<rparr>, left))"
proof -
  have "cut_at (CHR '' '') ''HTTP/1.1 200 OK'' = Some (''HTTP/1.1'', ''200 OK'')" "parse_http_version ''HTTP/1.1'' = Some (1, 1)"
    "fst (cut_or_all (CHR '' '') ''200 OK'') = ''200''" "parse_decimal ''200'' = Some 200" by code_simp+
  with assms show ?thesis
    by (simp add: read_gateway_session_http_response_def from_option_def change_error_def require_def)
qed

lemma session_read:
  "\<exists>resp. read_gateway_session_http_response example_max_alloc None (session_response @ ''more'') = Inr (resp, ''more'') \<and>
     gr_status resp = 200 \<and> gr_body resp = signed_example session_claims_text \<and> require_gateway_session_keep_alive resp = Inr ()"
proof -
  have h: "gateway_session_content_length session_header = Inr 546" "transfer_encoding_ok session_header"
    "gateway_session_connection_tokens session_header = (False, False)" by code_simp+
  have len: "length (signed_example session_claims_text) = 546" by code_simp
  have l: "read_line (session_response @ ''more'') = Some (''HTTP/1.1 200 OK'',
      ''Content-Type: text/plain'' @ crlf @ ''Content-Length: 546'' @ crlf @ crlf @ signed_example session_claims_text @ ''more'')"
    unfolding session_response_text by (rule read_line_crlf) simp
  have b: "read_body example_max_alloc None 546 (signed_example session_claims_text @ ''more'') = Inr (signed_example session_claims_text, ''more'')"
    by (simp add: read_body_def len example_max_alloc_def)
  show ?thesis
    by (simp add: ok_response [OF l session_mime h(1,2)] b require_gateway_session_keep_alive_def h(3) require_def)
qed

lemma session_verified: "\<exists>s. verify_gateway_session session_options_example session_env_example = Inr s"
proof -
  obtain g where g: "check_attestation_claims example_ac 7 session_claims example_policy (hex_encode ''AB'') (Some ''der'') ''XY'' Binding_Live_Channel = Inr g"
    using session_checked by blast
  obtain resp where r: "read_gateway_session_http_response example_max_alloc None (session_response @ ''more'') = Inr (resp, ''more'')"
    "gr_status resp = 200" "gr_body resp = signed_example session_claims_text" "require_gateway_session_keep_alive resp = Inr ()"
    using session_read by blast
  have "verify_gateway_attestation example_ac 7 (signed_example session_claims_text) (Inr example_jwks) example_policy (hex_encode ''AB'') (Some ''der'') ''XY'' = Inr g"
    by (simp add: verify_gateway_attestation_def signed_example_claims [OF session_json] g)
  then show ?thesis
    by (simp add: verify_gateway_session_def session_options_example_def session_env_example_def session_target from_option_def
        from_env_def fetch_attestation_on_conn_def require_def r change_error_def del: append_assoc)
qed


theorem verified_session_bound_witness:
  "\<exists>s. verify_gateway_session session_options_example session_env_example = Inr s \<and>
     {hex_encode ''AB'', hex_encode ''XY''} \<subseteq> set (nonce_list (ga_raw_claims (gs_attestation s)))"
proof -
  obtain s where s: "verify_gateway_session session_options_example session_env_example = Inr s" using session_verified by blast
  have x: "sv_exporter session_env_example = Inl ''XY''" "sv_entropy session_env_example = Inl ''AB''"
    by (simp_all add: session_env_example_def)
  then have "sv_exporter session_env_example \<noteq> Inl []" by simp
  from verified_session_bound [OF s this] x s show ?thesis by auto
qed

section \<open>A length no slice can have\<close>

text \<open>
  The check for a response that is too large compares with the largest int, which no int64
  exceeds; so a declared length that the runtime cannot allocate panics instead.
\<close>

lemma huge_length_panics:
  assumes "0 \<le> max_alloc" "max_alloc < max_int64"
  shows "read_gateway_session_http_response max_alloc read_err
     (''HTTP/1.1 200 OK'' @ crlf @ ''Content-Length: 9223372036854775807'' @ crlf @ crlf @ rest) = Inl Allocation_Panic"
proof -
  let ?h = "header_add ''Content-Length'' ''9223372036854775807'' no_headers"
  let ?rest = "''Content-Length: 9223372036854775807'' @ crlf @ crlf @ rest"
  have e: "header_entry (trim_blanks ''Content-Length: 9223372036854775807'') = Some (''Content-Length'', ''9223372036854775807'')"
    by code_simp
  have "mime_loop ?rest no_headers = Inr (?h, rest)"
    by (subst mime_header_line [OF _ _ _ e]) (simp_all add: mime_end, simp add: crlf_def is_blank_def)
  then have m: "read_mime_header ?rest = Inr (?h, rest)"
    by (simp add: read_mime_header_def is_blank_def)
  have h: "gateway_session_content_length ?h = Inr max_int64" "transfer_encoding_ok ?h" by code_simp+
  have l: "read_line (''HTTP/1.1 200 OK'' @ crlf @ ?rest) = Some (''HTTP/1.1 200 OK'', ?rest)"
    by (rule read_line_crlf) simp
  show ?thesis unfolding ok_response [OF l m h] using assms by (simp add: read_body_def)
qed

end
