(* ===== verification/Session_Deadline.thy ===== *)
theory Session_Deadline
  imports Session_Facts
begin

text \<open>
  \<open>setConnContextDeadline\<close> of \<open>session.go\<close>: the deadline of the connection during one exchange,
  the goroutine that watches the caller's context, and the cleanup that ends both.  The two run
  concurrently; a step is one action of either, of the context or of the clock.
\<close>

section \<open>State and steps\<close>

datatype watcher = Watching | Interrupting | Watcher_Gone

datatype exchange_phase = Exchanging | Done_Closed | Cleared

record conn_deadline_state =
  cd_now :: instant
  cd_deadline :: "instant option" \<comment> \<open>of reads and writes on the connection\<close>
  cd_ctx_done :: bool
  cd_watcher :: watcher
  cd_phase :: exchange_phase

text \<open>The deadline that is set: the timeout's, or the context's when it is earlier.\<close>

definition exchange_deadline :: "duration \<Rightarrow> instant \<Rightarrow> instant option \<Rightarrow> instant option" where
  "exchange_deadline timeout now ctx_deadline =
     (let own = (if 0 < timeout then Some (now + timeout) else None) in
      case ctx_deadline of
        None \<Rightarrow> own
      | Some c \<Rightarrow> (case own of None \<Rightarrow> Some c | Some d \<Rightarrow> (if c < d then Some c else Some d)))"

definition exchange_start :: "duration \<Rightarrow> instant \<Rightarrow> instant option \<Rightarrow> instant option \<Rightarrow> conn_deadline_state" where
  "exchange_start timeout now ctx_deadline old =
     \<lparr>cd_now = now,
      cd_deadline = (case exchange_deadline timeout now ctx_deadline of None \<Rightarrow> old | Some d \<Rightarrow> Some d),
      cd_ctx_done = False, cd_watcher = Watching, cd_phase = Exchanging\<rparr>"

inductive deadline_step :: "conn_deadline_state \<Rightarrow> conn_deadline_state \<Rightarrow> bool" where
  tick: "cd_now s \<le> t \<Longrightarrow> deadline_step s (s\<lparr>cd_now := t\<rparr>)"
| context_ends: "deadline_step s (s\<lparr>cd_ctx_done := True\<rparr>)"
| watcher_interrupts: "cd_watcher s = Watching \<Longrightarrow> cd_ctx_done s \<Longrightarrow> deadline_step s (s\<lparr>cd_watcher := Interrupting\<rparr>)"
| watcher_leaves: "cd_watcher s = Watching \<Longrightarrow> cd_phase s \<noteq> Exchanging \<Longrightarrow> deadline_step s (s\<lparr>cd_watcher := Watcher_Gone\<rparr>)"
| deadline_now: "cd_watcher s = Interrupting \<Longrightarrow>
    deadline_step s (s\<lparr>cd_watcher := Watcher_Gone, cd_deadline := Some (cd_now s)\<rparr>)"
| cleanup_closes: "cd_phase s = Exchanging \<Longrightarrow> deadline_step s (s\<lparr>cd_phase := Done_Closed\<rparr>)"
| cleanup_clears: "cd_phase s = Done_Closed \<Longrightarrow> deadline_step s (s\<lparr>cd_phase := Cleared, cd_deadline := None\<rparr>)"

section \<open>What every step keeps\<close>

text \<open>
  A deadline of the exchange never lies beyond the limit, unless it has expired already; only a
  context that has ended makes the watcher interrupt, and without one a cleared deadline stays
  cleared.
\<close>

definition deadline_inv :: "instant \<Rightarrow> conn_deadline_state \<Rightarrow> bool" where
  "deadline_inv limit s \<longleftrightarrow>
     (cd_phase s \<noteq> Cleared \<longrightarrow> (\<exists>d. cd_deadline s = Some d \<and> d \<le> max limit (cd_now s))) \<and>
     (cd_watcher s = Interrupting \<longrightarrow> cd_ctx_done s) \<and>
     (cd_phase s = Cleared \<and> \<not> cd_ctx_done s \<longrightarrow> cd_deadline s = None) \<and>
     (cd_phase s = Cleared \<longrightarrow> (\<forall>d. cd_deadline s = Some d \<longrightarrow> d \<le> cd_now s))"

lemma deadline_inv_step: "deadline_step s s' \<Longrightarrow> deadline_inv limit s \<Longrightarrow> deadline_inv limit s'"
  by (induction rule: deadline_step.induct) (auto simp: deadline_inv_def)

interpretation deadline_run: preserved deadline_step "deadline_inv limit" for limit
  by unfold_locales (rule deadline_inv_step)

lemma start_inv:
  assumes "exchange_deadline timeout now ctx_deadline = Some d" "d \<le> limit"
  shows "deadline_inv limit (exchange_start timeout now ctx_deadline old)"
  using assms by (simp add: deadline_inv_def exchange_start_def)

text \<open>
  C39. No exchange on the pinned connection can hang.  With a timeout or a context deadline, as
  long as the exchange runs (whatever the context, the watcher, the cleanup and the clock do, in
  any order) the connection has a deadline, which is at most the timeout after the start and at
  most the context's deadline, or has expired already; so no read or write outlasts both.  When
  the exchange is over and the context has not ended, the deadline is gone and the connection
  can be used without one.
\<close>
theorem exchange_never_hangs:
  assumes "0 < timeout \<or> ctx_deadline \<noteq> None" "deadline_step\<^sup>*\<^sup>* (exchange_start timeout now ctx_deadline old) s"
  shows "(cd_phase s \<noteq> Cleared \<longrightarrow>
      (\<exists>d. cd_deadline s = Some d \<and> (0 < timeout \<longrightarrow> d \<le> max (now + timeout) (cd_now s)) \<and>
        (\<forall>c. ctx_deadline = Some c \<longrightarrow> d \<le> max c (cd_now s)))) \<and>
    (cd_phase s = Cleared \<and> \<not> cd_ctx_done s \<longrightarrow> cd_deadline s = None)"
proof -
  have "\<exists>d. exchange_deadline timeout now ctx_deadline = Some d \<and> (0 < timeout \<longrightarrow> d \<le> now + timeout) \<and>
      (\<forall>c. ctx_deadline = Some c \<longrightarrow> d \<le> c)"
    by (cases ctx_deadline; cases "0 < timeout") (use assms(1) in \<open>auto simp: exchange_deadline_def\<close>)
  then obtain d where d: "exchange_deadline timeout now ctx_deadline = Some d" "0 < timeout \<Longrightarrow> d \<le> now + timeout"
    "\<And>c. ctx_deadline = Some c \<Longrightarrow> d \<le> c" by blast
  have inv: "deadline_inv d s" using deadline_run.reach_preserves [OF assms(2) start_inv [OF d(1) order_refl]] .
  have "\<exists>e. cd_deadline s = Some e \<and> (0 < timeout \<longrightarrow> e \<le> max (now + timeout) (cd_now s)) \<and>
      (\<forall>c. ctx_deadline = Some c \<longrightarrow> e \<le> max c (cd_now s))" if "cd_phase s \<noteq> Cleared"
  proof -
    from inv that obtain e where e: "cd_deadline s = Some e" "e \<le> max d (cd_now s)" by (auto simp: deadline_inv_def)
    have "e \<le> max (now + timeout) (cd_now s)" if "0 < timeout" using e(2) d(2) [OF that] by (simp add: max_def split: if_splits)
    moreover have "e \<le> max c (cd_now s)" if "ctx_deadline = Some c" for c
      using e(2) d(3) [OF that] by (simp add: max_def split: if_splits)
    ultimately show ?thesis using e(1) by blast
  qed
  moreover have "cd_deadline s = None" if "cd_phase s = Cleared" "\<not> cd_ctx_done s"
    using inv that by (simp add: deadline_inv_def)
  ultimately show ?thesis by blast
qed

text \<open>A watched context ends during the exchange: the deadline is now.\<close>

definition interrupted_exchange :: conn_deadline_state where
  "interrupted_exchange = \<lparr>cd_now = 7, cd_deadline = Some 7, cd_ctx_done = True, cd_watcher = Watcher_Gone, cd_phase = Exchanging\<rparr>"

lemma exchange_never_hangs_witness:
  "cd_phase interrupted_exchange \<noteq> Cleared \<and> (\<exists>d. cd_deadline interrupted_exchange = Some d \<and> d \<le> max (0 + 15) 7)"
proof -
  let ?s = "exchange_start 15 0 None None"
  have "deadline_step ?s (?s\<lparr>cd_now := 7\<rparr>)" by (rule tick) (simp add: exchange_start_def)
  moreover have "deadline_step (?s\<lparr>cd_now := 7\<rparr>) (?s\<lparr>cd_now := 7, cd_ctx_done := True\<rparr>)"
    using context_ends [of "?s\<lparr>cd_now := 7\<rparr>"] by simp
  moreover have "deadline_step (?s\<lparr>cd_now := 7, cd_ctx_done := True\<rparr>) (?s\<lparr>cd_now := 7, cd_ctx_done := True, cd_watcher := Interrupting\<rparr>)"
    using watcher_interrupts [of "?s\<lparr>cd_now := 7, cd_ctx_done := True\<rparr>"] by (simp add: exchange_start_def)
  moreover have "deadline_step (?s\<lparr>cd_now := 7, cd_ctx_done := True, cd_watcher := Interrupting\<rparr>) interrupted_exchange"
    using deadline_now [of "?s\<lparr>cd_now := 7, cd_ctx_done := True, cd_watcher := Interrupting\<rparr>"]
    by (simp add: exchange_start_def interrupted_exchange_def)
  ultimately have "deadline_step\<^sup>*\<^sup>* ?s interrupted_exchange" by (meson converse_rtranclp_into_rtranclp rtranclp.rtrancl_refl)
  from exchange_never_hangs [OF _ this] show ?thesis by (simp add: interrupted_exchange_def)
qed

section \<open>The cleanup does not wait for the watcher\<close>

text \<open>
  \<open>VerifyGatewaySession\<close> cancels its context when it returns, after the cleanup has cleared the
  deadline.  A watcher that has not run by then finds both channels ready, may take the one of
  the context, and sets the deadline to now: the connection handed to the caller times out at once.
\<close>

lemma cleared_deadline_comes_back:
  "\<exists>s1 s2. deadline_step\<^sup>*\<^sup>* (exchange_start 15 0 None None) s1 \<and> cd_phase s1 = Cleared \<and> \<not> cd_ctx_done s1 \<and>
     cd_deadline s1 = None \<and> deadline_step\<^sup>*\<^sup>* s1 s2 \<and> cd_deadline s2 = Some (cd_now s2)"
proof -
  let ?s = "exchange_start 15 0 None None"
  let ?s1 = "?s\<lparr>cd_phase := Cleared, cd_deadline := None\<rparr>"
  let ?s2 = "?s1\<lparr>cd_ctx_done := True\<rparr>"
  let ?s3 = "?s2\<lparr>cd_watcher := Interrupting\<rparr>"
  let ?s4 = "?s3\<lparr>cd_watcher := Watcher_Gone, cd_deadline := Some 0\<rparr>"
  have "deadline_step ?s (?s\<lparr>cd_phase := Done_Closed\<rparr>)" by (rule cleanup_closes) (simp add: exchange_start_def)
  moreover have "deadline_step (?s\<lparr>cd_phase := Done_Closed\<rparr>) ?s1"
    using cleanup_clears [of "?s\<lparr>cd_phase := Done_Closed\<rparr>"] by simp
  ultimately have "deadline_step\<^sup>*\<^sup>* ?s ?s1" by (meson converse_rtranclp_into_rtranclp rtranclp.rtrancl_refl)
  moreover have "deadline_step ?s1 ?s2" by (rule context_ends)
  moreover have "deadline_step ?s2 ?s3" by (rule watcher_interrupts) (simp_all add: exchange_start_def)
  moreover have "deadline_step ?s3 ?s4" using deadline_now [of ?s3] by (simp add: exchange_start_def)
  ultimately have "deadline_step\<^sup>*\<^sup>* ?s ?s1" "deadline_step\<^sup>*\<^sup>* ?s1 ?s4"
    by (meson converse_rtranclp_into_rtranclp rtranclp.rtrancl_refl)+
  moreover have "cd_phase ?s1 = Cleared" "\<not> cd_ctx_done ?s1" "cd_deadline ?s1 = None" "cd_deadline ?s4 = Some (cd_now ?s4)"
    by (simp_all add: exchange_start_def)
  ultimately show ?thesis by blast
qed

end
