(* ===== verification/Go_Query.thy ===== *)
theory Go_Query
  imports Go_Url_Text Go_Textproto Tokens "HOL-Library.Multiset"
begin

text \<open>
  Query strings are read back as they were written: \<open>Values.Encode\<close> followed by
  \<open>ParseQuery\<close> gives every key its values, in their order.
\<close>

section \<open>Setting and getting\<close>

lemma map_of_values_set: "map_of (values_set k v vs) k' = (if k' = k then Some [v] else map_of vs k')"
  by (induction k v vs rule: values_set.induct) auto

lemma map_of_values_add:
  "map_of (values_add k v vs) k' =
     (if k' = k then Some ((case map_of vs k of None \<Rightarrow> [] | Some ws \<Rightarrow> ws) @ [v]) else map_of vs k')"
  by (induction k v vs rule: values_add.induct) auto

lemma values_set_keys: "fst ` set (values_set k v vs) = insert k (fst ` set vs)"
  by (induction k v vs rule: values_set.induct) auto

lemma values_add_keys: "fst ` set (values_add k v vs) = insert k (fst ` set vs)"
  by (induction k v vs rule: values_add.induct) auto

lemma values_set_distinct: "distinct (map fst vs) \<Longrightarrow> distinct (map fst (values_set k v vs))"
  by (induction k v vs rule: values_set.induct) (auto simp: values_set_keys simp flip: image_set)

lemma values_add_distinct: "distinct (map fst vs) \<Longrightarrow> distinct (map fst (values_add k v vs))"
  by (induction k v vs rule: values_add.induct) (auto simp: values_add_keys simp flip: image_set)

lemma parse_query_distinct: "distinct (map fst (parse_query q))"
proof -
  have "distinct (map fst vs) \<Longrightarrow> distinct (map fst (fold (\<lambda>p vs. case parse_pair p of None \<Rightarrow> vs | Some (k, v) \<Rightarrow> values_add k v vs) ps vs))"
    for ps vs
    by (induction ps arbitrary: vs) (auto simp: values_add_distinct split: option.split)
  then show ?thesis by (simp add: parse_query_def)
qed

section \<open>Pairs\<close>

definition query_pair :: "string \<times> string \<Rightarrow> string" where
  "query_pair p = url_escape Esc_Query (fst p) @ ''='' @ url_escape Esc_Query (snd p)"

lemma upper_hex_char: "n < 16 \<Longrightarrow> upper_hex n \<notin> {CHR ''&'', CHR ''='', CHR '';'', CHR ''#'', CHR ''?''}"
proof -
  have "\<forall>k \<in> set [0..<16]. upper_hex k \<notin> {CHR ''&'', CHR ''='', CHR '';'', CHR ''#'', CHR ''?''}" by code_simp
  then show "n < 16 \<Longrightarrow> ?thesis" by simp
qed

lemma escaped_query_bytes:
  "x \<in> set (url_escape Esc_Query s) \<Longrightarrow> x \<notin> {CHR ''&'', CHR ''='', CHR '';'', CHR ''#'', CHR ''?''}"
proof -
  have kept: "should_escape Esc_Query c" if "c \<in> {CHR ''&'', CHR ''='', CHR '';'', CHR ''#'', CHR ''?''}" for c
  proof -
    have "\<forall>c \<in> {CHR ''&'', CHR ''='', CHR '';'', CHR ''#'', CHR ''?''}. should_escape Esc_Query c" by code_simp
    then show ?thesis using that by blast
  qed
  have "byte_val c div 16 < 16" "byte_val c mod 16 < 16" for c
    using nat_of_char_less_256 [of c] by linarith+
  then have "x \<notin> {CHR ''&'', CHR ''='', CHR '';'', CHR ''#'', CHR ''?''}" if "x \<in> set (escape_byte Esc_Query c)" for c
    using that kept [of c] upper_hex_char [of "byte_val c div 16"] upper_hex_char [of "byte_val c mod 16"]
    by (auto simp: escape_byte_def split: if_splits)
  then show "x \<in> set (url_escape Esc_Query s) \<Longrightarrow> ?thesis" by (auto simp: url_escape_def)
qed

lemma query_pair_bytes: "CHR ''&'' \<notin> set (query_pair p) \<and> CHR '';'' \<notin> set (query_pair p)"
  using escaped_query_bytes by (fastforce simp: query_pair_def)

lemma parse_query_pair: "parse_pair (query_pair p) = Some p"
proof -
  have "CHR ''='' \<notin> set (url_escape Esc_Query (fst p))" using escaped_query_bytes by blast
  then have "cut_or_all (CHR ''='') (query_pair p) = (url_escape Esc_Query (fst p), url_escape Esc_Query (snd p))"
    by (simp add: cut_or_all_def query_pair_def cut_at_found)
  moreover have "query_pair p \<noteq> []" by (simp add: query_pair_def)
  ultimately show ?thesis
    using query_pair_bytes [of p] by (simp add: parse_pair_def unescape_escape plain_mode_def)
qed

lemma split_pairs: "ps \<noteq> [] \<Longrightarrow> split_on (CHR ''&'') (join ''&'' (map query_pair ps)) = map query_pair ps"
proof (induction ps)
  case (Cons p ps)
  have p: "CHR ''&'' \<notin> set (query_pair p)" using query_pair_bytes by blast
  show ?case
  proof (cases ps)
    case Nil
    with p show ?thesis by (simp add: split_on_none)
  next
    case (Cons q qs)
    with p Cons.IH show ?thesis by (simp add: split_on_first)
  qed
qed simp

lemma parse_pairs: "parse_query (join ''&'' (map query_pair ps)) = fold (\<lambda>(k, v). values_add k v) ps []"
proof (cases "ps = []")
  case False
  have "fold (\<lambda>p vs. case parse_pair p of None \<Rightarrow> vs | Some (k, v) \<Rightarrow> values_add k v vs) (map query_pair qs) vs =
      fold (\<lambda>(k, v). values_add k v) qs vs" for qs vs
    by (induction qs arbitrary: vs) (auto simp: parse_query_pair split: prod.split)
  then show ?thesis using False by (simp add: parse_query_def split_pairs)
qed (simp add: parse_query_def parse_pair_def)

lemma fold_values_add:
  "map_of (fold (\<lambda>(k, v). values_add k v) ps vs) k =
     (case (map_of vs k, map snd (filter (\<lambda>p. fst p = k) ps)) of
        (None, []) \<Rightarrow> None | (None, ws) \<Rightarrow> Some ws | (Some us, ws) \<Rightarrow> Some (us @ ws))"
proof (induction ps arbitrary: vs)
  case (Cons p ps)
  show ?case
    by (cases p; cases "fst p = k"; cases "map_of vs k")
      (simp_all add: Cons.IH map_of_values_add split: list.split)
qed (simp split: option.split)

section \<open>The round trip\<close>

lemma insert_key_mset: "mset (insert_key p m) = add_mset p (mset m)"
  by (induction p m rule: insert_key.induct) auto

lemma sort_keys_mset: "mset (sort_keys m) = mset m"
  by (induction m) (simp_all add: sort_keys_def insert_key_mset)

definition value_pairs :: "url_values \<Rightarrow> (string \<times> string) list" where
  "value_pairs vs = concat (map (\<lambda>(k, ws). map (Pair k) ws) (sort_keys vs))"

lemma encode_values_pairs: "encode_values vs = join ''&'' (map query_pair (value_pairs vs))"
  by (simp add: encode_values_def value_pairs_def map_concat comp_def case_prod_unfold query_pair_def)

lemma pairs_of_key:
  "distinct (map fst m) \<Longrightarrow>
     map snd (filter (\<lambda>p. fst p = k) (concat (map (\<lambda>(k, ws). map (Pair k) ws) m))) = (case map_of m k of None \<Rightarrow> [] | Some ws \<Rightarrow> ws)"
proof (induction m)
  case (Cons p m)
  obtain k' ws where p: "p = (k', ws)" by fastforce
  have same: "map snd (filter (\<lambda>p. fst p = k) (map (Pair k') ws)) = (if k' = k then ws else [])"
    by (auto simp: filter_map comp_def)
  have "map_of m k' = None" using Cons.prems p by (auto simp: map_of_eq_None_iff simp flip: image_set)
  with Cons same p show ?case by (cases "k' = k") auto
qed simp

text \<open>A key with no value is not written.\<close>

lemma query_round_trip:
  assumes "distinct (map fst vs)"
  shows "map_of (parse_query (encode_values vs)) k = (case map_of vs k of Some [] \<Rightarrow> None | m \<Rightarrow> m)"
proof -
  have d: "distinct (map fst (sort_keys vs))"
    using assms by (metis sort_keys_mset mset_map mset_eq_imp_distinct_iff)
  have "set (sort_keys vs) = set vs" by (metis sort_keys_mset set_mset_mset)
  then have m: "map_of (sort_keys vs) k = map_of vs k"
    using d assms by (metis map_of_inject_set)
  show ?thesis
    unfolding encode_values_pairs parse_pairs fold_values_add value_pairs_def pairs_of_key [OF d] m
    by (auto split: option.splits list.splits)
qed

lemma query_get_round_trip:
  assumes "distinct (map fst vs)"
  shows "values_get (parse_query (encode_values vs)) k = values_get vs k"
  using query_round_trip [OF assms, of k] by (auto simp: values_get_def split: option.splits list.splits)

text \<open>Neither a query mark nor a fragment mark appears in an encoded query.\<close>

lemma encoded_query_bytes: "CHR ''#'' \<notin> set (encode_values vs)"
proof -
  have "CHR ''#'' \<notin> set (query_pair p)" for p using escaped_query_bytes by (fastforce simp: query_pair_def)
  then have "CHR ''#'' \<notin> set (join ''&'' (map query_pair ps))" for ps
    by (induction ps rule: induct_list012) auto
  then show ?thesis by (simp add: encode_values_pairs)
qed

end
