(* ===== verification/OAuth.thy ===== *)
theory OAuth
  imports Api_Calls Go_Query
begin

text \<open>
  The OAuth flow (\<open>oauth.go\<close>): PKCE pairs, the authorize URL with the state inside its callback
  URL, and the exchange of the code for a key.  \<open>entropy n\<close> is what one read of \<open>n\<close> random
  bytes gives, \<open>None\<close> a failed read (the code panics); \<open>sha\<close> is SHA-256.
\<close>

datatype oauth_error =
    Callback_Required | Challenge_Required | Invalid_Callback | Invalid_Base | Code_Required | Entropy_Panic

type_synonym entropy = "nat \<Rightarrow> bytes option"

section \<open>PKCE and state\<close>

record oauth_pkce_pair =
  pk_code_verifier :: string
  pk_code_challenge :: string
  pk_code_challenge_method :: string

definition random_base64url :: "entropy \<Rightarrow> int \<Rightarrow> string option" where
  "random_base64url entropy byte_length = map_option b64_encode (entropy (nat byte_length))"

definition sha256_base64url :: "(bytes \<Rightarrow> bytes) \<Rightarrow> string \<Rightarrow> string" where
  "sha256_base64url sha text_in = b64_encode (sha text_in)"

definition random_oauth_state :: "entropy \<Rightarrow> int option \<Rightarrow> string option" where
  "random_oauth_state entropy byte_length = random_base64url entropy (case byte_length of None \<Rightarrow> 16 | Some n \<Rightarrow> n)"

definition create_oauth_pkce_pair :: "(bytes \<Rightarrow> bytes) \<Rightarrow> entropy \<Rightarrow> string option \<Rightarrow> oauth_pkce_pair option" where
  "create_oauth_pkce_pair sha entropy code_verifier =
     (let given = (case code_verifier of None \<Rightarrow> [] | Some v \<Rightarrow> v) in
      map_option (\<lambda>v. \<lparr>pk_code_verifier = v, pk_code_challenge = sha256_base64url sha v, pk_code_challenge_method = ''S256''\<rparr>)
        (if given = [] then random_base64url entropy 32 else Some given))"

section \<open>The authorize URL\<close>

record oauth_authorize_url_options =
  ou_callback_url :: string
  ou_code_challenge :: string
  ou_code_challenge_method :: string
  ou_key_label :: string
  ou_limit :: gvalue
  ou_usage_limit_type :: string
  ou_expires_at :: string
  ou_spawn_agent :: string
  ou_spawn_cloud :: string
  ou_state :: string

definition callback_url_with_state :: "string \<Rightarrow> string \<Rightarrow> oauth_error + string" where
  "callback_url_with_state callback state =
     and_then (from_option Invalid_Callback (url_parse callback)) (\<lambda>u.
     Inr (url_string (u\<lparr>url_raw_query := encode_values (values_set ''state'' state (parse_query (url_raw_query u)))\<rparr>)))"

definition set_nonempty :: "string \<Rightarrow> string \<Rightarrow> url_values \<Rightarrow> url_values" where
  "set_nonempty k v vs = (if v = [] then vs else values_set k v vs)"

definition set_limit :: "(gvalue \<Rightarrow> string) \<Rightarrow> gvalue \<Rightarrow> url_values \<Rightarrow> url_values" where
  "set_limit fmt_other limit vs = (if limit = GNil then vs else values_set ''limit'' (sprint fmt_other limit) vs)"

definition challenge_method :: "oauth_authorize_url_options \<Rightarrow> string" where
  "challenge_method opts =
     (if ou_code_challenge_method opts = [] \<and> ou_code_challenge opts \<noteq> [] then ''S256'' else ou_code_challenge_method opts)"

definition authorize_query ::
    "(gvalue \<Rightarrow> string) \<Rightarrow> oauth_authorize_url_options \<Rightarrow> string \<Rightarrow> url_values \<Rightarrow> url_values" where
  "authorize_query fmt_other opts callback vs =
     (let v1 = values_set ''callback_url'' callback vs;
          v2 = set_nonempty ''code_challenge'' (ou_code_challenge opts) v1;
          v3 = set_nonempty ''code_challenge_method'' (challenge_method opts) v2;
          v4 = set_nonempty ''key_label'' (ou_key_label opts) v3;
          v5 = set_limit fmt_other (ou_limit opts) v4;
          v6 = set_nonempty ''usage_limit_type'' (ou_usage_limit_type opts) v5;
          v7 = set_nonempty ''expires_at'' (ou_expires_at opts) v6;
          v8 = set_nonempty ''spawn_agent'' (ou_spawn_agent opts) v7
      in set_nonempty ''spawn_cloud'' (ou_spawn_cloud opts) v8)"

definition oauth_authorize_url ::
    "(gvalue \<Rightarrow> string) \<Rightarrow> string \<Rightarrow> oauth_authorize_url_options \<Rightarrow> oauth_error + string" where
  "oauth_authorize_url fmt_other base opts =
     and_then (require (ou_callback_url opts \<noteq> []) Callback_Required) (\<lambda>_.
     and_then (require (challenge_method opts = [] \<or> ou_code_challenge opts \<noteq> []) Challenge_Required) (\<lambda>_.
     and_then (from_option Invalid_Callback (url_parse (ou_callback_url opts))) (\<lambda>_.
     and_then (if ou_state opts = [] then Inr (ou_callback_url opts)
       else callback_url_with_state (ou_callback_url opts) (ou_state opts)) (\<lambda>callback.
     and_then (from_option Invalid_Base (url_parse (trim_right (CHR ''/'') base @ ''/auth''))) (\<lambda>u.
     Inr (url_string (u\<lparr>url_raw_query :=
       encode_values (authorize_query fmt_other opts callback (parse_query (url_raw_query u)))\<rparr>)))))))"

record create_oauth_authorization_options =
  ca_callback_url :: string
  ca_code_verifier :: string
  ca_key_label :: string
  ca_limit :: gvalue
  ca_usage_limit_type :: string
  ca_expires_at :: string
  ca_spawn_agent :: string
  ca_spawn_cloud :: string
  ca_state :: string

record oauth_authorization =
  au_pkce :: oauth_pkce_pair
  au_state :: string
  au_url :: string

text \<open>Two reads of the entropy source: for the verifier, then for the state.\<close>

definition create_oauth_authorization ::
    "(bytes \<Rightarrow> bytes) \<Rightarrow> (gvalue \<Rightarrow> string) \<Rightarrow> client \<Rightarrow> entropy \<Rightarrow> entropy \<Rightarrow> create_oauth_authorization_options \<Rightarrow>
     oauth_error + oauth_authorization" where
  "create_oauth_authorization sha fmt_other c verifier_entropy state_entropy opts =
     and_then (from_option Entropy_Panic (create_oauth_pkce_pair sha verifier_entropy (Some (ca_code_verifier opts)))) (\<lambda>pkce.
     and_then (if ca_state opts = [] then from_option Entropy_Panic (random_oauth_state state_entropy None)
       else Inr (ca_state opts)) (\<lambda>state.
     and_then (oauth_authorize_url fmt_other (cl_control_base_url c)
       \<lparr>ou_callback_url = ca_callback_url opts, ou_code_challenge = pk_code_challenge pkce,
        ou_code_challenge_method = pk_code_challenge_method pkce, ou_key_label = ca_key_label opts,
        ou_limit = ca_limit opts, ou_usage_limit_type = ca_usage_limit_type opts, ou_expires_at = ca_expires_at opts,
        ou_spawn_agent = ca_spawn_agent opts, ou_spawn_cloud = ca_spawn_cloud opts, ou_state = state\<rparr>) (\<lambda>url.
     Inr \<lparr>au_pkce = pkce, au_state = state, au_url = url\<rparr>)))"

section \<open>The key exchange\<close>

record oauth_key_exchange_request =
  kx_code :: string
  kx_code_verifier :: string
  kx_code_challenge_method :: string
  kx_timeout :: "duration option"

definition oauth_exchange_body :: "oauth_key_exchange_request \<Rightarrow> object" where
  "oauth_exchange_body req =
     all_set [
       set_string ''code_verifier'' (if kx_code_verifier req = [] then None else Some (kx_code_verifier req)),
       set_string ''code_challenge_method''
         (if kx_code_challenge_method req = [] then None else Some (kx_code_challenge_method req))]
      [(''code'', GString (kx_code req))]"

definition oauth_exchange_spec :: "encoder \<Rightarrow> client \<Rightarrow> oauth_key_exchange_request \<Rightarrow> request_spec option" where
  "oauth_exchange_spec marshal c req =
     control_spec marshal c ''POST'' ''/auth/keys'' (Any_Body (GMap (oauth_exchange_body req)))
       (Some (empty_call_options\<lparr>co_api_key := Some [], co_timeout := kx_timeout req\<rparr>)) True"

definition key_exchange_decoder :: "go_error \<Rightarrow> bytes \<Rightarrow> go_error + svalue" where
  "key_exchange_decoder json_error data =
     (case parse_json document_rules data of
        None \<Rightarrow> Inl json_error
      | Some doc \<Rightarrow> (case decode_key_exchange doc of Inl _ \<Rightarrow> Inl json_error | Inr v \<Rightarrow> Inr v))"

definition exchange_oauth_key :: "client \<Rightarrow> call_env \<Rightarrow> oauth_key_exchange_request \<Rightarrow> oauth_error + svalue call_outcome" where
  "exchange_oauth_key c env req =
     (if kx_code req = [] then Inl Code_Required
      else Inr (case oauth_exchange_spec (ca_marshal env) c req of
          None \<Rightarrow> Call_Encode_Failed
        | Some s \<Rightarrow> call_outcome env
            (fst (transport_do (ca_render env) (ca_agent env) (ca_key env) c s (ca_attempts env)))
            (key_exchange_decoder (ca_json_error env))))"

section \<open>The authorization carries its secrets' digests and its state\<close>

lemma parse_query_no_empty: "map_of (parse_query q) k \<noteq> Some []"
proof -
  define add where "add p vs = (case parse_pair p of None \<Rightarrow> vs | Some (k, v) \<Rightarrow> values_add k v vs)" for p vs
  have step: "map_of (add p vs) k \<noteq> Some []" if "map_of vs k \<noteq> Some []" for p vs
    using that by (simp add: add_def map_of_values_add split: option.split prod.split)
  have "map_of vs k \<noteq> Some [] \<Longrightarrow> map_of (fold add ps vs) k \<noteq> Some []" for ps vs
    by (induction ps arbitrary: vs) (simp_all add: step)
  moreover have "parse_query q = fold add (split_on (CHR ''&'') q) []" by (simp add: parse_query_def add_def [abs_def])
  ultimately show ?thesis by simp
qed

lemma set_nonempty_distinct: "distinct (map fst vs) \<Longrightarrow> distinct (map fst (set_nonempty k v vs))"
  by (simp add: set_nonempty_def values_set_distinct)

lemma map_of_set_nonempty: "map_of (set_nonempty k v vs) k' = (if k' = k \<and> v \<noteq> [] then Some [v] else map_of vs k')"
  by (simp add: set_nonempty_def map_of_values_set)

lemma set_limit_distinct: "distinct (map fst vs) \<Longrightarrow> distinct (map fst (set_limit fmt_other limit vs))"
  by (simp add: set_limit_def values_set_distinct)

lemma map_of_set_limit:
  "map_of (set_limit fmt_other limit vs) k =
     (if k = ''limit'' \<and> limit \<noteq> GNil then Some [sprint fmt_other limit] else map_of vs k)"
  by (simp add: set_limit_def map_of_values_set)

lemma authorize_query_distinct:
  "distinct (map fst vs) \<Longrightarrow> distinct (map fst (authorize_query fmt_other opts callback vs))"
  by (simp add: authorize_query_def Let_def set_nonempty_distinct set_limit_distinct values_set_distinct)

lemma authorize_query_members:
  "map_of (authorize_query fmt_other opts callback vs) ''callback_url'' = Some [callback]"
  "ou_code_challenge opts \<noteq> [] \<Longrightarrow>
     map_of (authorize_query fmt_other opts callback vs) ''code_challenge'' = Some [ou_code_challenge opts]"
  "challenge_method opts \<noteq> [] \<Longrightarrow>
     map_of (authorize_query fmt_other opts callback vs) ''code_challenge_method'' = Some [challenge_method opts]"
  by (simp_all add: authorize_query_def Let_def map_of_set_nonempty map_of_set_limit map_of_values_set)

lemma callback_with_state:
  assumes "callback_url_with_state callback state = Inr out"
  shows "\<exists>v q. url_parse callback = Some v \<and> out = url_string (v\<lparr>url_raw_query := q\<rparr>) \<and>
     values_get (parse_query q) ''state'' = state \<and>
     (\<forall>k. if k = ''state'' then True else map_of (parse_query q) k = map_of (parse_query (url_raw_query v)) k)"
proof -
  obtain v where v: "url_parse callback = Some v" and
    out: "out = url_string (v\<lparr>url_raw_query := encode_values (values_set ''state'' state (parse_query (url_raw_query v)))\<rparr>)"
    using assms by (auto simp: callback_url_with_state_def check_iff)
  let ?vs = "values_set ''state'' state (parse_query (url_raw_query v))"
  have d: "distinct (map fst ?vs)" by (simp add: values_set_distinct parse_query_distinct)
  have "values_get (parse_query (encode_values ?vs)) ''state'' = state"
    by (subst query_get_round_trip [OF d]) (simp add: values_get_def map_of_values_set)
  moreover have "map_of (parse_query (encode_values ?vs)) k = map_of (parse_query (url_raw_query v)) k" if "k \<noteq> ''state''" for k
    using that parse_query_no_empty [of "url_raw_query v" k]
    by (auto simp: query_round_trip [OF d] map_of_values_set split: option.split list.split)
  ultimately show ?thesis using v out by auto
qed

lemma b64_nonempty: "bs \<noteq> [] \<Longrightarrow> b64_encode bs \<noteq> []"
proof
  assume "bs \<noteq> []" "b64_encode bs = []"
  then have "1 \<le> length bs" "(4 * length bs + 2) div 3 = 0" using b64_encode_length [of bs] by (simp_all add: Suc_le_eq)
  then show False by (simp add: div_eq_0_iff)
qed

text \<open>
  C31. What the user's browser is sent to binds the flow to its client.  An authorization that is
  created has a verifier and a state, the caller's if given; the query of its URL, read as the
  server reads it, holds the S256 digest of exactly that verifier and a callback URL that is the
  caller's with its query kept and the state added, so the state comes back in the redirect.
  The one assumption is that a read of the entropy source gives as many bytes as were asked.
\<close>
theorem authorization_binds_state:
  assumes "create_oauth_authorization sha fmt_other c ve se opts = Inr a"
    "\<And>n bs. se n = Some bs \<Longrightarrow> length bs = n" "\<And>bs. sha bs \<noteq> []"
  shows "let verifier = pk_code_verifier (au_pkce a) in
    (if ca_code_verifier opts = [] then map_option b64_encode (ve 32) = Some verifier else verifier = ca_code_verifier opts) \<and>
    (if ca_state opts = [] then map_option b64_encode (se 16) = Some (au_state a) else au_state a = ca_state opts) \<and>
    (\<exists>u v q q'. url_parse (trim_right (CHR ''/'') (cl_control_base_url c) @ ''/auth'') = Some u \<and>
       url_parse (ca_callback_url opts) = Some v \<and> au_url a = url_string (u\<lparr>url_raw_query := q\<rparr>) \<and>
       values_get (parse_query q) ''code_challenge'' = b64_encode (sha verifier) \<and>
       values_get (parse_query q) ''code_challenge_method'' = ''S256'' \<and>
       values_get (parse_query q) ''callback_url'' = url_string (v\<lparr>url_raw_query := q'\<rparr>) \<and>
       values_get (parse_query q') ''state'' = au_state a \<and>
       (\<forall>k. if k = ''state'' then True else map_of (parse_query q') k = map_of (parse_query (url_raw_query v)) k))"
proof -
  obtain pkce state url where p: "create_oauth_pkce_pair sha ve (Some (ca_code_verifier opts)) = Some pkce"
    and st: "(if ca_state opts = [] then from_option Entropy_Panic (random_oauth_state se None) else Inr (ca_state opts)) = Inr state"
    and u: "oauth_authorize_url fmt_other (cl_control_base_url c)
       \<lparr>ou_callback_url = ca_callback_url opts, ou_code_challenge = pk_code_challenge pkce,
        ou_code_challenge_method = pk_code_challenge_method pkce, ou_key_label = ca_key_label opts,
        ou_limit = ca_limit opts, ou_usage_limit_type = ca_usage_limit_type opts, ou_expires_at = ca_expires_at opts,
        ou_spawn_agent = ca_spawn_agent opts, ou_spawn_cloud = ca_spawn_cloud opts, ou_state = state\<rparr> = Inr url"
    and a: "a = \<lparr>au_pkce = pkce, au_state = state, au_url = url\<rparr>"
    using assms(1) unfolding create_oauth_authorization_def check_iff by blast
  have pkce: "pk_code_challenge pkce = b64_encode (sha (pk_code_verifier pkce))" "pk_code_challenge_method pkce = ''S256''"
    "if ca_code_verifier opts = [] then map_option b64_encode (ve 32) = Some (pk_code_verifier pkce)
     else pk_code_verifier pkce = ca_code_verifier opts"
    using p by (auto simp: create_oauth_pkce_pair_def Let_def random_base64url_def sha256_base64url_def split: if_splits)
  have state: "if ca_state opts = [] then map_option b64_encode (se 16) = Some state else state = ca_state opts"
    using st by (auto simp: random_oauth_state_def random_base64url_def from_option_def split: option.splits if_splits)
  have "state \<noteq> []" using state assms(2) [of 16] b64_nonempty by (auto split: if_splits)
  let ?o = "\<lparr>ou_callback_url = ca_callback_url opts, ou_code_challenge = pk_code_challenge pkce,
        ou_code_challenge_method = pk_code_challenge_method pkce, ou_key_label = ca_key_label opts,
        ou_limit = ca_limit opts, ou_usage_limit_type = ca_usage_limit_type opts, ou_expires_at = ca_expires_at opts,
        ou_spawn_agent = ca_spawn_agent opts, ou_spawn_cloud = ca_spawn_cloud opts, ou_state = state\<rparr>"
  from u \<open>state \<noteq> []\<close> obtain callback base where cb: "callback_url_with_state (ca_callback_url opts) state = Inr callback"
    and base: "url_parse (trim_right (CHR ''/'') (cl_control_base_url c) @ ''/auth'') = Some base"
    and url: "url = url_string (base\<lparr>url_raw_query :=
        encode_values (authorize_query fmt_other ?o callback (parse_query (url_raw_query base)))\<rparr>)"
    by (auto simp: oauth_authorize_url_def check_iff)
  let ?vs = "authorize_query fmt_other ?o callback (parse_query (url_raw_query base))"
  have d: "distinct (map fst ?vs)" by (rule authorize_query_distinct [OF parse_query_distinct])
  have "ou_code_challenge ?o \<noteq> []" "challenge_method ?o = ''S256''"
    using pkce assms(3) b64_nonempty by (simp_all add: challenge_method_def)
  with authorize_query_members [where fmt_other = fmt_other and opts = ?o and callback = callback and vs = "parse_query (url_raw_query base)"]
  have q: "values_get (parse_query (encode_values ?vs)) ''code_challenge'' = pk_code_challenge pkce"
    "values_get (parse_query (encode_values ?vs)) ''code_challenge_method'' = ''S256''"
    "values_get (parse_query (encode_values ?vs)) ''callback_url'' = callback"
    unfolding query_get_round_trip [OF d] by (simp_all add: values_get_def)
  from callback_with_state [OF cb] obtain v q' where v: "url_parse (ca_callback_url opts) = Some v"
    "callback = url_string (v\<lparr>url_raw_query := q'\<rparr>)" "values_get (parse_query q') ''state'' = state"
    "\<forall>k. if k = ''state'' then True else map_of (parse_query q') k = map_of (parse_query (url_raw_query v)) k" by blast
  show ?thesis
    unfolding Let_def a oauth_authorization.select_convs
    by (rule conjI, rule pkce(3), rule conjI, rule state, rule exI [of _ base], rule exI [of _ v],
        rule exI [of _ "encode_values ?vs"], rule exI [of _ q'], intro conjI)
      (rule base v(1) url trans [OF q(1) pkce(1)] q(2) trans [OF q(3) v(2)] v(3) v(4))+
qed

definition sample_authorization :: create_oauth_authorization_options where
  "sample_authorization = \<lparr>ca_callback_url = ''http://localhost:3000/callback?x=1'', ca_code_verifier = [], ca_key_label = ''laptop'',
     ca_limit = GNil, ca_usage_limit_type = [], ca_expires_at = [], ca_spawn_agent = [], ca_spawn_cloud = [], ca_state = ''s&1''\<rparr>"

definition sample_entropy :: entropy where
  "sample_entropy n = Some (replicate n (CHR ''r''))"

lemma sample_authorized:
  "\<exists>a. create_oauth_authorization (\<lambda>bs. ''digest'') (\<lambda>_. []) demo_client sample_entropy sample_entropy sample_authorization = Inr a"
proof -
  have "url_parse (trim_right (CHR ''/'') (cl_control_base_url demo_client) @ ''/auth'') \<noteq> None"
    "url_parse (ca_callback_url sample_authorization) \<noteq> None" "b64_encode ''digest'' \<noteq> []"
    by code_simp+
  moreover have "ca_callback_url sample_authorization \<noteq> []" "ca_code_verifier sample_authorization = []" "ca_state sample_authorization \<noteq> []"
    by (simp_all add: sample_authorization_def)
  ultimately show ?thesis
    by (auto simp: create_oauth_authorization_def create_oauth_pkce_pair_def random_base64url_def sample_entropy_def
        oauth_authorize_url_def callback_url_with_state_def from_option_def sha256_base64url_def challenge_method_def require_def)
qed

theorem authorization_binds_state_witness:
  "\<exists>a v q'. create_oauth_authorization (\<lambda>bs. ''digest'') (\<lambda>_. []) demo_client sample_entropy sample_entropy sample_authorization = Inr a \<and>
     au_state a = ''s&1'' \<and> url_parse ''http://localhost:3000/callback?x=1'' = Some v \<and> values_get (parse_query q') ''state'' = ''s&1''"
proof -
  obtain a where a: "create_oauth_authorization (\<lambda>bs. ''digest'') (\<lambda>_. []) demo_client sample_entropy sample_entropy sample_authorization = Inr a"
    using sample_authorized by blast
  have "length bs = n" if "sample_entropy n = Some bs" for n bs using that by (auto simp: sample_entropy_def)
  from authorization_binds_state [OF a this] a show ?thesis
    by (auto simp: sample_authorization_def Let_def)
qed

section \<open>The code is sent once, without credentials\<close>

text \<open>
  C32. An authorization code, which the server accepts once, leaves the client at most once: the
  exchange sends at most one request, whatever it meets, to \<open>/auth/keys\<close> of the control host,
  with the code and verifier as its body; no request carries a credential header, the caller's
  API key included, and telemetry neither records the call nor marks it.
\<close>
theorem key_exchange_sent_once:
  assumes "oauth_exchange_spec marshal c req = Some spec" "transport_do render agent fresh c spec env = (res, st)"
  shows "length (es_sent st) \<le> 1 \<and> es_recorder st = None \<and>
    (\<forall>p \<in> set (es_sent st). rq_url (snd p) = join_url (cl_control_base_url c) ''/auth/keys'' \<and> rq_method (snd p) = ''POST'' \<and>
       rq_body (snd p) = marshal (GMap (oauth_exchange_body req)) \<and>
       (\<forall>n \<in> set (''x-tr-client'' # credential_header_names). header_values (rq_headers (snd p)) n = []))"
proof -
  obtain bs where m: "marshal (GMap (oauth_exchange_body req)) = Some bs"
    and s: "rs_method spec = ''POST''" "rs_path spec = ''/auth/keys''" "rs_body spec = bs" "rs_has_body spec"
    "rs_opts spec = Some (empty_call_options\<lparr>co_api_key := Some [], co_timeout := kx_timeout req\<rparr>)"
    "rs_candidates spec = [cl_control_base_url c]" "rs_credential_free spec" "rs_control_plane spec" "\<not> rs_auto_idempotency spec"
    using assms(1) by (auto simp: oauth_exchange_spec_def control_spec_def dispatch_spec_def marshal_request_body_def split: option.splits)
  let ?cfg = "\<lparr>ec_client = c, ec_spec = mint_key fresh spec, ec_agent = agent, ec_render = render\<rparr>"
  have k: "mint_key fresh spec = spec" using s(9) by (simp add: mint_key_def)
  have "\<not> request_replay_safe ''POST'' (Some (empty_call_options\<lparr>co_api_key := Some [], co_timeout := kx_timeout req\<rparr>))"
  proof -
    have "to_upper ''POST'' = ''POST''" by code_simp
    then show ?thesis by (simp add: request_replay_safe_def empty_call_options_def)
  qed
  then have "\<not> replayable ?cfg" by (simp add: replayable_def k s)
  with transport_do_ok [OF assms(2)] have once: "length (es_sent st) \<le> 1" "recorder_reachable ?cfg st"
    by (auto simp: returned_ok_def trace_ok_def)
  have "rq_url r = join_url (cl_control_base_url c) ''/auth/keys'' \<and> rq_method r = ''POST'' \<and> rq_body r = Some bs \<and>
      (\<forall>n \<in> set (''x-tr-client'' # credential_header_names). header_values (rq_headers r) n = [])" if sent: "(i, r) \<in> set (es_sent st)" for i r
  proof -
    obtain x where x: "new_http_request agent c (rs_method spec) (join_url (rs_candidates spec ! i) (rs_path spec)) (rs_body spec)
       (rs_has_body spec) (rs_opts (mint_key fresh spec)) (telemetry_header x) (rs_credential_free spec) = Inr r"
      using sent_request [OF assms(2) sent] by blast
    have "i = 0" using transport_do_ok [OF assms(2)] sent s(6)
      by (fastforce simp: returned_ok_def trace_ok_def list_all_iff sent_ok_def Let_def)
    with x s have r: "rq_url r = join_url (cl_control_base_url c) ''/auth/keys''" "rq_method r = ''POST''" "rq_body r = Some bs"
      "rq_headers r = owned_headers c (rs_opts spec) (telemetry_header x) True (caller_headers agent c True (rs_opts spec))"
      by (auto simp: new_http_request_def k split: option.splits)
    have "header_values (rq_headers r) n = []" if "n \<in> set credential_header_names" for n
      using that by (simp add: r(4) owned_headers_def Let_def header_values_strip_credentials)
    moreover have "header_values (rq_headers r) ''x-tr-client'' = []" by (simp add: r(4) owned_telemetry_header)
    ultimately show ?thesis using r by simp
  qed
  moreover have "es_recorder st = None"
    using once(2) s(8) by (auto simp: recorder_reachable_def call_recorder_state_def)
  ultimately show ?thesis using once(1) m by auto
qed

definition sample_exchange :: oauth_key_exchange_request where
  "sample_exchange = \<lparr>kx_code = ''c-1'', kx_code_verifier = ''v'', kx_code_challenge_method = ''S256'', kx_timeout = None\<rparr>"

theorem key_exchange_sent_once_witness:
  "\<exists>spec. oauth_exchange_spec (\<lambda>_. Some ''{}'') demo_client sample_exchange = Some spec \<and>
     length (es_sent (snd (transport_do (\<lambda>_. None) ''agent'' ''key-1'' demo_client spec demo_env))) \<le> 1"
proof -
  obtain spec where s: "oauth_exchange_spec (\<lambda>_. Some ''{}'') demo_client sample_exchange = Some spec"
    by (simp add: oauth_exchange_spec_def control_spec_def dispatch_spec_def marshal_request_body_def)
  from key_exchange_sent_once [OF s, of "\<lambda>_. None" "''agent''" "''key-1''" demo_env] s show ?thesis
    by (intro exI [of _ spec]) (cases "transport_do (\<lambda>_. None) ''agent'' ''key-1'' demo_client spec demo_env", simp)
qed

end
