(* ===== verification/OAuth_Loopback.thy ===== *)
theory OAuth_Loopback
  imports OAuth
begin

text \<open>
  The one-shot listener for the OAuth callback on the local host (\<open>oauth_loopback.go\<close>).  The
  handler may run in several goroutines; its delivery is one atomic step (a \<open>sync.Once\<close> around
  a send into a channel of capacity one), so a listener is its state and the steps on it.  The
  listening socket, the routing of the mux and the shutdown of the server are environment.
\<close>

section \<open>Pages\<close>

definition dquote :: char where
  "dquote = char_of (34::nat)"

definition default_success_html :: string where
  "default_success_html = ''<!doctype html><html><head><meta charset='' @ [dquote] @ ''utf-8'' @ [dquote] @
     ''><title>Signed in</title></head><body><h1>Signed in with TrustedRouter</h1><p>You can close this tab and return to the app.</p></body></html>''"

definition default_deny_html :: string where
  "default_deny_html = ''<!doctype html><html><head><meta charset='' @ [dquote] @ ''utf-8'' @ [dquote] @
     ''><title>Sign in failed</title></head><body><h1>TrustedRouter sign in failed</h1><p>{{message}}</p></body></html>''"

text \<open>\<open>html.EscapeString\<close>.\<close>

definition html_escape_byte :: "char \<Rightarrow> string" where
  "html_escape_byte c =
     (if c = CHR ''&'' then ''&amp;'' else if c = apostrophe then ''&#39;'' else if c = CHR ''<'' then ''&lt;''
      else if c = CHR ''>'' then ''&gt;'' else if c = dquote then ''&#34;'' else [c])"

definition html_escape :: "string \<Rightarrow> string" where
  "html_escape s = concat (map html_escape_byte s)"

text \<open>\<open>strings.ReplaceAll\<close> of a text that is not empty.\<close>

function replace_all :: "string \<Rightarrow> string \<Rightarrow> string \<Rightarrow> string" where
  "replace_all old new [] = []"
| "replace_all old new (c # s) =
     (if old \<noteq> [] \<and> has_prefix (c # s) old then new @ replace_all old new (drop (length old) (c # s))
      else c # replace_all old new s)"
  by pat_completeness auto
termination
  by (relation "measure (\<lambda>(old, new, s). length s)") auto

record html_reply =
  hr_status :: int
  hr_headers :: headers
  hr_body :: string

definition write_html_response :: "int \<Rightarrow> string \<Rightarrow> html_reply" where
  "write_html_response status body =
     \<lparr>hr_status = status,
      hr_headers = header_set ''Content-Length'' (itoa (int (length body)))
        (header_set ''Content-Type'' ''text/html; charset=utf-8'' no_headers),
      hr_body = body\<rparr>"

section \<open>The listener\<close>

record loopback_options =
  lo_port :: int
  lo_ephemeral_port :: bool
  lo_path :: string
  lo_state :: string
  lo_expected_state :: string
  lo_success_html :: string
  lo_deny_html :: string

datatype loopback_failure = Oauth_Denied string | Serve_Failed go_error

type_synonym loopback_result = "loopback_failure + string \<times> string"

record oauth_loopback =
  lb_callback_url :: string
  lb_expected_state :: string
  lb_success_html :: string
  lb_deny_html :: string
  lb_once :: bool \<comment> \<open>\<open>resultOnce\<close> has run\<close>
  lb_result :: "loopback_result option" \<comment> \<open>the channel\<close>
  lb_closed :: bool \<comment> \<open>\<open>closeOnce\<close> has run\<close>

definition default_oauth_loopback_port :: int where
  "default_oauth_loopback_port = 3000"

definition loopback_path :: "loopback_options \<Rightarrow> string" where
  "loopback_path opts =
     (let path = (if lo_path opts = [] then ''/callback'' else lo_path opts)
      in if has_prefix path ''/'' then path else ''/'' @ path)"

definition loopback_bind_address :: "loopback_options \<Rightarrow> string" where
  "loopback_bind_address opts =
     ''127.0.0.1:'' @ itoa (if lo_ephemeral_port opts then 0
       else if lo_port opts = 0 then default_oauth_loopback_port else lo_port opts)"

text \<open>Listening fails, or gives the port (\<open>None\<close> for an address that is not TCP) and what closing would return.\<close>

datatype listen_outcome = Listen_Failed go_error | Listening "int option" "go_error option"

datatype start_error = Listen_Error go_error | Not_A_Tcp_Address "go_error option" | Pattern_Panic

text \<open>\<open>oauthLoopbackPort\<close>; \<open>mux_accepts\<close>: the pattern is one the mux can register.\<close>

definition start_oauth_loopback ::
    "(string \<Rightarrow> bool) \<Rightarrow> (string \<Rightarrow> listen_outcome) \<Rightarrow> loopback_options \<Rightarrow> start_error + oauth_loopback" where
  "start_oauth_loopback mux_accepts listen opts =
     (case listen (loopback_bind_address opts) of
        Listen_Failed e \<Rightarrow> Inl (Listen_Error e)
      | Listening None close_err \<Rightarrow> Inl (Not_A_Tcp_Address close_err)
      | Listening (Some port) close_err \<Rightarrow>
          (if \<not> mux_accepts (loopback_path opts) then Inl Pattern_Panic
           else Inr
             \<lparr>lb_callback_url = ''http://localhost:'' @ itoa port @ loopback_path opts,
              lb_expected_state = (if lo_expected_state opts = [] then lo_state opts else lo_expected_state opts),
              lb_success_html = (if lo_success_html opts = [] then default_success_html else lo_success_html opts),
              lb_deny_html = (if lo_deny_html opts = [] then default_deny_html else lo_deny_html opts),
              lb_once = False, lb_result = None, lb_closed = False\<rparr>))"

definition callback_url :: "oauth_loopback option \<Rightarrow> string" where
  "callback_url l = (case l of None \<Rightarrow> [] | Some x \<Rightarrow> lb_callback_url x)"

section \<open>The callback\<close>

record callback_request =
  cb_method :: string
  cb_raw_query :: string

text \<open>What the callback decides; \<open>None\<close> when it is not one.\<close>

definition oauth_error_message :: "url_values \<Rightarrow> string" where
  "oauth_error_message query =
     ''OAuth error: '' @ values_get query ''error'' @
     (if values_get query ''error_description'' = [] then [] else '' - '' @ values_get query ''error_description'')"

definition callback_decision :: "oauth_loopback \<Rightarrow> callback_request \<Rightarrow> (string + string \<times> string) option" where
  "callback_decision l r =
     (let query = parse_query (cb_raw_query r) in
      if cb_method r \<noteq> ''GET'' then None
      else if values_get query ''error'' \<noteq> [] then Some (Inl (oauth_error_message query))
      else if values_get query ''code'' = [] then Some (Inl (''OAuth callback missing '' @ [apostrophe] @ ''code'' @ [apostrophe]))
      else if lb_expected_state l \<noteq> [] \<and> values_get query ''state'' \<noteq> lb_expected_state l
      then Some (Inl ''OAuth state mismatch (possible CSRF); aborting exchange'')
      else Some (Inr (values_get query ''code'', values_get query ''state'')))"

definition deliver_result :: "loopback_result \<Rightarrow> oauth_loopback \<Rightarrow> oauth_loopback" where
  "deliver_result res l = (if lb_once l then l else l\<lparr>lb_once := True, lb_result := Some res\<rparr>)"

definition write_deny :: "oauth_loopback \<Rightarrow> string \<Rightarrow> html_reply" where
  "write_deny l msg = write_html_response 400 (replace_all ''{{message}}'' (html_escape msg) (lb_deny_html l))"

text \<open>\<open>None\<close> is the mux's own page for an unknown resource.\<close>

definition handle_callback :: "oauth_loopback \<Rightarrow> callback_request \<Rightarrow> html_reply option \<times> oauth_loopback" where
  "handle_callback l r =
     (case callback_decision l r of
        None \<Rightarrow> (None, l)
      | Some (Inl msg) \<Rightarrow> (Some (write_deny l msg), deliver_result (Inl (Oauth_Denied msg)) l)
      | Some (Inr v) \<Rightarrow> (Some (write_html_response 200 (lb_success_html l)), deliver_result (Inr v) l))"

section \<open>Waiting and closing\<close>

text \<open>
  The outcome of \<open>Shutdown\<close> with whether it is \<open>ErrServerClosed\<close> or a deadline, and of the
  \<open>Close\<close> that follows a failure; the errors that are joined into the result.
\<close>

record shutdown_outcome =
  sd_error :: "go_error option"
  sd_server_closed :: bool
  sd_deadline :: bool
  sd_close_error :: "go_error option"
  sd_close_server_closed :: bool

definition close_errors :: "shutdown_outcome \<Rightarrow> go_error list" where
  "close_errors sd =
     (case sd_error sd of
        None \<Rightarrow> []
      | Some e \<Rightarrow>
          (case sd_close_error sd of
             Some e' \<Rightarrow> (if \<not> sd_close_server_closed sd then [e, e']
                else if \<not> sd_server_closed sd \<and> \<not> sd_deadline sd then [e] else [])
           | None \<Rightarrow> (if \<not> sd_server_closed sd \<and> \<not> sd_deadline sd then [e] else [])))"

definition close_loopback :: "shutdown_outcome \<Rightarrow> oauth_loopback \<Rightarrow> go_error list \<times> oauth_loopback" where
  "close_loopback sd l = (if lb_closed l then ([], l) else (close_errors sd, l\<lparr>lb_closed := True\<rparr>))"

text \<open>The \<open>select\<close> of \<open>Wait\<close>, by the branch it takes; the deferred close drops its error.\<close>

datatype waited = Wait_Got loopback_result | Wait_Cancelled go_error

definition wait_receive :: "shutdown_outcome \<Rightarrow> oauth_loopback \<Rightarrow> (waited \<times> oauth_loopback) option" where
  "wait_receive sd l =
     (case lb_result l of
        None \<Rightarrow> None
      | Some res \<Rightarrow> Some (Wait_Got res, snd (close_loopback sd (l\<lparr>lb_result := None\<rparr>))))"

definition wait_cancel :: "shutdown_outcome \<Rightarrow> go_error \<Rightarrow> oauth_loopback \<Rightarrow> waited \<times> oauth_loopback" where
  "wait_cancel sd e l = (Wait_Cancelled e, snd (close_loopback sd l))"

section \<open>Runs\<close>

datatype loopback_event =
    Callback callback_request
  | Serve_Ended go_error \<comment> \<open>not by a shutdown\<close>
  | Waited waited
  | Closed

text \<open>
  A run is the listener after a sequence of events, in the order they took effect.  A handler that
  is still running when the listener is closed may take effect after that.
\<close>

inductive loopback_run :: "oauth_loopback \<Rightarrow> loopback_event list \<Rightarrow> oauth_loopback \<Rightarrow> bool" for start where
  started: "loopback_run start [] start"
| called: "loopback_run start evs l \<Longrightarrow> handle_callback l r = (reply, l') \<Longrightarrow> loopback_run start (evs @ [Callback r]) l'"
| serve_ended: "loopback_run start evs l \<Longrightarrow>
    loopback_run start (evs @ [Serve_Ended e]) (deliver_result (Inl (Serve_Failed e)) l)"
| received: "loopback_run start evs l \<Longrightarrow> wait_receive sd l = Some (w, l') \<Longrightarrow> loopback_run start (evs @ [Waited w]) l'"
| cancelled: "loopback_run start evs l \<Longrightarrow> wait_cancel sd e l = (w, l') \<Longrightarrow> loopback_run start (evs @ [Waited w]) l'"
| closed: "loopback_run start evs l \<Longrightarrow> close_loopback sd l = (errs, l') \<Longrightarrow> loopback_run start (evs @ [Closed]) l'"

text \<open>What an event decides, and what the callers of \<open>Wait\<close> received.\<close>

definition event_result :: "oauth_loopback \<Rightarrow> loopback_event \<Rightarrow> loopback_result option" where
  "event_result start ev =
     (case ev of
        Callback r \<Rightarrow> map_option (map_sum Oauth_Denied id) (callback_decision start r)
      | Serve_Ended e \<Rightarrow> Some (Inl (Serve_Failed e))
      | _ \<Rightarrow> None)"

definition first_result :: "oauth_loopback \<Rightarrow> loopback_event list \<Rightarrow> loopback_result option" where
  "first_result start evs = (case List.map_filter (event_result start) evs of [] \<Rightarrow> None | x # xs \<Rightarrow> Some x)"

definition received_results :: "loopback_event list \<Rightarrow> loopback_result list" where
  "received_results evs = List.map_filter (\<lambda>ev. case ev of Waited (Wait_Got x) \<Rightarrow> Some x | _ \<Rightarrow> None) evs"

lemma map_filter_snoc: "List.map_filter f (xs @ [x]) = List.map_filter f xs @ (case f x of None \<Rightarrow> [] | Some y \<Rightarrow> [y])"
  by (simp add: List.map_filter_def split: option.split)

lemma first_result_snoc:
  "first_result start (evs @ [ev]) = (case first_result start evs of None \<Rightarrow> event_result start ev | Some x \<Rightarrow> Some x)"
  by (auto simp: first_result_def map_filter_snoc split: list.split option.split)

lemma received_snoc:
  "received_results (evs @ [ev]) = received_results evs @ (case ev of Waited (Wait_Got x) \<Rightarrow> [x] | _ \<Rightarrow> [])"
  by (simp add: received_results_def map_filter_snoc split: loopback_event.split waited.split)

lemma deliver_fields [simp]:
  "lb_expected_state (deliver_result res l) = lb_expected_state l" "lb_once (deliver_result res l)"
  "lb_result (deliver_result res l) = (if lb_once l then lb_result l else Some res)"
  by (simp_all add: deliver_result_def)

lemma close_fields [simp]:
  "lb_expected_state (snd (close_loopback sd l)) = lb_expected_state l" "lb_once (snd (close_loopback sd l)) = lb_once l"
  "lb_result (snd (close_loopback sd l)) = lb_result l"
  by (simp_all add: close_loopback_def)

lemma decision_state: "lb_expected_state l = lb_expected_state l' \<Longrightarrow> callback_decision l r = callback_decision l' r"
  by (simp add: callback_decision_def Let_def)

definition result_list :: "loopback_result option \<Rightarrow> loopback_result list" where
  "result_list r = (case r of None \<Rightarrow> [] | Some x \<Rightarrow> [x])"

text \<open>What was received, then what is still in the channel, is the first result there was.\<close>

lemma loopback_invariant:
  assumes "loopback_run start evs l" "\<not> lb_once start" "lb_result start = None"
  shows "lb_expected_state l = lb_expected_state start \<and> (lb_once l \<longleftrightarrow> first_result start evs \<noteq> None) \<and>
    received_results evs @ result_list (lb_result l) = result_list (first_result start evs)"
  using assms
proof (induction rule: loopback_run.induct)
  case started
  then show ?case by (simp add: first_result_def received_results_def List.map_filter_def result_list_def)
next
  case (called evs l r reply l')
  have d: "callback_decision l r = callback_decision start r" by (rule decision_state) (use called in simp)
  show ?case
    using called unfolding first_result_snoc received_snoc handle_callback_def d
    by (auto simp: event_result_def result_list_def split: option.splits sum.splits)
next
  case (serve_ended evs l e)
  then show ?case
    unfolding first_result_snoc received_snoc by (auto simp: event_result_def result_list_def split: option.splits)
next
  case (received evs l sd w l')
  then show ?case
    unfolding first_result_snoc received_snoc
    by (auto simp: wait_receive_def event_result_def result_list_def split: option.splits)
next
  case (cancelled evs l sd e w l')
  then show ?case
    unfolding first_result_snoc received_snoc
    by (auto simp: wait_cancel_def event_result_def split: option.splits)
next
  case (closed evs l sd errs l')
  then have "l' = snd (close_loopback sd l)" by simp
  with closed show ?case
    unfolding first_result_snoc received_snoc by (auto simp: event_result_def split: option.splits)
qed

inductive_cases run_of_nothing: "loopback_run start [] l"

lemma first_result_event: "first_result start evs = Some x \<Longrightarrow> \<exists>ev \<in> set evs. event_result start ev = Some x"
proof (induction evs)
  case (Cons ev evs)
  then show ?case by (cases "event_result start ev") (auto simp: first_result_def List.map_filter_simps)
qed (simp add: first_result_def List.map_filter_simps)

lemma event_with_code:
  assumes "event_result start ev = Some (Inr v)"
  shows "\<exists>r. ev = Callback r \<and> callback_decision start r = Some (Inr v)"
proof (cases ev)
  case (Callback r)
  with assms obtain z where "callback_decision start r = Some z" "map_sum Oauth_Denied id z = Inr v"
    by (auto simp: event_result_def)
  then show ?thesis using Callback by (cases z) auto
qed (use assms in \<open>simp_all add: event_result_def\<close>)

lemma accepted_callback:
  assumes "callback_decision l r = Some (Inr (code, st))"
  shows "cb_method r = ''GET'' \<and> values_get (parse_query (cb_raw_query r)) ''error'' = [] \<and> code \<noteq> [] \<and>
     code = values_get (parse_query (cb_raw_query r)) ''code'' \<and> st = values_get (parse_query (cb_raw_query r)) ''state'' \<and>
     (lb_expected_state l = [] \<or> st = lb_expected_state l)"
  using assms by (auto simp: callback_decision_def Let_def split: if_splits)

lemma started_fields:
  "start_oauth_loopback mux_accepts listen opts = Inr l \<Longrightarrow>
     \<not> lb_once l \<and> lb_result l = None \<and>
     lb_expected_state l = (if lo_expected_state opts = [] then lo_state opts else lo_expected_state opts)"
  by (auto simp: start_oauth_loopback_def split: listen_outcome.splits option.splits if_splits)

text \<open>
  C33. The listener is one-shot, and a code it hands out has passed the state check.  Over every
  interleaving of callbacks, server failures, waits and closes, all calls of \<open>Wait\<close> together
  receive at most one result, and it is the first thing decided; if it is a code, it came with a
  GET request that had that code and no error, and whose state is the expected one when a state
  is expected.  A later callback, a forged one included, changes nothing.
\<close>
theorem loopback_one_valid_result:
  assumes "start_oauth_loopback mux_accepts listen opts = Inr start" "loopback_run start evs l"
  shows "received_results evs = [] \<or>
    (\<exists>x. received_results evs = [x] \<and> first_result start evs = Some x \<and> lb_result l = None \<and>
       (case x of Inl _ \<Rightarrow> True
        | Inr (code, st) \<Rightarrow> \<exists>r. Callback r \<in> set evs \<and> cb_method r = ''GET'' \<and> code \<noteq> [] \<and>
            code = values_get (parse_query (cb_raw_query r)) ''code'' \<and> values_get (parse_query (cb_raw_query r)) ''error'' = [] \<and>
            st = values_get (parse_query (cb_raw_query r)) ''state'' \<and>
            (let expected = (if lo_expected_state opts = [] then lo_state opts else lo_expected_state opts)
             in expected = [] \<or> st = expected)))"
proof (cases "received_results evs = []")
  case False
  note f = started_fields [OF assms(1)]
  from f have fresh: "\<not> lb_once start" "lb_result start = None" by simp_all
  note inv = loopback_invariant [OF assms(2) fresh, THEN conjunct2, THEN conjunct2]
  with False obtain x where x: "first_result start evs = Some x" "received_results evs = [x]" "lb_result l = None"
    by (cases "first_result start evs"; cases "lb_result l") (auto simp: result_list_def Cons_eq_append_conv append_eq_Cons_conv)
  obtain ev where ev: "ev \<in> set evs" "event_result start ev = Some x" using first_result_event [OF x(1)] by blast
  show ?thesis
  proof (cases x)
    case (Inl e)
    with x show ?thesis by auto
  next
    case (Inr v)
    obtain code st where v: "v = (code, st)" by fastforce
    from event_with_code [OF ev(2) [unfolded Inr v]]
    obtain r where r: "ev = Callback r" "callback_decision start r = Some (Inr (code, st))" by blast
    from accepted_callback [OF r(2)] f ev r(1) show ?thesis
      unfolding Let_def using x Inr v by (intro disjI2 exI [of _ x]) auto
  qed
qed simp

text \<open>A run: a callback without the state, then one with it, then the wait.\<close>

definition sample_loopback_options :: loopback_options where
  "sample_loopback_options = \<lparr>lo_port = 0, lo_ephemeral_port = False, lo_path = [], lo_state = ''s-1'', lo_expected_state = [],
     lo_success_html = [], lo_deny_html = []\<rparr>"

definition sample_callback :: callback_request where
  "sample_callback = \<lparr>cb_method = ''GET'', cb_raw_query = ''code=c-1&state=s-1''\<rparr>"

definition sample_head :: callback_request where
  "sample_head = \<lparr>cb_method = ''HEAD'', cb_raw_query = ''code=c-0''\<rparr>"

definition quiet_shutdown :: shutdown_outcome where
  "quiet_shutdown = \<lparr>sd_error = None, sd_server_closed = False, sd_deadline = False, sd_close_error = None, sd_close_server_closed = False\<rparr>"

theorem loopback_one_valid_result_witness:
  "\<exists>start l. start_oauth_loopback (\<lambda>_. True) (\<lambda>_. Listening (Some 3000) None) sample_loopback_options = Inr start \<and>
     loopback_run start [Callback sample_head, Callback sample_callback, Waited (Wait_Got (Inr (''c-1'', ''s-1'')))] l \<and>
     lb_callback_url start = ''http://localhost:3000/callback'' \<and> lb_result l = None"
proof -
  obtain start where s: "start_oauth_loopback (\<lambda>_. True) (\<lambda>_. Listening (Some 3000) None) sample_loopback_options = Inr start"
    by (simp add: start_oauth_loopback_def)
  have url: "lb_callback_url start = ''http://localhost:3000/callback''"
  proof -
    have "''http://localhost:'' @ itoa 3000 @ loopback_path sample_loopback_options = ''http://localhost:3000/callback''" by code_simp
    with s show ?thesis by (auto simp: start_oauth_loopback_def)
  qed
  have e: "lb_expected_state start = ''s-1''" "\<not> lb_once start" "lb_result start = None"
    using started_fields [OF s] by (simp_all add: sample_loopback_options_def)
  have "values_get (parse_query ''code=c-1&state=s-1'') ''error'' = []" "values_get (parse_query ''code=c-1&state=s-1'') ''code'' = ''c-1''"
    "values_get (parse_query ''code=c-1&state=s-1'') ''state'' = ''s-1''" by code_simp+
  with e have d: "callback_decision start sample_head = None" "callback_decision start sample_callback = Some (Inr (''c-1'', ''s-1''))"
    by (simp_all add: callback_decision_def sample_callback_def sample_head_def)
  have h: "handle_callback start sample_head = (None, start)"
    "handle_callback start sample_callback =
       (Some (write_html_response 200 (lb_success_html start)), deliver_result (Inr (''c-1'', ''s-1'')) start)"
    by (simp_all add: handle_callback_def d)
  have w: "wait_receive quiet_shutdown (deliver_result (Inr (''c-1'', ''s-1'')) start) =
     Some (Wait_Got (Inr (''c-1'', ''s-1'')), snd (close_loopback quiet_shutdown ((deliver_result (Inr (''c-1'', ''s-1'')) start)\<lparr>lb_result := None\<rparr>)))"
    using e by (simp add: wait_receive_def)
  obtain l where l: "loopback_run start ([] @ [Callback sample_head] @ [Callback sample_callback] @
      [Waited (Wait_Got (Inr (''c-1'', ''s-1'')))]) l"
    using loopback_run.received [OF loopback_run.called [OF loopback_run.called [OF loopback_run.started h(1)] h(2)] w]
    by (simp only: append_assoc)
  have "received_results [Callback sample_head, Callback sample_callback, Waited (Wait_Got (Inr (''c-1'', ''s-1'')))] \<noteq> []"
    by (simp add: received_results_def List.map_filter_simps)
  with loopback_one_valid_result [OF s l] have "lb_result l = None" by auto
  with s url l show ?thesis by (intro exI [of _ start] exI [of _ l]) simp
qed

section \<open>The denial page\<close>

text \<open>Nothing of a message can open a tag, an attribute or an entity of its own.\<close>

lemma html_escape_inert: "set (html_escape s) \<inter> {CHR ''<'', CHR ''>'', dquote, apostrophe} = {}"
proof -
  have "set (html_escape_byte c) \<inter> {CHR ''<'', CHR ''>'', dquote, apostrophe} = {}" for c
  proof -
    have "CHR ''<'' \<noteq> dquote" "dquote \<noteq> apostrophe" by code_simp+
    moreover have "\<forall>t \<in> set [''&amp;'', ''&#39;'', ''&lt;'', ''&gt;'', ''&#34;'']. list_all (\<lambda>x. x \<notin> {CHR ''<'', CHR ''>'', dquote, apostrophe}) t"
      by code_simp
    ultimately show ?thesis by (auto simp: html_escape_byte_def)
  qed
  then show ?thesis by (auto simp: html_escape_def)
qed

lemma replace_all_skip: "x \<notin> set s \<Longrightarrow> replace_all (x # old) new (s @ r) = s @ replace_all (x # old) new r"
  by (induction s) (auto simp: has_prefix_def)

lemma replace_all_none: "x \<notin> set s \<Longrightarrow> replace_all (x # old) new s = s"
  using replace_all_skip [of x s old new "[]"] by simp

lemma replace_all_one:
  assumes "x \<notin> set before" "x \<notin> set after"
  shows "replace_all (x # old) new (before @ (x # old) @ after) = before @ new @ after"
proof -
  have "has_prefix ((x # old) @ after) (x # old)" by (simp add: has_prefix_def)
  then have "replace_all (x # old) new ((x # old) @ after) = new @ replace_all (x # old) new after" by simp
  then show ?thesis using assms by (simp add: replace_all_skip replace_all_none)
qed

lemma default_denial_page:
  assumes "lb_deny_html l = default_deny_html"
  shows "\<exists>before after. default_deny_html = before @ ''{{message}}'' @ after \<and>
    hr_body (write_deny l msg) = before @ html_escape msg @ after"
proof -
  define before where "before = takeWhile (\<lambda>c. c \<noteq> CHR ''{'') default_deny_html"
  define after where "after = drop (length before + 11) default_deny_html"
  have split: "default_deny_html = before @ ''{{message}}'' @ after" unfolding before_def after_def by code_simp
  have "CHR ''{'' \<notin> set before" "CHR ''{'' \<notin> set after" unfolding after_def before_def by code_simp+
  from replace_all_one [OF this, of "''{message}}''" "html_escape msg"] split assms show ?thesis
    by (intro exI [of _ before] exI [of _ after]) (simp add: write_deny_def write_html_response_def)
qed

end
