(* ===== verification/Response_Body.thy ===== *)
theory Response_Body
  imports Transport_Facts
begin

text \<open>
  The body the engine hands out: the wrapper that ends the attempt's context (\<open>transport.go\<close>)
  inside the telemetry wrapper that ends the logical call (\<open>telemetry.go\<close>).  A body is a state;
  its events are the reads, the close, the hooks of the event-stream decoder, the idle timer
  and the end of the caller's context, in any order.  Each method holds the body's lock, so an
  event is atomic.
\<close>

section \<open>State\<close>

text \<open>Why the attempt's context ended; the first cause stays.\<close>

datatype cancel_cause = Cause_Closed | Cause_Idle | Cause_Caller

record response_body =
  rb_wrapper :: body_wrapper
  rb_deadline :: instant \<comment> \<open>of the idle timer\<close>
  rb_stopped :: bool \<comment> \<open>\<open>closed\<close> of the idle wrapper\<close>
  rb_cause :: "cancel_cause option"
  rb_closes :: nat \<comment> \<open>calls that closed the connection's body\<close>
  rb_caller_err :: "go_error option" \<comment> \<open>\<open>ctx.Err()\<close> of the caller\<close>
  rb_recorder :: "(recorder \<times> delivery list) option"
  rb_body_started :: bool
  rb_saw_eof :: bool
  rb_done :: bool
  rb_ops :: "recorder_op list" \<comment> \<open>what the body told its recorder\<close>

text \<open>\<open>newStreamIdleTimeoutReadCloser\<close> and \<open>newTelemetryBody\<close>: the timer starts at once.\<close>

definition opened_body :: "instant \<Rightarrow> body_wrapper \<Rightarrow> (recorder \<times> delivery list) option \<Rightarrow> response_body" where
  "opened_body now wrapper rec =
     \<lparr>rb_wrapper = wrapper, rb_deadline = (case wrapper of Idle_Timeout d \<Rightarrow> now + d | _ \<Rightarrow> 0), rb_stopped = False,
      rb_cause = None, rb_closes = 0, rb_caller_err = None, rb_recorder = rec, rb_body_started = False,
      rb_saw_eof = False, rb_done = False, rb_ops = []\<rparr>"

section \<open>The wrapper of the attempt\<close>

definition cancel_with :: "cancel_cause \<Rightarrow> response_body \<Rightarrow> response_body" where
  "cancel_with c b = (if rb_cause b = None then b\<lparr>rb_cause := Some c\<rparr> else b)"

definition idle_reset :: "duration \<Rightarrow> instant \<Rightarrow> response_body \<Rightarrow> response_body" where
  "idle_reset d now b = (if rb_stopped b then b else b\<lparr>rb_deadline := now + d\<rparr>)"

definition idle_stop :: "response_body \<Rightarrow> response_body" where
  "idle_stop b = b\<lparr>rb_stopped := True\<rparr>"

text \<open>The timer runs out only while it is not stopped.\<close>

definition idle_timer :: "instant \<Rightarrow> response_body \<Rightarrow> response_body" where
  "idle_timer now b =
     (case rb_wrapper b of
        Idle_Timeout d \<Rightarrow> (if \<not> rb_stopped b \<and> rb_deadline b \<le> now then cancel_with Cause_Idle b else b)
      | _ \<Rightarrow> b)"

text \<open>\<open>n\<close> bytes and an error are what the connection's body returned.\<close>

definition wrapper_read :: "instant \<Rightarrow> nat \<Rightarrow> go_error option \<Rightarrow> response_body \<Rightarrow> go_error option \<times> response_body" where
  "wrapper_read now n err b =
     (case rb_wrapper b of
        Idle_Timeout d \<Rightarrow>
          (let b1 = (if 0 < n then idle_reset d now b else b) in
           case err of
             None \<Rightarrow> (None, b1)
           | Some e \<Rightarrow>
               (let b2 = idle_stop b1
                in (Some (if rb_cause b2 = Some Cause_Idle then Sentinel Stream_Idle_Timeout else e), b2)))
      | _ \<Rightarrow> (err, b))"

definition idle_close :: "response_body \<Rightarrow> response_body" where
  "idle_close b0 = (let b = idle_stop b0 in cancel_with Cause_Closed (b\<lparr>rb_closes := Suc (rb_closes b)\<rparr>))"

definition wrapper_close :: "response_body \<Rightarrow> response_body" where
  "wrapper_close b0 =
     (case rb_wrapper b0 of
        Bare_Body \<Rightarrow> b0\<lparr>rb_closes := Suc (rb_closes b0)\<rparr>
      | Idle_Timeout d \<Rightarrow> idle_close b0
      | _ \<Rightarrow> cancel_with Cause_Closed (b0\<lparr>rb_closes := Suc (rb_closes b0)\<rparr>))"

section \<open>The telemetry wrapper\<close>

definition tell :: "recorder_op \<Rightarrow> response_body \<Rightarrow> response_body" where
  "tell op b = b\<lparr>rb_recorder := map_option (recorder_step op) (rb_recorder b), rb_ops := rb_ops b @ [op]\<rparr>"

definition observe_read_error :: "instant \<Rightarrow> go_error \<Rightarrow> response_body \<Rightarrow> response_body" where
  "observe_read_error now err b =
     (if link_is Io_EOF err then b\<lparr>rb_saw_eof := True\<rparr>
      else if rb_done b then b
      else let b1 = b\<lparr>rb_done := True\<rparr>;
               b2 = tell (if rb_caller_err b1 \<noteq> None then Op_Aborted now
                          else Op_TransportError now err False True (rb_body_started b1)) b1
           in tell (Op_Finish now) b2)"

definition telemetry_close :: "instant \<Rightarrow> response_body \<Rightarrow> response_body" where
  "telemetry_close now b =
     (let b1 = (if rb_done b then b
                else let b0 = b\<lparr>rb_done := True\<rparr>
                     in if rb_caller_err b0 \<noteq> None \<and> \<not> rb_saw_eof b0 then tell (Op_Aborted now) b0 else b0)
      in tell (Op_Finish now) b1)"

definition first_event_hook :: "instant \<Rightarrow> response_body \<Rightarrow> response_body" where
  "first_event_hook now b = tell (Op_FirstEvent now) (b\<lparr>rb_body_started := True\<rparr>)"

definition aborted_hook :: "instant \<Rightarrow> response_body \<Rightarrow> response_body" where
  "aborted_hook now b = (if rb_done b then b else tell (Op_Aborted now) (b\<lparr>rb_done := True\<rparr>))"

text \<open>Without a recorder there is no telemetry wrapper.\<close>

definition with_recorder :: "(response_body \<Rightarrow> response_body) \<Rightarrow> response_body \<Rightarrow> response_body" where
  "with_recorder f b = (if rb_recorder b = None then b else f b)"

section \<open>The body\<close>

definition body_read :: "instant \<Rightarrow> nat \<Rightarrow> go_error option \<Rightarrow> response_body \<Rightarrow> go_error option \<times> response_body" where
  "body_read now n err b =
     (case wrapper_read now n err b of
        (None, b1) \<Rightarrow> (None, b1)
      | (Some e, b1) \<Rightarrow> (Some e, with_recorder (observe_read_error now e) b1))"

definition body_close :: "instant \<Rightarrow> response_body \<Rightarrow> response_body" where
  "body_close now b = with_recorder (telemetry_close now) (wrapper_close b)"

datatype body_event =
    Body_Read instant nat "go_error option"
  | Body_Close instant
  | Body_First_Event instant
  | Body_Aborted instant
  | Body_Timer instant
  | Body_Caller_Done go_error

fun body_step :: "body_event \<Rightarrow> response_body \<Rightarrow> response_body" where
  "body_step (Body_Read now n err) b = snd (body_read now n err b)"
| "body_step (Body_Close now) b = body_close now b"
| "body_step (Body_First_Event now) b = with_recorder (first_event_hook now) b"
| "body_step (Body_Aborted now) b = with_recorder (aborted_hook now) b"
| "body_step (Body_Timer now) b = idle_timer now b"
| "body_step (Body_Caller_Done e) b =
     (if rb_caller_err b = None then cancel_with Cause_Caller (b\<lparr>rb_caller_err := Some e\<rparr>) else b)"

section \<open>What every event keeps\<close>

definition is_ending :: "recorder_op \<Rightarrow> bool" where
  "is_ending op = (case op of Op_Aborted now \<Rightarrow> True | Op_TransportError now e t ro bs \<Rightarrow> True | _ \<Rightarrow> False)"

definition is_finish :: "recorder_op \<Rightarrow> bool" where
  "is_finish op = (case op of Op_Finish now \<Rightarrow> True | _ \<Rightarrow> False)"

text \<open>
  The recorder is the one that was handed over after the operations of the body; the ending of
  the call is told at most once, and only before the recorder has finished.
\<close>

definition body_inv :: "(recorder \<times> delivery list) option \<Rightarrow> response_body \<Rightarrow> bool" where
  "body_inv rec b \<longleftrightarrow>
     rb_recorder b = map_option (run_recorder (rb_ops b)) rec \<and>
     length (filter is_ending (rb_ops b)) \<le> (if rb_done b then 1 else 0) \<and>
     (list_ex is_finish (rb_ops b) \<longrightarrow> rb_done b) \<and>
     (\<forall>i < length (rb_ops b). is_ending (rb_ops b ! i) \<longrightarrow> \<not> list_ex is_finish (take i (rb_ops b)))"

lemma tell_fields [simp]:
  "rb_done (tell op b) = rb_done b" "rb_ops (tell op b) = rb_ops b @ [op]" "rb_wrapper (tell op b) = rb_wrapper b"
  "rb_stopped (tell op b) = rb_stopped b" "rb_cause (tell op b) = rb_cause b" "rb_closes (tell op b) = rb_closes b"
  "rb_deadline (tell op b) = rb_deadline b"
  "rb_recorder (tell op b) = map_option (recorder_step op) (rb_recorder b)"
  by (simp_all add: tell_def)

lemma tell_quiet: "body_inv rec b \<Longrightarrow> \<not> is_ending op \<Longrightarrow> (is_finish op \<Longrightarrow> rb_done b) \<Longrightarrow> body_inv rec (tell op b)"
  by (auto simp: body_inv_def option.map_comp comp_def less_Suc_eq nth_append)

lemma tell_ending:
  assumes "body_inv rec b" "\<not> rb_done b" "is_ending op"
  shows "body_inv rec (tell op (b\<lparr>rb_done := True\<rparr>))"
proof -
  have "\<not> is_finish op" using assms(3) by (cases op) (simp_all add: is_ending_def is_finish_def)
  with assms show ?thesis by (auto simp: body_inv_def option.map_comp comp_def less_Suc_eq nth_append)
qed

lemma set_done: "body_inv rec b \<Longrightarrow> body_inv rec (b\<lparr>rb_done := True\<rparr>)"
  by (auto simp: body_inv_def split: if_splits)

lemma body_inv_cong:
  "rb_recorder b' = rb_recorder b \<Longrightarrow> rb_ops b' = rb_ops b \<Longrightarrow> rb_done b' = rb_done b \<Longrightarrow> body_inv rec b' = body_inv rec b"
  by (simp add: body_inv_def)

lemma wrapper_fields [simp]:
  "rb_recorder (snd (wrapper_read now n err b)) = rb_recorder b" "rb_ops (snd (wrapper_read now n err b)) = rb_ops b"
  "rb_done (snd (wrapper_read now n err b)) = rb_done b"
  "rb_recorder (wrapper_close b) = rb_recorder b" "rb_ops (wrapper_close b) = rb_ops b" "rb_done (wrapper_close b) = rb_done b"
  "rb_recorder (idle_timer now b) = rb_recorder b" "rb_ops (idle_timer now b) = rb_ops b" "rb_done (idle_timer now b) = rb_done b"
  "rb_recorder (cancel_with c b) = rb_recorder b" "rb_ops (cancel_with c b) = rb_ops b" "rb_done (cancel_with c b) = rb_done b"
  by (simp_all add: wrapper_read_def wrapper_close_def idle_close_def idle_timer_def cancel_with_def idle_reset_def idle_stop_def Let_def
      split: body_wrapper.split option.split)

lemma op_kinds [simp]:
  "is_ending (Op_Aborted now)" "is_ending (Op_TransportError now e t ro bs)" "\<not> is_ending (Op_Finish now)"
  "\<not> is_ending (Op_FirstEvent now)" "is_finish (Op_Finish now)" "\<not> is_finish (Op_FirstEvent now)"
  by (simp_all add: is_ending_def is_finish_def)

lemma observe_keeps: "body_inv rec b \<Longrightarrow> body_inv rec (observe_read_error now e b)"
  unfolding observe_read_error_def Let_def
  by (auto simp: body_inv_cong [of "b\<lparr>rb_saw_eof := True\<rparr>" b] intro!: tell_quiet tell_ending)

lemma close_keeps: "body_inv rec b \<Longrightarrow> body_inv rec (telemetry_close now b)"
  unfolding telemetry_close_def Let_def by (simp add: tell_quiet tell_ending set_done)

lemma hooks_keep:
  "body_inv rec b \<Longrightarrow> body_inv rec (first_event_hook now b)"
  "body_inv rec b \<Longrightarrow> body_inv rec (aborted_hook now b)"
  by (auto simp: first_event_hook_def aborted_hook_def body_inv_cong [of "b\<lparr>rb_body_started := True\<rparr>" b]
      intro!: tell_quiet tell_ending)

lemma body_step_keeps: "body_inv rec b \<Longrightarrow> body_inv rec (body_step ev b)"
proof (cases ev)
  case (Body_Read now n err)
  assume inv: "body_inv rec b"
  obtain e b1 where w: "wrapper_read now n err b = (e, b1)" by fastforce
  with inv wrapper_fields(1-3) [of now n err b] have "body_inv rec b1" using body_inv_cong [of b1 b] by simp
  with Body_Read w show ?thesis by (simp add: body_read_def with_recorder_def observe_keeps split: option.split)
next
  case (Body_Close now)
  assume "body_inv rec b"
  then have "body_inv rec (wrapper_close b)" using body_inv_cong [of "wrapper_close b" b] by simp
  with Body_Close show ?thesis by (simp add: body_close_def with_recorder_def close_keeps)
next
  case (Body_Timer now)
  assume "body_inv rec b"
  with Body_Timer show ?thesis using body_inv_cong [of "idle_timer now b" b] by simp
next
  case (Body_Caller_Done e)
  assume "body_inv rec b"
  with Body_Caller_Done show ?thesis
    using body_inv_cong [of "cancel_with Cause_Caller (b\<lparr>rb_caller_err := Some e\<rparr>)" b] by simp
qed (simp_all add: with_recorder_def hooks_keep)

interpretation body_run: kept_invariant body_step "body_inv rec" for rec
  by unfold_locales (rule body_step_keeps)

section \<open>A call reports once, when its body is closed\<close>

text \<open>While the call is open nothing has been delivered; once it is answered it has a record to deliver.\<close>

definition call_open :: "recorder \<times> delivery list \<Rightarrow> bool" where
  "call_open p \<longleftrightarrow> \<not> rc_finished (fst p) \<and> snd p = [] \<and> rc_sink (fst p)"

definition accounted :: "recorder \<times> delivery list \<Rightarrow> bool" where
  "accounted p \<longleftrightarrow> rc_begun (fst p) \<and> rc_last (fst p) \<noteq> None \<and> rc_sink (fst p) \<and>
     (if rc_finished (fst p) then length (snd p) = (if rc_recordable (fst p) then 1 else 0) else snd p = [])"

lemma store_fields [simp]:
  "rc_sink (store_attempt a r) = rc_sink r" "rc_begun (store_attempt a r) = rc_begun r"
  "rc_recordable (store_attempt a r) = rc_recordable r" "rc_last (store_attempt a r) \<noteq> None"
  "rc_finished (store_attempt a r) = rc_finished r"
  by (simp_all add: store_attempt_def Let_def)

lemma fold_overflow_kept [simp]:
  "rc_sink (fold_overflow r) = rc_sink r" "rc_begun (fold_overflow r) = rc_begun r"
  "rc_recordable (fold_overflow r) = rc_recordable r" "rc_finished (fold_overflow r) = rc_finished r"
  by (simp_all add: fold_overflow_def Let_def split: option.split)

lemma open_step: "\<not> is_finish op \<Longrightarrow> call_open p \<Longrightarrow> call_open (recorder_step op p)"
  by (cases p; cases op)
    (auto simp: call_open_def is_finish_def begin_attempt_def on_response_def on_transport_error_def on_moved_def on_first_event_def
      on_aborted_def mark_exhausted_def Let_def split: option.split prod.split)

lemma accounted_step: "accounted p \<Longrightarrow> \<not> (\<exists>now base. op = Op_Begin now base) \<Longrightarrow> accounted (recorder_step op p)"
  by (cases p; cases op)
    (auto simp: accounted_def finish_def on_response_def on_transport_error_def on_moved_def on_first_event_def
      on_aborted_def mark_exhausted_def Let_def split: option.splits prod.splits if_splits)

lemma answered: "call_open p \<Longrightarrow> rc_begun (fst p) \<Longrightarrow> accounted (recorder_step (Op_Response now status hs) p)"
  by (cases p) (auto simp: accounted_def call_open_def on_response_def Let_def)

lemma begun: "rc_begun (fst (recorder_step (Op_Begin now base) p))"
  by (cases p) (simp add: begin_attempt_def Let_def)

definition all_recorders :: "(recorder \<times> delivery list \<Rightarrow> bool) \<Rightarrow> engine_state \<Rightarrow> bool" where
  "all_recorders P st = (case es_recorder st of None \<Rightarrow> True | Some p \<Rightarrow> P p)"

lemma record_op_all: "(\<And>p. P p \<Longrightarrow> Q (recorder_step op p)) \<Longrightarrow> all_recorders P st \<Longrightarrow> all_recorders Q (record_op op st)"
  by (auto simp: all_recorders_def record_op_def split: option.splits)

lemma record_op_open: "\<not> is_finish op \<Longrightarrow> all_recorders call_open st \<Longrightarrow> all_recorders call_open (record_op op st)"
  by (rule record_op_all [where P = call_open]) (simp_all add: open_step)

lemma all_recorders_cong [simp]:
  "all_recorders P (st\<lparr>es_sent := x\<rparr>) = all_recorders P st" "all_recorders P (st\<lparr>es_hops := h\<rparr>) = all_recorders P st"
  "all_recorders P (st\<lparr>es_sleeps := y\<rparr>) = all_recorders P st"
  by (simp_all add: all_recorders_def)

definition response_accounted :: "call_result \<Rightarrow> engine_state \<Rightarrow> bool" where
  "response_accounted r s \<longleftrightarrow>
     (case r of Call_Response status hs w t \<Rightarrow> all_recorders accounted s \<and> t = (es_recorder s \<noteq> None) | _ \<Rightarrow> True)"

lemma advance_open: "all_recorders call_open st \<Longrightarrow> all_recorders call_open (snd (advance base move response st))"
  by (simp add: advance_def Let_def record_op_open is_finish_def)

lemma pause_open:
  "all_recorders call_open st \<Longrightarrow>
     (case pause cfg e attempt base ra st of Again b s \<Rightarrow> all_recorders call_open s | Stop r s \<Rightarrow> response_accounted r s)"
  by (auto simp: pause_def Let_def response_accounted_def split: option.split)

lemma hop_open:
  assumes "all_recorders call_open st"
  shows "case (case advance base move response st of (b, s) \<Rightarrow> pause cfg e attempt b ra s) of
     Again b s \<Rightarrow> all_recorders call_open s | Stop r s \<Rightarrow> response_accounted r s"
  using pause_open [OF advance_open [OF assms, of base move response]] by (simp add: case_prod_unfold)

lemma failure_open:
  assumes "all_recorders call_open st"
  shows "case after_failure cfg e attempt base st err ctx_err cause of
     Again b s \<Rightarrow> all_recorders call_open s | Stop r s \<Rightarrow> response_accounted r s"
proof (cases ctx_err)
  case None
  let ?st = "record_op (Op_TransportError (ae_done e) err (rs_stream_open (ec_spec cfg) \<and> cause) False False) st"
  have "all_recorders call_open ?st"
    by (rule record_op_open [OF _ assms]) (simp add: is_finish_def)
  from hop_open [OF this] show ?thesis
    unfolding after_failure_def None option.case Let_def by (simp add: response_accounted_def)
qed (simp add: after_failure_def response_accounted_def)

lemma response_open:
  assumes "all_recorders (\<lambda>p. call_open p \<and> rc_begun (fst p)) st"
  shows "case after_response cfg e attempt base st status hs of
     Again b s \<Rightarrow> all_recorders call_open s | Stop r s \<Rightarrow> response_accounted r s"
proof -
  let ?st = "record_op (Op_Response (ae_done e) status hs) st"
  have op: "all_recorders call_open ?st"
    by (rule record_op_all [OF _ assms]) (simp add: open_step is_finish_def)
  have "all_recorders accounted ?st"
    by (rule record_op_all [OF _ assms]) (simp add: answered)
  then have "all_recorders accounted (record_op (Op_MarkExhausted x) ?st)" for x
    by (rule record_op_all [rotated]) (simp add: accounted_step)
  with hop_open [OF op] show ?thesis
    unfolding after_response_def Let_def by (simp add: response_accounted_def record_op_def)
qed

lemma attempt_open:
  assumes "all_recorders call_open st"
  shows "case attempt_step cfg env attempt base st of Again b s \<Rightarrow> all_recorders call_open s | Stop r s \<Rightarrow> response_accounted r s"
proof -
  let ?st = "record_op (Op_Begin (ae_begin (env attempt)) (rs_candidates (ec_spec cfg) ! base)) st"
  have b: "all_recorders (\<lambda>p. call_open p \<and> rc_begun (fst p)) ?st"
    by (rule record_op_all [OF _ assms]) (simp add: open_step begun is_finish_def)
  then have "all_recorders call_open ?st" by (auto simp: all_recorders_def split: option.splits)
  then show ?thesis
    using failure_open response_open b
    by (simp add: attempt_step_def Let_def response_accounted_def split: option.split sum.split exchange.split)
qed

lemma loop_accounted:
  "all_recorders call_open st \<Longrightarrow> case engine_loop cfg env attempt base st of (r, s) \<Rightarrow> response_accounted r s"
proof (induction cfg env attempt base st rule: engine_loop.induct)
  case (1 cfg env attempt base st)
  note step = attempt_open [OF "1.prems", of cfg env attempt base]
  show ?case
  proof (cases "attempt_step cfg env attempt base st")
    case (Stop r s)
    with step show ?thesis by (subst engine_loop.simps) simp
  next
    case (Again b s)
    with step "1.IH" show ?thesis by (subst engine_loop.simps) simp
  qed
qed

lemma call_accounted:
  assumes "transport_do render agent fresh c spec env = (Call_Response status hs w t, st)"
  shows "all_recorders accounted st \<and> t = (es_recorder st \<noteq> None)"
proof -
  have "all_recorders call_open (initial_state c (mint_key fresh spec))"
    by (simp add: all_recorders_def initial_state_def call_recorder_state_def call_open_def new_request_recorder_def Let_def)
  from loop_accounted [OF this, of "\<lparr>ec_client = c, ec_spec = mint_key fresh spec, ec_agent = agent, ec_render = render\<rparr>" env 0 0]
    assms show ?thesis by (simp add: transport_do_def Let_def response_accounted_def)
qed

text \<open>The body of such a response.\<close>

definition is_close :: "body_event \<Rightarrow> bool" where
  "is_close ev = (case ev of Body_Close now \<Rightarrow> True | _ \<Rightarrow> False)"

definition closed_down :: "body_wrapper \<Rightarrow> response_body \<Rightarrow> bool" where
  "closed_down w b \<longleftrightarrow> rb_wrapper b = w \<and> 0 < rb_closes b \<and> (w = Bare_Body \<or> rb_cause b \<noteq> None) \<and>
     (rb_recorder b = None \<or> list_ex is_finish (rb_ops b))"

lemma step_grows: "\<exists>ops. rb_ops (body_step ev b) = rb_ops b @ ops \<and> list_all (\<lambda>op. \<not> (\<exists>now base. op = Op_Begin now base)) ops"
proof (cases ev)
  case (Body_Read now n err)
  obtain e b1 where w: "wrapper_read now n err b = (e, b1)" by fastforce
  with wrapper_fields(2) [of now n err b] have "rb_ops b1 = rb_ops b" by simp
  then show ?thesis
    using Body_Read w
    by (auto simp: body_read_def with_recorder_def observe_read_error_def Let_def split: option.split)
qed (simp_all add: body_close_def with_recorder_def telemetry_close_def first_event_hook_def aborted_hook_def Let_def)

lemma step_recorder: "rb_recorder (body_step ev b) = None \<longleftrightarrow> rb_recorder b = None"
proof (cases ev)
  case (Body_Read now n err)
  obtain e b1 where w: "wrapper_read now n err b = (e, b1)" by fastforce
  with wrapper_fields(1) [of now n err b] have "rb_recorder b1 = rb_recorder b" by simp
  then show ?thesis
    using Body_Read w by (auto simp: body_read_def with_recorder_def observe_read_error_def Let_def split: option.split)
qed (simp_all add: body_close_def with_recorder_def telemetry_close_def first_event_hook_def aborted_hook_def Let_def)

lemma telemetry_kept:
  "rb_wrapper (with_recorder (telemetry_close now) b) = rb_wrapper b" "rb_closes (with_recorder (telemetry_close now) b) = rb_closes b"
  "rb_cause (with_recorder (telemetry_close now) b) = rb_cause b"
  "rb_wrapper (with_recorder (observe_read_error now e) b) = rb_wrapper b"
  "rb_closes (with_recorder (observe_read_error now e) b) = rb_closes b"
  "rb_cause (with_recorder (observe_read_error now e) b) = rb_cause b"
  "rb_stopped (with_recorder (observe_read_error now e) b) = rb_stopped b"
  "rb_deadline (with_recorder (observe_read_error now e) b) = rb_deadline b"
  by (simp_all add: with_recorder_def telemetry_close_def observe_read_error_def Let_def)

lemma step_shape:
  "rb_wrapper (body_step ev b) = rb_wrapper b \<and> rb_closes b \<le> rb_closes (body_step ev b) \<and>
     (rb_cause b \<noteq> None \<longrightarrow> rb_cause (body_step ev b) = rb_cause b)"
proof (cases ev)
  case (Body_Read now n err)
  then show ?thesis
    by (auto simp: body_read_def wrapper_read_def telemetry_kept idle_reset_def idle_stop_def Let_def split: body_wrapper.split option.split)
next
  case (Body_Close now)
  then show ?thesis
    by (auto simp: body_close_def telemetry_kept wrapper_close_def idle_close_def cancel_with_def idle_stop_def Let_def split: body_wrapper.split)
next
  case (Body_Timer now)
  then show ?thesis by (auto simp: idle_timer_def cancel_with_def split: body_wrapper.split)
qed (auto simp: with_recorder_def first_event_hook_def aborted_hook_def cancel_with_def)

lemma close_closes: "rb_wrapper b = w \<Longrightarrow> closed_down w (body_step (Body_Close now) b)"
  using step_shape [of "Body_Close now" b]
  by (auto simp: closed_down_def body_close_def telemetry_kept wrapper_close_def idle_close_def cancel_with_def idle_stop_def Let_def
      with_recorder_def telemetry_close_def split: body_wrapper.splits)

lemma closed_down_step: "closed_down w b \<Longrightarrow> closed_down w (body_step ev b)"
  using step_shape [of ev b] step_recorder [of ev b] step_grows [of ev b] by (auto simp: closed_down_def)

interpretation body_closing: kept_invariant body_step "closed_down w" for w
  by unfold_locales (rule closed_down_step)

lemma run_wrapper: "rb_wrapper (fold body_step evs b) = rb_wrapper b"
  by (induction evs arbitrary: b) (simp_all add: step_shape)

lemma close_event: "is_close ev \<Longrightarrow> \<exists>now. ev = Body_Close now"
  by (cases ev) (simp_all add: is_close_def)

lemma finish_op: "is_finish op \<Longrightarrow> \<exists>now. op = Op_Finish now"
  by (cases op) (simp_all add: is_finish_def)

lemma run_closed:
  assumes "list_ex is_close evs"
  shows "closed_down (rb_wrapper b) (fold body_step evs b)"
proof -
  obtain ev where "ev \<in> set evs" "is_close ev" using assms by (auto simp: list_ex_iff)
  then obtain now where "Body_Close now \<in> set evs" using close_event by blast
  then obtain xs ys where evs: "evs = xs @ Body_Close now # ys" using split_list by metis
  have "closed_down (rb_wrapper b) (body_step (Body_Close now) (fold body_step xs b))"
    by (rule close_closes) (simp add: run_wrapper)
  from body_closing.run_keeps [OF this] show ?thesis by (simp add: evs)
qed

lemma run_ops: "\<exists>ops. rb_ops (fold body_step evs b) = rb_ops b @ ops \<and> list_all (\<lambda>op. \<not> (\<exists>now base. op = Op_Begin now base)) ops"
proof (induction evs arbitrary: b)
  case (Cons ev evs)
  from Cons.IH [of "body_step ev b"] step_grows [of ev b] show ?case by fastforce
qed simp

lemma run_accounted:
  "list_all (\<lambda>op. \<not> (\<exists>now base. op = Op_Begin now base)) ops \<Longrightarrow> accounted p \<Longrightarrow> accounted (run_recorder ops p)"
  by (induction ops arbitrary: p) (simp_all add: accounted_step)

lemma finish_finishes: "list_ex is_finish ops \<Longrightarrow> rc_finished (fst (run_recorder ops p))"
proof -
  assume "list_ex is_finish ops"
  then obtain op where "op \<in> set ops" "is_finish op" by (auto simp: list_ex_iff)
  then obtain now where "Op_Finish now \<in> set ops" using finish_op by blast
  then obtain xs ys where ops: "ops = xs @ Op_Finish now # ys" using split_list by metis
  obtain r out where q: "run_recorder xs p = (r, out)" by fastforce
  have stay: "rc_finished (fst q) \<Longrightarrow> rc_finished (fst (run_recorder ys q))" for q
    by (induction ys arbitrary: q) (simp_all add: recorder_finished_step)
  have "rc_finished (fst (recorder_step (Op_Finish now) (r, out)))"
    by (auto simp: finish_def Let_def split: option.split)
  from stay [OF this] show ?thesis by (simp add: ops q)
qed

text \<open>
  C34. A logical call is over when its body is closed, and it is reported once.  Whatever happens
  to the body of a response the engine returned, in any order (reads, failures, the hooks of the
  decoder, the idle timer, the end of the caller's context, repeated closes), once it has been
  closed the connection's body is closed and the attempt's context ended, and telemetry, if the
  call has it, is finished with exactly one delivery (none for a call it may not record); the
  ending of the call was told to the recorder at most once, and never after it finished.
\<close>
theorem response_reported_once:
  assumes "transport_do render agent fresh c spec env = (Call_Response status hs w t, st)"
    "b = fold body_step evs (opened_body now w (es_recorder st))" "list_ex is_close evs"
  shows "0 < rb_closes b \<and> (w = Bare_Body \<or> rb_cause b \<noteq> None) \<and>
    (case rb_recorder b of
       None \<Rightarrow> \<not> t
     | Some (r, out) \<Rightarrow> t \<and> rc_finished r \<and> length out = (if rc_recordable r then 1 else 0)) \<and>
    length (filter is_ending (rb_ops b)) \<le> 1 \<and>
    (\<forall>i < length (rb_ops b). is_ending (rb_ops b ! i) \<longrightarrow> \<not> list_ex is_finish (take i (rb_ops b)))"
proof -
  let ?b0 = "opened_body now w (es_recorder st)"
  note acc = call_accounted [OF assms(1)]
  have "body_inv (es_recorder st) ?b0" by (simp add: body_inv_def opened_body_def option.map_ident)
  then have inv: "body_inv (es_recorder st) b" unfolding assms(2) by (rule body_run.run_keeps)
  have cl: "closed_down w b" using run_closed [OF assms(3), of ?b0] by (simp add: assms(2) opened_body_def)
  obtain ops where ops: "rb_ops b = ops" "list_all (\<lambda>op. \<not> (\<exists>now base. op = Op_Begin now base)) ops"
    using run_ops [of evs ?b0] by (auto simp: assms(2) opened_body_def)
  have "case rb_recorder b of None \<Rightarrow> \<not> t | Some (r, out) \<Rightarrow> t \<and> rc_finished r \<and> length out = (if rc_recordable r then 1 else 0)"
  proof (cases "es_recorder st")
    case None
    with inv acc show ?thesis by (simp add: body_inv_def)
  next
    case (Some p)
    with inv ops have r: "rb_recorder b = Some (run_recorder ops p)" by (simp add: body_inv_def)
    have "accounted (run_recorder ops p)" using run_accounted [OF ops(2)] acc Some by (simp add: all_recorders_def)
    moreover have "rc_finished (fst (run_recorder ops p))"
      using finish_finishes cl r ops(1) by (auto simp: closed_down_def)
    ultimately show ?thesis using r acc Some by (auto simp: accounted_def split: prod.split)
  qed
  moreover have "length (filter is_ending (rb_ops b)) \<le> 1" using inv by (auto simp: body_inv_def split: if_splits)
  ultimately show ?thesis using cl inv by (auto simp: closed_down_def body_inv_def)
qed

text \<open>A call with telemetry whose body is drained and closed twice.\<close>

definition observed_client :: client where
  "observed_client = demo_client\<lparr>cl_telemetry := True\<rparr>"

definition ok_env :: "nat \<Rightarrow> attempt_env" where
  "ok_env n = (demo_env n)\<lparr>ae_exchange := Answered 200 no_headers\<rparr>"

definition drained_twice_closed :: "body_event list" where
  "drained_twice_closed = [Body_First_Event 3, Body_Read 4 10 (Some (Sentinel Io_EOF)), Body_Close 5, Body_Close 6]"

lemma observed_call:
  "\<exists>w st. transport_do (\<lambda>_. None) ''agent'' ''key-1'' observed_client demo_spec ok_env = (Call_Response 200 no_headers w True, st)"
proof -
  have "\<not> retryable 200 no_headers" by code_simp
  then show ?thesis
    by (simp add: transport_do_def mint_key_def initial_state_def call_recorder_state_def demo_spec_def observed_client_def
        demo_client_def engine_loop.simps attempt_step_def ok_env_def demo_env_def record_op_def new_http_request_def
        demo_urls after_response_def Let_def)
qed

theorem response_reported_once_witness:
  "\<exists>w st r out. transport_do (\<lambda>_. None) ''agent'' ''key-1'' observed_client demo_spec ok_env = (Call_Response 200 no_headers w True, st) \<and>
     rb_recorder (fold body_step drained_twice_closed (opened_body 2 w (es_recorder st))) = Some (r, out) \<and>
     rc_finished r \<and> length out = (if rc_recordable r then 1 else 0)"
proof -
  obtain w st where c: "transport_do (\<lambda>_. None) ''agent'' ''key-1'' observed_client demo_spec ok_env = (Call_Response 200 no_headers w True, st)"
    using observed_call by blast
  have "list_ex is_close drained_twice_closed" by (simp add: drained_twice_closed_def is_close_def)
  from response_reported_once [OF c refl this, of 2] c show ?thesis
    by (fastforce split: option.splits)
qed

text \<open>
  Reading a body to its end does not finish the call: the recorder is told nothing until the
  close (the comment in \<open>do\<close> says drained or closed).
\<close>

lemma drained_is_not_finished:
  "rb_cause b \<noteq> Some Cause_Idle \<Longrightarrow> rb_recorder (body_step (Body_Read now n (Some (Sentinel Io_EOF))) b) = rb_recorder b"
  by (auto simp: body_read_def wrapper_read_def idle_reset_def idle_stop_def with_recorder_def observe_read_error_def link_is_def Let_def
      split: body_wrapper.split)

section \<open>The idle timeout\<close>

text \<open>The time of the last read that brought bytes, and whether a read failed or the body was closed.\<close>

fun last_activity :: "instant \<Rightarrow> body_event list \<Rightarrow> instant" where
  "last_activity t [] = t"
| "last_activity t (Body_Read now n err # evs) = last_activity (if 0 < n then now else t) evs"
| "last_activity t (_ # evs) = last_activity t evs"

definition is_end :: "body_event \<Rightarrow> bool" where
  "is_end ev = (case ev of Body_Close now \<Rightarrow> True | Body_Read now n (Some e) \<Rightarrow> True | _ \<Rightarrow> False)"

lemma last_activity_append: "last_activity t (xs @ ys) = last_activity (last_activity t xs) ys"
  by (induction t xs rule: last_activity.induct) simp_all

definition idle_inv :: "duration \<Rightarrow> instant \<Rightarrow> body_event list \<Rightarrow> response_body \<Rightarrow> bool" where
  "idle_inv d start evs b \<longleftrightarrow> rb_wrapper b = Idle_Timeout d \<and> rb_stopped b = list_ex is_end evs \<and>
     (rb_stopped b \<or> rb_deadline b = last_activity start evs + d) \<and>
     (rb_cause b = Some Cause_Idle \<longrightarrow> (\<exists>xs now ys. evs = xs @ Body_Timer now # ys \<and> \<not> list_ex is_end xs \<and> last_activity start xs + d \<le> now))"

lemma idle_kept:
  assumes "idle_inv d start evs b" "rb_cause (body_step ev b) = Some Cause_Idle \<Longrightarrow> rb_cause b = Some Cause_Idle"
    "rb_wrapper (body_step ev b) = Idle_Timeout d" "rb_stopped (body_step ev b) = (rb_stopped b \<or> is_end ev)"
    "rb_stopped (body_step ev b) \<or> rb_deadline (body_step ev b) = last_activity start (evs @ [ev]) + d"
  shows "idle_inv d start (evs @ [ev]) (body_step ev b)"
proof -
  have "\<exists>xs now ys. evs @ [ev] = xs @ Body_Timer now # ys \<and> \<not> list_ex is_end xs \<and> last_activity start xs + d \<le> now"
    if "rb_cause (body_step ev b) = Some Cause_Idle"
  proof -
    from assms(1) assms(2) [OF that] obtain xs now ys where "evs = xs @ Body_Timer now # ys" "\<not> list_ex is_end xs" "last_activity start xs + d \<le> now"
      unfolding idle_inv_def by blast
    then show ?thesis by (intro exI [of _ xs] exI [of _ now] exI [of _ "ys @ [ev]"]) simp
  qed
  with assms show ?thesis by (simp add: idle_inv_def)
qed

lemma idle_step: "idle_inv d start evs b \<Longrightarrow> idle_inv d start (evs @ [ev]) (body_step ev b)"
proof -
  assume inv: "idle_inv d start evs b"
  then have w: "rb_wrapper b = Idle_Timeout d" and dl: "rb_stopped b \<or> rb_deadline b = last_activity start evs + d"
    unfolding idle_inv_def by blast+
  show ?thesis
  proof (cases "\<exists>now. ev = Body_Timer now \<and> \<not> rb_stopped b \<and> rb_deadline b \<le> now \<and> rb_cause b = None")
    case True
    then obtain now where ev: "ev = Body_Timer now" "\<not> rb_stopped b" "rb_deadline b \<le> now" "rb_cause b = None" by blast
    with inv have "\<not> list_ex is_end evs" "last_activity start evs + d \<le> now" by (auto simp: idle_inv_def)
    then have "\<exists>xs now ys. evs @ [ev] = xs @ Body_Timer now # ys \<and> \<not> list_ex is_end xs \<and> last_activity start xs + d \<le> now"
      using ev(1) by blast
    with inv ev w show ?thesis
      by (auto simp: idle_inv_def idle_timer_def cancel_with_def is_end_def last_activity_append)
  next
    case False
    show ?thesis
    proof (cases ev)
      case (Body_Read now n err)
      with w dl show ?thesis
        by (intro idle_kept [OF inv])
          (auto simp: body_read_def wrapper_read_def telemetry_kept idle_reset_def idle_stop_def is_end_def last_activity_append Let_def
            split: option.splits if_splits)
    next
      case (Body_Close now)
      with w dl show ?thesis
        by (intro idle_kept [OF inv])
          (auto simp: body_close_def telemetry_kept wrapper_close_def idle_close_def idle_stop_def cancel_with_def is_end_def with_recorder_def
            telemetry_close_def Let_def split: if_splits)
    next
      case (Body_Timer now)
      with w dl False show ?thesis
        by (intro idle_kept [OF inv]) (auto simp: idle_timer_def cancel_with_def is_end_def last_activity_append split: if_splits)
    next
      case (Body_Caller_Done e)
      with w dl show ?thesis
        by (intro idle_kept [OF inv]) (auto simp: cancel_with_def is_end_def last_activity_append split: if_splits)
    next
      case (Body_First_Event now)
      with w dl show ?thesis
        by (intro idle_kept [OF inv]) (auto simp: with_recorder_def first_event_hook_def is_end_def last_activity_append split: if_splits)
    next
      case (Body_Aborted now)
      with w dl show ?thesis
        by (intro idle_kept [OF inv]) (auto simp: with_recorder_def aborted_hook_def is_end_def last_activity_append split: if_splits)
    qed
  qed
qed

lemma idle_run: "idle_inv d start evs (fold body_step evs (opened_body start (Idle_Timeout d) rec))"
proof (induction evs rule: rev_induct)
  case Nil
  show ?case by (simp add: idle_inv_def opened_body_def)
next
  case (snoc ev evs)
  from idle_step [OF snoc] show ?case by simp
qed



end
