(* ===== verification/Engine_Returns.thy ===== *)
theory Engine_Returns
  imports Transport_Facts "HOL-Library.While_Combinator"
begin

text \<open>
  The engine's loop as it is written: \<open>for\<close> without a condition, left only by a return.
  \<open>engine_loop\<close> of \<open>Transport\<close> is the same loop by recursion on the retries that are left; here
  the unconditional loop is shown to return, with the same result.
\<close>

section \<open>The loop without a bound\<close>

text \<open>Either at the top of the loop, or returned.\<close>

type_synonym loop_position = "nat \<times> nat \<times> engine_state + call_result \<times> engine_state"

definition engine_turn :: "engine_config \<Rightarrow> (nat \<Rightarrow> attempt_env) \<Rightarrow> loop_position \<Rightarrow> loop_position" where
  "engine_turn cfg env pos =
     (case pos of
        Inr returned \<Rightarrow> Inr returned
      | Inl (attempt, base, st) \<Rightarrow>
          (case attempt_step cfg env attempt base st of
             Stop r s \<Rightarrow> Inr (r, s)
           | Again base' s \<Rightarrow> Inl (Suc attempt, base', s)))"

definition engine_forever :: "engine_config \<Rightarrow> (nat \<Rightarrow> attempt_env) \<Rightarrow> engine_state \<Rightarrow> loop_position option" where
  "engine_forever cfg env st = while_option isl (engine_turn cfg env) (Inl (0, 0, st))"

lemma turns_to_return:
  "\<exists>k \<le> Suc (cl_max_retries (ec_client cfg) - attempt).
     (engine_turn cfg env ^^ k) (Inl (attempt, base, st)) = Inr (engine_loop cfg env attempt base st)"
proof (induction cfg env attempt base st rule: engine_loop.induct)
  case (1 cfg env attempt base st)
  show ?case
  proof (cases "attempt_step cfg env attempt base st")
    case (Stop r s)
    then have "engine_turn cfg env (Inl (attempt, base, st)) = Inr (engine_loop cfg env attempt base st)"
      by (simp add: engine_turn_def engine_loop.simps [of cfg env attempt base st])
    then show ?thesis by (intro exI [of _ 1]) simp
  next
    case (Again base' s)
    then obtain k where k: "k \<le> Suc (cl_max_retries (ec_client cfg) - Suc attempt)"
      "(engine_turn cfg env ^^ k) (Inl (Suc attempt, base', s)) = Inr (engine_loop cfg env (Suc attempt) base' s)"
      using "1.IH" by blast
    have turn: "engine_turn cfg env (Inl (attempt, base, st)) = Inl (Suc attempt, base', s)"
      "engine_loop cfg env attempt base st = engine_loop cfg env (Suc attempt) base' s"
      using Again by (simp_all add: engine_turn_def engine_loop.simps [of cfg env attempt base st])
    have "(engine_turn cfg env ^^ Suc k) (Inl (attempt, base, st)) = Inr (engine_loop cfg env attempt base st)"
      unfolding funpow_Suc_right comp_def turn by (rule k(2))
    moreover have "Suc k \<le> Suc (cl_max_retries (ec_client cfg) - attempt)"
      using k(1) attempt_step_again [OF Again] by linarith
    ultimately show ?thesis by blast
  qed
qed

lemma while_returns:
  "while_option isl (engine_turn cfg env) (Inl (attempt, base, st)) = Some (Inr (engine_loop cfg env attempt base st))"
proof (induction cfg env attempt base st rule: engine_loop.induct)
  case (1 cfg env attempt base st)
  show ?case
  proof (cases "attempt_step cfg env attempt base st")
    case (Stop r s)
    then show ?thesis
      by (simp add: while_option_unfold [of _ _ "Inl (attempt, base, st)"] engine_turn_def while_option_unfold [of _ _ "Inr (r, s)"]
          engine_loop.simps [of cfg env attempt base st])
  next
    case (Again base' s)
    with "1.IH" show ?thesis
      by (simp add: while_option_unfold [of _ _ "Inl (attempt, base, st)"] engine_turn_def [of cfg env "Inl (attempt, base, st)"]
          engine_loop.simps [of cfg env attempt base st])
  qed
qed

text \<open>
  C30. The engine always returns.  Its loop has no condition and no bound of its own, yet whatever
  the hosts, the clock, the contexts and the pauses do, it is left after at most the retry budget
  plus one turns, with the result and the trace the recursive \<open>engine_loop\<close> describes.
\<close>
theorem engine_returns:
  "engine_forever cfg env st = Some (Inr (engine_loop cfg env 0 0 st)) \<and>
   (\<exists>k. k \<le> Suc (cl_max_retries (ec_client cfg)) \<and>
      (engine_turn cfg env ^^ k) (Inl (0, 0, st)) = Inr (engine_loop cfg env 0 0 st))"
  using while_returns [of cfg env 0 0 st] turns_to_return [where cfg = cfg and env = env and attempt = 0 and base = 0 and st = st]
  by (simp add: engine_forever_def)

end
