(* ===== verification/Trust_Release.thy ===== *)
theory Trust_Release
  imports Metadata Api_Calls Receipt_Examples
begin

text \<open>
  The published trust release as \<open>attestation.go\<close> decodes it (\<open>TrustRelease\<close> with its nested
  types), the three ways to fetch it, and the policy built from a release that is fetched.  The
  last section follows an image from the bytes of the published document into an accepted
  attestation.
\<close>

section \<open>The document\<close>

definition trust_release_tls_schema :: schema where
  "trust_release_tls_schema = Schema [(''mode'', True, FString), (''hostname'', True, FString)]"

definition trust_release_data_policy_schema :: schema where
  "trust_release_data_policy_schema = Schema [(''prompt_output_storage'', False, FBool),
     (''control_plane_prompt_access'', False, FBool)]"

definition trust_release_schema :: schema where
  "trust_release_schema = Schema [(''platform'', True, FString), (''source_repo'', True, FString),
     (''source_repositories'', True, FStringMap), (''source_commit'', True, FString), (''image_reference'', True, FString),
     (''accepted_image_references'', True, FTexts), (''image_digest'', True, FString),
     (''accepted_image_digests'', True, FTexts), (''attestation_issuer'', True, FString),
     (''attestation_audience'', True, FString), (''api_base_url'', True, FString),
     (''tls'', True, FOptStruct trust_release_tls_schema), (''data_policy'', True, FOptStruct trust_release_data_policy_schema)]"

definition the_texts :: "svalue \<Rightarrow> string list" where
  "the_texts v = (case v of VTexts ts \<Rightarrow> ts | _ \<Rightarrow> [])"

text \<open>The members of the struct a policy is built from.\<close>

definition release_of :: "svalue \<Rightarrow> trust_release" where
  "release_of v =
     (let f = (\<lambda>name. struct_field trust_release_schema name v) in
      \<lparr>tr_image_reference = the_string (f ''image_reference''),
       tr_accepted_image_references = the_texts (f ''accepted_image_references''),
       tr_image_digest = the_string (f ''image_digest''),
       tr_accepted_image_digests = the_texts (f ''accepted_image_digests'')\<rparr>)"

section \<open>Fetching it\<close>

record metadata_env =
  me_render :: "go_error \<Rightarrow> string option"
  me_fmt_other :: "gvalue \<Rightarrow> string"
  me_json_error :: go_error \<comment> \<open>of the decoder\<close>
  me_transport :: metadata_transport
  me_agent :: string

text \<open>\<open>FetchTrustRelease\<close> passes no client of its own.\<close>

definition fetch_release :: "metadata_env \<Rightarrow> http_client option \<Rightarrow> string \<Rightarrow> svalue decode_result" where
  "fetch_release env http_client url =
     fetch_trust_release (me_render env) (me_fmt_other env) (struct_decoder (me_json_error env) trust_release_schema)
       (me_transport env) (me_agent env) http_client url"

text \<open>\<open>Client.TrustRelease\<close>: one request of the client, without its credentials.\<close>

definition client_trust_release ::
    "metadata_env \<Rightarrow> client \<Rightarrow> string \<Rightarrow> exchange \<Rightarrow> bytes + go_error \<Rightarrow> go_error option \<Rightarrow> svalue decode_result" where
  "client_trust_release env c url exch read_all ctx_err =
     (case fst (absolute_request (me_render env) (me_agent env) c ''GET'' (if url = [] then default_trust_release_url else url) exch) of
        Call_Error e \<Rightarrow> Decode_Failed e
      | Call_Panicked \<Rightarrow> Decode_Panicked
      | Call_Response status hs w tele \<Rightarrow>
          decode_response (me_render env) (me_fmt_other env) ctx_err read_all status hs
            (Some (struct_decoder (me_json_error env) trust_release_schema)))"

record policy_options =
  po_release :: "svalue option"
  po_audience :: string
  po_cert_sha256 :: string
  po_trust_release_url :: string
  po_http_client :: "http_client option"

definition default_policy_options :: policy_options where
  "default_policy_options = \<lparr>po_release = None, po_audience = [], po_cert_sha256 = [], po_trust_release_url = [],
     po_http_client = None\<rparr>"

text \<open>\<open>PolicyFromTrustRelease\<close>; \<open>None\<close>: the decoder panicked.\<close>

definition policy_from_options :: "metadata_env \<Rightarrow> policy_options \<Rightarrow> (attestation_error + attestation_policy) option" where
  "policy_from_options env opts =
     policy_of_options (map_option release_of (po_release opts))
       (map_decode_result release_of (fetch_release env (po_http_client opts) (po_trust_release_url opts)))
       (po_audience opts) (po_cert_sha256 opts)"

section \<open>What the document says\<close>

lemma decoded_member:
  assumes "decode_struct (Schema fs) (GMap m) = Some v" "distinct (map fst fs)" "(n, om, k) \<in> set fs"
  shows "decode_field k (struct_member m n) = Some (struct_field (Schema fs) n v)"
proof -
  from assms(1) obtain vals where vals:
    "those (map (\<lambda>(n, om, k). decode_field k (struct_member m n)) fs) = Some vals"
    and v: "v = VStruct vals (extra_fields (GMap m) (map fst fs))"
    by (auto simp: decode_struct.simps)
  have "length vals = length fs \<and> (\<exists>x. map_of (zip (map fst fs) vals) n = Some x \<and> decode_field k (struct_member m n) = Some x)"
    using vals assms(2,3)
  proof (induction fs arbitrary: vals)
    case (Cons f fs)
    obtain x xs where x: "vals = x # xs" "those (map (\<lambda>(n, om, k). decode_field k (struct_member m n)) fs) = Some xs"
      "(case f of (n, om, k) \<Rightarrow> decode_field k (struct_member m n)) = Some x"
      using Cons.prems(1) by (auto split: option.splits)
    have len: "length xs = length fs"
      using x(2) by (induction fs arbitrary: xs) (auto split: option.splits)
    show ?case
    proof (cases "f = (n, om, k)")
      case True
      with x len show ?thesis by simp
    next
      case False
      with Cons.prems(3) have "(n, om, k) \<in> set fs" by simp
      moreover from imageI [OF this, of fst] Cons.prems(2) have "fst f \<noteq> n" by auto
      ultimately show ?thesis using Cons.IH [OF x(2)] Cons.prems(2) x(1) by auto
    qed
  qed simp
  then show ?thesis by (auto simp: v struct_field_def)
qed

text \<open>The images a document publishes: the accepted ones, or else the single one.\<close>

definition published_images :: "object \<Rightarrow> string \<Rightarrow> string \<Rightarrow> string list" where
  "published_images m accepted single =
     (case struct_member m accepted of
        GSlice (x # xs) \<Rightarrow> List.map_filter as_string (x # xs)
      | _ \<Rightarrow> (case struct_member m single of GString s \<Rightarrow> (if s = [] then [] else [s]) | _ \<Rightarrow> []))"

lemma text_member: "decode_field FString v = Some x \<Longrightarrow> the_string x = string_or_empty v"
  by (cases v) (auto simp: decode_field.simps the_string_def as_string_def string_or_empty_def)

lemma texts_member:
  assumes "decode_field FTexts v = Some x"
  shows "(the_texts x = [] \<longleftrightarrow> (v = GNil \<or> v = GSlice [])) \<and>
    (v \<noteq> GNil \<longrightarrow> (\<exists>xs. v = GSlice xs \<and> (\<forall>s. s \<noteq> [] \<longrightarrow> (s \<in> set (the_texts x) \<longleftrightarrow> GString s \<in> set xs))))"
proof (cases "v = GNil")
  case True
  with assms show ?thesis by (auto simp: decode_field.simps the_texts_def)
next
  case False
  then have "map_option VTexts (decode_texts v) = Some x" using assms by (simp add: decode_field.simps)
  then obtain xs ts where xs: "v = GSlice xs" "x = VTexts ts"
    "those (map (\<lambda>x. if x = GNil then Some [] else as_string x) xs) = Some ts"
    by (cases v) (auto simp: decode_texts_def)
  from xs(3) have "(ts = [] \<longleftrightarrow> xs = []) \<and> (\<forall>s. s \<noteq> [] \<longrightarrow> (s \<in> set ts \<longleftrightarrow> GString s \<in> set xs))"
  proof (induction xs arbitrary: ts)
    case (Cons y ys)
    then show ?case by (cases y) (auto simp: as_string_def split: option.splits if_splits)
  qed simp
  with xs(1,2) False show ?thesis by (simp add: the_texts_def)
qed

lemma accepted_twice [simp]: "accepted_or_single (accepted_or_single xs x) x = accepted_or_single xs x"
  by (simp add: accepted_or_single_def)

lemma map_filter_strings: "d \<in> set (List.map_filter as_string vs) \<longleftrightarrow> GString d \<in> set vs"
  by (induction vs) (auto simp: List.map_filter_simps as_string_def split: gvalue.split option.split)

lemma published_list:
  assumes "decode_field FTexts (struct_member m a) = Some x" "the_texts x \<noteq> []"
  shows "d \<noteq> [] \<Longrightarrow> d \<in> set (the_texts x) \<longleftrightarrow> d \<in> set (published_images m a s)"
proof -
  assume d: "d \<noteq> []"
  from texts_member [OF assms(1)] assms(2) obtain xs where xs: "struct_member m a = GSlice xs" "xs \<noteq> []"
    "d \<in> set (the_texts x) \<longleftrightarrow> GString d \<in> set xs" using d by blast
  then obtain z zs where z: "xs = z # zs" by (cases xs) simp_all
  have "published_images m a s = List.map_filter as_string xs" by (simp only: published_images_def xs(1) z gvalue.case list.case)
  with xs(3) show ?thesis by (simp only: map_filter_strings)
qed

lemma published_single:
  assumes "decode_field FTexts (struct_member m a) = Some x" "the_texts x = []" "decode_field FString (struct_member m s) = Some y"
  shows "published_images m a s = (if the_string y = [] then [] else [the_string y])"
proof -
  have "published_images m a s = (case struct_member m s of GString s \<Rightarrow> (if s = [] then [] else [s]) | _ \<Rightarrow> [])"
    using texts_member [OF assms(1)] assms(2) by (cases "struct_member m a = GNil") (simp_all add: published_images_def)
  also have "\<dots> = (if the_string y = [] then [] else [the_string y])"
    unfolding text_member [OF assms(3)] by (cases "struct_member m s") (simp_all add: string_or_empty_def as_string_def)
  finally show ?thesis .
qed

lemma published_accepted:
  assumes "decode_field FTexts (struct_member m a) = Some x" "decode_field FString (struct_member m s) = Some y"
  shows "(d \<noteq> [] \<longrightarrow> (d \<in> set (accepted_or_single (the_texts x) (the_string y)) \<longleftrightarrow> d \<in> set (published_images m a s))) \<and>
    (published_images m a s \<noteq> [] \<longrightarrow> accepted_or_single (the_texts x) (the_string y) \<noteq> [])"
proof (cases "the_texts x = []")
  case True
  then show ?thesis by (simp add: published_single [OF assms(1) True assms(2)] accepted_or_single_def)
next
  case False
  with published_list [OF assms(1) False, of d s] show ?thesis by (simp add: accepted_or_single_def)
qed

lemma attested_image_claims:
  assumes "verify_gateway_attestation ac now document jwks policy nonce cert exporter = Inr g"
  shows "genuine_image (ga_raw_claims g) policy \<and> ga_image_digest g = image_claim (ga_raw_claims g) ''image_digest'' \<and>
    ga_image_reference g = image_claim (ga_raw_claims g) ''image_reference''"
  using assms by (auto simp: verify_gateway_attestation_def check_attestation_claims_def check_iff check_image_iff split_paired_Ex
      simp del: split_paired_Ex)

lemma read_failure_failed [simp]: "read_failure render ctx_err err \<noteq> Decoded v"
  by (simp add: read_failure_def split: option.split bool.split)

lemma fetched_document:
  assumes "fetch_release env h url = Decoded v"
  shows "\<exists>status hs body ctx doc. me_transport env (clone_credential_free h)
       (metadata_request (me_agent env) (if url = [] then default_trust_release_url else url)) = Exchange_Answered status hs (Inl body) ctx \<and>
     200 \<le> status \<and> status < 300 \<and> parse_json document_rules body = Some doc \<and> decode_struct trust_release_schema doc = Some v"
  using assms
  by (auto simp: fetch_release_def fetch_trust_release_def decode_response_def struct_decoder_def Let_def
      split: option.splits metadata_answer.splits sum.splits if_splits)

lemma release_members:
  assumes "decode_struct trust_release_schema (GMap m) = Some v"
  shows "\<exists>x. decode_field FTexts (struct_member m ''accepted_image_digests'') = Some x \<and> tr_accepted_image_digests (release_of v) = the_texts x"
    "\<exists>x. decode_field FString (struct_member m ''image_digest'') = Some x \<and> tr_image_digest (release_of v) = the_string x"
    "\<exists>x. decode_field FTexts (struct_member m ''accepted_image_references'') = Some x \<and> tr_accepted_image_references (release_of v) = the_texts x"
    "\<exists>x. decode_field FString (struct_member m ''image_reference'') = Some x \<and> tr_image_reference (release_of v) = the_string x"
  using decoded_member [OF assms [unfolded trust_release_schema_def]]
  by (auto simp: release_of_def trust_release_schema_def)

text \<open>The kinds of image a document publishes, and whether an attested image is among them.\<close>

definition image_published :: "object \<Rightarrow> gateway_attestation \<Rightarrow> bool" where
  "image_published m g \<longleftrightarrow>
     (let digests = published_images m ''accepted_image_digests'' ''image_digest'';
          references = published_images m ''accepted_image_references'' ''image_reference''
      in (digests \<noteq> [] \<or> references \<noteq> []) \<and>
         (digests \<noteq> [] \<longrightarrow> ga_image_digest g \<in> set digests) \<and> (references \<noteq> [] \<longrightarrow> ga_image_reference g \<in> set references))"

definition release_accepts :: "trust_release \<Rightarrow> gateway_attestation \<Rightarrow> bool" where
  "release_accepts r g \<longleftrightarrow>
     (let digests = accepted_or_single (tr_accepted_image_digests r) (tr_image_digest r);
          references = accepted_or_single (tr_accepted_image_references r) (tr_image_reference r)
      in (digests \<noteq> [] \<or> references \<noteq> []) \<and>
         (digests \<noteq> [] \<longrightarrow> ga_image_digest g \<noteq> [] \<and> ga_image_digest g \<in> set digests) \<and>
         (references \<noteq> [] \<longrightarrow> ga_image_reference g \<noteq> [] \<and> ga_image_reference g \<in> set references))"

lemma policy_of_fetched:
  assumes "policy_from_options env opts = Some (Inr policy)" "po_release opts = None"
  shows "\<exists>v. fetch_release env (po_http_client opts) (po_trust_release_url opts) = Decoded v \<and>
    policy_from_trust_release (po_audience opts) (po_cert_sha256 opts) (release_of v) = Inr policy"
  using assms by (cases "fetch_release env (po_http_client opts) (po_trust_release_url opts)")
    (simp_all add: policy_from_options_def policy_of_options_def release_result_def and_then_def)

lemma attested_release:
  assumes "policy_from_trust_release audience cert_sha256 r = Inr policy"
    "verify_gateway_attestation ac now document jwks policy nonce cert exporter = Inr g"
  shows "release_accepts r g"
proof -
  have "ap_expected_image_digests policy = accepted_or_single (tr_accepted_image_digests r) (tr_image_digest r)"
    "ap_expected_image_digest policy = tr_image_digest r"
    "ap_expected_image_references policy = accepted_or_single (tr_accepted_image_references r) (tr_image_reference r)"
    "ap_expected_image_reference policy = tr_image_reference r"
    using assms(1) by (auto simp: policy_from_trust_release_def Let_def split: if_splits)
  with attested_image_claims [OF assms(2)] show ?thesis by (simp add: release_accepts_def genuine_image_def Let_def)
qed

lemma published_release:
  assumes "decode_struct trust_release_schema doc = Some v" "release_accepts (release_of v) g"
  shows "\<exists>m. doc = GMap m \<and> image_published m g"
proof (cases doc)
  case GNil
  with assms(1) have "v = VStruct (map (\<lambda>(n, om, k). zero_value k) (schema_fields trust_release_schema)) []"
    by (simp add: trust_release_schema_def decode_struct.simps)
  then have "release_of v = \<lparr>tr_image_reference = [], tr_accepted_image_references = [], tr_image_digest = [],
      tr_accepted_image_digests = []\<rparr>"
    by (simp add: trust_release_schema_def release_of_def struct_field_def the_string_def the_texts_def)
  with assms(2) show ?thesis by (simp add: release_accepts_def accepted_or_single_def)
next
  case (GMap m)
  note r = release_members [OF assms(1) [unfolded GMap]]
  obtain x y where xy: "decode_field FTexts (struct_member m ''accepted_image_digests'') = Some x"
    "tr_accepted_image_digests (release_of v) = the_texts x"
    "decode_field FString (struct_member m ''image_digest'') = Some y" "tr_image_digest (release_of v) = the_string y"
    using r(1,2) by blast
  obtain p q where pq: "decode_field FTexts (struct_member m ''accepted_image_references'') = Some p"
    "tr_accepted_image_references (release_of v) = the_texts p"
    "decode_field FString (struct_member m ''image_reference'') = Some q" "tr_image_reference (release_of v) = the_string q"
    using r(3,4) by blast
  from published_accepted [OF xy(1,3), of "ga_image_digest g"] published_accepted [OF pq(1,3), of "ga_image_reference g"]
    assms(2) [unfolded release_accepts_def Let_def xy(2,4) pq(2,4)]
  have "image_published m g" unfolding image_published_def Let_def
    by (metis ex_in_conv set_empty2)
  with GMap show ?thesis by blast
qed (use assms(1) in \<open>simp_all add: trust_release_schema_def decode_struct.simps\<close>)

text \<open>The JSON object that a policy's release was fetched as.\<close>

definition published_document :: "metadata_env \<Rightarrow> policy_options \<Rightarrow> object \<Rightarrow> bool" where
  "published_document env opts m \<longleftrightarrow>
     (\<exists>status hs body ctx. me_transport env (clone_credential_free (po_http_client opts)) (metadata_request (me_agent env)
         (if po_trust_release_url opts = [] then default_trust_release_url else po_trust_release_url opts)) =
         Exchange_Answered status hs (Inl body) ctx \<and>
       200 \<le> status \<and> status < 300 \<and> parse_json document_rules body = Some (GMap m))"

lemma attested_published:
  assumes "policy_from_options env opts = Some (Inr policy)" "po_release opts = None"
    "verify_gateway_attestation ac now document jwks policy nonce cert exporter = Inr g"
  shows "\<exists>m. published_document env opts m \<and> image_published m g"
proof -
  from policy_of_fetched [OF assms(1,2)] obtain v where v:
    "fetch_release env (po_http_client opts) (po_trust_release_url opts) = Decoded v"
    "policy_from_trust_release (po_audience opts) (po_cert_sha256 opts) (release_of v) = Inr policy" by blast
  with fetched_document [OF v(1)] published_release [OF _ attested_release [OF v(2) assms(3)]] show ?thesis
    unfolding published_document_def by blast
qed

text \<open>
  C36. An accepted image is one the publisher's document names.  When a policy is built from a
  release that is fetched, and an attestation is accepted under it, the release was answered
  with a 2xx status and a JSON object, that object publishes image digests or references, and
  the attested image carries one of the published digests and one of the published references
  (of each kind that is published at all).
\<close>
theorem attested_image_published:
  assumes "policy_from_options env opts = Some (Inr policy)" "po_release opts = None"
    "verify_gateway_attestation ac now document jwks policy nonce cert exporter = Inr g"
  shows "\<exists>status hs body ctx m.
     me_transport env (clone_credential_free (po_http_client opts)) (metadata_request (me_agent env)
       (if po_trust_release_url opts = [] then default_trust_release_url else po_trust_release_url opts)) =
       Exchange_Answered status hs (Inl body) ctx \<and>
     200 \<le> status \<and> status < 300 \<and> parse_json document_rules body = Some (GMap m) \<and> image_published m g"
  using attested_published [OF assms] unfolding published_document_def by blast

text \<open>Hosts that publish one digest and one key.\<close>

definition demo_jwks_text :: bytes where
  "demo_jwks_text = dq ''{~keys~:[{~kid~:~k~,~kty~:~RSA~,~n~:~AQ~,~e~:~AQAB~}]}''"

definition demo_release_text :: bytes where
  "demo_release_text = dq ''{~image_digest~:~sha256:1~}''"

definition demo_metadata :: metadata_env where
  "demo_metadata = \<lparr>me_render = (\<lambda>e. None), me_fmt_other = (\<lambda>v. []), me_json_error = Sentinel Io_EOF,
     me_transport = (\<lambda>h rq. Exchange_Answered 200 no_headers
       (Inl (if rq_url rq = gcp_jwks_uri then demo_jwks_text else demo_release_text)) None), me_agent = ''agent''\<rparr>"

lemma demo_transport: "me_transport demo_metadata h (metadata_request agent default_trust_release_url) =
    Exchange_Answered 200 no_headers (Inl demo_release_text) None"
proof -
  have "default_trust_release_url \<noteq> gcp_jwks_uri" by code_simp
  then show ?thesis by (simp add: demo_metadata_def metadata_request_def)
qed

lemma demo_policy: "policy_from_options demo_metadata default_policy_options = Some (Inr example_policy)"
proof -
  have "struct_decoder (Sentinel Io_EOF) trust_release_schema demo_release_text =
      Inr (VStruct [VString [], VString [], VNil, VString [], VString [], VNil, VString ''sha256:1'', VNil, VString [], VString [],
        VString [], VNil, VNil] [])"
    "new_request_error ''GET'' default_trust_release_url = None" "demo_release_text \<noteq> []"
    by code_simp+
  moreover have "me_json_error demo_metadata = Sentinel Io_EOF" by (simp add: demo_metadata_def)
  ultimately show ?thesis
    by (simp add: policy_from_options_def default_policy_options_def fetch_release_def fetch_trust_release_def demo_transport
        decode_response_def policy_of_options_def release_result_def policy_from_trust_release_def release_of_def
        struct_field_def trust_release_schema_def the_string_def the_texts_def accepted_or_single_def
        default_attestation_audience_def pins_image_identity_def example_policy_def and_then_def)
qed

lemma attested_image_published_witness:
  "\<exists>g m. verify_gateway_attestation example_ac 7 (example_token ''n1'' example_cert) (Inr example_jwks) example_policy ''n1'' (Some ''der'') [] = Inr g \<and>
     parse_json document_rules demo_release_text = Some (GMap m) \<and> image_published m g"
proof -
  obtain g where g: "verify_gateway_attestation example_ac 7 (example_token ''n1'' example_cert) (Inr example_jwks) example_policy ''n1'' (Some ''der'') [] = Inr g"
    by (simp add: verify_gateway_attestation_def example_token_claims [OF example_gateway_json] example_gateway_claims)
  from attested_image_published [OF demo_policy _ this] have "\<exists>m. parse_json document_rules demo_release_text = Some (GMap m) \<and> image_published m g"
    by (auto simp: default_policy_options_def demo_transport)
  with g show ?thesis by blast
qed

end
