(* ===== verification/Go_Flag.thy ===== *)
theory Go_Flag
  imports Go_Strconv Telemetry_Header
begin

text \<open>
  What the command-line tool uses of Go's \<open>flag\<close> and \<open>strconv\<close> packages: a flag set of strings,
  integers and booleans with \<open>ContinueOnError\<close>.
\<close>

section \<open>Values\<close>

text \<open>\<open>strconv.ParseInt(s, 0, 64)\<close>: the base is in the prefix, and underscores may separate digits.\<close>

definition int_digit :: "char \<Rightarrow> nat option" where
  "int_digit c =
     (if is_digit c then Some (digit_val c)
      else if byte_val (CHR ''a'') \<le> byte_val (lower_byte c) \<and> byte_val (lower_byte c) \<le> byte_val (CHR ''z'')
      then Some (byte_val (lower_byte c) - byte_val (CHR ''a'') + 10) else None)"

fun scan_digits :: "nat \<Rightarrow> nat \<Rightarrow> string \<Rightarrow> nat option" where
  "scan_digits base n [] = Some n"
| "scan_digits base n (c # s) =
     (if c = CHR ''_'' then scan_digits base n s
      else case int_digit c of
          None \<Rightarrow> None
        | Some d \<Rightarrow> (if d < base then scan_digits base (n * base + d) s else None))"

definition int_base :: "string \<Rightarrow> nat \<times> string" where
  "int_base s =
     (if hd s \<noteq> CHR ''0'' then (10, s)
      else if 3 \<le> length s \<and> lower_byte (s ! 1) = CHR ''b'' then (2, drop 2 s)
      else if 3 \<le> length s \<and> lower_byte (s ! 1) = CHR ''o'' then (8, drop 2 s)
      else if 3 \<le> length s \<and> lower_byte (s ! 1) = CHR ''x'' then (16, drop 2 s)
      else (8, drop 1 s))"

definition parse_int :: "string \<Rightarrow> int option" where
  "parse_int s =
     (let (neg, t) = strip_sign s; (base, ds) = int_base t in
      if t = [] then None
      else case scan_digits base 0 ds of
          None \<Rightarrow> None
        | Some n \<Rightarrow>
            (let i = (if neg then - int n else int n) in
             if CHR ''_'' \<in> set ds \<and> \<not> underscore_ok t then None
             else if i < - (2 ^ 63) \<or> 2 ^ 63 \<le> i then None else Some i))"

definition parse_bool :: "string \<Rightarrow> bool option" where
  "parse_bool s =
     (if s \<in> {''1'', ''t'', ''T'', ''true'', ''TRUE'', ''True''} then Some True
      else if s \<in> {''0'', ''f'', ''F'', ''false'', ''FALSE'', ''False''} then Some False else None)"

section \<open>Flags\<close>

datatype flag_kind = String_Flag | Int_Flag | Bool_Flag

datatype flag_value = String_Value string | Int_Value int | Bool_Value bool

datatype flag_error =
    Bad_Flag_Syntax string
  | Undefined_Flag string
  | Help_Requested
  | Invalid_Value string string \<comment> \<open>name and value\<close>
  | Needs_Argument string

type_synonym flag_set = "(string \<times> flag_kind) list"
type_synonym flag_settings = "(string \<times> flag_value) list"

definition set_flag :: "flag_kind \<Rightarrow> string \<Rightarrow> flag_value option" where
  "set_flag k v =
     (case k of
        String_Flag \<Rightarrow> Some (String_Value v)
      | Int_Flag \<Rightarrow> map_option Int_Value (parse_int v)
      | Bool_Flag \<Rightarrow> map_option Bool_Value (parse_bool v))"

text \<open>The name and value of an argument that is a flag, after its one or two minuses.\<close>

definition flag_name :: "string \<Rightarrow> string" where
  "flag_name s = (if s ! 1 = CHR ''-'' then drop 2 s else drop 1 s)"

definition cut_equals :: "string \<Rightarrow> string \<times> string option" where
  "cut_equals s =
     (takeWhile (\<lambda>c. c \<noteq> CHR ''='') s,
      case dropWhile (\<lambda>c. c \<noteq> CHR ''='') s of [] \<Rightarrow> None | e # v \<Rightarrow> Some v)"

text \<open>\<open>parseOne\<close>: the setting, and the arguments after it.\<close>

definition parse_flag :: "flag_set \<Rightarrow> string \<Rightarrow> string list \<Rightarrow> flag_error + (string \<times> flag_value) \<times> string list" where
  "parse_flag formal s args =
     (let name0 = flag_name s; (name, value) = cut_equals name0 in
      if name0 = [] \<or> hd name0 = CHR ''-'' \<or> hd name0 = CHR ''='' then Inl (Bad_Flag_Syntax s)
      else case map_of formal name of
          None \<Rightarrow> Inl (if name = ''help'' \<or> name = ''h'' then Help_Requested else Undefined_Flag name)
        | Some k \<Rightarrow>
            (case (value, k, args) of
               (Some v, _, _) \<Rightarrow> (case set_flag k v of Some x \<Rightarrow> Inr ((name, x), args) | None \<Rightarrow> Inl (Invalid_Value name v))
             | (None, Bool_Flag, _) \<Rightarrow> Inr ((name, Bool_Value True), args)
             | (None, _, []) \<Rightarrow> Inl (Needs_Argument name)
             | (None, _, v # args') \<Rightarrow>
                 (case set_flag k v of Some x \<Rightarrow> Inr ((name, x), args') | None \<Rightarrow> Inl (Invalid_Value name v))))"

lemma parse_flag_shorter: "parse_flag formal s args = Inr (x, args') \<Longrightarrow> length args' \<le> length args"
  by (auto simp: parse_flag_def Let_def split: prod.splits if_splits option.splits flag_kind.splits list.splits)

text \<open>\<open>FlagSet.Parse\<close>: the settings in their order, and the arguments that are left.\<close>

function parse_flags :: "flag_set \<Rightarrow> string list \<Rightarrow> flag_error + flag_settings \<times> string list" where
  "parse_flags formal [] = Inr ([], [])"
| "parse_flags formal (s # args) =
     (if length s < 2 \<or> hd s \<noteq> CHR ''-'' then Inr ([], s # args)
      else if s = ''--'' then Inr ([], args)
      else case parse_flag formal s args of
          Inl e \<Rightarrow> Inl e
        | Inr (x, args') \<Rightarrow>
            (case parse_flags formal args' of
               Inl e \<Rightarrow> Inl e
             | Inr (xs, rest) \<Rightarrow> Inr (x # xs, rest)))"
  by pat_completeness auto
termination
  by (relation "measure (\<lambda>(formal, args). length args)") (auto dest: parse_flag_shorter)

text \<open>The last setting of a name, else the default.\<close>

definition last_setting :: "string list \<Rightarrow> flag_value \<Rightarrow> flag_settings \<Rightarrow> flag_value" where
  "last_setting names d xs = fold (\<lambda>(n, v) old. if n \<in> set names then v else old) xs d"

definition string_setting :: "string list \<Rightarrow> string \<Rightarrow> flag_settings \<Rightarrow> string" where
  "string_setting names d xs = (case last_setting names (String_Value d) xs of String_Value s \<Rightarrow> s | _ \<Rightarrow> d)"

definition int_setting :: "string list \<Rightarrow> int \<Rightarrow> flag_settings \<Rightarrow> int" where
  "int_setting names d xs = (case last_setting names (Int_Value d) xs of Int_Value i \<Rightarrow> i | _ \<Rightarrow> d)"

definition bool_setting :: "string list \<Rightarrow> bool \<Rightarrow> flag_settings \<Rightarrow> bool" where
  "bool_setting names d xs = (case last_setting names (Bool_Value d) xs of Bool_Value b \<Rightarrow> b | _ \<Rightarrow> d)"

section \<open>What parsing gives\<close>

lemma set_flag_kind:
  "set_flag k v = Some x \<Longrightarrow> (case k of String_Flag \<Rightarrow> \<exists>s. x = String_Value s | Int_Flag \<Rightarrow> \<exists>i. x = Int_Value i | Bool_Flag \<Rightarrow> \<exists>b. x = Bool_Value b)"
  by (auto simp: set_flag_def split: flag_kind.splits)

lemma parse_flag_typed:
  "parse_flag formal s args = Inr ((n, x), args') \<Longrightarrow>
     \<exists>k. map_of formal n = Some k \<and> (case k of String_Flag \<Rightarrow> \<exists>s. x = String_Value s | Int_Flag \<Rightarrow> \<exists>i. x = Int_Value i | Bool_Flag \<Rightarrow> \<exists>b. x = Bool_Value b) \<and>
       (\<exists>used. args = used @ args')"
  by (auto simp: parse_flag_def Let_def split: prod.splits if_splits option.splits flag_kind.splits list.splits dest!: set_flag_kind)

text \<open>Every setting is of a declared flag and has its type; what is left is a suffix of the arguments.\<close>

lemma parse_flags_typed:
  "parse_flags formal args = Inr (xs, rest) \<Longrightarrow>
     (\<forall>(n, x) \<in> set xs. \<exists>k. map_of formal n = Some k \<and>
        (case k of String_Flag \<Rightarrow> \<exists>s. x = String_Value s | Int_Flag \<Rightarrow> \<exists>i. x = Int_Value i | Bool_Flag \<Rightarrow> \<exists>b. x = Bool_Value b)) \<and>
     (\<exists>used. args = used @ rest)"
proof (induction formal args arbitrary: xs rest rule: parse_flags.induct)
  case (2 formal s args)
  show ?case
  proof (cases "length s < 2 \<or> hd s \<noteq> CHR ''-'' \<or> s = ''--''")
    case True
    with 2(2) show ?thesis by (auto split: if_splits)
  next
    case False
    with 2(2) obtain n x args' ys where p: "parse_flag formal s args = Inr ((n, x), args')"
      "parse_flags formal args' = Inr (ys, rest)" "xs = (n, x) # ys"
      by (auto split: sum.splits prod.splits if_splits)
    from parse_flag_typed [OF p(1)] 2(1) [OF _ _ p(1) refl p(2)] False p(3) show ?thesis by auto
  qed
qed simp

text \<open>A flag is set in the same way by one minus or two, and by an equals sign or the next argument.\<close>

lemma cut_equals_simps:
  "CHR ''='' \<notin> set name \<Longrightarrow> cut_equals (name @ ''='' @ v) = (name, Some v)"
  "CHR ''='' \<notin> set name \<Longrightarrow> cut_equals name = (name, None)"
  by (induction name) (auto simp: cut_equals_def)

lemma flag_forms:
  assumes "map_of formal name = Some k" "name \<noteq> []" "hd name \<noteq> CHR ''-''" "CHR ''='' \<notin> set name" "set_flag k v = Some x"
  shows "parse_flag formal (''--'' @ name @ ''='' @ v) args = Inr ((name, x), args)"
    "parse_flag formal (''-'' @ name @ ''='' @ v) args = Inr ((name, x), args)"
    "k \<noteq> Bool_Flag \<Longrightarrow> parse_flag formal (''--'' @ name) (v # args) = Inr ((name, x), args)"
    "k \<noteq> Bool_Flag \<Longrightarrow> parse_flag formal (''-'' @ name) (v # args) = Inr ((name, x), args)"
proof -
  obtain c cs where n: "name = c # cs" "c \<noteq> CHR ''-''" "c \<noteq> CHR ''=''" using assms(2-4) by (cases name) auto
  note c = cut_equals_simps [OF assms(4)]
  have f: "flag_name (''--'' @ name @ t) = name @ t" "flag_name (''-'' @ name @ t) = name @ t" for t
    using n by (simp_all add: flag_name_def)
  have h: "hd (name @ t) = c" "name @ t \<noteq> []" for t using n by simp_all
  show "parse_flag formal (''--'' @ name @ ''='' @ v) args = Inr ((name, x), args)"
    "parse_flag formal (''-'' @ name @ ''='' @ v) args = Inr ((name, x), args)"
    unfolding parse_flag_def f c Let_def using h n(2,3) assms(1,5) by simp_all
  show "parse_flag formal (''--'' @ name) (v # args) = Inr ((name, x), args)"
    "parse_flag formal (''-'' @ name) (v # args) = Inr ((name, x), args)" if "k \<noteq> Bool_Flag"
    using f [of "[]"] h [of "[]"] n(2,3) assms(1,5) that unfolding parse_flag_def by (cases k; simp add: c Let_def)+
qed

text \<open>An integer is read back from its decimal text.\<close>

lemma scan_digits_append: "scan_digits b n (xs @ ys) = Option.bind (scan_digits b n xs) (\<lambda>m. scan_digits b m ys)"
  by (induction xs arbitrary: n) (auto split: option.split)

lemma int_digit_char:
  assumes "d < 10"
  shows "int_digit (char_of (48 + d)) = Some d \<and> (char_of (48 + d) :: char) \<noteq> CHR ''_''"
proof -
  from assms have v: "byte_val (char_of (48 + d)) = 48 + d" by simp
  then have "(char_of (48 + d) :: char) \<noteq> CHR ''_''" using assms by (auto dest: arg_cong [where f = byte_val])
  with v assms show ?thesis by (simp add: int_digit_def is_digit_def digit_val_def)
qed

lemma scan_nat_digits: "scan_digits 10 0 (nat_digits n) = Some n"
proof (induction n rule: nat_digits.induct)
  case (1 n)
  show ?case
  proof (cases "n < 10")
    case True
    with int_digit_char [OF this] show ?thesis by (subst nat_digits.simps) simp
  next
    case False
    have "n mod 10 < 10" by simp
    with int_digit_char [OF this] False "1.IH" show ?thesis by (subst nat_digits.simps) (simp add: scan_digits_append)
  qed
qed

lemma nat_digits_hd: "0 < n \<Longrightarrow> hd (nat_digits n) \<noteq> CHR ''0'' \<and> hd (nat_digits n) \<noteq> CHR ''-'' \<and> hd (nat_digits n) \<noteq> CHR ''+''"
proof (induction n rule: nat_digits.induct)
  case (1 n)
  show ?case
  proof (cases "n < 10")
    case True
    then have "byte_val (char_of (48 + n)) = 48 + n" by simp
    with 1(2) have "(char_of (48 + n) :: char) \<noteq> CHR ''0'' \<and> (char_of (48 + n) :: char) \<noteq> CHR ''-'' \<and> (char_of (48 + n) :: char) \<noteq> CHR ''+''"
      by (auto dest: arg_cong [where f = byte_val])
    with True show ?thesis by (subst (1 2 3) nat_digits.simps) simp
  next
    case False
    with 1 show ?thesis by (subst (1 2 3) nat_digits.simps) simp
  qed
qed

lemma digits_plain: "list_all is_digit ds \<Longrightarrow> CHR ''_'' \<notin> set ds"
proof
  assume "list_all is_digit ds" "CHR ''_'' \<in> set ds"
  then have "is_digit (CHR ''_'')" by (simp add: list_all_iff)
  moreover have "\<not> is_digit (CHR ''_'')" by code_simp
  ultimately show False by simp
qed

lemma parse_int_itoa:
  assumes "- (2 ^ 63) \<le> i" "i < 2 ^ 63"
  shows "parse_int (itoa i) = Some i"
proof (cases "i = 0")
  case True
  have "parse_int (itoa 0) = Some 0" by code_simp
  with True show ?thesis by simp
next
  case False
  let ?ds = "nat_digits (nat \<bar>i\<bar>)"
  have h: "hd ?ds \<noteq> CHR ''0''" "hd ?ds \<noteq> CHR ''-''" "hd ?ds \<noteq> CHR ''+''" using False nat_digits_hd [of "nat \<bar>i\<bar>"] by auto
  then have "strip_sign (itoa i) = (i < 0, ?ds)"
    by (cases ?ds) (auto simp: itoa_def strip_sign_def)
  with h(1) digits_plain [OF nat_digits_digits [of "nat \<bar>i\<bar>"]] assms False show ?thesis
    by (simp add: parse_int_def int_base_def scan_nat_digits Let_def)
qed

end
