(* ===== verification/Cli.thy ===== *)
theory Cli
  imports Trust_Release Go_Flag Session_Facts
begin

text \<open>
  The command-line tool (\<open>cmd/trustedrouter/main.go\<close>): its flags and commands as a function of
  the arguments and of what the calls meet, with the exit status, the text on the standard output
  and the messages on the standard error.  Messages are values; an unrecovered panic is \<open>Crash\<close>.
\<close>

section \<open>Results\<close>

datatype cert_failure = Bad_Base_Url | Missing_Host | Dial_Failed go_error | No_Certificate

datatype cli_failure =
    Stream_Fail stream_failure
  | Api_Fail go_error
  | Encode_Fail
  | Attestation_Fail attestation_error
  | Session_Fail session_error
  | Cert_Fail cert_failure

datatype cli_message =
    Usage_Message
  | Flag_Message flag_error
  | Unknown_Command string
  | Empty_Prompt
  | Connect_Ip_Requires_Session
  | Set_Key_Hint cli_failure
  | Http_Failure int cli_failure
  | Plain_Failure cli_failure
  | Follow_Up_Failed session_error

datatype cli_exit = Exit int | Crash

record cli_result =
  cr_exit :: cli_exit
  cr_stdout :: string
  cr_messages :: "cli_message list"

definition cli_fail :: "int \<Rightarrow> cli_message list \<Rightarrow> cli_result" where
  "cli_fail code msgs = \<lparr>cr_exit = Exit code, cr_stdout = [], cr_messages = msgs\<rparr>"

definition cli_print :: "string \<Rightarrow> cli_result" where
  "cli_print text = \<lparr>cr_exit = Exit 0, cr_stdout = text, cr_messages = []\<rparr>"

definition cli_crash :: cli_result where
  "cli_crash = \<lparr>cr_exit = Crash, cr_stdout = [], cr_messages = []\<rparr>"

text \<open>Text that was printed before a result.\<close>

definition after_text :: "string \<Rightarrow> cli_result \<Rightarrow> cli_result" where
  "after_text text r = r\<lparr>cr_stdout := text @ cr_stdout r\<rparr>"

definition newline :: string where
  "newline = [CHR 0x0A]"

section \<open>Errors\<close>

text \<open>
  \<open>errors.As\<close> into a typed error of the SDK, through the wrapped errors; \<open>None\<close>: \<open>Unwrap\<close> of a
  typed nil pointer panics.
\<close>

fun errors_as :: "(error_kind \<Rightarrow> bool) \<Rightarrow> go_error \<Rightarrow> tr_error option option"
  and errors_as_child :: "(error_kind \<Rightarrow> bool) \<Rightarrow> go_error option \<Rightarrow> tr_error option option"
  and errors_as_any :: "(error_kind \<Rightarrow> bool) \<Rightarrow> go_error option list \<Rightarrow> tr_error option option" where
  "errors_as p (SdkError k b) = Some (if p k then Some b else None)"
| "errors_as p (UrlError _ _ e) = errors_as_child p e"
| "errors_as p (OpError _ e) = errors_as_child p e"
| "errors_as p (DNSError _ e) = errors_as_child p e"
| "errors_as p (DNSConfigError e) = errors_as_child p e"
| "errors_as p (PathError e) = errors_as_child p e"
| "errors_as p (LinkError e) = errors_as_child p e"
| "errors_as p (SyscallError e) = errors_as_child p e"
| "errors_as p (CertificateVerificationError e) = errors_as_child p e"
| "errors_as p (NilPointer _) = None"
| "errors_as p (Named _ _ _ hooks u) =
     (case u of NoUnwrap \<Rightarrow> Some None
      | UnwrapOne e \<Rightarrow> errors_as_child p e
      | UnwrapMany es \<Rightarrow> errors_as_any p es)"
| "errors_as p _ = Some None"
| "errors_as_child p None = Some None"
| "errors_as_child p (Some e) = errors_as p e"
| "errors_as_any p [] = Some None"
| "errors_as_any p (e # es) =
     (case errors_as_child p e of None \<Rightarrow> None | Some (Some b) \<Rightarrow> Some (Some b) | Some None \<Rightarrow> errors_as_any p es)"

text \<open>The status of the typed error a failure holds; a broken stream is flattened to a 503.\<close>

definition failure_status :: "(error_kind \<Rightarrow> bool) \<Rightarrow> cli_failure \<Rightarrow> int option option" where
  "failure_status p f =
     (let of_error = (\<lambda>e. map_option (map_option status_code) (errors_as p e)) in
      case f of
        Stream_Fail (Open_Failed e) \<Rightarrow> of_error e
      | Stream_Fail (Context_Failed e) \<Rightarrow> of_error e
      | Stream_Fail (Transport_Failed x) \<Rightarrow> Some (if p Internal_Error then Some 503 else None)
      | Stream_Fail Open_Panicked \<Rightarrow> None
      | Api_Fail e \<Rightarrow> of_error e
      | _ \<Rightarrow> Some None)"

definition print_cli_error :: "cli_failure \<Rightarrow> bool \<Rightarrow> cli_result" where
  "print_cli_error f auth_hint =
     (case (if auth_hint then failure_status (\<lambda>k. k = Authentication_Error) f else Some None) of
        None \<Rightarrow> cli_crash
      | Some (Some status) \<Rightarrow> cli_fail 3 [Set_Key_Hint f]
      | Some None \<Rightarrow>
          (case failure_status (\<lambda>k. True) f of
             None \<Rightarrow> cli_crash
           | Some (Some status) \<Rightarrow> cli_fail 1 [Http_Failure status f]
           | Some None \<Rightarrow> cli_fail 1 [Plain_Failure f]))"

section \<open>Printing\<close>

text \<open>\<open>encoding/json\<close> on a struct without a method of its own: \<open>omitempty\<close>, and no \<open>Extra\<close>.\<close>

definition left_out :: "field_kind \<Rightarrow> svalue \<Rightarrow> bool" where
  "left_out k v =
     (case v of
        VNil \<Rightarrow> True
      | VString s \<Rightarrow> k = FString \<and> s = []
      | VInt i \<Rightarrow> k = FInt \<and> i = 0
      | VBool b \<Rightarrow> k = FBool \<and> \<not> b
      | VAny g \<Rightarrow> g = GNil
      | VMap m \<Rightarrow> m = []
      | VMaps ms \<Rightarrow> ms = []
      | VStrings m \<Rightarrow> m = []
      | VTexts ts \<Rightarrow> ts = []
      | VList vs \<Rightarrow> vs = []
      | _ \<Rightarrow> False)"

function plain_field :: "field_kind \<Rightarrow> svalue \<Rightarrow> gvalue"
  and plain_struct :: "schema \<Rightarrow> svalue \<Rightarrow> gvalue" where
  "plain_field k v =
     (case v of
        VStruct vals extra \<Rightarrow> (case k of FStruct s \<Rightarrow> plain_struct s v | FOptStruct s \<Rightarrow> plain_struct s v | _ \<Rightarrow> GNil)
      | VList vs \<Rightarrow> (case k of FStructs s \<Rightarrow> GSlice (map (plain_struct s) vs) | _ \<Rightarrow> GNil)
      | _ \<Rightarrow> encode_field k v)"
| "plain_struct (Schema fs) v =
     (case v of
        VStruct vals extra \<Rightarrow>
          GMap (concat (map (\<lambda>((n, om, k), x). if om \<and> left_out k x then [] else [(n, plain_field k x)]) (zip fs vals)))
      | _ \<Rightarrow> GNil)"
  by pat_completeness auto
termination
  by (relation "measure (case_sum (\<lambda>(k, v). size k) (\<lambda>(s, v). size s))") (auto dest: zip_field_smaller)

declare plain_field.simps [simp del] plain_struct.simps [simp del]

section \<open>What the commands meet\<close>

record cli_env =
  ci_getenv :: "string \<Rightarrow> string"
  ci_indent :: "gvalue \<Rightarrow> string option" \<comment> \<open>\<open>json.MarshalIndent\<close>\<close>
  ci_write_err :: "go_error option" \<comment> \<open>of the standard output\<close>
  ci_stream :: stream_env
  ci_call :: call_env
  ci_metadata :: metadata_env
  ci_exchange :: exchange \<comment> \<open>of the attestation document\<close>
  ci_read :: "bytes + go_error"
  ci_ctx_err :: "go_error option"
  ci_certs :: "string \<Rightarrow> string \<Rightarrow> go_error + bytes list" \<comment> \<open>peer certificates, by dialled address and server name\<close>
  ci_crypto :: attestation_crypto
  ci_now :: int
  ci_session :: session_env
  ci_again :: conn_env \<comment> \<open>of the second fetch of a session\<close>

definition cli_jwks :: "cli_env \<Rightarrow> attestation_error + object" where
  "cli_jwks env = fetch_jwks (me_transport (ci_metadata env)) (me_agent (ci_metadata env)) None []"

definition print_json :: "cli_env \<Rightarrow> gvalue \<Rightarrow> cli_result" where
  "print_json env v =
     (case ci_indent env v of None \<Rightarrow> cli_fail 1 [Plain_Failure Encode_Fail] | Some text \<Rightarrow> cli_print (text @ newline))"

section \<open>Globals\<close>

record global_options =
  go_base_url :: string
  go_control_base_url :: string
  go_retries :: int

definition global_flags :: flag_set where
  "global_flags = [(''base-url'', String_Flag), (''control-base-url'', String_Flag), (''retries'', Int_Flag)]"

definition globals_of :: "flag_settings \<Rightarrow> global_options" where
  "globals_of xs = \<lparr>go_base_url = string_setting [''base-url''] [] xs,
     go_control_base_url = string_setting [''control-base-url''] [] xs, go_retries = int_setting [''retries''] 2 xs\<rparr>"

text \<open>\<open>None\<close>: a usage error, after its messages.\<close>

definition parse_global :: "string list \<Rightarrow> cli_message list + global_options \<times> string \<times> string list" where
  "parse_global argv =
     (case parse_flags global_flags argv of
        Inl e \<Rightarrow> Inl (if e = Help_Requested then [Usage_Message] else [Flag_Message e, Usage_Message])
      | Inr (xs, []) \<Rightarrow> Inl [Usage_Message]
      | Inr (xs, cmd # args) \<Rightarrow> Inr (globals_of xs, cmd, args))"

definition bearer :: "(string \<Rightarrow> string) \<Rightarrow> string" where
  "bearer getenv = (if getenv ''TRUSTEDROUTER_API_KEY'' \<noteq> [] then getenv ''TRUSTEDROUTER_API_KEY'' else getenv ''TR_API_KEY'')"

definition cli_client :: "cli_env \<Rightarrow> global_options \<Rightarrow> client" where
  "cli_client env g = new_client (ci_getenv env)
     \<lparr>o_api_key = bearer (ci_getenv env), o_base_url = go_base_url g, o_control_base_url = go_control_base_url g,
      o_http_client = None, o_timeout = None, o_headers = [], o_workspace_id = [], o_max_retries = Some (go_retries g),
      o_regional_failover = None, o_telemetry = None, o_telemetry_sample_rate = None\<rparr>"

section \<open>chat\<close>

definition chat_flags :: flag_set where
  "chat_flags = [(''model'', String_Flag), (''m'', String_Flag), (''max-tokens'', Int_Flag), (''stream'', Bool_Flag)]"

definition cli_chat_request :: "flag_settings \<Rightarrow> string \<Rightarrow> chat_request" where
  "cli_chat_request xs prompt = empty_chat_request\<lparr>cq_model := string_setting [''model'', ''m''] auto_model xs,
     cq_messages := [[(''role'', GString ''user''), (''content'', GString prompt)]],
     cq_extra := [(''max_tokens'', GInt KInt (int_setting [''max-tokens''] 200 xs))]\<rparr>"

fun print_stream :: "string stream_output list \<Rightarrow> cli_result" where
  "print_stream [] = cli_print newline"
| "print_stream (Stream_Failure e # out) = print_cli_error (Stream_Fail e) True"
| "print_stream (Stream_Item t # out) = after_text t (print_stream out)"

definition completion_content :: "chat_completion \<Rightarrow> string" where
  "completion_content c =
     (case cp_choices c of [] \<Rightarrow> [] | ch # _ \<Rightarrow> (case cm_content (ch_message ch) of None \<Rightarrow> [] | Some t \<Rightarrow> t))"

definition cmd_chat :: "cli_env \<Rightarrow> global_options \<Rightarrow> string list \<Rightarrow> cli_result" where
  "cmd_chat env g argv =
     (case parse_flags chat_flags argv of
        Inl e \<Rightarrow> cli_fail 2 [Flag_Message e]
      | Inr (xs, rest) \<Rightarrow>
          (let prompt = join '' '' rest; req = cli_chat_request xs prompt in
           if prompt = [] then cli_fail 2 [Empty_Prompt]
           else if bool_setting [''stream''] False xs
           then print_stream (chat_completions_text (cli_client env g) (ci_stream env) req (\<lambda>n t. True))
           else case chat_completions (cli_client env g) (ci_stream env) req of
               Inl e \<Rightarrow> print_cli_error (Stream_Fail e) True
             | Inr c \<Rightarrow> cli_print (completion_content c @ newline)))"

section \<open>models, providers, regions, trust\<close>

definition list_schema :: "string \<Rightarrow> schema" where
  "list_schema name =
     (if name = ''models'' then model_list_schema else if name = ''providers'' then provider_list_schema else region_list_schema)"

definition list_endpoint :: "string \<Rightarrow> endpoint option" where
  "list_endpoint name =
     (if name = ''models'' then Some (Ep_Models None) else if name = ''providers'' then Some Ep_Providers
      else if name = ''regions'' then Some Ep_Regions else None)"

definition cmd_list :: "cli_env \<Rightarrow> global_options \<Rightarrow> string \<Rightarrow> cli_result" where
  "cmd_list env g name =
     (case list_endpoint name of
        None \<Rightarrow> cli_fail 2 []
      | Some ep \<Rightarrow>
          (case api_call (cli_client env g) (ci_call env) ep (struct_decoder (ca_json_error (ci_call env)) (list_schema name)) of
             Call_Encode_Failed \<Rightarrow> print_cli_error Encode_Fail False
           | Call_Failed e \<Rightarrow> print_cli_error (Api_Fail e) False
           | Call_Panic \<Rightarrow> cli_crash
           | Call_Ok v \<Rightarrow> print_json env (plain_struct (list_schema name) v)))"

definition cmd_trust :: "cli_env \<Rightarrow> cli_result" where
  "cmd_trust env =
     (case fetch_release (ci_metadata env) None [] of
        Decoded v \<Rightarrow> print_json env (plain_struct trust_release_schema v)
      | Decode_Failed e \<Rightarrow> cli_fail 1 [Plain_Failure (Api_Fail e)]
      | _ \<Rightarrow> cli_crash)"

section \<open>attest\<close>

definition attest_flags :: flag_set where
  "attest_flags = [(''verify'', Bool_Flag), (''session'', Bool_Flag), (''connect-ip'', String_Flag)]"

definition fetch_tls_cert_der :: "cli_env \<Rightarrow> string \<Rightarrow> cert_failure + bytes" where
  "fetch_tls_cert_der env base_url =
     and_then (from_option Bad_Base_Url (url_parse base_url)) (\<lambda>u.
     and_then (require (url_hostname u \<noteq> []) Missing_Host) (\<lambda>_.
     and_then (change_error Dial_Failed
        (ci_certs env (join_host_port (url_hostname u) (if url_port u = [] then ''443'' else url_port u)) (url_hostname u))) (\<lambda>certs.
     (case certs of [] \<Rightarrow> Inl No_Certificate | der # _ \<Rightarrow> Inr der))))"

text \<open>The lines that are printed before the second fetch.\<close>

definition session_report :: "cli_env \<Rightarrow> gateway_session \<Rightarrow> string" where
  "session_report env s =
     (let a = gs_attestation s in
      ''JWT ok'' @ newline @ ''image_digest ok: '' @ ga_image_digest a @ newline @ ''cert-fp bound: '' @ ga_cert_sha256 a @ newline @
      ''fresh nonce bound: '' @ (case ga_nonce a of None \<Rightarrow> ''<missing>'' | Some n \<Rightarrow> n) @ newline @
      ''exporter bound: '' @ hex_encode (gs_exporter s) @ newline @
      ''dbgstat: '' @ sprint (me_fmt_other (ci_metadata env)) (obj_get (ga_raw_claims a) ''dbgstat'') @ newline)"

definition cmd_attest_session :: "cli_env \<Rightarrow> string \<Rightarrow> string \<Rightarrow> cli_result" where
  "cmd_attest_session env base_url connect_ip =
     (case policy_from_options (ci_metadata env) default_policy_options of
        None \<Rightarrow> cli_crash
      | Some (Inl e) \<Rightarrow> cli_fail 1 [Plain_Failure (Attestation_Fail e)]
      | Some (Inr policy) \<Rightarrow>
          (case verify_gateway_session \<lparr>sp_base_url = base_url, sp_policy = policy, sp_connect_ip = connect_ip\<rparr>
              ((ci_session env)\<lparr>sv_jwks := cli_jwks env\<rparr>) of
             Inl e \<Rightarrow> (if e = Allocation_Panic then cli_crash else cli_fail 1 [Plain_Failure (Session_Fail e)])
           | Inr s \<Rightarrow> after_text (session_report env s)
               (case fetch_attestation_again (ci_again env) (sv_agent (ci_session env)) (Some s) of
                  Inl e \<Rightarrow> (if e = Allocation_Panic then cli_crash else cli_fail 1 [Follow_Up_Failed e])
                | Inr _ \<Rightarrow> cli_print (''pin ok: follow-up stayed on the attested session'' @ newline))))"

definition cmd_attest_verify :: "cli_env \<Rightarrow> string \<Rightarrow> bytes \<Rightarrow> cli_result" where
  "cmd_attest_verify env base_url doc =
     (case fetch_tls_cert_der env base_url of
        Inl e \<Rightarrow> cli_fail 1 [Plain_Failure (Cert_Fail e)]
      | Inr der \<Rightarrow>
          (case policy_from_options (ci_metadata env) default_policy_options of
             None \<Rightarrow> cli_crash
           | Some (Inl e) \<Rightarrow> cli_fail 1 [Plain_Failure (Attestation_Fail e)]
           | Some (Inr policy) \<Rightarrow>
               (case verify_gateway_attestation (ci_crypto env) (ci_now env) doc (cli_jwks env) policy [] (Some der) [] of
                  Inl e \<Rightarrow> cli_fail 1 [Plain_Failure (Attestation_Fail e)]
                | Inr g \<Rightarrow> print_json env (GMap (gateway_as_map g)))))"

definition cmd_attest :: "cli_env \<Rightarrow> global_options \<Rightarrow> string list \<Rightarrow> cli_result" where
  "cmd_attest env g argv =
     (case parse_flags attest_flags argv of
        Inl e \<Rightarrow> cli_fail 2 [Flag_Message e]
      | Inr (xs, rest) \<Rightarrow>
          (let c = cli_client env g; connect_ip = string_setting [''connect-ip''] [] xs in
           if bool_setting [''session''] False xs then cmd_attest_session env (cl_base_url c) connect_ip
           else if connect_ip \<noteq> [] then cli_fail 2 [Connect_Ip_Requires_Session]
           else case client_attestation (me_render (ci_metadata env)) (me_fmt_other (ci_metadata env)) (me_agent (ci_metadata env))
                    c (ci_exchange env) (ci_read env) (ci_ctx_err env) of
               Inl e \<Rightarrow> print_cli_error (Api_Fail e) False
             | Inr doc \<Rightarrow>
                 (if bool_setting [''verify''] False xs then cmd_attest_verify env (cl_base_url c) doc
                  else case ci_write_err env of None \<Rightarrow> cli_print doc | Some e \<Rightarrow> print_cli_error (Api_Fail e) False)))"

section \<open>The tool\<close>

definition run_cli :: "cli_env \<Rightarrow> string list \<Rightarrow> cli_result" where
  "run_cli env argv =
     (case parse_global argv of
        Inl msgs \<Rightarrow> cli_fail 2 msgs
      | Inr (g, cmd, args) \<Rightarrow>
          (if cmd = ''chat'' then cmd_chat env g args
           else if cmd \<in> {''models'', ''providers'', ''regions''} then cmd_list env g cmd
           else if cmd = ''trust'' then cmd_trust env
           else if cmd = ''attest'' then cmd_attest env g args
           else cli_fail 2 [Unknown_Command cmd, Usage_Message]))"

section \<open>Exit statuses\<close>

lemma exits [simp]:
  "cr_exit (cli_fail code msgs) = Exit code" "cr_stdout (cli_fail code msgs) = []" "cr_messages (cli_fail code msgs) = msgs"
  "cr_exit (cli_print text) = Exit 0" "cr_stdout (cli_print text) = text" "cr_exit cli_crash = Crash"
  "cr_exit (after_text text r) = cr_exit r" "cr_messages (after_text text r) = cr_messages r"
  "cr_stdout (after_text text r) = text @ cr_stdout r"
  by (simp_all add: cli_fail_def cli_print_def cli_crash_def after_text_def)

text \<open>A command that ran: not a usage error, and status 3 only with the hint.\<close>

definition ran :: "cli_result \<Rightarrow> bool" where
  "ran r \<longleftrightarrow> cr_exit r \<in> {Exit 0, Exit 1, Exit 3, Crash} \<and> (cr_exit r = Exit 3 \<longrightarrow> (\<exists>f. cr_messages r = [Set_Key_Hint f]))"

lemma ran_simps [simp]:
  "ran (cli_print text)" "ran (cli_fail 1 msgs)" "ran cli_crash" "ran (after_text text r) = ran r" "ran (print_json env v)"
  by (simp_all add: ran_def print_json_def split: option.split)

lemma print_error_ran [simp]: "ran (print_cli_error f hint)"
  by (simp add: ran_def print_cli_error_def split: option.split)

lemma print_error_no_hint: "cr_exit (print_cli_error f False) \<noteq> Exit 3" "cr_exit (print_cli_error f hint) \<noteq> Exit 0"
  by (simp_all add: print_cli_error_def split: option.split)

lemma print_stream_ran [simp]: "ran (print_stream out)"
  by (induction out rule: print_stream.induct) simp_all

lemma attest_session_ran [simp]: "ran (cmd_attest_session env base_url connect_ip)"
  by (simp add: cmd_attest_session_def split: option.split sum.split)

lemma attest_verify_ran [simp]: "ran (cmd_attest_verify env base_url doc)"
  by (simp add: cmd_attest_verify_def split: option.split sum.split)

text \<open>A result is of a command that ran, or a usage error that does not depend on anything outside.\<close>

definition decided :: "(cli_env \<Rightarrow> cli_result) \<Rightarrow> bool" where
  "decided f \<longleftrightarrow> (\<forall>env. ran (f env)) \<or> (\<exists>msgs. \<forall>env. f env = cli_fail 2 msgs)"

lemma decidedI: "(\<And>env. ran (f env)) \<Longrightarrow> decided f" "(\<And>env. f env = cli_fail 2 msgs) \<Longrightarrow> decided f"
  by (auto simp: decided_def)

lemma decided_if: "decided f \<Longrightarrow> decided h \<Longrightarrow> decided (\<lambda>env. if c then f env else h env)"
  by (cases c) simp_all

lemma chat_decided: "decided (\<lambda>env. cmd_chat env g argv)"
proof (cases "parse_flags chat_flags argv")
  case (Inl e)
  then show ?thesis by (intro decidedI(2) [of _ "[Flag_Message e]"]) (simp add: cmd_chat_def)
next
  case (Inr p)
  then obtain xs rest where p: "parse_flags chat_flags argv = Inr (xs, rest)" by (cases p) simp
  show ?thesis
  proof (cases "join '' '' rest = []")
    case True
    with p show ?thesis by (intro decidedI(2) [of _ "[Empty_Prompt]"]) (simp add: cmd_chat_def)
  next
    case False
    with p show ?thesis by (intro decidedI(1)) (simp add: cmd_chat_def Let_def split: sum.split)
  qed
qed

lemma attest_decided: "decided (\<lambda>env. cmd_attest env g argv)"
proof (cases "parse_flags attest_flags argv")
  case (Inl e)
  then show ?thesis by (intro decidedI(2) [of _ "[Flag_Message e]"]) (simp add: cmd_attest_def)
next
  case (Inr p)
  then obtain xs rest where p: "parse_flags attest_flags argv = Inr (xs, rest)" by (cases p) simp
  show ?thesis
  proof (cases "\<not> bool_setting [''session''] False xs \<and> string_setting [''connect-ip''] [] xs \<noteq> []")
    case True
    with p show ?thesis by (intro decidedI(2) [of _ "[Connect_Ip_Requires_Session]"]) (simp add: cmd_attest_def)
  next
    case False
    with p show ?thesis by (intro decidedI(1)) (auto simp: cmd_attest_def Let_def split: sum.split option.split)
  qed
qed

lemma list_decided: "name \<in> {''models'', ''providers'', ''regions''} \<Longrightarrow> decided (\<lambda>env. cmd_list env g name)"
  by (intro decidedI(1)) (auto simp: cmd_list_def list_endpoint_def split: call_outcome.split)

lemma trust_decided: "decided cmd_trust"
  by (intro decidedI(1)) (simp add: cmd_trust_def split: decode_result.split)

lemma run_decided: "decided (\<lambda>env. run_cli env argv)"
proof (cases "parse_global argv")
  case (Inl msgs)
  then show ?thesis by (intro decidedI(2) [of _ msgs]) (simp add: run_cli_def)
next
  case (Inr p)
  then obtain g cmd args where p: "parse_global argv = Inr (g, cmd, args)" by (cases p) simp
  have run: "run_cli env argv =
      (if cmd = ''chat'' then cmd_chat env g args else if cmd \<in> {''models'', ''providers'', ''regions''} then cmd_list env g cmd
       else if cmd = ''trust'' then cmd_trust env else if cmd = ''attest'' then cmd_attest env g args
       else cli_fail 2 [Unknown_Command cmd, Usage_Message])" for env
    by (simp only: run_cli_def p sum.case prod.case)
  consider "cmd = ''chat''" | "cmd \<noteq> ''chat''" "cmd \<in> {''models'', ''providers'', ''regions''}"
    | "cmd \<noteq> ''chat''" "cmd \<notin> {''models'', ''providers'', ''regions''}" by blast
  then show ?thesis
  proof cases
    case 1
    then show ?thesis unfolding run by (simp add: chat_decided)
  next
    case 2
    then show ?thesis unfolding run by (simp only: if_True if_False list_decided)
  next
    case 3
    have "decided (\<lambda>env. cli_fail 2 [Unknown_Command cmd, Usage_Message])" by (rule decidedI(2)) (rule refl)
    then have "decided (\<lambda>env. if cmd = ''trust'' then cmd_trust env else if cmd = ''attest'' then cmd_attest env g args
        else cli_fail 2 [Unknown_Command cmd, Usage_Message])"
      by (intro decided_if trust_decided attest_decided)
    with 3 show ?thesis unfolding run by (simp only: if_False)
  qed
qed

lemma print_json_exit: "cr_exit (print_json env v) \<noteq> Exit 3"
  by (simp add: print_json_def split: option.split)

lemma attest_parts_exit:
  "cr_exit (cmd_attest_session env base_url connect_ip) \<noteq> Exit 3" "cr_exit (cmd_attest_verify env base_url doc) \<noteq> Exit 3"
  by (simp_all add: cmd_attest_session_def cmd_attest_verify_def print_json_exit split: option.split sum.split)

lemma no_hint_outside_chat:
  "cr_exit (cmd_list env g name) \<noteq> Exit 3" "cr_exit (cmd_trust env) \<noteq> Exit 3" "cr_exit (cmd_attest env g argv) \<noteq> Exit 3"
proof -
  show "cr_exit (cmd_list env g name) \<noteq> Exit 3"
    by (simp add: cmd_list_def print_error_no_hint print_json_exit split: option.split call_outcome.split)
  show "cr_exit (cmd_trust env) \<noteq> Exit 3" by (simp add: cmd_trust_def print_json_exit split: decode_result.split)
  show "cr_exit (cmd_attest env g argv) \<noteq> Exit 3"
    unfolding cmd_attest_def Let_def by (auto simp: print_error_no_hint attest_parts_exit split: sum.split prod.split option.split)
qed

lemma hint_from_chat:
  assumes "cr_exit (run_cli env argv) = Exit 3"
  shows "\<exists>g args. parse_global argv = Inr (g, ''chat'', args)"
proof (cases "parse_global argv")
  case (Inl msgs)
  with assms show ?thesis by (simp add: run_cli_def)
next
  case (Inr p)
  then obtain g cmd args where p: "parse_global argv = Inr (g, cmd, args)" by (cases p) simp
  show ?thesis
  proof (rule ccontr)
    assume "\<not> ?thesis"
    with p have "cmd \<noteq> ''chat''" by simp
    with assms no_hint_outside_chat show False unfolding run_cli_def p sum.case prod.case by (simp split: if_splits)
  qed
qed


section \<open>attest\<close>

lemma session_attested:
  assumes "verify_gateway_session opts env = Inr s"
  shows "\<exists>document nonce. verify_gateway_attestation (sv_crypto env) (sv_now env) document (sv_jwks env) (sp_policy opts) nonce
     (Some (gs_leaf s)) (gs_exporter s) = Inr (gs_attestation s)"
proof -
  obtain host path leaf exporter nonce document left a where
    "verify_gateway_attestation (sv_crypto env) (sv_now env) document (sv_jwks env) (sp_policy opts) nonce
       (Some leaf) exporter = Inr a"
    "s = \<lparr>gs_attestation = a, gs_exporter = exporter, gs_leaf = leaf, gs_unread = left, gs_host_header = host,
       gs_attestation_path = path\<rparr>"
    using assms by (auto simp: verify_gateway_session_def check_iff split_paired_Ex simp del: split_paired_Ex)
  then show ?thesis by auto
qed

lemma default_options_fetch: "po_release default_policy_options = None"
  by (simp add: default_policy_options_def)

lemma attest_session_success:
  assumes "cr_exit (cmd_attest_session env base_url connect_ip) = Exit 0"
  shows "\<exists>policy s m again. policy_from_options (ci_metadata env) default_policy_options = Some (Inr policy) \<and>
    verify_gateway_session \<lparr>sp_base_url = base_url, sp_policy = policy, sp_connect_ip = connect_ip\<rparr>
      ((ci_session env)\<lparr>sv_jwks := cli_jwks env\<rparr>) = Inr s \<and>
    published_document (ci_metadata env) default_policy_options m \<and> image_published m (gs_attestation s) \<and>
    fetch_attestation_again (ci_again env) (sv_agent (ci_session env)) (Some s) = Inr again"
proof -
  obtain policy s again where s: "policy_from_options (ci_metadata env) default_policy_options = Some (Inr policy)"
    "verify_gateway_session \<lparr>sp_base_url = base_url, sp_policy = policy, sp_connect_ip = connect_ip\<rparr>
      ((ci_session env)\<lparr>sv_jwks := cli_jwks env\<rparr>) = Inr s"
    "fetch_attestation_again (ci_again env) (sv_agent (ci_session env)) (Some s) = Inr again"
    using assms by (auto simp: cmd_attest_session_def split: option.splits sum.splits if_splits)
  from session_attested [OF s(2)] obtain document nonce where
    "verify_gateway_attestation (sv_crypto (ci_session env)) (sv_now (ci_session env)) document (cli_jwks env) policy nonce
       (Some (gs_leaf s)) (gs_exporter s) = Inr (gs_attestation s)" by auto
  from attested_published [OF s(1) default_options_fetch this] s show ?thesis by blast
qed

lemma attest_verify_success:
  assumes "cr_exit (cmd_attest_verify env base_url doc) = Exit 0"
  shows "\<exists>der policy a m text. fetch_tls_cert_der env base_url = Inr der \<and>
    policy_from_options (ci_metadata env) default_policy_options = Some (Inr policy) \<and>
    verify_gateway_attestation (ci_crypto env) (ci_now env) doc (cli_jwks env) policy [] (Some der) [] = Inr a \<and>
    ga_cert_sha256 a = sha256_hex (ci_crypto env) der \<and>
    published_document (ci_metadata env) default_policy_options m \<and> image_published m a \<and>
    ci_indent env (GMap (gateway_as_map a)) = Some text \<and> cr_stdout (cmd_attest_verify env base_url doc) = text @ newline"
proof -
  obtain der policy a out where v: "fetch_tls_cert_der env base_url = Inr der"
    "policy_from_options (ci_metadata env) default_policy_options = Some (Inr policy)"
    "verify_gateway_attestation (ci_crypto env) (ci_now env) doc (cli_jwks env) policy [] (Some der) [] = Inr a"
    "ci_indent env (GMap (gateway_as_map a)) = Some out"
    using assms by (auto simp: cmd_attest_verify_def print_json_def split: option.splits sum.splits)
  then have "cr_stdout (cmd_attest_verify env base_url doc) = out @ newline"
    by (simp add: cmd_attest_verify_def print_json_def)
  moreover from attested_published [OF v(2) default_options_fetch v(3)] obtain m where
    "published_document (ci_metadata env) default_policy_options m" "image_published m a" by blast
  moreover have "ga_cert_sha256 a = sha256_hex (ci_crypto env) der" using gateway_attestation_facts [OF v(3)] by blast
  ultimately show ?thesis using v by blast
qed

text \<open>
  C37. Status 0 of \<open>attest\<close> is a verdict.  With \<open>--session\<close> it means that the session was verified
  on one connection against a policy from the published release, that the attested image is one
  that release publishes, and that a second fetch stayed on the connection.  With \<open>--verify\<close> it
  means that the fetched document was accepted under such a policy, that it commits to the very
  certificate the host of the base URL presented, and that its image is published; what is
  printed is the accepted attestation.  Without either flag the document is printed unchecked.
\<close>
theorem attest_success_verified:
  assumes "parse_flags attest_flags argv = Inr (xs, rest)" "cr_exit (cmd_attest env g argv) = Exit 0"
  shows "let base_url = cl_base_url (cli_client env g); meta = ci_metadata env in
    (bool_setting [''session''] False xs \<longrightarrow>
       (\<exists>policy s m again. policy_from_options meta default_policy_options = Some (Inr policy) \<and>
          verify_gateway_session \<lparr>sp_base_url = base_url, sp_policy = policy, sp_connect_ip = string_setting [''connect-ip''] [] xs\<rparr>
            ((ci_session env)\<lparr>sv_jwks := cli_jwks env\<rparr>) = Inr s \<and>
          published_document meta default_policy_options m \<and> image_published m (gs_attestation s) \<and>
          fetch_attestation_again (ci_again env) (sv_agent (ci_session env)) (Some s) = Inr again)) \<and>
    (\<not> bool_setting [''session''] False xs \<longrightarrow>
       (\<exists>doc. client_attestation (me_render meta) (me_fmt_other meta) (me_agent meta) (cli_client env g) (ci_exchange env) (ci_read env)
            (ci_ctx_err env) = Inr doc \<and>
          (if bool_setting [''verify''] False xs
           then \<exists>der policy a m text. fetch_tls_cert_der env base_url = Inr der \<and>
             policy_from_options meta default_policy_options = Some (Inr policy) \<and>
             verify_gateway_attestation (ci_crypto env) (ci_now env) doc (cli_jwks env) policy [] (Some der) [] = Inr a \<and>
             ga_cert_sha256 a = sha256_hex (ci_crypto env) der \<and>
             published_document meta default_policy_options m \<and> image_published m a \<and>
             ci_indent env (GMap (gateway_as_map a)) = Some text \<and> cr_stdout (cmd_attest env g argv) = text @ newline
           else cr_stdout (cmd_attest env g argv) = doc)))"
proof (cases "bool_setting [''session''] False xs")
  case True
  with assms have "cr_exit (cmd_attest_session env (cl_base_url (cli_client env g)) (string_setting [''connect-ip''] [] xs)) = Exit 0"
    by (simp add: cmd_attest_def Let_def)
  from attest_session_success [OF this] True show ?thesis unfolding Let_def by blast
next
  case False
  then have cmd: "cmd_attest env g argv =
     (if string_setting [''connect-ip''] [] xs \<noteq> [] then cli_fail 2 [Connect_Ip_Requires_Session]
      else case client_attestation (me_render (ci_metadata env)) (me_fmt_other (ci_metadata env)) (me_agent (ci_metadata env))
           (cli_client env g) (ci_exchange env) (ci_read env) (ci_ctx_err env) of
          Inl e \<Rightarrow> print_cli_error (Api_Fail e) False
        | Inr doc \<Rightarrow>
            (if bool_setting [''verify''] False xs then cmd_attest_verify env (cl_base_url (cli_client env g)) doc
             else case ci_write_err env of None \<Rightarrow> cli_print doc | Some e \<Rightarrow> print_cli_error (Api_Fail e) False))"
    by (simp add: cmd_attest_def assms(1) Let_def)
  with assms(2) obtain doc where doc: "client_attestation (me_render (ci_metadata env)) (me_fmt_other (ci_metadata env))
      (me_agent (ci_metadata env)) (cli_client env g) (ci_exchange env) (ci_read env) (ci_ctx_err env) = Inr doc"
    "cmd_attest env g argv = (if bool_setting [''verify''] False xs then cmd_attest_verify env (cl_base_url (cli_client env g)) doc
       else case ci_write_err env of None \<Rightarrow> cli_print doc | Some e \<Rightarrow> print_cli_error (Api_Fail e) False)"
    by (auto simp: print_error_no_hint split: if_splits sum.splits)
  show ?thesis
  proof (cases "bool_setting [''verify''] False xs")
    case True
    with doc(2) assms(2) have e: "cr_exit (cmd_attest_verify env (cl_base_url (cli_client env g)) doc) = Exit 0"
      "cmd_attest env g argv = cmd_attest_verify env (cl_base_url (cli_client env g)) doc" by simp_all
    from attest_verify_success [OF e(1)] False True doc(1) show ?thesis unfolding Let_def e(2) by auto
  next
    case no: False
    with doc(2) assms(2) have "cr_stdout (cmd_attest env g argv) = doc"
      by (simp add: print_error_no_hint split: option.splits)
    with False no doc(1) show ?thesis unfolding Let_def by simp
  qed
qed

text \<open>A host whose document commits to the certificate it presents.\<close>

definition demo_cli :: cli_env where
  "demo_cli = \<lparr>ci_getenv = (\<lambda>n. []), ci_indent = (\<lambda>v. Some ''{}''), ci_write_err = None, ci_stream = demo_stream,
     ci_call = \<lparr>ca_attempts = demo_env, ca_body = Inl [], ca_ctx_err = None, ca_key = ''k'', ca_agent = ''agent'',
        ca_marshal = (\<lambda>v. Some ''{}''), ca_render = (\<lambda>e. None), ca_fmt_other = (\<lambda>v. []), ca_json_error = Sentinel Io_EOF\<rparr>,
     ci_metadata = demo_metadata, ci_exchange = Answered 200 no_headers, ci_read = Inl (example_token ''n1'' example_cert),
     ci_ctx_err = None, ci_certs = (\<lambda>a n. Inr [''der'']), ci_crypto = example_ac, ci_now = 7,
     ci_session = session_env_example, ci_again = sv_conn session_env_example\<rparr>"

definition demo_globals :: global_options where
  "demo_globals = \<lparr>go_base_url = [], go_control_base_url = [], go_retries = 2\<rparr>"

lemma demo_cli_fields:
  "cl_base_url (cli_client demo_cli demo_globals) = default_api_base_url" "ci_metadata demo_cli = demo_metadata"
  "ci_exchange demo_cli = Answered 200 no_headers" "ci_read demo_cli = Inl (example_token ''n1'' example_cert)"
  "ci_crypto demo_cli = example_ac" "ci_now demo_cli = 7" "ci_indent demo_cli v = Some ''{}''"
  by (simp_all add: cli_client_def demo_cli_def demo_globals_def new_client_def Let_def default_api_base_url_def)

lemma demo_document:
  "client_attestation r f a (cli_client demo_cli demo_globals) (Answered 200 no_headers)
     (Inl (example_token ''n1'' example_cert)) None = Inr (example_token ''n1'' example_cert)"
proof -
  have "new_request_error ''GET'' (attestation_url default_api_base_url) = None" by code_simp
  then show ?thesis
    by (simp add: client_attestation_def demo_cli_fields absolute_request_def attestation_of_response_def)
qed

lemma demo_verified: "cr_exit (cmd_attest_verify demo_cli default_api_base_url (example_token ''n1'' example_cert)) = Exit 0"
proof -
  have "fetch_tls_cert_der demo_cli default_api_base_url = Inr ''der''"
  proof -
    have "map_option url_hostname (url_parse default_api_base_url) = Some ''api.trustedrouter.com''" by code_simp
    then obtain u where "url_parse default_api_base_url = Some u" "url_hostname u = ''api.trustedrouter.com''" by blast
    then show ?thesis by (simp add: fetch_tls_cert_der_def demo_cli_def check_iff change_error_def)
  qed
  moreover have "cli_jwks demo_cli = Inr example_jwks"
  proof -
    have "new_request_error ''GET'' gcp_jwks_uri = None" "jwks_of_response 200 (Some demo_jwks_text) = Inr example_jwks"
      by code_simp+
    then show ?thesis by (simp add: cli_jwks_def fetch_jwks_def demo_cli_fields demo_metadata_def metadata_request_def)
  qed
  moreover have "check_attestation_claims example_ac 7 (example_claims ''n1'' example_cert) example_policy [] (Some ''der'') [] Binding_Live_Channel =
      Inr \<lparr>ga_cert_sha256 = example_cert, ga_image_digest = ''sha256:1'', ga_image_reference = [], ga_nonce = None,
        ga_expires_at = 100, ga_issuer = gcp_issuer, ga_audience = ''quill-cloud'', ga_raw_claims = example_claims ''n1'' example_cert\<rparr>"
    by code_simp
  ultimately show ?thesis
    by (simp add: cmd_attest_verify_def demo_cli_fields demo_policy verify_gateway_attestation_def
        example_token_claims [OF example_gateway_json] print_json_def)
qed

lemma attest_success_verified_witness:
  "\<exists>policy a m. verify_gateway_attestation example_ac 7 (example_token ''n1'' example_cert) (cli_jwks demo_cli) policy [] (Some ''der'') [] = Inr a \<and>
     ga_cert_sha256 a = sha256_hex example_ac ''der'' \<and> published_document demo_metadata default_policy_options m \<and> image_published m a"
proof -
  have p: "parse_flags attest_flags [''--verify''] = Inr ([(''verify'', Bool_Value True)], [])"
    "string_setting [''connect-ip''] [] [(''verify'', Bool_Value True)] = []"
    "bool_setting [''session''] False [(''verify'', Bool_Value True)] = False"
    "bool_setting [''verify''] False [(''verify'', Bool_Value True)] = True" by code_simp+
  have n: "ci_ctx_err demo_cli = None" by (simp add: demo_cli_def)
  have "cmd_attest demo_cli demo_globals [''--verify''] = cmd_attest_verify demo_cli default_api_base_url (example_token ''n1'' example_cert)"
    unfolding cmd_attest_def p(1) Let_def sum.case prod.case p(2-4) n demo_cli_fields(1,3,4) demo_document if_True if_False by simp
  with demo_verified have "cr_exit (cmd_attest demo_cli demo_globals [''--verify'']) = Exit 0" by simp
  from attest_success_verified [OF p(1) this] p(3,4) obtain der policy a m where
    "fetch_tls_cert_der demo_cli default_api_base_url = Inr der"
    "verify_gateway_attestation example_ac 7 (example_token ''n1'' example_cert) (cli_jwks demo_cli) policy [] (Some der) [] = Inr a"
    "ga_cert_sha256 a = sha256_hex example_ac der" "published_document demo_metadata default_policy_options m" "image_published m a"
    by (simp add: demo_cli_fields demo_document n Let_def) blast
  moreover from this(1) have "der = ''der''" by (auto simp: fetch_tls_cert_der_def demo_cli_def check_iff)
  ultimately show ?thesis by blast
qed


end
