(* ===== verification/Reporter_Close.thy ===== *)
theory Reporter_Close
  imports Reporter_Runs Attestation "HOL-Library.Multiset"
begin

text \<open>
  The edges of the reporter (\<open>telemetry_reporter.go\<close>): its identifiers and random draws when
  the entropy source fails, how long \<open>close\<close> waits, and the HTTP client that the worker and the
  final flush share.
\<close>

section \<open>Identifiers\<close>

text \<open>\<open>telemetryHex\<close>: the bytes read, or the clock and a counter, repeated as needed.\<close>

definition telemetry_hex :: "nat \<Rightarrow> bytes option \<Rightarrow> int \<Rightarrow> nat \<Rightarrow> string" where
  "telemetry_hex n entropy now_ns sequence_number =
     hex_encode (case entropy of
         Some bs \<Rightarrow> bs
       | None \<Rightarrow>
           (let fallback = big_endian 8 (nat (now_ns mod 2 ^ 64)) @ big_endian 8 sequence_number
            in map (\<lambda>i. fallback ! (i mod length fallback)) [0..<n]))"

lemma big_endian_length [simp]: "length (big_endian k n) = k"
  by (induction k arbitrary: n) simp_all

lemma big_int_snoc [simp]: "big_int [] = 0" "big_int (bs @ [c]) = big_int bs * 256 + byte_val c"
  by (simp_all add: big_int_def)

lemma big_int_big_endian: "big_int (big_endian k n) = n mod 256 ^ k"
proof (induction k arbitrary: n)
  case (Suc k)
  have "n mod 256 ^ Suc k = 256 * (n div 256 mod 256 ^ k) + n mod 256" using mod_mult2_eq [of n 256 "256 ^ k"] by simp
  with Suc show ?case by simp
qed simp

lemma hex_digit_inj: "i < 16 \<Longrightarrow> j < 16 \<Longrightarrow> hex_digit i = hex_digit j \<Longrightarrow> i = j"
  by (auto simp: hex_digit_def split: if_splits dest!: arg_cong [where f = "of_char :: char \<Rightarrow> nat"])

lemma hex_encode_simps [simp]:
  "hex_encode [] = []" "hex_encode (c # bs) = hex_digit (byte_val c div 16) # hex_digit (byte_val c mod 16) # hex_encode bs"
  by (simp_all add: hex_encode_def)

lemma hex_encode_length: "length (hex_encode bs) = 2 * length bs"
  by (induction bs) simp_all

lemma hex_byte_inj:
  assumes "hex_digit (byte_val c div 16) = hex_digit (byte_val d div 16)" "hex_digit (byte_val c mod 16) = hex_digit (byte_val d mod 16)"
  shows "c = d"
proof -
  have "byte_val c < 256" "byte_val d < 256" by simp_all
  then have "byte_val c div 16 < 16" "byte_val d div 16 < 16" by (simp_all add: div_less_iff_less_mult)
  from hex_digit_inj [OF this assms(1)] hex_digit_inj [OF _ _ assms(2)]
  have "byte_val c div 16 = byte_val d div 16" "byte_val c mod 16 = byte_val d mod 16" by simp_all
  then have "byte_val c = byte_val d" by (metis div_mult_mod_eq)
  then show ?thesis by simp
qed

lemma hex_encode_inj: "hex_encode xs = hex_encode ys \<Longrightarrow> xs = ys"
proof (induction xs arbitrary: ys)
  case Nil
  then show ?case by (cases ys) simp_all
next
  case (Cons x xs)
  then show ?case by (cases ys) (auto dest: hex_byte_inj)
qed

text \<open>Without entropy an id of 16 bytes has the clock and the counter, one of 8 only the clock.\<close>

lemma telemetry_hex_16: "telemetry_hex 16 None now k = hex_encode (big_endian 8 (nat (now mod 2 ^ 64)) @ big_endian 8 k)"
  by (simp add: telemetry_hex_def Let_def) (rule arg_cong [where f = hex_encode], rule nth_equalityI, simp_all add: nth_append)

lemma telemetry_hex_8: "telemetry_hex 8 None now k = hex_encode (big_endian 8 (nat (now mod 2 ^ 64)))"
  by (simp add: telemetry_hex_def Let_def) (rule arg_cong [where f = hex_encode], rule nth_equalityI, simp_all add: nth_append)

lemma batch_ids_unique:
  assumes "telemetry_hex 16 None now j = telemetry_hex 16 None now' k" "j < 2 ^ 64" "k < 2 ^ 64"
  shows "j = k"
proof -
  from hex_encode_inj [OF assms(1) [unfolded telemetry_hex_16]] have "big_int (big_endian 8 j) = big_int (big_endian 8 k)" by simp
  with assms(2,3) show ?thesis by (simp add: big_int_big_endian)
qed

lemma instance_ids_collide: "telemetry_hex 8 None now j = telemetry_hex 8 None now k"
  by (simp add: telemetry_hex_8)

section \<open>Draws\<close>

text \<open>\<open>telemetryRandomUnit\<close>: 53 bits of 8 random bytes; both conversions to a double are exact.\<close>

definition telemetry_random_unit :: "bytes option \<Rightarrow> float64" where
  "telemetry_random_unit entropy =
     (case entropy of None \<Rightarrow> Fin 1 | Some bs \<Rightarrow> Fin (of_nat (big_int bs div 2 ^ 11) / 2 ^ 53))"

lemma big_int_bound: "big_int bs < 256 ^ length bs"
proof (induction bs rule: rev_induct)
  case (snoc c bs)
  have "big_int bs * 256 + b < 256 ^ length bs * 256" if "b < 256" for b using that snoc by linarith
  from this [of "byte_val c"] show ?case by simp
qed simp

lemma random_unit_range:
  assumes "length bs = 8"
  shows "\<exists>q. telemetry_random_unit (Some bs) = Fin q \<and> 0 \<le> q \<and> q < 1"
proof -
  have "big_int bs < 2 ^ 64" using big_int_bound [of bs] assms by simp
  then have "big_int bs div 2 ^ 11 < 2 ^ 53" by (simp add: div_less_iff_less_mult)
  then have "of_nat (big_int bs div 2 ^ 11) < (of_nat (2 ^ 53) :: rat)" by (simp only: of_nat_less_iff)
  then show ?thesis unfolding telemetry_random_unit_def
    by (intro exI [of _ "of_nat (big_int bs div 2 ^ 11) / 2 ^ 53"]) simp
qed

text \<open>A failing entropy source never samples an ordinary success.\<close>

lemma no_entropy_no_sample:
  assumes "fle rate (Fin 1)" "sample_reason ev rate (telemetry_random_unit None) = Some (reason, weight)"
  shows "reason \<noteq> ''random''"
  using assms by (cases rate) (auto simp: sample_reason_def telemetry_random_unit_def fle_def split: if_splits)

section \<open>How long close waits\<close>

text \<open>A select returns at the event or at the limit, whichever is first, and not before it starts.\<close>

definition select_until :: "instant \<Rightarrow> instant option \<Rightarrow> instant \<Rightarrow> instant" where
  "select_until now event limit = (case event of None \<Rightarrow> max now limit | Some t \<Rightarrow> max now (min t limit))"

record close_clock =
  cc_started :: instant
  cc_locked :: instant \<comment> \<open>the lock has been taken\<close>
  cc_flushed :: "instant option" \<comment> \<open>the final flush is over, if ever\<close>
  cc_worker :: "instant option option" \<comment> \<open>a worker was started; it is gone, if ever\<close>

text \<open>\<open>close(timeout)\<close>: the instant it returns.\<close>

definition close_returns :: "duration \<Rightarrow> close_clock \<Rightarrow> reporter \<Rightarrow> instant" where
  "close_returns timeout clock r =
     (if rp_closed r then cc_locked clock
      else let limit = (if timeout < 0 then 0 else timeout);
               t = select_until (cc_locked clock) (cc_flushed clock) (cc_locked clock + limit)
           in case cc_worker clock of
                None \<Rightarrow> t
              | Some gone \<Rightarrow>
                  (let remaining = limit - (t - cc_started clock)
                   in if remaining \<le> 0 then t else select_until t gone (t + remaining)))"

text \<open>
  It never waits for a flush in flight beyond the timeout, counted from the lock at the latest,
  and it does not wait longer than the work lasts.
\<close>

lemma close_returns_in_time:
  assumes "cc_started clock \<le> cc_locked clock"
  shows "cc_locked clock \<le> close_returns timeout clock r \<and> close_returns timeout clock r \<le> cc_locked clock + max 0 timeout"
    and "cc_flushed clock = Some f \<Longrightarrow> (\<And>gone. cc_worker clock = Some gone \<Longrightarrow> \<exists>g \<le> f. gone = Some g) \<Longrightarrow>
      close_returns timeout clock r \<le> max (cc_locked clock) f"
  using assms
  by (auto simp: close_returns_def select_until_def Let_def max_def min_def split: option.splits if_splits)

section \<open>The HTTP client\<close>

text \<open>
  The client is made on the first request and released after the final flush.  Worker and final
  flush exclude each other while they send; the worker looks at \<open>stop\<close> before it takes the lock.
  It may end before the close, because an opt-out closes \<open>stop\<close> too.
\<close>

datatype worker_phase = Looping | Committed | Sending | Worker_Ended

datatype final_phase = Not_Closed | Final_Waits | Final_Sends | Final_Releases | Final_Ended

record client_life =
  hl_client :: "nat option"
  hl_made :: nat
  hl_released :: "nat list"
  hl_worker :: worker_phase
  hl_final :: final_phase

definition new_client_life :: client_life where
  "new_client_life = \<lparr>hl_client = None, hl_made = 0, hl_released = [], hl_worker = Looping, hl_final = Not_Closed\<rparr>"

definition http_client :: "client_life \<Rightarrow> client_life" where
  "http_client s =
     (case hl_client s of Some c \<Rightarrow> s | None \<Rightarrow> s\<lparr>hl_client := Some (hl_made s), hl_made := Suc (hl_made s)\<rparr>)"

definition close_http_client :: "client_life \<Rightarrow> client_life" where
  "close_http_client s =
     (case hl_client s of None \<Rightarrow> s | Some c \<Rightarrow> s\<lparr>hl_client := None, hl_released := hl_released s @ [c]\<rparr>)"

inductive life_step :: "client_life \<Rightarrow> client_life \<Rightarrow> bool" where
  worker_commits: "hl_worker s = Looping \<Longrightarrow> hl_final s = Not_Closed \<Longrightarrow> life_step s (s\<lparr>hl_worker := Committed\<rparr>)"
| worker_ends: "hl_worker s = Looping \<Longrightarrow> life_step s (s\<lparr>hl_worker := Worker_Ended\<rparr>)"
| worker_sends: "hl_worker s = Committed \<Longrightarrow> hl_final s \<noteq> Final_Sends \<Longrightarrow>
    life_step s ((http_client s)\<lparr>hl_worker := Sending\<rparr>)"
| worker_skips: "hl_worker s = Committed \<Longrightarrow> hl_final s \<noteq> Final_Sends \<Longrightarrow> life_step s (s\<lparr>hl_worker := Looping\<rparr>)"
| worker_sent: "hl_worker s = Sending \<Longrightarrow> life_step s (s\<lparr>hl_worker := Looping\<rparr>)"
| close_call: "hl_final s = Not_Closed \<Longrightarrow> life_step s (s\<lparr>hl_final := Final_Waits\<rparr>)"
| final_sends: "hl_final s = Final_Waits \<Longrightarrow> hl_worker s \<noteq> Sending \<Longrightarrow>
    life_step s ((http_client s)\<lparr>hl_final := Final_Sends\<rparr>)"
| final_skips: "hl_final s = Final_Waits \<Longrightarrow> hl_worker s \<noteq> Sending \<Longrightarrow> life_step s (s\<lparr>hl_final := Final_Releases\<rparr>)"
| final_sent: "hl_final s = Final_Sends \<Longrightarrow> life_step s (s\<lparr>hl_final := Final_Releases\<rparr>)"
| final_releases: "hl_final s = Final_Releases \<Longrightarrow> life_step s ((close_http_client s)\<lparr>hl_final := Final_Ended\<rparr>)"

text \<open>Every client that was made is the current one or was released, once.\<close>

definition life_inv :: "client_life \<Rightarrow> bool" where
  "life_inv s \<longleftrightarrow>
     mset (case hl_client s of None \<Rightarrow> [] | Some c \<Rightarrow> [c]) + mset (hl_released s) = mset [0..<hl_made s]"

lemma client_ops_inv [simp]: "life_inv (http_client s) = life_inv s" "life_inv (close_http_client s) = life_inv s"
  by (auto simp: life_inv_def http_client_def close_http_client_def simp del: mset_upt split: option.split)

lemma life_inv_phases [simp]: "life_inv (s\<lparr>hl_worker := x\<rparr>) = life_inv s" "life_inv (s\<lparr>hl_final := y\<rparr>) = life_inv s"
  by (simp_all add: life_inv_def)

lemma life_inv_step: "life_step s s' \<Longrightarrow> life_inv s \<Longrightarrow> life_inv s'"
  by (induction rule: life_step.induct) simp_all

interpretation client_run: preserved life_step life_inv
  by unfold_locales (rule life_inv_step)

lemma clients_accounted:
  assumes "life_step\<^sup>*\<^sup>* new_client_life s"
  shows "mset (case hl_client s of None \<Rightarrow> [] | Some c \<Rightarrow> [c]) + mset (hl_released s) = mset [0..<hl_made s]"
  using client_run.reach_preserves [OF assms] by (simp add: life_inv_def new_client_life_def)

text \<open>A release with no flush of the worker ahead is final: no client is left behind.\<close>

definition released_for_good :: "client_life \<Rightarrow> bool" where
  "released_for_good s \<longleftrightarrow> hl_final s = Final_Ended \<and> hl_client s = None \<and> hl_worker s \<in> {Looping, Worker_Ended}"

lemma released_step: "life_step s s' \<Longrightarrow> released_for_good s \<Longrightarrow> released_for_good s'"
  by (induction rule: life_step.induct) (auto simp: released_for_good_def)

interpretation released_run: preserved life_step released_for_good
  by unfold_locales (rule released_step)

lemma release_is_final:
  assumes "hl_worker s \<in> {Looping, Worker_Ended}" "life_step\<^sup>*\<^sup>* ((close_http_client s)\<lparr>hl_final := Final_Ended\<rparr>) s'"
  shows "hl_client s' = None"
proof -
  have "released_for_good ((close_http_client s)\<lparr>hl_final := Final_Ended\<rparr>)"
    using assms(1) by (auto simp: released_for_good_def close_http_client_def split: option.splits)
  from released_run.reach_preserves [OF assms(2) this] show ?thesis by (simp add: released_for_good_def)
qed

text \<open>
  But a worker that has looked at \<open>stop\<close> before the close, and takes the lock after the final
  flush, makes a client that nothing releases.
\<close>

lemma client_left_behind:
  "\<exists>s. life_step\<^sup>*\<^sup>* new_client_life s \<and> hl_worker s = Worker_Ended \<and> hl_final s = Final_Ended \<and>
     hl_client s = Some 0 \<and> hl_released s = []"
proof -
  let ?s = "\<lambda>w f. new_client_life\<lparr>hl_worker := w, hl_final := f\<rparr>"
  let ?t = "\<lambda>w. \<lparr>hl_client = Some 0, hl_made = 1, hl_released = [], hl_worker = w, hl_final = Final_Ended\<rparr>"
  note [simp] = new_client_life_def http_client_def close_http_client_def
  have "life_step new_client_life (?s Committed Not_Closed)" using worker_commits [of new_client_life] by simp
  moreover have "life_step (?s Committed Not_Closed) (?s Committed Final_Waits)" using close_call [of "?s Committed Not_Closed"] by simp
  moreover have "life_step (?s Committed Final_Waits) (?s Committed Final_Releases)"
    using final_skips [of "?s Committed Final_Waits"] by simp
  moreover have "life_step (?s Committed Final_Releases) (?s Committed Final_Ended)"
    using final_releases [of "?s Committed Final_Releases"] by simp
  moreover have "life_step (?s Committed Final_Ended) (?t Sending)" using worker_sends [of "?s Committed Final_Ended"] by simp
  moreover have "life_step (?t Sending) (?t Looping)" using worker_sent [of "?t Sending"] by simp
  moreover have "life_step (?t Looping) (?t Worker_Ended)" using worker_ends [of "?t Looping"] by simp
  ultimately have "life_step\<^sup>*\<^sup>* new_client_life (?t Worker_Ended)"
    by (meson converse_rtranclp_into_rtranclp rtranclp.rtrancl_refl)
  then show ?thesis by (intro exI [of _ "?t Worker_Ended"]) simp
qed

end
