(* ===== verification/Mutation_Check.thy ===== *)
theory Mutation_Check
  imports Api_Calls Checks
begin

text \<open>
  The maintenance tool \<open>scripts/mutation-check\<close>: it copies the repository, applies each recorded
  mutation to the copy, and requires that the recorded test fails on it.  A task takes the state
  of the copy to a list of errors (\<open>errors.Join\<close>) or a value, and the new state; the outcome of
  every call to the system is the environment's, by the number of calls made before.
\<close>

section \<open>The copy and the system\<close>

type_synonym file_tree = "string \<Rightarrow> bytes option" \<comment> \<open>the regular files of the copy, by relative path\<close>

datatype tool_error =
    Manifest_Error | Empty_Manifest | Getwd_Failed | Not_Repository_Root | Mkdir_Temp_Failed | Remove_All_Failed
  | Read_Failed string | Write_Failed string | Walk_Failed string | Unsupported_File string | Mkdir_Failed string
  | Invalid_Path string | Stale string | Baseline_Failed bytes | Survived string string | Invalid_Proof string
  | Restore_Failed string | Restoration_Mismatch | Boundary_Gate bytes
  | Probe_Exists | Probe_Uncompiled bytes | Missing_Finding string | Remove_Failed string | Static_Probe string

datatype report_line =
    Baseline_Passed nat | Killed string string | Rejected string string | All_Killed nat | Wall_Time

record work =
  wk_files :: file_tree
  wk_calls :: nat \<comment> \<open>calls to the system so far\<close>
  wk_report :: "report_line list"

datatype write_outcome = Written | Torn "bytes option" \<comment> \<open>what a failed write leaves behind\<close>

datatype entry =
    Regular bytes
  | Unreadable
  | Directory "(string \<times> entry) list" \<comment> \<open>in the order of the walk\<close>
  | Closed_Directory
  | Special

record command_result =
  cm_output :: bytes
  cm_failed :: bool
  cm_files :: file_tree

record tool_env =
  te_working_dir :: "string option" \<comment> \<open>the last element of its path\<close>
  te_module :: "bytes option" \<comment> \<open>of \<open>go.mod\<close>\<close>
  te_tree :: entry
  te_temp_dir :: bool
  te_remove_all :: bool
  te_read :: "nat \<Rightarrow> bool"
  te_write :: "nat \<Rightarrow> write_outcome"
  te_mkdir :: "nat \<Rightarrow> bool"
  te_remove :: "nat \<Rightarrow> bool"
  te_command :: "nat \<Rightarrow> string list \<Rightarrow> file_tree \<Rightarrow> command_result"
  te_interrupted :: "nat \<Rightarrow> bool" \<comment> \<open>\<open>ctx.Err() != nil\<close>\<close>

type_synonym 'a task = "work \<Rightarrow> (tool_error list + 'a) \<times> work"

definition give :: "'a \<Rightarrow> 'a task" where
  "give x w = (Inr x, w)"

definition fail :: "tool_error list \<Rightarrow> 'a task" where
  "fail es w = (Inl es, w)"

definition chain :: "'a task \<Rightarrow> ('a \<Rightarrow> 'b task) \<Rightarrow> 'b task" where
  "chain m f w = (case m w of (Inl es, w') \<Rightarrow> (Inl es, w') | (Inr x, w') \<Rightarrow> f x w')"

text \<open>A deferred function adds its errors to the result.\<close>

definition deferred :: "'a task \<Rightarrow> (work \<Rightarrow> tool_error list \<times> work) \<Rightarrow> 'a task" where
  "deferred body cleanup w =
     (let (r, w1) = body w; (es, w2) = cleanup w1
      in (case r of Inl es' \<Rightarrow> Inl (es' @ es) | Inr x \<Rightarrow> if es = [] then Inr x else Inl es, w2))"

definition called :: "work \<Rightarrow> work" where
  "called w = w\<lparr>wk_calls := Suc (wk_calls w)\<rparr>"

definition report :: "report_line \<Rightarrow> unit task" where
  "report line w = (Inr (), w\<lparr>wk_report := wk_report w @ [line]\<rparr>)"

definition read_file :: "tool_env \<Rightarrow> string \<Rightarrow> bytes task" where
  "read_file env path w =
     (case wk_files w path of
        Some data \<Rightarrow> (if te_read env (wk_calls w) then Inr data else Inl [Read_Failed path])
      | None \<Rightarrow> Inl [Read_Failed path], called w)"

definition write_file :: "tool_env \<Rightarrow> string \<Rightarrow> bytes \<Rightarrow> unit task" where
  "write_file env path data w =
     (case te_write env (wk_calls w) of
        Written \<Rightarrow> (Inr (), (called w)\<lparr>wk_files := (wk_files w)(path := Some data)\<rparr>)
      | Torn left \<Rightarrow> (Inl [Write_Failed path], (called w)\<lparr>wk_files := (wk_files w)(path := left)\<rparr>))"

definition command :: "tool_env \<Rightarrow> string list \<Rightarrow> (bytes \<times> bool) task" where
  "command env args w =
     (let r = te_command env (wk_calls w) args (wk_files w)
      in (Inr (cm_output r, cm_failed r), (called w)\<lparr>wk_files := cm_files r\<rparr>))"

section \<open>Copying the tree\<close>

definition rel_path :: "string \<Rightarrow> string \<Rightarrow> string" where
  "rel_path dir name = (if dir = ''.'' then name else dir @ ''/'' @ name)"

definition left_out :: "string \<Rightarrow> bool" where
  "left_out name \<longleftrightarrow> name = ''.git'' \<or> name = ''.agents'' \<or> name = ''.codex''"

definition make_dir :: "tool_env \<Rightarrow> string \<Rightarrow> unit task" where
  "make_dir env path w = (if te_mkdir env (wk_calls w) then Inr () else Inl [Mkdir_Failed path], called w)"

fun copy_entry :: "tool_env \<Rightarrow> string \<Rightarrow> string \<Rightarrow> entry \<Rightarrow> unit task"
  and copy_entries :: "tool_env \<Rightarrow> string \<Rightarrow> (string \<times> entry) list \<Rightarrow> unit task" where
  "copy_entry env path name e =
     (if left_out name then give ()
      else case e of
          Regular data \<Rightarrow> write_file env path data
        | Unreadable \<Rightarrow> fail [Read_Failed path]
        | Directory es \<Rightarrow> chain (make_dir env path) (\<lambda>_. copy_entries env path es)
        | Closed_Directory \<Rightarrow> chain (make_dir env path) (\<lambda>_. fail [Walk_Failed path])
        | Special \<Rightarrow> fail [Unsupported_File path])"
| "copy_entries env dir [] = give ()"
| "copy_entries env dir ((name, e) # es) =
     chain (copy_entry env (rel_path dir name) name e) (\<lambda>_. copy_entries env dir es)"

definition copy_tree :: "tool_env \<Rightarrow> string \<Rightarrow> unit task" where
  "copy_tree env root_name = copy_entry env ''.'' root_name (te_tree env)"

text \<open>What a copy holds: the regular files that lie under no directory that is left out.\<close>

fun kept_entry :: "string \<Rightarrow> string \<Rightarrow> entry \<Rightarrow> (string \<times> bytes) list"
  and kept_entries :: "string \<Rightarrow> (string \<times> entry) list \<Rightarrow> (string \<times> bytes) list" where
  "kept_entry path name e =
     (if left_out name then []
      else case e of Regular data \<Rightarrow> [(path, data)] | Directory es \<Rightarrow> kept_entries path es | _ \<Rightarrow> [])"
| "kept_entries dir [] = []"
| "kept_entries dir ((name, e) # es) = kept_entry (rel_path dir name) name e @ kept_entries dir es"

section \<open>The manifest\<close>

record mutation =
  mu_name :: string
  mu_file :: string
  mu_before :: string
  mu_after :: string
  mu_test :: string

definition mutation_schema :: schema where
  "mutation_schema = Schema [(''Name'', False, FString), (''File'', False, FString), (''Before'', False, FString),
     (''After'', False, FString), (''Test'', False, FString)]"

definition mutation_of :: "svalue \<Rightarrow> mutation" where
  "mutation_of v =
     (let f = (\<lambda>name. the_string (struct_field mutation_schema name v))
      in \<lparr>mu_name = f ''Name'', mu_file = f ''File'', mu_before = f ''Before'', mu_after = f ''After'', mu_test = f ''Test''\<rparr>)"

definition decode_manifest :: "bytes \<Rightarrow> mutation list option" where
  "decode_manifest raw =
     (case Option.bind (parse_json document_rules raw) (decode_field (FStructs mutation_schema)) of
        Some (VList vs) \<Rightarrow> Some (map mutation_of vs)
      | Some _ \<Rightarrow> Some []
      | None \<Rightarrow> None)"

text \<open>\<open>fs.ValidPath\<close>.\<close>

definition valid_path :: "string \<Rightarrow> bool" where
  "valid_path name \<longleftrightarrow>
     utf8_valid name \<and> (name = ''.'' \<or> list_all (\<lambda>elem. elem \<noteq> [] \<and> elem \<noteq> ''.'' \<and> elem \<noteq> ''..'') (split_on (CHR ''/'') name))"

text \<open>\<open>strings.Count\<close>, with the count of runes for an empty text, and \<open>strings.Replace(s, old, new, 1)\<close>.\<close>

function rune_count :: "string \<Rightarrow> nat" where
  "rune_count s = (if s = [] then 0 else Suc (rune_count (drop (snd (decode_rune s)) s)))"
  by pat_completeness auto
termination
  by (relation "measure length") (auto intro: diff_less decode_rune_width_pos)

declare rune_count.simps [simp del]

function count_of :: "string \<Rightarrow> string \<Rightarrow> nat" where
  "count_of s sub =
     (if sub = [] then Suc (rune_count s)
      else case index_of sub s of None \<Rightarrow> 0 | Some i \<Rightarrow> Suc (count_of (drop (i + length sub) s) sub))"
  by pat_completeness auto
termination
proof (relation "measure (\<lambda>(s, sub). length s)", goal_cases)
  case (2 s sub i)
  then show ?case by (cases s) (auto split: if_splits)
qed simp

declare count_of.simps [simp del]

definition replace_first :: "string \<Rightarrow> string \<Rightarrow> string \<Rightarrow> string" where
  "replace_first s old new =
     (case index_of old s of None \<Rightarrow> s | Some i \<Rightarrow> take i s @ new @ drop (i + length old) s)"

text \<open>Every record matches exactly once before anything runs; the tests, each once.\<close>

fun preflight :: "tool_env \<Rightarrow> mutation list \<Rightarrow> string list \<Rightarrow> string list task" where
  "preflight env [] names = give names"
| "preflight env (m # ms) names =
     (if \<not> valid_path (mu_file m) then fail [Invalid_Path (mu_file m)]
      else chain (read_file env (mu_file m)) (\<lambda>original.
        if mu_before m = [] \<or> mu_before m = mu_after m \<or> count_of original (mu_before m) \<noteq> 1 then fail [Stale (mu_name m)]
        else preflight env ms (if mu_test m \<in> set names then names else names @ [mu_test m])))"

section \<open>One mutation\<close>

definition go_test :: "string \<Rightarrow> string list" where
  "go_test pattern = [''go'', ''test'', ''-count=1'', ''-run'', ''^'' @ pattern @ ''$'', ''.'']"

definition proof_output :: "string \<Rightarrow> bytes \<Rightarrow> bool" where
  "proof_output test out \<longleftrightarrow> is_infix_of (''--- FAIL: '' @ test) out \<and> \<not> is_infix_of ''[build failed]'' out"

definition run_mutant :: "tool_env \<Rightarrow> mutation \<Rightarrow> bytes \<Rightarrow> unit task" where
  "run_mutant env m original =
     (if count_of original (mu_before m) \<noteq> 1 then fail [Stale (mu_name m)]
      else chain (write_file env (mu_file m) (replace_first original (mu_before m) (mu_after m))) (\<lambda>_.
        chain (command env (go_test (mu_test m))) (\<lambda>(out, failed) w.
          if \<not> failed then fail [Survived (mu_name m) (mu_test m)] w
          else if \<not> proof_output (mu_test m) out \<or> te_interrupted env (wk_calls w) then fail [Invalid_Proof (mu_name m)] w
          else report (Killed (mu_name m) (mu_test m)) w)))"

definition restore_file :: "tool_env \<Rightarrow> string \<Rightarrow> bytes \<Rightarrow> work \<Rightarrow> tool_error list \<times> work" where
  "restore_file env path original w =
     (case write_file env path original w of
        (Inl es, w1) \<Rightarrow> ([Restore_Failed path], w1)
      | (Inr _, w1) \<Rightarrow>
          (case read_file env path w1 of
             (Inl es, w2) \<Rightarrow> (es, w2)
           | (Inr restored, w2) \<Rightarrow> (if original = restored then [] else [Restoration_Mismatch], w2)))"

definition check_mutation :: "tool_env \<Rightarrow> mutation \<Rightarrow> unit task" where
  "check_mutation env m =
     chain (read_file env (mu_file m)) (\<lambda>original.
       deferred (run_mutant env m original) (restore_file env (mu_file m) original))"

fun check_mutations :: "tool_env \<Rightarrow> mutation list \<Rightarrow> unit task" where
  "check_mutations env [] = give ()"
| "check_mutations env (m # ms) = chain (check_mutation env m) (\<lambda>_. check_mutations env ms)"

section \<open>Static probes\<close>

record static_probe =
  sp_name :: string
  sp_source :: string
  sp_rule :: string
  sp_args :: "string list option"

definition lint_args :: "string list" where
  "lint_args = [''run'', ''github.com/golangci/golangci-lint/v2/cmd/golangci-lint@v2.6.0'', ''run'', ''./...'']"

definition boundary_args :: "string list" where
  "boundary_args = [''run'', ''./scripts/boundary-check'']"

definition source_lines :: "string list \<Rightarrow> string" where
  "source_lines ls = concat (map (\<lambda>l. l @ [CHR 0x0A]) ls)"

definition import_line :: "string \<Rightarrow> string" where
  "import_line p = ''import '' @ [CHR 0x22] @ p @ [CHR 0x22]"

definition static_probes :: "static_probe list" where
  "static_probes =
     [\<lparr>sp_name = ''unchecked assertion'',
       sp_source = source_lines [''package trustedrouter'', ''func BoundaryProbe(v any) string { return v.(string) }''],
       sp_rule = ''(forcetypeassert)'', sp_args = None\<rparr>,
      \<lparr>sp_name = ''pass-through rejection'',
       sp_source = source_lines [''package trustedrouter'', import_line ''encoding/json'',
         ''func BoundaryProbe(d *json.Decoder) { d.DisallowUnknownFields() }''],
       sp_rule = ''wire-pass-through:'', sp_args = Some boundary_args\<rparr>,
      \<lparr>sp_name = ''raw header indexing'',
       sp_source = source_lines [''package trustedrouter'', import_line ''net/http'',
         ''func BoundaryProbe(h http.Header) []string { return h['' @ [CHR 0x22] @ ''x-probe'' @ [CHR 0x22] @ ''] }''],
       sp_rule = ''header-access:'', sp_args = Some boundary_args\<rparr>,
      \<lparr>sp_name = ''ignored JSON error'',
       sp_source = source_lines [''package trustedrouter'', import_line ''encoding/json'',
         ''func BoundaryProbe(b []byte) any { var v any; _ = json.Unmarshal(b, &v); return v }''],
       sp_rule = ''(errcheck)'', sp_args = None\<rparr>]"

definition probe_path :: string where
  "probe_path = ''boundary_probe.go''"

definition remove_file :: "tool_env \<Rightarrow> string \<Rightarrow> work \<Rightarrow> tool_error list \<times> work" where
  "remove_file env path w =
     (if te_remove env (wk_calls w) \<and> wk_files w path \<noteq> None
      then ([], (called w)\<lparr>wk_files := (wk_files w)(path := None)\<rparr>)
      else ([Remove_Failed path], called w))"

definition run_probe :: "tool_env \<Rightarrow> string \<Rightarrow> string list \<Rightarrow> unit task" where
  "run_probe env rule args =
     chain (command env [''go'', ''build'', ''./...'']) (\<lambda>(out, failed).
       if failed then fail [Probe_Uncompiled out]
       else chain (command env (''go'' # args)) (\<lambda>(out, failed).
         if \<not> failed \<or> \<not> is_infix_of (probe_path @ '':'') out \<or> \<not> is_infix_of rule out
         then fail [Missing_Finding rule] else give ()))"

definition check_static_probe :: "tool_env \<Rightarrow> string \<Rightarrow> string \<Rightarrow> string list \<Rightarrow> unit task" where
  "check_static_probe env src rule args w =
     (if wk_files w probe_path \<noteq> None \<or> \<not> te_read env (wk_calls w) then fail [Probe_Exists] (called w)
      else chain (write_file env probe_path src) (\<lambda>_.
        deferred (run_probe env rule args) (remove_file env probe_path)) (called w))"

fun check_probes :: "tool_env \<Rightarrow> static_probe list \<Rightarrow> unit task" where
  "check_probes env [] = give ()"
| "check_probes env (p # ps) = (\<lambda>w.
     case check_static_probe env (sp_source p) (sp_rule p) (case sp_args p of None \<Rightarrow> lint_args | Some a \<Rightarrow> a) w of
       (Inl es, w1) \<Rightarrow> fail (Static_Probe (sp_name p) # es) w1
     | (Inr _, w1) \<Rightarrow> chain (report (Rejected (sp_name p) (sp_rule p))) (\<lambda>_. check_probes env ps) w1)"

section \<open>The whole tool\<close>

definition baseline :: "tool_env \<Rightarrow> string list \<Rightarrow> unit task" where
  "baseline env names =
     chain (command env (go_test (''('' @ join ''|'' names @ '')''))) (\<lambda>(out, failed).
       if failed then fail [Baseline_Failed out] else report (Baseline_Passed (length names)))"

definition boundary_gate :: "tool_env \<Rightarrow> unit task" where
  "boundary_gate env =
     chain (command env [''go'', ''run'', ''./scripts/boundary-check'']) (\<lambda>(out, failed).
       if failed then fail [Boundary_Gate out] else give ())"

definition check_copy :: "tool_env \<Rightarrow> string \<Rightarrow> mutation list \<Rightarrow> unit task" where
  "check_copy env root_name ms =
     chain (copy_tree env root_name) (\<lambda>_.
     chain (preflight env ms []) (\<lambda>names.
     chain (baseline env names) (\<lambda>_.
     chain (check_mutations env ms) (\<lambda>_.
     chain (boundary_gate env) (\<lambda>_.
     chain (check_probes env static_probes) (\<lambda>_.
       report (All_Killed (length ms))))))))"

definition module_line :: string where
  "module_line = ''module github.com/Lore-Hex/trusted-router-go'' @ [CHR 0x0A]"

definition remove_all :: "tool_env \<Rightarrow> work \<Rightarrow> tool_error list \<times> work" where
  "remove_all env w =
     (if te_remove_all env then ([], (called w)\<lparr>wk_files := \<lambda>_. None\<rparr>) else ([Remove_All_Failed], called w))"

definition run_tool :: "tool_env \<Rightarrow> bytes \<Rightarrow> unit task" where
  "run_tool env manifest =
     deferred
       (case decode_manifest manifest of
          None \<Rightarrow> fail [Manifest_Error]
        | Some ms \<Rightarrow>
            (if ms = [] then fail [Empty_Manifest]
             else case te_working_dir env of
                None \<Rightarrow> fail [Getwd_Failed]
              | Some root_name \<Rightarrow>
                  (case te_module env of
                     None \<Rightarrow> fail [Not_Repository_Root]
                   | Some go_mod \<Rightarrow>
                       (if \<not> is_infix_of module_line go_mod then fail [Not_Repository_Root]
                        else if \<not> te_temp_dir env then fail [Mkdir_Temp_Failed]
                        else deferred (check_copy env root_name ms) (remove_all env)))))
       (\<lambda>w. ([], snd (report Wall_Time w)))"

definition tool_exit_status :: "tool_env \<Rightarrow> bytes \<Rightarrow> work \<Rightarrow> int" where
  "tool_exit_status env manifest w = (case fst (run_tool env manifest w) of Inl es \<Rightarrow> 1 | Inr _ \<Rightarrow> 0)"

section \<open>What success means\<close>

lemma give_iff [check_iff]: "give x w = (Inr y, w') \<longleftrightarrow> y = x \<and> w' = w"
  by (auto simp: give_def)

lemma fail_iff [check_iff]: "fail es w = (Inr y, w') \<longleftrightarrow> False"
  by (simp add: fail_def)

lemma chain_iff [check_iff]: "chain m f w = (Inr y, w') \<longleftrightarrow> (\<exists>x w1. m w = (Inr x, w1) \<and> f x w1 = (Inr y, w'))"
  by (auto simp: chain_def split: prod.splits sum.splits)

lemma deferred_iff [check_iff]:
  "deferred body cleanup w = (Inr y, w') \<longleftrightarrow> (\<exists>w1. body w = (Inr y, w1) \<and> cleanup w1 = ([], w'))"
  by (auto simp: deferred_def Let_def split: prod.splits sum.splits if_splits)

lemma report_iff [check_iff]: "report line w = (Inr u, w') \<longleftrightarrow> w' = w\<lparr>wk_report := wk_report w @ [line]\<rparr>"
  by (auto simp: report_def)

lemma read_iff [check_iff]:
  "read_file env path w = (Inr data, w') \<longleftrightarrow> wk_files w path = Some data \<and> te_read env (wk_calls w) \<and> w' = called w"
  by (auto simp: read_file_def split: option.splits)

lemma write_iff [check_iff]:
  "write_file env path data w = (Inr u, w') \<longleftrightarrow>
     te_write env (wk_calls w) = Written \<and> w' = (called w)\<lparr>wk_files := (wk_files w)(path := Some data)\<rparr>"
  by (auto simp: write_file_def split: write_outcome.splits)

lemma command_iff [check_iff]:
  "command env args w = (Inr (out, failed), w') \<longleftrightarrow>
     (let r = te_command env (wk_calls w) args (wk_files w)
      in out = cm_output r \<and> failed = cm_failed r \<and> w' = (called w)\<lparr>wk_files := cm_files r\<rparr>)"
  by (auto simp: command_def Let_def)

lemma called_fields [simp]: "wk_files (called w) = wk_files w" "wk_calls (called w) = Suc (wk_calls w)"
  by (simp_all add: called_def)

lemma restore_iff [check_iff]:
  "restore_file env path original w = ([], w') \<longleftrightarrow>
     te_write env (wk_calls w) = Written \<and> te_read env (Suc (wk_calls w)) \<and>
     w' = (called (called w))\<lparr>wk_files := (wk_files w)(path := Some original)\<rparr>"
  by (auto simp: restore_file_def write_file_def read_file_def called_def split: write_outcome.splits)

text \<open>Commands that leave the files of the copy alone, as the go tool does.\<close>

definition quiet_commands :: "tool_env \<Rightarrow> bool" where
  "quiet_commands env \<longleftrightarrow> (\<forall>n args fs. cm_files (te_command env n args fs) = fs)"

subsection \<open>The copy\<close>

lemma make_dir_iff [check_iff]: "make_dir env path w = (Inr u, w') \<longleftrightarrow> te_mkdir env (wk_calls w) \<and> w' = called w"
  by (auto simp: make_dir_def)

definition add_files :: "(string \<times> bytes) list \<Rightarrow> file_tree \<Rightarrow> file_tree" where
  "add_files kept fs = fold (\<lambda>(path, data) fs. fs(path := Some data)) kept fs"

lemma add_files_simps [simp]:
  "add_files [] fs = fs" "add_files [(path, data)] fs = fs(path := Some data)"
  "add_files (xs @ ys) fs = add_files ys (add_files xs fs)"
  by (simp_all add: add_files_def)

lemma copy_files:
  "copy_entry env path name e w = (Inr u, w') \<Longrightarrow> wk_files w' = add_files (kept_entry path name e) (wk_files w)"
  "copy_entries env path es w = (Inr u, w') \<Longrightarrow> wk_files w' = add_files (kept_entries path es) (wk_files w)"
proof (induction env path name e and env path es arbitrary: w w' and w w' rule: copy_entry_copy_entries.induct)
  case (1 env path name e)
  then show ?case by (cases e) (auto simp: check_iff split: if_splits)
next
  case (2 env dir)
  then show ?case by (simp add: check_iff)
next
  case (3 env dir name e es)
  from "3.prems" obtain x w1 where "copy_entry env (rel_path dir name) name e w = (Inr x, w1)" "copy_entries env dir es w1 = (Inr u, w')"
    by (auto simp only: copy_entries.simps check_iff)
  with "3.IH" show ?case by simp
qed

subsection \<open>Matching once\<close>

lemma index_of_split: "index_of p s = Some i \<Longrightarrow> s = take i s @ p @ drop (i + length p) s"
proof (induction s arbitrary: i)
  case (Cons x s)
  show ?case
  proof (cases "has_prefix (x # s) p")
    case True
    with Cons.prems have "i = 0" by simp
    with True show ?thesis by (simp add: has_prefix_def) (metis append_take_drop_id)
  next
    case False
    with Cons.prems obtain j where "index_of p s = Some j" "i = Suc j" by auto
    with Cons.IH show ?thesis by simp
  qed
qed (simp split: if_splits)

text \<open>The only match, what comes before and after it, and the file with the match replaced.\<close>

lemma single_match:
  assumes "before \<noteq> []" "count_of s before = 1"
  obtains pre post where "s = pre @ before @ post" "\<And>after. replace_first s before after = pre @ after @ post"
    "index_of before post = None"
proof -
  from assms obtain i where i: "index_of before s = Some i" and c: "count_of (drop (i + length before) s) before = 0"
    by (subst (asm) count_of.simps) (auto split: option.splits)
  from c assms(1) have "index_of before (drop (i + length before) s) = None"
    by (subst (asm) count_of.simps) (auto split: option.splits)
  with that index_of_split [OF i] i show ?thesis by (simp add: replace_first_def)
qed

subsection \<open>Restoring\<close>

text \<open>Whatever happens to the test, the file is the original again, or the failure to restore it is reported.\<close>

lemma mutation_restored:
  assumes "wk_files w (mu_file m) = Some original" "check_mutation env m w = (r, w')"
  shows "wk_files w' (mu_file m) = Some original \<or> (\<exists>es. r = Inl es \<and> Restore_Failed (mu_file m) \<in> set es)"
proof -
  have restored: "Restore_Failed path \<in> set es \<or> wk_files w2 path = Some original"
    if "restore_file env path original w1 = (es, w2)" for path w1 es w2
    using that by (auto simp: restore_file_def write_file_def read_file_def called_def split: write_outcome.splits if_splits)
  from assms show ?thesis
    by (auto simp: check_mutation_def chain_def deferred_def read_file_def Let_def
        split: prod.splits sum.splits if_splits dest: restored)
qed

subsection \<open>Every mutation is killed\<close>

definition kills :: "tool_env \<Rightarrow> nat \<Rightarrow> mutation \<Rightarrow> file_tree \<Rightarrow> bool" where
  "kills env n m fs \<longleftrightarrow>
     (let r = te_command env n (go_test (mu_test m)) fs
      in cm_failed r \<and> proof_output (mu_test m) (cm_output r) \<and> \<not> te_interrupted env (Suc n))"

lemma check_mutation_ok:
  assumes "check_mutation env m w = (Inr u, w')" "quiet_commands env"
  shows "wk_files w' = wk_files w \<and>
    (\<exists>n original. wk_files w (mu_file m) = Some original \<and> count_of original (mu_before m) = 1 \<and>
       kills env n m ((wk_files w)(mu_file m := Some (replace_first original (mu_before m) (mu_after m)))))"
proof -
  from assms(1) obtain original w1 where o: "wk_files w (mu_file m) = Some original"
    and run: "run_mutant env m original (called w) = (Inr u, w1)" and r: "restore_file env (mu_file m) original w1 = ([], w')"
    by (auto simp: check_mutation_def check_iff)
  let ?fs = "(wk_files w)(mu_file m := Some (replace_first original (mu_before m) (mu_after m)))"
  from run have c: "count_of original (mu_before m) = 1" by (auto simp: run_mutant_def check_iff split: if_splits)
  with run have k: "kills env (Suc (Suc (wk_calls w))) m ?fs" and f: "wk_files w1 = ?fs"
    using assms(2) by (auto simp: run_mutant_def check_iff kills_def Let_def quiet_commands_def split: if_splits)
  from r f o have "wk_files w' = wk_files w" by (auto simp: check_iff)
  with o c k show ?thesis by blast
qed

lemma check_mutations_ok:
  assumes "check_mutations env ms w = (Inr u, w')" "quiet_commands env" "m \<in> set ms"
  shows "\<exists>n original. wk_files w (mu_file m) = Some original \<and> count_of original (mu_before m) = 1 \<and>
    kills env n m ((wk_files w)(mu_file m := Some (replace_first original (mu_before m) (mu_after m))))"
  using assms(1,3)
proof (induction ms arbitrary: w)
  case (Cons m' ms)
  then obtain w1 u1 where w1: "check_mutation env m' w = (Inr u1, w1)" "check_mutations env ms w1 = (Inr u, w')"
    by (auto simp: check_iff)
  from check_mutation_ok [OF w1(1) assms(2)] have same: "wk_files w1 = wk_files w" by simp
  show ?case
  proof (cases "m = m'")
    case True
    with check_mutation_ok [OF w1(1) assms(2)] show ?thesis by blast
  next
    case False
    with Cons.IH [OF w1(2)] Cons.prems(2) same show ?thesis by simp
  qed
qed simp

lemma preflight_ok:
  assumes "preflight env ms names w = (Inr tests, w')"
  shows "wk_files w' = wk_files w \<and> set tests = set names \<union> mu_test ` set ms \<and>
    (\<forall>m\<in>set ms. valid_path (mu_file m) \<and> mu_before m \<noteq> [] \<and> mu_before m \<noteq> mu_after m)"
  using assms
proof (induction ms arbitrary: names w)
  case Nil
  then show ?case by (simp add: check_iff)
next
  case (Cons m ms)
  then have ok: "valid_path (mu_file m)" "mu_before m \<noteq> []" "mu_before m \<noteq> mu_after m"
    and rest: "preflight env ms (if mu_test m \<in> set names then names else names @ [mu_test m]) (called w) = (Inr tests, w')"
    by (auto simp: check_iff split: if_splits)
  from Cons.IH [OF rest] ok show ?case by (auto split: if_splits)
qed

text \<open>
  C40. When the tool reports success, every recorded mutation has been proved to be caught.  The
  focused tests passed on the copy as it is; each mutation names a valid path of the copy and
  a text that is there, with nothing but the mutation's own replacement its test failed as a test,
  not as a build and not because of an interrupt; and the temporary copy is gone.
\<close>
theorem mutation_check_proves:
  assumes "run_tool env manifest w = (Inr u, w')" "quiet_commands env"
  shows "\<exists>ms root w1 tests n. decode_manifest manifest = Some ms \<and> ms \<noteq> [] \<and> te_working_dir env = Some root \<and>
    copy_tree env root w = (Inr (), w1) \<and> wk_files w1 = add_files (kept_entry ''.'' root (te_tree env)) (wk_files w) \<and> set tests = mu_test ` set ms \<and>
    \<not> cm_failed (te_command env n (go_test (''('' @ join ''|'' tests @ '')'')) (wk_files w1)) \<and>
    (\<forall>m\<in>set ms. valid_path (mu_file m) \<and> mu_before m \<noteq> mu_after m \<and>
       (\<exists>pre post k. wk_files w1 (mu_file m) = Some (pre @ mu_before m @ post) \<and>
          kills env k m ((wk_files w1)(mu_file m := Some (pre @ mu_after m @ post))))) \<and>
    wk_files w' = (\<lambda>_. None)"
proof -
  from assms(1) obtain ms root w2 where ms: "decode_manifest manifest = Some ms" "ms \<noteq> []" "te_working_dir env = Some root"
    and c: "check_copy env root ms w = (Inr u, w2)" and gone: "wk_files w' = (\<lambda>_. None)"
    by (auto simp: run_tool_def check_iff remove_all_def report_def split: option.splits if_splits)
  from c obtain w1 tests wa wb wc where copy: "copy_tree env root w = (Inr (), w1)"
    and pre: "preflight env ms [] w1 = (Inr tests, wa)" and base: "baseline env tests wa = (Inr (), wb)"
    and all: "check_mutations env ms wb = (Inr (), wc)"
    by (auto simp: check_copy_def check_iff)
  note p = preflight_ok [OF pre]
  from base p have b: "\<not> cm_failed (te_command env (wk_calls wa) (go_test (''('' @ join ''|'' tests @ '')'')) (wk_files w1))"
    and same: "wk_files wb = wk_files w1"
    using assms(2) by (auto simp: baseline_def check_iff Let_def quiet_commands_def split: if_splits)
  have "\<exists>pre post k. wk_files w1 (mu_file m) = Some (pre @ mu_before m @ post) \<and>
      kills env k m ((wk_files w1)(mu_file m := Some (pre @ mu_after m @ post)))" if "m \<in> set ms" for m
  proof -
    from check_mutations_ok [OF all assms(2) that] same obtain k original where
      o: "wk_files w1 (mu_file m) = Some original" "count_of original (mu_before m) = 1"
      "kills env k m ((wk_files w1)(mu_file m := Some (replace_first original (mu_before m) (mu_after m))))" by auto
    from p that have "mu_before m \<noteq> []" by simp
    from single_match [OF this o(2)] obtain pre post where s: "original = pre @ mu_before m @ post"
      "replace_first original (mu_before m) (mu_after m) = pre @ mu_after m @ post" by metis
    from o(1) s(1) have "wk_files w1 (mu_file m) = Some (pre @ mu_before m @ post)" by simp
    with o(3) [unfolded s(2)] show ?thesis by blast
  qed
  moreover have "wk_files w1 = add_files (kept_entry ''.'' root (te_tree env)) (wk_files w)"
    using copy_files(1) copy unfolding copy_tree_def .
  ultimately show ?thesis using ms copy p b gone by (intro exI [of _ ms] exI [of _ root] exI [of _ w1] exI [of _ tests] exI [of _ "wk_calls wa"]) simp
qed

text \<open>A repository of one file and one recorded mutation.\<close>

definition demo_manifest :: bytes where
  "demo_manifest = map (\<lambda>c. if c = CHR ''~'' then CHR 0x22 else c)
     ''[{~name~:~two~,~file~:~a.go~,~before~:~1~,~after~:~2~,~test~:~TestOne~}]''"

definition demo_command :: "nat \<Rightarrow> string list \<Rightarrow> file_tree \<Rightarrow> command_result" where
  "demo_command n args fs =
     (if args ! 1 = ''test'' then
        (if fs ''a.go'' = Some ''x = 2'' then \<lparr>cm_output = ''--- FAIL: TestOne'', cm_failed = True, cm_files = fs\<rparr>
         else \<lparr>cm_output = ''ok'', cm_failed = False, cm_files = fs\<rparr>)
      else if args ! 1 = ''run'' \<and> fs probe_path \<noteq> None then
        \<lparr>cm_output = ''boundary_probe.go:2: wire-pass-through: header-access: (forcetypeassert) (errcheck)'',
         cm_failed = True, cm_files = fs\<rparr>
      else \<lparr>cm_output = [], cm_failed = False, cm_files = fs\<rparr>)"

definition demo_tool :: tool_env where
  "demo_tool = \<lparr>te_working_dir = Some ''repo'', te_module = Some module_line,
     te_tree = Directory [(''.git'', Directory [(''HEAD'', Special)]), (''a.go'', Regular ''x = 1'')],
     te_temp_dir = True, te_remove_all = True, te_read = (\<lambda>n. True), te_write = (\<lambda>n. Written), te_mkdir = (\<lambda>n. True),
     te_remove = (\<lambda>n. True), te_command = demo_command, te_interrupted = (\<lambda>n. False)\<rparr>"

definition empty_work :: work where
  "empty_work = \<lparr>wk_files = (\<lambda>_. None), wk_calls = 0, wk_report = []\<rparr>"

lemma mutation_check_proves_witness:
  "tool_exit_status demo_tool demo_manifest empty_work = 0 \<and> (\<exists>ms. decode_manifest demo_manifest = Some ms \<and> ms \<noteq> [])"
proof -
  have ok: "fst (run_tool demo_tool demo_manifest empty_work) = Inr ()" by code_simp
  have "quiet_commands demo_tool" by (simp add: quiet_commands_def demo_tool_def demo_command_def)
  moreover from ok have "run_tool demo_tool demo_manifest empty_work = (Inr (), snd (run_tool demo_tool demo_manifest empty_work))"
    by (metis prod.collapse)
  ultimately have "\<exists>ms. decode_manifest demo_manifest = Some ms \<and> ms \<noteq> []" using mutation_check_proves by blast
  with ok show ?thesis by (simp add: tool_exit_status_def)
qed

end
