(* ===== verification/Boundary_Check.thy ===== *)
theory Boundary_Check
  imports Mutation_Check
begin

text \<open>
  The maintenance tool \<open>scripts/boundary-check\<close>: it loads the packages of the module and
  rejects two shapes of code in them.  What the go tool lists, and what the parser and the type
  checker of Go say about a file, are the environment's.
\<close>

section \<open>Packages\<close>

record package_info =
  pi_import_path :: string
  pi_dir :: string
  pi_go_files :: "string list"

text \<open>\<open>filepath.Clean\<close> and \<open>filepath.Rel\<close> of absolute paths, by their elements.\<close>

definition clean_elements :: "string \<Rightarrow> string list" where
  "clean_elements path =
     foldl (\<lambda>acc e. if e = [] \<or> e = ''.'' then acc else if e = ''..'' then butlast acc else acc @ [e]) []
       (split_on (CHR ''/'') path)"

fun drop_common :: "string list \<Rightarrow> string list \<Rightarrow> string list \<times> string list" where
  "drop_common (a # as) (b # bs) = (if a = b then drop_common as bs else (a # as, b # bs))"
| "drop_common as bs = (as, bs)"

definition relative_to :: "string \<Rightarrow> string \<Rightarrow> string option" where
  "relative_to base target =
     (if has_prefix target ''/'' then
        (let (up, down) = drop_common (clean_elements base) (clean_elements target)
         in Some (if up = [] \<and> down = [] then ''.'' else join ''/'' (map (\<lambda>_. ''..'') up @ down)))
      else None)"

definition is_local :: "string \<Rightarrow> package_info \<Rightarrow> bool" where
  "is_local top_dir pkg =
     (case relative_to top_dir (pi_dir pkg) of
        None \<Rightarrow> False
      | Some rel \<Rightarrow> rel \<noteq> ''..'' \<and> \<not> has_prefix rel ''/'' \<and> \<not> has_prefix rel ''../'')"

section \<open>The visitor\<close>

text \<open>A node with what the type checker knows of it: a named type, or a function that is used.\<close>

record named_object =
  no_package :: "string option"
  no_name :: string

datatype ast_node =
    Index_Expr string "named_object option" \<comment> \<open>the position; the type of what is indexed, when named\<close>
  | Selector_Expr string "named_object option" \<comment> \<open>the position; the function selected, when it is one\<close>
  | Other_Node

datatype boundary_rule = Header_Access | Wire_Pass_Through

definition node_findings :: "ast_node \<Rightarrow> (string \<times> boundary_rule) list" where
  "node_findings node =
     (case node of
        Index_Expr pos (Some named) \<Rightarrow>
          (if no_package named = Some ''net/http'' \<and> no_name named = ''Header'' then [(pos, Header_Access)] else [])
      | Selector_Expr pos (Some fn) \<Rightarrow>
          (if no_package fn = Some ''encoding/json'' \<and> no_name fn = ''DisallowUnknownFields''
           then [(pos, Wire_Pass_Through)] else [])
      | _ \<Rightarrow> [])"

datatype boundary_error =
    Load_Failed | Listing_Undecodable | No_Working_Dir | Parse_Failed string | Check_Failed string | Boundary_Findings nat

record boundary_env =
  be_loaded :: bool
  be_working_dir :: "string option"
  be_listing :: "package_info list option" \<comment> \<open>of the text the go tool printed\<close>
  be_parse :: "package_info \<Rightarrow> string \<Rightarrow> ast_node list option" \<comment> \<open>the nodes of a file in the order of the visit\<close>
  be_check :: "package_info \<Rightarrow> bool"

fun parse_files :: "boundary_env \<Rightarrow> package_info \<Rightarrow> string list \<Rightarrow> boundary_error + ast_node list" where
  "parse_files env pkg [] = Inr []"
| "parse_files env pkg (f # fs) =
     and_then (from_option (Parse_Failed f) (be_parse env pkg f)) (\<lambda>nodes.
     and_then (parse_files env pkg fs) (\<lambda>rest. Inr (nodes @ rest)))"

text \<open>The findings are printed package by package; an error ends the loop, what was printed stays.\<close>

fun visit_packages ::
    "boundary_env \<Rightarrow> package_info list \<Rightarrow> (string \<times> boundary_rule) list \<Rightarrow>
     (boundary_error + unit) \<times> (string \<times> boundary_rule) list" where
  "visit_packages env [] found = (Inr (), found)"
| "visit_packages env (pkg # pkgs) found =
     (case and_then (parse_files env pkg (pi_go_files pkg)) (\<lambda>nodes.
         and_then (require (be_check env pkg) (Check_Failed (pi_import_path pkg))) (\<lambda>_. Inr nodes)) of
        Inl e \<Rightarrow> (Inl e, found)
      | Inr nodes \<Rightarrow> visit_packages env pkgs (found @ concat (map node_findings nodes)))"

definition run_boundary_check :: "boundary_env \<Rightarrow> (boundary_error + unit) \<times> (string \<times> boundary_rule) list" where
  "run_boundary_check env =
     (if \<not> be_loaded env then (Inl Load_Failed, [])
      else case be_working_dir env of
        None \<Rightarrow> (Inl No_Working_Dir, [])
      | Some top_dir \<Rightarrow>
          (case be_listing env of
             None \<Rightarrow> (Inl Listing_Undecodable, [])
           | Some pkgs \<Rightarrow>
               (case visit_packages env (filter (is_local top_dir) pkgs) [] of
                  (Inl e, found) \<Rightarrow> (Inl e, found)
                | (Inr _, found) \<Rightarrow> (if found = [] then Inr () else Inl (Boundary_Findings (length found)), found))))"

section \<open>What it accepts\<close>

lemma parse_files_ok:
  "parse_files env pkg fs = Inr nodes \<Longrightarrow> f \<in> set fs \<Longrightarrow> \<exists>ns. be_parse env pkg f = Some ns \<and> set ns \<subseteq> set nodes"
  by (induction fs arbitrary: nodes) (auto simp: check_iff, blast)

lemma visit_accepts:
  "visit_packages env pkgs found = (Inr u, []) \<Longrightarrow>
     found = [] \<and> (\<forall>pkg\<in>set pkgs. be_check env pkg \<and>
       (\<forall>f\<in>set (pi_go_files pkg). \<exists>ns. be_parse env pkg f = Some ns \<and> (\<forall>node\<in>set ns. node_findings node = [])))"
proof (induction pkgs arbitrary: found)
  case (Cons pkg pkgs)
  from Cons.prems obtain nodes where n: "parse_files env pkg (pi_go_files pkg) = Inr nodes" "be_check env pkg"
    and rest: "visit_packages env pkgs (found @ concat (map node_findings nodes)) = (Inr u, [])"
    by (auto simp: check_iff split: sum.splits)
  from Cons.IH [OF rest] have ih: "found = []" "\<forall>node\<in>set nodes. node_findings node = []" by auto
  have "\<exists>ns. be_parse env pkg f = Some ns \<and> (\<forall>node\<in>set ns. node_findings node = [])" if "f \<in> set (pi_go_files pkg)" for f
    using parse_files_ok [OF n(1) that] ih(2) by blast
  with Cons.IH [OF rest] ih(1) n(2) show ?case by simp
qed simp

text \<open>
  Nothing that is local to the checkout and passes indexes a header directly or rejects unknown
  members on the wire.
\<close>
lemma boundary_check_accepts:
  assumes "run_boundary_check env = (Inr u, found)" "be_listing env = Some pkgs" "be_working_dir env = Some top_dir"
    "pkg \<in> set pkgs" "is_local top_dir pkg" "f \<in> set (pi_go_files pkg)"
  shows "\<exists>ns. be_parse env pkg f = Some ns \<and> (\<forall>node\<in>set ns. node_findings node = [])"
proof -
  from assms(1-3) have "visit_packages env (filter (is_local top_dir) pkgs) [] = (Inr (), [])"
    by (auto simp: run_boundary_check_def split: prod.splits sum.splits if_splits)
  from visit_accepts [OF this] assms(4-6) show ?thesis by simp
qed

end
