(* ===== verification/Spec2Isabelle.thy ===== *)
theory Spec2Isabelle
  imports Reporter_Limits Receipt_Tamper Metadata Completion_Store Api_Calls Session_Deadline OAuth_Loopback Response_Body Engine_Returns Cli Reporter_Close Boundary_Check
begin

text \<open>
  A model of \<^verbatim>\<open>trusted-router-go\<close>, the Go client of the TrustedRouter API, with the theorems
  that make its core correct.  File names below are those of the repository.

  \<^bold>\<open>The program.\<close>  A client (\<^verbatim>\<open>client.go\<close>) routes calls to the inference plane, which may have
  several equivalent hosts, or to the control plane, which has one (\<^verbatim>\<open>planes.go\<close>).  An API call
  builds a body from its request struct and its unknown members (\<^verbatim>\<open>chat.go\<close>, \<^verbatim>\<open>responses.go\<close>,
  \<^verbatim>\<open>messages.go\<close>, \<^verbatim>\<open>embeddings.go\<close>, \<^verbatim>\<open>billing.go\<close>, \<^verbatim>\<open>broadcast.go\<close>, \<^verbatim>\<open>models.go\<close>, \<^verbatim>\<open>account.go\<close>,
  \<^verbatim>\<open>extras.go\<close>, \<^verbatim>\<open>orchestration_tools.go\<close>) and hands it to its plane.  The transport engine
  (\<^verbatim>\<open>transport.go\<close>) assembles each attempt, sends it, and retries or moves to the next host as the
  retry policy (\<^verbatim>\<open>retry_policy.go\<close>) decides; failures become typed errors (\<^verbatim>\<open>errors.go\<close>).  The
  response is decoded into a typed struct that keeps unknown members, or its body is read as a
  stream of events (\<^verbatim>\<open>sse.go\<close>), which the collector (\<^verbatim>\<open>chat_types.go\<close>) can fold into one completion.
  When telemetry is on, a recorder per call (\<^verbatim>\<open>telemetry.go\<close>) observes the attempts and the body
  and hands one record to the reporter of the client (\<^verbatim>\<open>telemetry_reporter.go\<close>), which batches,
  samples and delivers.  A caller can verify that a response came from attested code: a signed
  receipt (\<^verbatim>\<open>receipts.go\<close>) binds the exact request and response bytes to a key, an attestation
  document (\<^verbatim>\<open>attestation.go\<close>) binds the key, or a live connection, to a published image, and a
  session (\<^verbatim>\<open>session.go\<close>) keeps the attested connection for the caller.  \<^verbatim>\<open>oauth.go\<close> and
  \<^verbatim>\<open>oauth_loopback.go\<close> obtain an API key in a browser, and \<^verbatim>\<open>cmd/trustedrouter\<close> is a command line
  over all of this.

  \<^bold>\<open>Theories and code.\<close>

  \<^item> \<open>Go_Prelude\<close>, \<open>Go_Float\<close>, \<open>Go_Value\<close>, \<open>Go_Json\<close>, \<open>Go_Url\<close>, \<open>Go_Url_Text\<close>, \<open>Go_Query\<close>,
    \<open>Go_Base64\<close>, \<open>Go_Strconv\<close>, \<open>Go_Textproto\<close>, \<open>Go_Flag\<close>: what the source uses of Go and its
    standard library: byte strings, UTF-8 and trimming, HTTP headers, IEEE doubles as rationals
    with explicit rounding, \<open>any\<close> values, \<open>encoding/json\<close>, \<open>net/url\<close>, base64url, \<open>strconv\<close>, the
    text protocol of a connection, flags.  \<open>Go_Prelude\<close> holds the locale \<open>kept_invariant\<close> of
    operations that keep an invariant, and \<open>preserved\<close> of step relations that do.
  \<^item> \<open>Retry_Policy\<close>: \<^verbatim>\<open>retry_policy.go\<close>.  \<open>Go_Error\<close>: \<^verbatim>\<open>errors.go\<close>.  \<open>Client\<close>: \<^verbatim>\<open>client.go\<close>, \<^verbatim>\<open>planes.go\<close>,
    \<^verbatim>\<open>constants.go\<close>.  \<open>Request\<close>: the assembly of an attempt, idempotency keys and the pause of
    \<^verbatim>\<open>transport.go\<close>.  \<open>Transport\<close>: its loop, with \<open>Transport_Facts\<close> about whole calls and
    \<open>Engine_Returns\<close> about the loop as it is written.  \<open>Response_Body\<close>: the body that is handed
    out, with its idle timer and telemetry.
  \<^item> \<open>Telemetry_Vocab\<close>, \<open>Telemetry_Recorder\<close>, \<open>Recorder_Facts\<close>, \<open>Telemetry_Header\<close>: \<^verbatim>\<open>telemetry.go\<close>,
    its closed vocabulary and error classification, the recorder's state and operations, the runs
    of a recorder, and the \<^verbatim>\<open>x-tr-client\<close> header.
  \<^item> \<open>Reporter_Wire\<close>, \<open>Reporter_Counters\<close>, \<open>Reporter\<close>, \<open>Reporter_Facts\<close>, \<open>Reporter_Runs\<close>,
    \<open>Reporter_Limits\<close>, \<open>Reporter_Close\<close>: \<^verbatim>\<open>telemetry_reporter.go\<close>, the wire schema, the counters of a minute and
    their fold ladder, the reporter's state and operations, its steps as an inductive relation,
    what holds over every run, and the edges: identifiers without entropy, the wait of \<open>close\<close>,
    the HTTP client that worker and final flush share.
  \<^item> \<open>Checks\<close>, \<open>Receipt_Jws\<close>, \<open>Receipt_Stream\<close>, \<open>Receipt_Verify\<close>: \<^verbatim>\<open>receipts.go\<close>, chains of checks
    with early return, the signed document, the SSE digest and the capture, the verification;
    \<open>Receipt_Stream_Facts\<close>, \<open>Tokens\<close>, \<open>Receipt_Sound\<close>, \<open>Receipt_Examples\<close>, \<open>Receipt_Tamper\<close> about them.
  \<^item> \<open>Attestation\<close>, \<open>Metadata\<close>, \<open>Trust_Release\<close>: \<^verbatim>\<open>attestation.go\<close>, the checks, the fetches, the
    published release and the policy made from it.  \<open>Session\<close>, \<open>Session_Facts\<close>,
    \<open>Session_Deadline\<close>: \<^verbatim>\<open>session.go\<close>, the exchange on the pinned connection, what a verified
    session guarantees, and the deadline of an exchange beside the goroutine that watches the
    context.
  \<^item> \<open>Json_Struct\<close>: decoding and encoding by a struct's tags, one schema per type, with the unknown
    members in \<open>Extra\<close>; \<open>Api_Types\<close>: the schemas of all response types.  \<open>Chat_Request\<close>, \<open>Chat\<close>,
    \<open>Api_Calls\<close>: the bodies and calls of the API.  \<open>Sse\<close>: the stream iterators of \<^verbatim>\<open>sse.go\<close>.
    \<open>Completion\<close>: the collector of \<^verbatim>\<open>chat_types.go\<close>, \<open>Completion_Store\<close> the same merge on a store of
    shared maps.
  \<^item> \<open>OAuth\<close>, \<open>OAuth_Loopback\<close>: PKCE, the authorization URL, the exchange of the code, and the
    one-shot listener as a state machine.  \<open>Cli\<close>: the commands with their output and exit status.
  \<^item> \<open>Mutation_Check\<close>, \<open>Boundary_Check\<close>: the maintenance tools under \<^verbatim>\<open>scripts\<close>, the first on a copy
    of the repository as a map of files.

  \<^bold>\<open>Conventions.\<close>  A string is a list of bytes.  A nil pointer, slice or map that the code tells
  from an empty one is \<open>None\<close>; a pair of a value and \<open>ok\<close> is an option; a panic is a value of its
  own.  Go maps are association lists.  Durations are nanoseconds and instants nanoseconds from
  the zero time, as integers.  What happens outside the SDK is an argument: clocks, jitter,
  entropy, the outcome of an exchange, the caller's context, renderings of foreign errors, the
  JSON encoder, digests and signatures.  The engine takes one environment record per attempt, the
  reporter one event per step, the session deadline and the listener one action per step.

  \<^bold>\<open>Lemma groups.\<close>  Of every component: what each operation computes on every branch; the
  invariant of its state (recorder: the event list and its overflow counters; reporter:
  \<open>reporter_inv\<close>, kept by every constructor of \<open>reporter_step\<close>; listener: the one result decided
  first; deadline: \<open>deadline_inv\<close>); what whole runs guarantee.  Across components: a call sends a
  justified sequence of requests with one idempotency key, delivers at most one record, and no
  telemetry leaves on the control plane; a body is reported once when it is closed; every
  endpoint's requests may be repeated; a completion comes only from a stream read to its end; a
  command exits with 0 only after what it verified; the mutation tool succeeds only when every
  recorded mutation alone broke its test.  Codecs: what a schema writes it reads back,
  query strings and documents likewise.  For receipts, attestations and sessions: success implies
  what it claims (\<open>Receipt_Sound\<close>, \<open>Session_Facts\<close>, \<open>Trust_Release\<close>), documents are read back as
  assembled (\<open>Tokens\<close>), other request bytes are rejected (\<open>Receipt_Tamper\<close>).

  \<^bold>\<open>Termination and bounds.\<close>  The engine's loop has no condition; \<open>engine_returns\<close> shows that it is
  left after at most one turn more than the retry budget.  The other loops are total: the parsers
  and the stream loops consume input, the error-chain walk is cut after 6 links.  \<open>prune_loop\<close> of
  the reporter takes the number of windows as fuel, which is enough because every turn removes
  one; \<open>Completion_Store\<close> takes a bound on the nesting of the merged values, and gives no result
  when it is too small.  Integers are unbounded where the code's values are bounded by the code
  itself (the bounds are proved for the reporter's buffers); \<open>int64\<close> limits are explicit where the
  code converts or wraps (\<open>parse_i64\<close>, \<open>f64_to_i64\<close>, \<open>wrap_i64\<close>).

  \<^bold>\<open>Findings.\<close>

  \<^item> \<open>retained_bytes_drift\<close>: a window pruned while its rows are on the wire is subtracted twice from
    the reporter's byte count, which stays wrong afterwards.
  \<^item> \<open>client_left_behind\<close>: a worker overtaken by the final flush makes an HTTP client that nothing
    closes; \<open>instance_ids_collide\<close>: without entropy an instance id is the clock alone.
  \<^item> \<open>cleared_deadline_comes_back\<close>: ending an exchange does not wait for the goroutine that watches
    the context, which can set the deadline to now on the connection handed to the caller.
  \<^item> \<open>huge_length_panics\<close>: a response on the session that declares a length beyond any allocation
    panics instead of failing.
  \<^item> \<open>collecting_changes_chunks\<close>: the collector merges into the maps of the chunks it is given.
  \<^item> \<open>patch_depends_on_order\<close>: a patch with both spellings of the workspace goes to either one.
  \<^item> \<open>extra_emptied_by_a_number\<close>, \<open>known_member_kept_as_extra\<close>: \<open>Extra\<close> is not always the unknown
    members.
  \<^item> \<open>drained_is_not_finished\<close>: a body read to its end and never closed is not reported, which a
    comment says it is.

  \<^bold>\<open>Not modelled.\<close>  Sockets, dialling, TLS, timers and the scheduling of goroutines (their outcomes
  are arguments or steps); hashes and signatures (parameters); the exact text of error messages
  where it renders foreign values, and the usage text of the command line; a document is taken to
  spell a known name at most once, the code would decode a repeated one over the first; what the
  go tool, the parser and the type checker of Go say to the maintenance tools; panics of those
  tools.  The package comment and the version constant have no model.
\<close>

end
